(* ===== verification/Prelude.thy ===== *)
theory Prelude
  imports Main "HOL-Library.Char_ord" "HOL-Library.List_Lexorder" "HOL-Library.Word"
begin

text \<open>
  The part of the Rust language and of its standard library that every component uses:
  the result of a fallible computation (with panics as a third outcome), the \<open>?\<close> operator,
  \<open>collect\<close> into a result, \<open>str::split\<close>, \<open>split_once\<close>, \<open>join\<close>, decimal printing
  and parsing, and UTF-8 validity. A Rust string and a byte vector are both a \<open>char list\<close>
  here: a \<open>char\<close> of HOL is one byte, and a Rust string is a byte list that passes
  \<open>utf8_valid\<close>.
\<close>

named_theorems result_simps \<open>how a chain of fallible steps can have ended\<close>

type_synonym bytes = "char list"

type_synonym u64 = "64 word"

subsection \<open>Results\<close>

text \<open>
  \<open>Ok\<close> and \<open>Err\<close> are the constructors of \<open>Result\<close>; \<open>Panic\<close> is a computation that
  unwinds (an \<open>unwrap\<close> of nothing, an index out of range) and gives no value at all.
\<close>

datatype ('a, 'e) result = Ok 'a | Err 'e | Panic

primrec and_then :: "('a, 'e) result \<Rightarrow> ('a \<Rightarrow> ('b, 'e) result) \<Rightarrow> ('b, 'e) result" where
  "and_then (Ok x) f = f x"
| "and_then (Err e) f = Err e"
| "and_then Panic f = Panic"

primrec map_err :: "('e \<Rightarrow> 'f) \<Rightarrow> ('a, 'e) result \<Rightarrow> ('a, 'f) result" where
  "map_err f (Ok x) = Ok x"
| "map_err f (Err e) = Err (f e)"
| "map_err f Panic = Panic"

primrec ok_or :: "'e \<Rightarrow> 'a option \<Rightarrow> ('a, 'e) result" where
  "ok_or e None = Err e"
| "ok_or e (Some x) = Ok x"

primrec of_sum :: "'e + 'a \<Rightarrow> ('a, 'e) result" where
  "of_sum (Inl e) = Err e"
| "of_sum (Inr x) = Ok x"

primrec unwrap :: "'a option \<Rightarrow> ('a, 'e) result" where
  "unwrap None = Panic"
| "unwrap (Some x) = Ok x"

text \<open>The early return \<open>if cond { return Err(e) }\<close>.\<close>

definition ensure :: "bool \<Rightarrow> 'e \<Rightarrow> (unit, 'e) result" where
  "ensure b e = (if b then Ok () else Err e)"

text \<open>\<open>iter().map(f).collect::<Result<Vec<_>, _>>()\<close>: the first error ends the walk.\<close>

primrec collect :: "('a \<Rightarrow> ('b, 'e) result) \<Rightarrow> 'a list \<Rightarrow> ('b list, 'e) result" where
  "collect f [] = Ok []"
| "collect f (x # xs) = and_then (f x) (\<lambda>y. and_then (collect f xs) (\<lambda>ys. Ok (y # ys)))"

lemma and_then_Ok_iff [result_simps]:
  "and_then m f = Ok y \<longleftrightarrow> (\<exists>x. m = Ok x \<and> f x = Ok y)"
  by (cases m) auto

lemma and_then_Err_iff [result_simps]:
  "and_then m f = Err e \<longleftrightarrow> m = Err e \<or> (\<exists>x. m = Ok x \<and> f x = Err e)"
  by (cases m) auto

lemma and_then_Panic_iff [result_simps]:
  "and_then m f = Panic \<longleftrightarrow> m = Panic \<or> (\<exists>x. m = Ok x \<and> f x = Panic)"
  by (cases m) auto

lemma map_err_Ok_iff [result_simps]: "map_err f m = Ok x \<longleftrightarrow> m = Ok x"
  by (cases m) auto

lemma map_err_Err_iff [result_simps]: "map_err f m = Err e \<longleftrightarrow> (\<exists>e'. m = Err e' \<and> e = f e')"
  by (cases m) auto

lemma map_err_Panic_iff [result_simps]: "map_err f m = Panic \<longleftrightarrow> m = Panic"
  by (cases m) auto

lemma ok_or_Ok_iff [result_simps]: "ok_or e m = Ok x \<longleftrightarrow> m = Some x"
  by (cases m) auto

lemma ok_or_Err_iff [result_simps]: "ok_or e m = Err e' \<longleftrightarrow> m = None \<and> e' = e"
  by (cases m) auto

lemma ok_or_not_Panic [simp]: "ok_or e m \<noteq> Panic"
  by (cases m) auto

lemma of_sum_Ok_iff [result_simps]: "of_sum s = Ok x \<longleftrightarrow> s = Inr x"
  by (cases s) auto

lemma of_sum_Err_iff [result_simps]: "of_sum s = Err e \<longleftrightarrow> s = Inl e"
  by (cases s) auto

lemma of_sum_not_Panic [simp]: "of_sum s \<noteq> Panic"
  by (cases s) auto

lemma unwrap_Ok_iff [result_simps]: "unwrap m = Ok x \<longleftrightarrow> m = Some x"
  by (cases m) auto

lemma unwrap_Panic_iff [result_simps]: "unwrap m = Panic \<longleftrightarrow> m = None"
  by (cases m) auto

lemma unwrap_not_Err [simp]: "unwrap m \<noteq> Err e"
  by (cases m) auto

lemma ensure_Ok_iff [result_simps]: "ensure b e = Ok u \<longleftrightarrow> b"
  by (simp add: ensure_def)

lemma ensure_Err_iff [result_simps]: "ensure b e = Err e' \<longleftrightarrow> \<not> b \<and> e' = e"
  by (auto simp: ensure_def)

lemma ensure_not_Panic [simp]: "ensure b e \<noteq> Panic"
  by (simp add: ensure_def)

lemma ensure_True [simp]: "ensure True e = Ok ()"
  by (simp add: ensure_def)

lemma ensure_False [simp]: "ensure False e = Err e"
  by (simp add: ensure_def)

text \<open>The same for the matches the source writes out: one arm fails, the other goes on.\<close>

lemma case_option_Ok_iff [result_simps]:
  "(case m of None \<Rightarrow> Err e | Some y \<Rightarrow> f y) = Ok z \<longleftrightarrow> (\<exists>y. m = Some y \<and> f y = Ok z)"
  by (cases m) auto

lemma case_sum_Ok_iff [result_simps]:
  "(case s of Inl e \<Rightarrow> Err (g e) | Inr x \<Rightarrow> f x) = Ok z \<longleftrightarrow> (\<exists>x. s = Inr x \<and> f x = Ok z)"
  by (cases s) auto

lemma case_sum_Panic_iff [result_simps]:
  "(case s of Inl e \<Rightarrow> Err (g e) | Inr x \<Rightarrow> f x) = Panic \<longleftrightarrow> (\<exists>x. s = Inr x \<and> f x = Panic)"
  by (cases s) auto

lemma case_prod_eq_iff [result_simps]:
  "(case p of (a, b) \<Rightarrow> f a b) = r \<longleftrightarrow> (\<exists>a b. p = (a, b) \<and> f a b = r)"
  by (cases p) auto

lemma head_Some_iff [result_simps]:
  "(case xs of [] \<Rightarrow> None | x # _ \<Rightarrow> Some x) = Some y \<longleftrightarrow> (\<exists>ys. xs = y # ys)"
  by (cases xs) auto

lemma head_None_iff [result_simps]:
  "(case xs of [] \<Rightarrow> None | x # _ \<Rightarrow> Some x) = None \<longleftrightarrow> xs = []"
  by (cases xs) auto

lemma collect_Ok_iff:
  "collect f xs = Ok ys \<longleftrightarrow> list_all2 (\<lambda>x y. f x = Ok y) xs ys"
  by (induction xs arbitrary: ys) (auto simp: result_simps list_all2_Cons1)

lemma collect_Ok_length: "collect f xs = Ok ys \<Longrightarrow> length ys = length xs"
  by (simp add: collect_Ok_iff list_all2_lengthD)

lemma collect_map_Ok: "(\<And>x. x \<in> set xs \<Longrightarrow> f x = Ok (g x)) \<Longrightarrow> collect f xs = Ok (map g xs)"
  by (induction xs) auto

lemma collect_Ok_map:
  assumes "collect f xs = Ok ys" and "\<And>x y. f x = Ok y \<Longrightarrow> g y = h x"
  shows "map g ys = map h xs"
proof -
  have "list_all2 (\<lambda>x y. f x = Ok y) xs ys"
    using assms(1) by (simp add: collect_Ok_iff)
  then show ?thesis
    by (induction rule: list_all2_induct) (auto simp: assms(2))
qed

lemma collect_Ok_mem:
  assumes "collect f xs = Ok ys" and "y \<in> set ys"
  shows "\<exists>x \<in> set xs. f x = Ok y"
proof -
  have "list_all2 (\<lambda>x y. f x = Ok y) xs ys"
    using assms(1) by (simp add: collect_Ok_iff)
  then show ?thesis using assms(2)
    by (induction rule: list_all2_induct) auto
qed

lemma collect_Panic_mem: "collect f xs = Panic \<Longrightarrow> \<exists>x \<in> set xs. f x = Panic"
  by (induction xs) (auto simp: result_simps)

text \<open>
  The iterator methods \<open>filter\<close>, \<open>any\<close> and \<open>find\<close> with a test that may panic; \<open>any\<close> and
  \<open>find\<close> stop at the first hit.
\<close>

primrec filter_res :: "('a \<Rightarrow> (bool, 'e) result) \<Rightarrow> 'a list \<Rightarrow> ('a list, 'e) result" where
  "filter_res p [] = Ok []"
| "filter_res p (x # xs) = and_then (p x) (\<lambda>b. and_then (filter_res p xs) (\<lambda>ys.
     Ok (if b then x # ys else ys)))"

primrec any_res :: "('a \<Rightarrow> (bool, 'e) result) \<Rightarrow> 'a list \<Rightarrow> (bool, 'e) result" where
  "any_res p [] = Ok False"
| "any_res p (x # xs) = and_then (p x) (\<lambda>b. if b then Ok True else any_res p xs)"

primrec find_res :: "('a \<Rightarrow> (bool, 'e) result) \<Rightarrow> 'a list \<Rightarrow> ('a option, 'e) result" where
  "find_res p [] = Ok None"
| "find_res p (x # xs) = and_then (p x) (\<lambda>b. if b then Ok (Some x) else find_res p xs)"

lemma filter_res_Ok:
  "filter_res p xs = Ok ys \<Longrightarrow> ys = filter (\<lambda>x. p x = Ok True) xs \<and> (\<forall>x \<in> set xs. \<exists>b. p x = Ok b)"
  by (induction xs arbitrary: ys) (auto simp: result_simps)

lemma find_res_Some:
  "find_res p xs = Ok (Some x) \<Longrightarrow> x \<in> set xs \<and> p x = Ok True"
  by (induction xs) (auto simp: result_simps split: if_splits)

lemma any_res_True: "any_res p xs = Ok True \<Longrightarrow> \<exists>x \<in> set xs. p x = Ok True"
  by (induction xs) (auto simp: result_simps split: if_splits)

subsection \<open>Strings\<close>

text \<open>\<open>s.split(c)\<close>: always at least one part; the empty string has the one part \<open>""\<close>.\<close>

fun split_on :: "char \<Rightarrow> string \<Rightarrow> string list" where
  "split_on c [] = [[]]"
| "split_on c (x # xs) =
     (if x = c then [] # split_on c xs
      else (case split_on c xs of [] \<Rightarrow> [[x]] | y # ys \<Rightarrow> (x # y) # ys))"

text \<open>\<open>s.split_once(c)\<close>: the parts before and after the first occurrence.\<close>

fun split_once :: "char \<Rightarrow> string \<Rightarrow> (string \<times> string) option" where
  "split_once c [] = None"
| "split_once c (x # xs) =
     (if x = c then Some ([], xs)
      else (case split_once c xs of None \<Rightarrow> None | Some (a, b) \<Rightarrow> Some (x # a, b)))"

text \<open>\<open>parts.join(sep)\<close>.\<close>

fun join :: "string \<Rightarrow> string list \<Rightarrow> string" where
  "join sep [] = []"
| "join sep [x] = x"
| "join sep (x # y # ys) = x @ sep @ join sep (y # ys)"

lemma split_on_not_Nil [simp]: "split_on c s \<noteq> []"
  by (induction s) (auto split: list.splits)

lemma split_on_absent: "c \<notin> set s \<Longrightarrow> split_on c s = [s]"
  by (induction s) auto

lemma split_on_append: "c \<notin> set a \<Longrightarrow> split_on c (a @ c # b) = a # split_on c b"
  by (induction a) auto

lemma join_split_on: "join [c] (split_on c s) = s"
proof (induction s)
  case (Cons x xs)
  then show ?case
    by (cases "split_on c xs"; cases "tl (split_on c xs)") auto
qed simp

lemma split_on_join:
  assumes "xs \<noteq> []" and "\<forall>x \<in> set xs. c \<notin> set x"
  shows "split_on c (join [c] xs) = xs"
  using assms
proof (induction xs rule: list_nonempty_induct)
  case (single x)
  then show ?case by (simp add: split_on_absent)
next
  case (cons x xs)
  then show ?case by (cases xs) (simp_all add: split_on_append)
qed

lemma split_once_None_iff: "split_once c s = None \<longleftrightarrow> c \<notin> set s"
  by (induction s) (auto split: option.splits)

lemma split_once_Some: "split_once c s = Some (a, b) \<Longrightarrow> s = a @ c # b \<and> c \<notin> set a"
  by (induction s arbitrary: a) (auto split: option.splits if_splits)

lemma split_once_append: "c \<notin> set a \<Longrightarrow> split_once c (a @ c # b) = Some (a, b)"
  by (induction a) auto

subsection \<open>Decimal numbers\<close>

definition digit :: "nat \<Rightarrow> char" where
  "digit n = char_of (48 + n)"

definition digit_value :: "char \<Rightarrow> nat option" where
  "digit_value c = (let n = of_char c :: nat in if 48 \<le> n \<and> n \<le> 57 then Some (n - 48) else None)"

lemma digit_literals [simp]:
  "digit 0 = CHR ''0''" "digit (Suc 0) = CHR ''1''" "digit 1 = CHR ''1''" "digit 2 = CHR ''2''"
  "digit 3 = CHR ''3''" "digit 4 = CHR ''4''" "digit 5 = CHR ''5''" "digit 6 = CHR ''6''"
  "digit 7 = CHR ''7''" "digit 8 = CHR ''8''" "digit 9 = CHR ''9''"
  by (simp_all add: digit_def char_of_def bit_Suc_0_iff)

text \<open>\<open>n.to_string()\<close> of an unsigned integer.\<close>

fun show_nat :: "nat \<Rightarrow> string" where
  "show_nat n = (if n < 10 then [digit n] else show_nat (n div 10) @ [digit (n mod 10)])"

declare show_nat.simps [simp del]

fun parse_digits :: "nat \<Rightarrow> string \<Rightarrow> nat option" where
  "parse_digits acc [] = Some acc"
| "parse_digits acc (c # cs) =
     (case digit_value c of None \<Rightarrow> None | Some d \<Rightarrow> parse_digits (10 * acc + d) cs)"

text \<open>
  \<open>s.parse::<u64>()\<close>: an optional plus sign, at least one digit, no overflow. \<open>parse_nat w\<close>
  is the same for an unsigned integer of \<open>w\<close> bits.
\<close>

definition parse_nat :: "nat \<Rightarrow> string \<Rightarrow> nat option" where
  "parse_nat w s =
     (let ds = (case s of c # cs \<Rightarrow> if c = CHR ''+'' then cs else s | [] \<Rightarrow> [])
      in if ds = [] then None
         else (case parse_digits 0 ds of
                 None \<Rightarrow> None
               | Some n \<Rightarrow> if n < 2 ^ w then Some n else None))"

lemma digit_value_digit [simp]: "n < 10 \<Longrightarrow> digit_value (digit n) = Some n"
  by (simp add: digit_value_def digit_def Let_def)

lemma parse_digits_append:
  "parse_digits acc (s @ t) =
     (case parse_digits acc s of None \<Rightarrow> None | Some n \<Rightarrow> parse_digits n t)"
  by (induction s arbitrary: acc) (auto split: option.splits)

lemma parse_digits_show: "parse_digits 0 (show_nat n) = Some n"
proof (induction n rule: show_nat.induct)
  case (1 n)
  show ?case
  proof (cases "n < 10")
    case True
    then show ?thesis by (subst show_nat.simps) simp
  next
    case False
    with "1.IH" have "parse_digits 0 (show_nat (n div 10)) = Some (n div 10)" by simp
    with False show ?thesis
      by (subst show_nat.simps) (simp add: parse_digits_append)
  qed
qed

lemma show_nat_not_Nil [simp]: "show_nat n \<noteq> []"
  by (subst show_nat.simps) simp

lemma show_nat_digits: "c \<in> set (show_nat n) \<Longrightarrow> \<exists>d < 10. c = digit d"
proof (induction n rule: show_nat.induct)
  case (1 n)
  show ?case
  proof (cases "n < 10")
    case True
    with "1.prems" show ?thesis by (subst (asm) show_nat.simps) auto
  next
    case False
    with "1.prems" have "c \<in> set (show_nat (n div 10)) \<or> c = digit (n mod 10)"
      by (subst (asm) show_nat.simps) auto
    moreover have "n mod 10 < 10" by simp
    ultimately show ?thesis using "1.IH" False by blast
  qed
qed

lemma digit_neq:
  assumes "d < 10" and "of_char c < (48::nat) \<or> (57::nat) < of_char c"
  shows "digit d \<noteq> c"
proof
  assume "digit d = c"
  then have "of_char c = (48 + d :: nat)" using assms(1) by (auto simp: digit_def)
  with assms show False by simp
qed

lemma show_nat_not_sign: "CHR ''+'' \<notin> set (show_nat n)"
  using show_nat_digits digit_neq[of _ "CHR ''+''"] by fastforce

lemma show_nat_no_dash: "CHR ''-'' \<notin> set (show_nat n)"
  using show_nat_digits digit_neq[of _ "CHR ''-''"] by fastforce

lemma parse_nat_show:
  assumes "n < 2 ^ w"
  shows "parse_nat w (show_nat n) = Some n"
proof (cases "show_nat n")
  case Nil
  then show ?thesis by simp
next
  case (Cons c cs)
  then have "c \<noteq> CHR ''+''" using show_nat_not_sign[of n] by (metis list.set_intros(1))
  with Cons have "parse_nat w (show_nat n) =
      (case parse_digits 0 (show_nat n) of
         None \<Rightarrow> None | Some n \<Rightarrow> if n < 2 ^ w then Some n else None)"
    unfolding parse_nat_def by (simp only: Let_def list.case if_False list.distinct)
  then show ?thesis using assms by (simp only: parse_digits_show option.case if_True)
qed

lemma parse_nat_bound: "parse_nat w s = Some n \<Longrightarrow> n < 2 ^ w"
  unfolding parse_nat_def Let_def
  by (auto split: if_split_asm option.split_asm)

lemma show_nat_inject: "show_nat m = show_nat n \<Longrightarrow> m = n"
  by (metis option.inject parse_digits_show)

text \<open>\<open>n.to_string()\<close> of a signed integer.\<close>

definition show_int :: "int \<Rightarrow> string" where
  "show_int i = (if i < 0 then CHR ''-'' # show_nat (nat (- i)) else show_nat (nat i))"

lemma show_int_inject: "show_int i = show_int j \<Longrightarrow> i = j"
proof -
  have sign: "show_nat n \<noteq> CHR ''-'' # s" for n s
    using show_nat_no_dash[of n] by (metis list.set_intros(1))
  assume "show_int i = show_int j"
  then show ?thesis
    by (auto simp: show_int_def sign sign[symmetric] dest!: show_nat_inject split: if_splits)
qed

lemma show_int_nat [simp]: "show_int (int n) = show_nat n"
  by (simp add: show_int_def)

text \<open>\<open>s.parse().unwrap_or(0)\<close> of an unsigned integer.\<close>

definition parse_or_zero :: "nat \<Rightarrow> string \<Rightarrow> nat" where
  "parse_or_zero w s = (case parse_nat w s of None \<Rightarrow> 0 | Some n \<Rightarrow> n)"

lemma parse_or_zero_show: "n < 2 ^ w \<Longrightarrow> parse_or_zero w (show_nat n) = n"
  by (simp add: parse_or_zero_def parse_nat_show)

subsection \<open>UTF-8\<close>

text \<open>
  The check of \<open>std::str::from_utf8\<close>: the byte ranges of the standard's table of
  well-formed sequences (no overlong forms, no surrogates, nothing above U+10FFFF).
\<close>

definition utf8_cont :: "nat \<Rightarrow> bool" where
  "utf8_cont b \<longleftrightarrow> 128 \<le> b \<and> b \<le> 191"

definition utf8_second :: "nat \<Rightarrow> nat \<Rightarrow> bool" where
  "utf8_second a b \<longleftrightarrow>
     (if a = 224 then 160 \<le> b \<and> b \<le> 191
      else if a = 237 then 128 \<le> b \<and> b \<le> 159
      else if a = 240 then 144 \<le> b \<and> b \<le> 191
      else if a = 244 then 128 \<le> b \<and> b \<le> 143
      else utf8_cont b)"

fun utf8_bytes :: "nat list \<Rightarrow> bool" where
  "utf8_bytes [] = True"
| "utf8_bytes (a # bs) =
     (if a < 128 then utf8_bytes bs
      else if 194 \<le> a \<and> a \<le> 223 then
        (case bs of b # r \<Rightarrow> utf8_second a b \<and> utf8_bytes r | _ \<Rightarrow> False)
      else if 224 \<le> a \<and> a \<le> 239 then
        (case bs of b # c # r \<Rightarrow> utf8_second a b \<and> utf8_cont c \<and> utf8_bytes r | _ \<Rightarrow> False)
      else if 240 \<le> a \<and> a \<le> 244 then
        (case bs of b # c # d # r \<Rightarrow>
             utf8_second a b \<and> utf8_cont c \<and> utf8_cont d \<and> utf8_bytes r
         | _ \<Rightarrow> False)
      else False)"

definition utf8_valid :: "bytes \<Rightarrow> bool" where
  "utf8_valid s = utf8_bytes (map of_char s)"

lemma utf8_valid_ascii:
  "(\<And>c. c \<in> set s \<Longrightarrow> of_char c < (128::nat)) \<Longrightarrow> utf8_valid s"
  unfolding utf8_valid_def by (induction s) auto

text \<open>\<open>String::from_utf8\<close> and \<open>str::from_utf8\<close>.\<close>

definition from_utf8 :: "bytes \<Rightarrow> (string, string) result" where
  "from_utf8 b = (if utf8_valid b then Ok b else Err ''invalid utf-8 sequence'')"

lemma from_utf8_Ok_iff [result_simps]: "from_utf8 b = Ok s \<longleftrightarrow> utf8_valid b \<and> s = b"
  by (auto simp: from_utf8_def)

lemma from_utf8_not_Panic [simp]: "from_utf8 b \<noteq> Panic"
  by (simp add: from_utf8_def)

end
