(* ===== verification/Effects.thy ===== *)
theory Effects
  imports Prelude
begin

text \<open>
  Operations that change a state: they take the state and give their result together with the
  new state, which they keep when they fail, as a database call does that fails half way.
  \<open>eff_then\<close> is \<open>?\<close> after such a call, \<open>eff_match\<close> a \<open>match\<close> on its result, \<open>eff_each\<close> a
  \<open>for\<close> loop over a list. \<open>effect_simps\<close> says how a chain of such operations can have ended.
\<close>

named_theorems effect_simps \<open>how a chain of state-changing steps can have ended\<close>

type_synonym ('s, 'a, 'e) effect = "'s \<Rightarrow> ('a, 'e) result \<times> 's"

definition eff_of :: "('a, 'e) result \<Rightarrow> ('s, 'a, 'e) effect" where
  "eff_of r = (\<lambda>s. (r, s))"

definition eff_then :: "('s, 'a, 'e) effect \<Rightarrow> ('a \<Rightarrow> ('s, 'b, 'e) effect) \<Rightarrow> ('s, 'b, 'e) effect" where
  "eff_then m f = (\<lambda>s. case m s of
     (Ok x, s') \<Rightarrow> f x s' | (Err e, s') \<Rightarrow> (Err e, s') | (Panic, s') \<Rightarrow> (Panic, s'))"

definition eff_match ::
  "('s, 'a, 'e) effect \<Rightarrow> ('a \<Rightarrow> ('s, 'b, 'f) effect) \<Rightarrow> ('e \<Rightarrow> ('s, 'b, 'f) effect)
     \<Rightarrow> ('s, 'b, 'f) effect" where
  "eff_match m f g = (\<lambda>s. case m s of
     (Ok x, s') \<Rightarrow> f x s' | (Err e, s') \<Rightarrow> g e s' | (Panic, s') \<Rightarrow> (Panic, s'))"

definition eff_map_err :: "('e \<Rightarrow> 'f) \<Rightarrow> ('s, 'a, 'e) effect \<Rightarrow> ('s, 'a, 'f) effect" where
  "eff_map_err f m = (\<lambda>s. (map_err f (fst (m s)), snd (m s)))"

primrec eff_each :: "('a \<Rightarrow> 'b \<Rightarrow> ('s, 'b, 'e) effect) \<Rightarrow> 'a list \<Rightarrow> 'b \<Rightarrow> ('s, 'b, 'e) effect" where
  "eff_each f [] acc = eff_of (Ok acc)"
| "eff_each f (x # xs) acc = eff_then (f x acc) (eff_each f xs)"

text \<open>An operation on a part of the state.\<close>

definition eff_on ::
  "('t \<Rightarrow> 's) \<Rightarrow> ('s \<Rightarrow> 't \<Rightarrow> 't) \<Rightarrow> ('s, 'a, 'e) effect \<Rightarrow> ('t, 'a, 'e) effect" where
  "eff_on get upd m = (\<lambda>t. case m (get t) of (r, s) \<Rightarrow> (r, upd s t))"

lemma eff_of_eq [effect_simps]: "eff_of r s = (r', s') \<longleftrightarrow> r' = r \<and> s' = s"
  by (auto simp: eff_of_def)

lemma eff_then_Ok_iff [effect_simps]:
  "eff_then m f s = (Ok y, s'') \<longleftrightarrow> (\<exists>x s'. m s = (Ok x, s') \<and> f x s' = (Ok y, s''))"
  by (auto simp: eff_then_def split: prod.splits result.splits)

lemma eff_then_Err_iff [effect_simps]:
  "eff_then m f s = (Err e, s'') \<longleftrightarrow>
     m s = (Err e, s'') \<or> (\<exists>x s'. m s = (Ok x, s') \<and> f x s' = (Err e, s''))"
  by (auto simp: eff_then_def split: prod.splits result.splits)

lemma eff_then_Panic_iff [effect_simps]:
  "eff_then m f s = (Panic, s'') \<longleftrightarrow>
     m s = (Panic, s'') \<or> (\<exists>x s'. m s = (Ok x, s') \<and> f x s' = (Panic, s''))"
  by (auto simp: eff_then_def split: prod.splits result.splits)

lemma eff_match_iff [effect_simps]:
  "eff_match m f g s = (r, s'') \<longleftrightarrow>
     (\<exists>x s'. m s = (Ok x, s') \<and> f x s' = (r, s'')) \<or>
     (\<exists>e s'. m s = (Err e, s') \<and> g e s' = (r, s'')) \<or>
     (m s = (Panic, s'') \<and> r = Panic)"
  by (auto simp: eff_match_def split: prod.splits result.splits)

lemma eff_map_err_iff [effect_simps]:
  "eff_map_err f m s = (r, s') \<longleftrightarrow> (\<exists>r0. m s = (r0, s') \<and> r = map_err f r0)"
  by (cases "m s") (auto simp: eff_map_err_def)

lemma eff_on_iff [effect_simps]:
  "eff_on get upd m t = (r, t') \<longleftrightarrow> (\<exists>s. m (get t) = (r, s) \<and> t' = upd s t)"
  by (auto simp: eff_on_def split: prod.splits)

lemma eff_then_run:
  "m s = (Ok x, s') \<Longrightarrow> eff_then m f s = f x s'"
  "m s = (Err e, s') \<Longrightarrow> eff_then m f s = (Err e, s')"
  "m s = (Panic, s') \<Longrightarrow> eff_then m f s = (Panic, s')"
  by (simp_all add: eff_then_def)

lemma eff_then_app:
  "eff_then m f s = (case m s of (r, s') \<Rightarrow>
     (case r of Ok x \<Rightarrow> f x s' | Err e \<Rightarrow> (Err e, s') | Panic \<Rightarrow> (Panic, s')))"
  by (simp add: eff_then_def split: prod.splits result.splits)

lemma eff_of_run [simp]: "eff_of r s = (r, s)"
  by (simp add: eff_of_def)

lemma eff_then_of_Ok [simp]: "eff_then (eff_of (Ok x)) f s = f x s"
  by (simp add: eff_then_def)

lemma eff_then_of_Err [simp]: "eff_then (eff_of (Err e)) f s = (Err e, s)"
  by (simp add: eff_then_def)

text \<open>A property of the state that every step keeps holds after the whole chain.\<close>

definition keeps :: "('s \<Rightarrow> bool) \<Rightarrow> ('s, 'a, 'e) effect \<Rightarrow> bool" where
  "keeps P m \<longleftrightarrow> (\<forall>s. P s \<longrightarrow> P (snd (m s)))"

named_theorems keeps_intros \<open>how the steps of a chain keep a property of the state\<close>

lemma keepsD: "keeps P m \<Longrightarrow> m s = (r, s') \<Longrightarrow> P s \<Longrightarrow> P s'"
  by (metis keeps_def snd_conv)

lemma keeps_of [keeps_intros]: "keeps P (eff_of r)"
  by (simp add: keeps_def)

lemma keeps_then [keeps_intros]:
  assumes "keeps P m" and "\<And>x. keeps P (f x)"
  shows "keeps P (eff_then m f)"
  unfolding keeps_def
proof (intro allI impI)
  fix s assume p: "P s"
  obtain r s' where m: "m s = (r, s')" by (cases "m s")
  have "P s'" using keepsD[OF assms(1) m p] .
  with m assms(2) show "P (snd (eff_then m f s))"
    by (cases r) (auto simp: eff_then_def keeps_def)
qed

lemma keeps_match [keeps_intros]:
  assumes "keeps P m" and "\<And>x. keeps P (f x)" and "\<And>e. keeps P (g e)"
  shows "keeps P (eff_match m f g)"
  unfolding keeps_def
proof (intro allI impI)
  fix s assume p: "P s"
  obtain r s' where m: "m s = (r, s')" by (cases "m s")
  have "P s'" using keepsD[OF assms(1) m p] .
  with m assms(2,3) show "P (snd (eff_match m f g s))"
    by (cases r) (auto simp: eff_match_def keeps_def)
qed

lemma keeps_case_prod [keeps_intros]:
  "(\<And>x y. keeps P (f x y)) \<Longrightarrow> keeps P (case p of (x, y) \<Rightarrow> f x y)"
  by (cases p) simp

lemma keeps_map_err [keeps_intros]: "keeps P m \<Longrightarrow> keeps P (eff_map_err f m)"
  by (simp add: keeps_def eff_map_err_def)

lemma keeps_each [keeps_intros]:
  "(\<And>x acc. keeps P (f x acc)) \<Longrightarrow> keeps P (eff_each f xs acc)"
  by (induction xs arbitrary: acc) (auto intro: keeps_intros)

end
