(* ===== verification/MediatorErrors.thy ===== *)
theory MediatorErrors
  imports Prelude
begin

text \<open>
  The errors of the mediator (\<open>common/errors.rs\<close>, \<open>common/jwt_auth.rs\<close>): their display texts
  and the HTTP responses made from them, and the record of a successful response.
\<close>

datatype mediator_error =
    ErrorHandlingError string string
  | InternalError string string
  | ParseError string string string
  | PermissionError string string
  | RequestDataError string string
  | ServiceLimitError string string
  | Unauthorized string string
  | DIDError string string string
  | ConfigError string string
  | DatabaseError string string
  | MessageUnpackError string string
  | MessageExpired string string string
  | MessagePackError string string
  | NotImplemented string string
  | SessionError string string
  | AnonymousMessageError string string

fun mediator_error_text :: "mediator_error \<Rightarrow> string" where
  "mediator_error_text (ErrorHandlingError _ m) = ''Error in handling errors! '' @ m"
| "mediator_error_text (InternalError _ m) = m"
| "mediator_error_text (ParseError _ w m) =
     ''Couldn'' @ [CHR 0x27] @ ''t parse ('' @ w @ ''). Reason: '' @ m"
| "mediator_error_text (PermissionError _ m) = ''Permission Error: '' @ m"
| "mediator_error_text (RequestDataError _ m) = ''Request is invalid: '' @ m"
| "mediator_error_text (ServiceLimitError _ m) = ''Service Limit exceeded: '' @ m"
| "mediator_error_text (Unauthorized _ m) = ''Unauthorized: '' @ m"
| "mediator_error_text (DIDError _ d m) = ''DID Error: did('' @ d @ '') Error: '' @ m"
| "mediator_error_text (ConfigError _ m) = ''Configuration Error: '' @ m"
| "mediator_error_text (DatabaseError _ m) = ''Database Error: '' @ m"
| "mediator_error_text (MessageUnpackError _ m) = ''Message unpack error: '' @ m"
| "mediator_error_text (MessageExpired _ e n) =
     ''MessageExpired: expiry('' @ e @ '') now('' @ n @ '')''"
| "mediator_error_text (MessagePackError _ m) = ''Message pack error: '' @ m"
| "mediator_error_text (NotImplemented _ m) = ''Feature not implemented: '' @ m"
| "mediator_error_text (SessionError s m) =
     ''Authorization Session ('' @ s @ '') error: '' @ m"
| "mediator_error_text (AnonymousMessageError _ m) = ''Anonymous message error: '' @ m"

record error_response =
  er_session_id :: string
  er_http_code :: nat
  er_error_code :: nat
  er_error_code_str :: string
  er_message :: string

definition error_response_of :: "nat \<Rightarrow> nat \<Rightarrow> string \<Rightarrow> string \<Rightarrow> string \<Rightarrow> error_response" where
  "error_response_of http code str sid msg =
     \<lparr>er_session_id = sid, er_http_code = http, er_error_code = code, er_error_code_str = str,
      er_message = msg\<rparr>"

fun app_error_response :: "mediator_error \<Rightarrow> error_response" where
  "app_error_response (ErrorHandlingError s m) = error_response_of 500 1 ''ErrorHandlingError'' s m"
| "app_error_response (InternalError s m) = error_response_of 500 2 ''InternalError'' s m"
| "app_error_response (ParseError s _ m) = error_response_of 400 3 ''BadRequest: ParseError'' s m"
| "app_error_response (PermissionError s m) =
     error_response_of 403 4 ''Forbidden: PermissionError'' s m"
| "app_error_response (RequestDataError s m) =
     error_response_of 400 5 ''BadRequest: RequestDataError'' s (''Bad Request: ('' @ m @ '')'')"
| "app_error_response (ServiceLimitError s m) =
     error_response_of 400 6 ''BadRequest: ServiceLimitError'' s m"
| "app_error_response (Unauthorized s m) =
     error_response_of 401 7 ''Unauthorized'' s (''Unauthorized access: '' @ m)"
| "app_error_response (DIDError s d m) =
     error_response_of 400 8 ''DIDError'' s (''did('' @ d @ '') Error: '' @ m)"
| "app_error_response (ConfigError s m) = error_response_of 503 9 ''ConfigError'' s m"
| "app_error_response (DatabaseError s m) = error_response_of 503 10 ''DatabaseError'' s m"
| "app_error_response (MessageUnpackError s m) =
     error_response_of 400 11 ''MessageUnpackError'' s m"
| "app_error_response (MessageExpired s e n) =
     error_response_of 422 12 ''MessageExpired'' s
       (''Message expired: expiry('' @ e @ '') now('' @ n @ '')'')"
| "app_error_response (MessagePackError s m) = error_response_of 400 13 ''MessagePackError'' s m"
| "app_error_response (NotImplemented s m) = error_response_of 501 14 ''NotImplemented'' s m"
| "app_error_response (SessionError s m) = error_response_of 406 15 ''SessionError'' s m"
| "app_error_response (AnonymousMessageError s m) =
     error_response_of 406 16 ''AnonymousMessageError'' s m"

definition show_error_response :: "error_response \<Rightarrow> string" where
  "show_error_response r =
     er_session_id r @ '': httpcode('' @ show_nat (er_http_code r) @ '') errorCode('' @
     show_nat (er_error_code r) @ ''), errorCodeStr('' @ er_error_code_str r @ '') message('' @
     er_message r @ '')''"

subsection \<open>Rejected tokens\<close>

datatype auth_error =
    WrongCredentials
  | MissingCredentials
  | InvalidToken
  | ExpiredToken
  | InternalServerError string

fun auth_error_text :: "auth_error \<Rightarrow> string" where
  "auth_error_text WrongCredentials = ''Wrong credentials''"
| "auth_error_text MissingCredentials = ''Missing credentials''"
| "auth_error_text InvalidToken = ''Invalid token''"
| "auth_error_text ExpiredToken = ''Expired token''"
| "auth_error_text (InternalServerError m) = ''Internal Server Error: '' @ m"

text \<open>The status codes with their display texts, which the response carries as its code string.\<close>

fun auth_error_status :: "auth_error \<Rightarrow> nat \<times> string" where
  "auth_error_status WrongCredentials = (401, ''401 Unauthorized'')"
| "auth_error_status MissingCredentials = (400, ''400 Bad Request'')"
| "auth_error_status InvalidToken = (400, ''400 Bad Request'')"
| "auth_error_status ExpiredToken = (401, ''401 Unauthorized'')"
| "auth_error_status (InternalServerError _) = (500, ''500 Internal Server Error'')"

definition auth_error_response :: "auth_error \<Rightarrow> error_response" where
  "auth_error_response e =
     (case auth_error_status e of (code, txt) \<Rightarrow>
        error_response_of code code txt ''UNAUTHORIZED'' (auth_error_text e))"

subsection \<open>Successful responses\<close>

record 'a success_response =
  sr_session_id :: string
  sr_http_code :: nat
  sr_error_code :: int
  sr_error_code_str :: string
  sr_message :: string
  sr_data :: "'a option"

text \<open>The response the handlers build, with status 200.\<close>

definition success :: "string \<Rightarrow> 'a \<Rightarrow> nat \<times> 'a success_response" where
  "success sid d =
     (200, \<lparr>sr_session_id = sid, sr_http_code = 200, sr_error_code = 0,
            sr_error_code_str = ''NA'', sr_message = ''Success'', sr_data = Some d\<rparr>)"

text \<open>\<open>SuccessResponse::response\<close>.\<close>

definition success_response_of :: "string \<Rightarrow> nat \<Rightarrow> string \<Rightarrow> 'a option \<Rightarrow> 'a success_response" where
  "success_response_of sid code msg d =
     \<lparr>sr_session_id = sid, sr_http_code = code, sr_error_code = 0, sr_error_code_str = ''Ok'',
      sr_message = msg, sr_data = d\<rparr>"

text \<open>The session a verified token gives a request.\<close>

record client_session =
  cs_session_id :: string
  cs_authenticated :: bool
  cs_challenge_sent :: "string option"
  cs_did :: string
  cs_did_hash :: string

end
