(* ===== verification/Redis.thy ===== *)
theory Redis
  imports Effects MediatorErrors
begin

text \<open>
  The Redis server behind the mediator. Neither the server nor its client crate is part of the
  repository: a record of functions stands for them, over a state type of its own. What the code
  relies on is stated here as the documented behaviour of the commands it sends
  (\<open>redis_command\<close>, over a keyspace of typed entries) and of transactions, and \<open>redis_laws\<close> says
  that a server keeps to it. \<open>query\<close> and \<open>transaction\<close> are \<open>query_async\<close> with the mapping of
  the error the source writes behind it, \<open>call\<close> is \<open>redis.call\<close> in a Lua function.
\<close>

subsection \<open>The client\<close>

datatype reply =
    RNil
  | RInt int
  | RBulk string
  | RStatus string
  | RBool bool
  | RArray "reply list"
  | RMap "(reply \<times> reply) list"
  | RSet "reply list"

text \<open>
  The server: a connection from the pool, one command, a transaction (\<open>pipe().atomic()\<close>), a
  command called from a script; then the displays of a script's error and of a reply, and the conversions of
  replies (\<open>FromRedisValue\<close>).
\<close>

record 'db redis =
  pool_get :: "'db \<Rightarrow> string + unit"
  r_cmd :: "string list \<Rightarrow> 'db \<Rightarrow> (string + reply) \<times> 'db"
  r_exec :: "string list list \<Rightarrow> 'db \<Rightarrow> (string + reply list) \<times> 'db"
  r_call :: "string list \<Rightarrow> 'db \<Rightarrow> (string + reply) \<times> 'db"
  fcall_error :: "string \<Rightarrow> string"
  debug_reply :: "reply \<Rightarrow> string"
  rv_unit :: "reply \<Rightarrow> string + unit"
  rv_string :: "reply \<Rightarrow> string + string"
  rv_opt_string :: "reply \<Rightarrow> string + string option"
  rv_strings :: "reply \<Rightarrow> string + string list"
  rv_hash :: "reply \<Rightarrow> string + (string \<rightharpoonup> string)"
  rv_values :: "reply \<Rightarrow> string + reply list"
  rv_bool :: "reply \<Rightarrow> string + bool"
  rv_u32 :: "reply \<Rightarrow> string + nat"
  rv_u64 :: "reply \<Rightarrow> string + nat"
  rv_i64 :: "reply \<Rightarrow> string + int"

definition get_async_connection :: "'db redis \<Rightarrow> ('db, unit, mediator_error) effect" where
  "get_async_connection R = (\<lambda>db. case pool_get R db of
     Inl e \<Rightarrow> (Err (DatabaseError ''NA''
                 (''Couldn'' @ [CHR 0x27] @ ''t get database connection: '' @ e)), db)
   | Inr _ \<Rightarrow> (Ok (), db))"

definition query ::
  "'db redis \<Rightarrow> (reply \<Rightarrow> string + 'a) \<Rightarrow> (string \<Rightarrow> mediator_error) \<Rightarrow> string list
     \<Rightarrow> ('db, 'a, mediator_error) effect" where
  "query R conv err c = (\<lambda>db. case r_cmd R c db of
     (Inl e, db') \<Rightarrow> (Err (err e), db')
   | (Inr rep, db') \<Rightarrow> (map_err err (of_sum (conv rep)), db'))"

definition transaction ::
  "'db redis \<Rightarrow> (string \<Rightarrow> mediator_error) \<Rightarrow> string list list
     \<Rightarrow> ('db, reply list, mediator_error) effect" where
  "transaction R err cs = (\<lambda>db. case r_exec R cs db of
     (Inl e, db') \<Rightarrow> (Err (err e), db')
   | (Inr reps, db') \<Rightarrow> (Ok reps, db'))"

text \<open>A script ends at the first \<open>redis.call\<close> that raises an error, and its effects so far stay.\<close>

type_synonym ('db, 'a) script = "('db, 'a, string) effect"

definition call :: "'db redis \<Rightarrow> string list \<Rightarrow> ('db, reply) script" where
  "call R c = (\<lambda>db. case r_call R c db of
     (Inl e, db') \<Rightarrow> (Err e, db') | (Inr rep, db') \<Rightarrow> (Ok rep, db'))"


lemma get_async_connection_state: "get_async_connection R db = (r, db') \<Longrightarrow> db' = db"
  by (auto simp: get_async_connection_def split: sum.splits)

lemma get_async_connection_not_Panic [simp]: "get_async_connection R db \<noteq> (Panic, db')"
  by (auto simp: get_async_connection_def split: sum.splits)

lemma keeps_connection [keeps_intros]: "keeps P (get_async_connection R)"
  using get_async_connection_state by (metis keeps_def prod.collapse)

subsection \<open>The keyspace\<close>

text \<open>The id of a stream entry, in the order of a stream.\<close>

datatype stream_id = StreamId (sid_ms: nat) (sid_seq: nat)

instantiation stream_id :: linorder
begin

definition less_eq_stream_id :: "stream_id \<Rightarrow> stream_id \<Rightarrow> bool" where
  "x \<le> y \<longleftrightarrow> sid_ms x < sid_ms y \<or> (sid_ms x = sid_ms y \<and> sid_seq x \<le> sid_seq y)"

definition less_stream_id :: "stream_id \<Rightarrow> stream_id \<Rightarrow> bool" where
  "x < y \<longleftrightarrow> sid_ms x < sid_ms y \<or> (sid_ms x = sid_ms y \<and> sid_seq x < sid_seq y)"

instance
  by standard (auto simp: less_eq_stream_id_def less_stream_id_def intro: stream_id.expand)

end

definition show_id :: "stream_id \<Rightarrow> string" where
  "show_id i = show_nat (sid_ms i) @ CHR ''-'' # show_nat (sid_seq i)"

lemma split_show_id: "split_on (CHR ''-'') (show_id i) = [show_nat (sid_ms i), show_nat (sid_seq i)]"
  by (simp add: show_id_def split_on_append show_nat_no_dash split_on_absent)

lemma show_id_inject: "show_id i = show_id j \<Longrightarrow> i = j"
  using split_show_id[of i] split_show_id[of j]
  by (auto dest!: show_nat_inject intro: stream_id.expand)

datatype entry =
    EStr string
  | EHash "string \<rightharpoonup> string"
  | ESet "string set"
  | EList "string list"
  | EStream stream_id "(stream_id \<times> (string \<times> string) list) list"

type_synonym keyspace = "string \<rightharpoonup> entry"

text \<open>The hash, the set and the stream at a key; nothing for a key of another type.\<close>

definition as_hash :: "keyspace \<Rightarrow> string \<Rightarrow> (string \<rightharpoonup> string) option" where
  "as_hash ks k = (case ks k of None \<Rightarrow> Some Map.empty | Some (EHash h) \<Rightarrow> Some h | _ \<Rightarrow> None)"

definition as_set :: "keyspace \<Rightarrow> string \<Rightarrow> string set option" where
  "as_set ks k = (case ks k of None \<Rightarrow> Some {} | Some (ESet s) \<Rightarrow> Some s | _ \<Rightarrow> None)"

definition as_list :: "keyspace \<Rightarrow> string \<Rightarrow> string list option" where
  "as_list ks k = (case ks k of None \<Rightarrow> Some [] | Some (EList l) \<Rightarrow> Some l | _ \<Rightarrow> None)"

definition as_stream ::
  "keyspace \<Rightarrow> string \<Rightarrow> (stream_id \<times> (stream_id \<times> (string \<times> string) list) list) option" where
  "as_stream ks k = (case ks k of
     None \<Rightarrow> Some (StreamId 0 0, []) | Some (EStream l es) \<Rightarrow> Some (l, es) | _ \<Rightarrow> None)"

fun pairs_of :: "'a list \<Rightarrow> ('a \<times> 'a) list" where
  "pairs_of (x # y # zs) = (x, y) # pairs_of zs"
| "pairs_of _ = []"

fun unpair :: "('a \<times> 'a) list \<Rightarrow> 'a list" where
  "unpair [] = []"
| "unpair ((x, y) # zs) = x # y # unpair zs"

lemma pairs_of_unpair [simp]: "pairs_of (unpair xs) = xs"
  by (induction xs rule: unpair.induct) auto

lemma unpair_map: "unpair (map (\<lambda>(x, y). (f x, f y)) xs) = map f (unpair xs)"
  by (induction xs rule: unpair.induct) auto

definition set_fields :: "(string \<times> string) list \<Rightarrow> (string \<rightharpoonup> string) \<Rightarrow> (string \<rightharpoonup> string)" where
  "set_fields fvs h = fold (\<lambda>(f, v) h. h(f \<mapsto> v)) fvs h"

text \<open>The id a stream gives to a new entry of the millisecond \<open>ms\<close>, if any is left.\<close>

definition next_id :: "nat \<Rightarrow> stream_id \<Rightarrow> stream_id option" where
  "next_id ms l =
     (if sid_ms l < ms then Some (StreamId ms 0)
      else if sid_ms l = ms then Some (StreamId ms (sid_seq l + 1))
      else None)"

lemma next_id_greater: "next_id ms l = Some i \<Longrightarrow> l < i"
  by (auto simp: next_id_def less_stream_id_def split: if_splits)

lemma next_id_ms: "next_id ms l = Some i \<Longrightarrow> sid_ms i = ms"
  by (auto simp: next_id_def split: if_splits)

subsection \<open>The commands\<close>

text \<open>The empty hash and the empty set are no entries.\<close>

definition put_hash :: "string \<Rightarrow> (string \<rightharpoonup> string) \<Rightarrow> keyspace \<Rightarrow> keyspace" where
  "put_hash k h ks = ks(k := if h = Map.empty then None else Some (EHash h))"

definition put_set :: "string \<Rightarrow> string set \<Rightarrow> keyspace \<Rightarrow> keyspace" where
  "put_set k s ks = ks(k := if s = {} then None else Some (ESet s))"

definition bulk_opt :: "string option \<Rightarrow> reply" where
  "bulk_opt v = (case v of None \<Rightarrow> RNil | Some s \<Rightarrow> RBulk s)"

definition entry_reply :: "stream_id \<times> (string \<times> string) list \<Rightarrow> reply" where
  "entry_reply e = RArray [RBulk (show_id (fst e)), RArray (map RBulk (unpair (snd e)))]"

definition hash_reply :: "(string \<times> string) list \<Rightarrow> reply" where
  "hash_reply al = RMap (map (\<lambda>(f, v). (RBulk f, RBulk v)) al)"

text \<open>A stream id as a client writes it, the sequence number left out or not.\<close>

definition parse_id :: "string \<Rightarrow> stream_id option" where
  "parse_id s =
     (case split_once (CHR ''-'') s of
        None \<Rightarrow> map_option (\<lambda>m. StreamId m 0) (parse_nat 64 s)
      | Some (a, b) \<Rightarrow>
          (case (parse_nat 64 a, parse_nat 64 b) of
             (Some m, Some n) \<Rightarrow> Some (StreamId m n) | _ \<Rightarrow> None))"

text \<open>Where a range starts: at the first entry, after an id, or at an id.\<close>

definition range_start :: "string \<Rightarrow> (stream_id \<Rightarrow> bool) option" where
  "range_start s =
     (if s = ''-'' then Some (\<lambda>i. True)
      else case s of
        c # cs \<Rightarrow>
          if c = CHR ''('' then map_option (\<lambda>j i. j < i) (parse_id cs)
          else map_option (\<lambda>j i. j \<le> i) (parse_id s)
      | [] \<Rightarrow> None)"

inductive redis_command :: "string list \<Rightarrow> keyspace \<Rightarrow> reply \<Rightarrow> keyspace \<Rightarrow> bool" where
  hset: "as_hash ks k = Some h \<Longrightarrow>
    redis_command (''HSET'' # k # fvs) ks (RInt n) (ks(k \<mapsto> EHash (set_fields (pairs_of fvs) h)))"
| hmset: "as_hash ks k = Some h \<Longrightarrow>
    redis_command (''HMSET'' # k # fvs) ks (RStatus ''OK'') (ks(k \<mapsto> EHash (set_fields (pairs_of fvs) h)))"
| hget: "as_hash ks k = Some h \<Longrightarrow>
    redis_command [''HGET'', k, f] ks (bulk_opt (h f)) ks"
| hmget: "as_hash ks k = Some h \<Longrightarrow>
    redis_command (''HMGET'' # k # fs) ks (RArray (map (\<lambda>f. bulk_opt (h f)) fs)) ks"
| hexists: "as_hash ks k = Some h \<Longrightarrow>
    redis_command [''HEXISTS'', k, f] ks (RInt (if h f = None then 0 else 1)) ks"
| hgetall: "as_hash ks k = Some h \<Longrightarrow> map_of al = h \<Longrightarrow> distinct (map fst al) \<Longrightarrow>
    redis_command [''HGETALL'', k] ks (hash_reply al) ks"
| hincrby: "as_hash ks k = Some h \<Longrightarrow> h f = Some (show_int i) \<or> (h f = None \<and> i = 0) \<Longrightarrow>
    redis_command [''HINCRBY'', k, f, show_int d] ks (RInt (i + d))
      (ks(k \<mapsto> EHash (h(f \<mapsto> show_int (i + d)))))"
| hdel: "as_hash ks k = Some h \<Longrightarrow>
    redis_command [''HDEL'', k, f] ks (RInt n) (put_hash k (h(f := None)) ks)"
| rename: "ks a = Some e \<Longrightarrow>
    redis_command [''RENAME'', a, b] ks (RStatus ''OK'') ((ks(a := None))(b \<mapsto> e))"
| expire: "redis_command [''EXPIRE'', k, show_nat s] ks (RInt n) ks"
| set: "redis_command [''SET'', k, v] ks (RStatus ''OK'') (ks(k \<mapsto> EStr v))"
| get: "ks k = Some (EStr v) \<Longrightarrow> redis_command [''GET'', k] ks (RBulk v) ks"
| get_none: "ks k = None \<Longrightarrow> redis_command [''GET'', k] ks RNil ks"
| del: "redis_command [''DEL'', k] ks (RInt n) (ks(k := None))"
| rpush: "as_list ks k = Some l \<Longrightarrow>
    redis_command [''RPUSH'', k, v] ks (RInt (int (length l) + 1)) (ks(k \<mapsto> EList (l @ [v])))"
| xadd: "as_stream ks k = Some (l, es) \<Longrightarrow> next_id ms l = Some i \<Longrightarrow>
    redis_command (''XADD'' # k # (show_nat ms @ ''-*'') # fvs) ks (RBulk (show_id i))
      (ks(k \<mapsto> EStream i (es @ [(i, pairs_of fvs)])))"
| xdel: "ks k = Some (EStream l es) \<Longrightarrow>
    redis_command [''XDEL'', k, show_id i] ks (RInt n)
      (ks(k \<mapsto> EStream l (filter (\<lambda>e. fst e \<noteq> i) es)))"
| xdel_none: "ks k = None \<Longrightarrow> redis_command [''XDEL'', k, show_id i] ks (RInt 0) ks"
| xrange: "as_stream ks k = Some (l, es) \<Longrightarrow> range_start s = Some p \<Longrightarrow>
    redis_command [''XRANGE'', k, s, ''+'', ''COUNT'', show_nat n] ks
      (RArray (map entry_reply (take n (filter (\<lambda>e. p (fst e)) es)))) ks"
| sadd: "as_set ks k = Some s \<Longrightarrow>
    redis_command [''SADD'', k, x] ks (RInt n) (ks(k \<mapsto> ESet (insert x s)))"
| srem: "as_set ks k = Some s \<Longrightarrow>
    redis_command [''SREM'', k, x] ks (RInt n) (put_set k (s - {x}) ks)"
| spop: "as_set ks k = Some s \<Longrightarrow> x \<in> s \<Longrightarrow>
    redis_command [''SPOP'', k, ''1''] ks (RSet [RBulk x]) (put_set k (s - {x}) ks)"
| spop_none: "ks k = None \<Longrightarrow> redis_command [''SPOP'', k, ''1''] ks (RSet []) ks"
| publish: "redis_command [''PUBLISH'', c, m] ks (RInt n) ks"
| xinfo: "ks k = Some (EStream l es) \<Longrightarrow>
    map_of ps (RBulk ''length'') = Some (RInt (int (length es))) \<Longrightarrow>
    map_of ps (RBulk ''first-entry'') = Some (if es = [] then RNil else entry_reply (hd es)) \<Longrightarrow>
    map_of ps (RBulk ''last-entry'') = Some (if es = [] then RNil else entry_reply (last es)) \<Longrightarrow>
    redis_command [''XINFO'', ''STREAM'', k] ks (RMap ps) ks"
| time: "0 < s \<Longrightarrow> us < 1000000 \<Longrightarrow>
    redis_command [''TIME''] ks (RArray [RBulk (show_nat s), RBulk (show_nat us)]) ks"

text \<open>The keys a command names: no other entry changes. An expiry time is not part of the entry.\<close>

definition command_keys :: "string list \<Rightarrow> string list" where
  "command_keys c =
     (case c of
        [] \<Rightarrow> []
      | cmd # args \<Rightarrow> if cmd = ''EXPIRE'' then []
          else if cmd = ''RENAME'' then take 2 args else take 1 args)"

lemma redis_command_frame:
  "redis_command c ks rep ks' \<Longrightarrow> k \<notin> set (command_keys c) \<Longrightarrow> ks' k = ks k"
  by (induction rule: redis_command.induct)
     (auto simp: command_keys_def put_hash_def put_set_def)

subsection \<open>What the server promises\<close>

text \<open>A client of the second version of the protocol sees maps and sets as flat arrays.\<close>

fun resp2 :: "reply \<Rightarrow> reply" where
  "resp2 (RBool b) = RInt (if b then 1 else 0)"
| "resp2 (RArray rs) = RArray (map resp2 rs)"
| "resp2 (RSet rs) = RArray (map resp2 rs)"
| "resp2 (RMap ps) = RArray (unpair (map (\<lambda>(x, y). (resp2 x, resp2 y)) ps))"
| "resp2 r = r"

text \<open>The forms of the commands the mediator sends.\<close>

inductive sent :: "string list \<Rightarrow> bool" where
  "fvs \<noteq> [] \<Longrightarrow> even (length fvs) \<Longrightarrow> cmd \<in> {''HSET'', ''HMSET''} \<Longrightarrow> sent (cmd # k # fvs)"
| "cmd \<in> {''HGET'', ''HEXISTS'', ''HDEL'', ''RENAME'', ''SET'', ''RPUSH'', ''SADD'', ''SREM'', ''PUBLISH''} \<Longrightarrow>
     sent [cmd, k, x]"
| "cmd \<in> {''HGETALL'', ''GET'', ''DEL''} \<Longrightarrow> sent [cmd, k]"
| "fs \<noteq> [] \<Longrightarrow> sent (''HMGET'' # k # fs)"
| "sent [''HINCRBY'', k, f, show_int d]"
| "0 < s \<Longrightarrow> sent [''EXPIRE'', k, show_nat s]"
| "fvs \<noteq> [] \<Longrightarrow> even (length fvs) \<Longrightarrow> sent (''XADD'' # k # (show_nat ms @ ''-*'') # fvs)"
| "sent [''XDEL'', k, show_id i]"
| "range_start s \<noteq> None \<Longrightarrow> 0 < n \<Longrightarrow> sent [''XRANGE'', k, s, ''+'', ''COUNT'', show_nat n]"
| "sent [''SPOP'', k, ''1'']"
| "sent [''XINFO'', ''STREAM'', k]"
| "sent [''TIME'']"

text \<open>A command with a wrong number of arguments, which a transaction refuses as a whole.\<close>

definition malformed :: "string list \<Rightarrow> bool" where
  "malformed c \<longleftrightarrow> (case c of [] \<Rightarrow> False | cmd # args \<Rightarrow> cmd = ''HINCRBY'' \<and> length args \<noteq> 3)"

text \<open>
  A transaction runs its commands in order. A command that cannot be carried out does not undo the
  others: they keep their effect, and the whole is an error then.
\<close>

inductive run_all :: "string list list \<Rightarrow> keyspace \<Rightarrow> reply list \<Rightarrow> keyspace \<Rightarrow> bool" where
  run_all_Nil: "run_all [] ks [] ks"
| run_all_Cons: "redis_command c ks rep ks' \<Longrightarrow> run_all cs ks' reps ks'' \<Longrightarrow>
    run_all (c # cs) ks (resp2 rep # reps) ks''"

inductive run_some :: "string list list \<Rightarrow> keyspace \<Rightarrow> keyspace \<Rightarrow> bool" where
  run_some_Nil: "run_some [] ks ks"
| run_some_skip: "\<nexists>rep ks'. redis_command c ks rep ks' \<Longrightarrow> run_some cs ks ks'' \<Longrightarrow>
    run_some (c # cs) ks ks''"
| run_some_Cons: "redis_command c ks rep ks' \<Longrightarrow> run_some cs ks' ks'' \<Longrightarrow> run_some (c # cs) ks ks''"

text \<open>
  A server over the keyspace \<open>V\<close>: what succeeds is what the command does; a command that a client
  sends and that fails may have taken effect (the reply may be lost), one that a script calls has
  not; the conversions read the replies they are made for.
\<close>

definition redis_laws :: "'db redis \<Rightarrow> ('db \<Rightarrow> keyspace) \<Rightarrow> bool" where
  "redis_laws R V \<longleftrightarrow>
     (\<forall>c db rep db'. sent c \<longrightarrow> r_cmd R c db = (Inr rep, db') \<longrightarrow>
        (\<exists>r. redis_command c (V db) r (V db') \<and> rep = resp2 r)) \<and>
     (\<forall>c db e db'. sent c \<longrightarrow> r_cmd R c db = (Inl e, db') \<longrightarrow>
        V db' = V db \<or> (\<exists>r. redis_command c (V db) r (V db'))) \<and>
     (\<forall>c db rep db'. sent c \<longrightarrow> r_call R c db = (Inr rep, db') \<longrightarrow>
        redis_command c (V db) rep (V db')) \<and>
     (\<forall>c db e db'. sent c \<longrightarrow> r_call R c db = (Inl e, db') \<longrightarrow> V db' = V db) \<and>
     (\<forall>cs db reps db'. list_all sent cs \<longrightarrow> r_exec R cs db = (Inr reps, db') \<longrightarrow>
        run_all cs (V db) reps (V db')) \<and>
     (\<forall>cs db e db'. list_all sent cs \<longrightarrow> r_exec R cs db = (Inl e, db') \<longrightarrow>
        V db' = V db \<or> run_some cs (V db) (V db')) \<and>
     (\<forall>cs db r db'. list_ex malformed cs \<longrightarrow> r_exec R cs db = (r, db') \<longrightarrow>
        isl r \<and> V db' = V db)"

definition conversion_laws :: "'db redis \<Rightarrow> bool" where
  "conversion_laws R \<longleftrightarrow>
     (\<forall>r. rv_unit R r = Inr ()) \<and>
     (\<forall>s. rv_string R (RBulk s) = Inr s \<and> rv_string R (RStatus s) = Inr s) \<and>
     (\<forall>s. rv_opt_string R (RBulk s) = Inr (Some s)) \<and> rv_opt_string R RNil = Inr None \<and>
     (\<forall>ss. rv_strings R (RArray (map RBulk ss)) = Inr ss) \<and>
     (\<forall>al. distinct (map fst al) \<longrightarrow>
        rv_hash R (RArray (map RBulk (unpair al))) = Inr (map_of al)) \<and>
     (\<forall>rs. rv_values R (RArray rs) = Inr rs) \<and>
     (\<forall>n < 2 ^ 32. rv_u32 R (RInt (int n)) = Inr n) \<and>
     (\<forall>n < 2 ^ 64. rv_u64 R (RInt (int n)) = Inr n) \<and>
     (\<forall>b. rv_bool R (RInt (if b then 1 else 0)) = Inr b)"

lemma redis_cmd_Ok:
  "redis_laws R V \<Longrightarrow> sent c \<Longrightarrow> r_cmd R c db = (Inr rep, db') \<Longrightarrow>
     \<exists>r. redis_command c (V db) r (V db') \<and> rep = resp2 r"
  unfolding redis_laws_def by (elim conjE) blast

lemma redis_cmd_Err:
  "redis_laws R V \<Longrightarrow> sent c \<Longrightarrow> r_cmd R c db = (Inl e, db') \<Longrightarrow>
     V db' = V db \<or> (\<exists>r. redis_command c (V db) r (V db'))"
  unfolding redis_laws_def by (elim conjE) blast

lemma redis_call_Ok:
  "redis_laws R V \<Longrightarrow> sent c \<Longrightarrow> r_call R c db = (Inr rep, db') \<Longrightarrow>
     redis_command c (V db) rep (V db')"
  unfolding redis_laws_def by (elim conjE) blast

lemma redis_call_Err:
  "redis_laws R V \<Longrightarrow> sent c \<Longrightarrow> r_call R c db = (Inl e, db') \<Longrightarrow> V db' = V db"
  unfolding redis_laws_def by (elim conjE) blast

lemma redis_exec_Ok:
  "redis_laws R V \<Longrightarrow> list_all sent cs \<Longrightarrow> r_exec R cs db = (Inr reps, db') \<Longrightarrow>
     run_all cs (V db) reps (V db')"
  unfolding redis_laws_def by (elim conjE) blast

lemma redis_exec_Err:
  "redis_laws R V \<Longrightarrow> list_all sent cs \<Longrightarrow> r_exec R cs db = (Inl e, db') \<Longrightarrow>
     V db' = V db \<or> run_some cs (V db) (V db')"
  unfolding redis_laws_def by (elim conjE) metis

lemma redis_exec_malformed:
  "redis_laws R V \<Longrightarrow> list_ex malformed cs \<Longrightarrow> r_exec R cs db = (r, db') \<Longrightarrow> isl r \<and> V db' = V db"
  unfolding redis_laws_def by (elim conjE) metis

lemma run_some_frame:
  "run_some cs ks ks' \<Longrightarrow> list_all (\<lambda>c. k \<notin> set (command_keys c)) cs \<Longrightarrow> ks' k = ks k"
  by (induction rule: run_some.induct) (auto dest: redis_command_frame)

lemma run_all_some: "run_all cs ks reps ks' \<Longrightarrow> run_some cs ks ks'"
  by (induction rule: run_all.induct) (auto intro: run_some.intros)

lemma run_all_frame:
  "run_all cs ks reps ks' \<Longrightarrow> list_all (\<lambda>c. k \<notin> set (command_keys c)) cs \<Longrightarrow> ks' k = ks k"
  using run_some_frame run_all_some by blast

inductive_simps run_some_simps: "run_some [] ks ks'" "run_some (c # cs) ks ks'"
inductive_simps run_all_simps: "run_all [] ks reps ks'" "run_all (c # cs) ks reps ks'"

inductive_simps hset_iff: "redis_command (''HSET'' # args) ks rep ks'"
inductive_simps hgetall_iff: "redis_command (''HGETALL'' # args) ks rep ks'"
inductive_simps hincrby_iff: "redis_command (''HINCRBY'' # args) ks rep ks'"
inductive_simps rename_iff: "redis_command (''RENAME'' # args) ks rep ks'"
inductive_simps expire_iff: "redis_command (''EXPIRE'' # args) ks rep ks'"

lemma resp2_hash_reply: "resp2 (hash_reply al) = RArray (map RBulk (unpair al))"
proof -
  have "(\<lambda>(x, y). (resp2 x, resp2 y)) \<circ> (\<lambda>(f, v). (RBulk f, RBulk v)) = (\<lambda>(f, v). (RBulk f, RBulk v))"
    by (auto simp: fun_eq_iff)
  then show ?thesis by (simp add: hash_reply_def unpair_map)
qed

subsection \<open>Queries, transactions and calls\<close>

text \<open>\<open>FCALL\<close>: the error of a script, and the reply of one converted, as the client gets them.\<close>

definition fcall ::
  "'db redis \<Rightarrow> (reply \<Rightarrow> string + 'a) \<Rightarrow> (string \<Rightarrow> mediator_error) \<Rightarrow> ('db, reply) script
     \<Rightarrow> ('db, 'a, mediator_error) effect" where
  "fcall R conv err script =
     eff_then (get_async_connection R) (\<lambda>_.
     eff_then (eff_map_err (\<lambda>e. err (fcall_error R e)) script) (\<lambda>rep.
     eff_of (map_err err (of_sum (conv (resp2 rep))))))"

lemma transaction_Ok:
  assumes "redis_laws R V" "list_all sent cs" "transaction R err cs db = (Ok reps, db')"
  shows "run_all cs (V db) reps (V db')"
  using assms(3) redis_exec_Ok[OF assms(1,2)]
  by (cases "r_exec R cs db"; cases "fst (r_exec R cs db)") (auto simp: transaction_def)

lemma transaction_some:
  assumes "redis_laws R V" "list_all sent cs" "transaction R err cs db = (r, db')"
  shows "V db' = V db \<or> run_some cs (V db) (V db')"
  using assms(3) redis_exec_Err[OF assms(1,2)] run_all_some[OF redis_exec_Ok[OF assms(1,2)]]
  by (cases "r_exec R cs db"; cases "fst (r_exec R cs db)") (auto simp: transaction_def)

lemma query_state:
  assumes "redis_laws R V" "sent c" "query R conv err c db = (r, db')"
  shows "V db' = V db \<or> (\<exists>rep. redis_command c (V db) rep (V db'))"
  using assms(3)
  by (cases "r_cmd R c db"; cases "fst (r_cmd R c db)")
     (auto simp: query_def dest: redis_cmd_Err[OF assms(1,2)] redis_cmd_Ok[OF assms(1,2)])

lemma query_Ok:
  assumes "redis_laws R V" "sent c" "query R conv err c db = (Ok x, db')"
  shows "\<exists>rep. redis_command c (V db) rep (V db') \<and> conv (resp2 rep) = Inr x"
  using assms(3)
  by (cases "r_cmd R c db"; cases "fst (r_cmd R c db)")
     (auto simp: query_def result_simps dest: redis_cmd_Ok[OF assms(1,2)])

lemma call_Ok:
  assumes "redis_laws R V" "sent c" "call R c db = (Ok rep, db')"
  shows "redis_command c (V db) rep (V db')"
  using assms(3) redis_call_Ok[OF assms(1,2)]
  by (cases "r_call R c db"; cases "fst (r_call R c db)") (auto simp: call_def)

lemma call_Err:
  assumes "redis_laws R V" "sent c" "call R c db = (Err e, db')"
  shows "V db' = V db"
  using assms(3) redis_call_Err[OF assms(1,2)]
  by (cases "r_call R c db"; cases "fst (r_call R c db)") (auto simp: call_def)

text \<open>Commands that only read.\<close>

definition reads :: "string list \<Rightarrow> bool" where
  "reads c \<longleftrightarrow> sent c \<and> (\<forall>ks rep ks'. redis_command c ks rep ks' \<longrightarrow> ks' = ks)"

inductive_simps hget_iff: "redis_command (''HGET'' # args) ks rep ks'"
inductive_simps get_iff: "redis_command (''GET'' # args) ks rep ks'"

lemma reads_commands [simp]: "reads [''HGETALL'', k]" "reads [''HGET'', k, f]" "reads [''GET'', k]"
  by (auto simp: reads_def hgetall_iff hget_iff get_iff intro: sent.intros)

lemma keeps_query_reads [keeps_intros]:
  "redis_laws R V \<Longrightarrow> reads c \<Longrightarrow> keeps (\<lambda>db. V db = ks) (query R conv err c)"
  unfolding keeps_def reads_def by (metis prod.collapse query_state)

lemma keeps_call_reads [keeps_intros]:
  assumes "redis_laws R V" "reads c"
  shows "keeps (\<lambda>db. V db = ks) (call R c)"
  unfolding keeps_def
proof (intro allI impI)
  fix db assume "V db = ks"
  then show "V (snd (call R c db)) = ks"
    using call_Ok[OF assms(1)] call_Err[OF assms(1)] assms(2) unfolding reads_def
    by (cases "call R c db"; cases "fst (call R c db)")
       (fastforce simp: call_def split: prod.splits sum.splits)+
qed

text \<open>A transaction over a connection from the pool, the result dropped.\<close>

definition commit ::
  "'db redis \<Rightarrow> (string \<Rightarrow> mediator_error) \<Rightarrow> string list list \<Rightarrow> ('db, unit, mediator_error) effect" where
  "commit R err cs =
     eff_then (get_async_connection R) (\<lambda>_. eff_then (transaction R err cs) (\<lambda>_. eff_of (Ok ())))"

lemma commit_cases:
  assumes "commit R err cs db = (r, db')"
  obtains (refused) e where "r = Err e" "db' = db"
    | (failed) e where "transaction R err cs db = (Err e, db')" "r = Err e"
    | (committed) reps where "transaction R err cs db = (Ok reps, db')" "r = Ok ()"
proof (cases "pool_get R db")
  case (Inl e)
  with assms that(1) show ?thesis by (auto simp: commit_def get_async_connection_def eff_then_def)
next
  case (Inr u)
  then have conn: "get_async_connection R db = (Ok (), db)"
    by (simp add: get_async_connection_def)
  obtain r' d where t: "transaction R err cs db = (r', d)" by (cases "transaction R err cs db")
  with assms conn that show ?thesis
    by (cases r') (auto simp: commit_def eff_then_run transaction_def split: prod.splits sum.splits)
qed

lemma commit_Ok:
  assumes "redis_laws R V" "list_all sent cs" "commit R err cs db = (Ok u, db')"
  shows "\<exists>reps. run_all cs (V db) reps (V db')"
  using assms(3) by (cases rule: commit_cases) (auto dest: transaction_Ok[OF assms(1,2)])

lemma commit_some:
  assumes "redis_laws R V" "list_all sent cs" "commit R err cs db = (r, db')"
  shows "V db' = V db \<or> run_some cs (V db) (V db')"
  using assms(3) by (cases rule: commit_cases) (auto dest: transaction_some[OF assms(1,2)])

lemma commit_frame:
  assumes "redis_laws R V" "list_all sent cs" "commit R err cs db = (r, db')"
    and "list_all (\<lambda>c. k \<notin> set (command_keys c)) cs"
  shows "V db' k = V db k"
  using commit_some[OF assms(1-3)] run_some_frame[OF _ assms(4)] by auto

end
