(* ===== verification/Session.thy ===== *)
theory Session
  imports Redis
begin

text \<open>
  The sessions of the mediator and their rows in the database (\<open>database/session.rs\<close>). A session
  is a hash under the key \<open>SESSION:<id>\<close>, written when a challenge is sent, read when the client
  answers, and renamed to a new id when the answer is accepted.
\<close>

record session_claims =
  sc_aud :: string
  sc_sub :: string
  sc_session_id :: string
  sc_exp :: u64

datatype session_state = StateUnknown | ChallengeSent | Authenticated | Blocked

fun show_state :: "session_state \<Rightarrow> string" where
  "show_state StateUnknown = ''Unknown''"
| "show_state ChallengeSent = ''ChallengeSent''"
| "show_state Authenticated = ''Authenticated''"
| "show_state Blocked = ''Blocked''"

definition state_from_str :: "string \<Rightarrow> (session_state, mediator_error) result" where
  "state_from_str v =
     (if v = ''ChallengeSent'' then Ok ChallengeSent
      else if v = ''Authenticated'' then Ok Authenticated
      else Err (SessionError ''NA'' (''Unknown SessionState: ('' @ v @ '')'')))"

record session =
  ses_id :: string
  ses_challenge :: string
  ses_state :: session_state
  ses_did :: string

text \<open>\<open>Session::try_from\<close>: the fields are looked for in this order.\<close>

definition session_of_hash ::
  "string \<Rightarrow> (string \<rightharpoonup> string) \<Rightarrow> (session, mediator_error) result" where
  "session_of_hash sid h =
     and_then (ok_or (SessionError sid ''No challenge found when retrieving session!'')
                 (h ''challenge'')) (\<lambda>challenge.
     and_then (ok_or (SessionError sid ''No state found when retrieving session!'') (h ''state''))
       (\<lambda>st.
     and_then (state_from_str st) (\<lambda>st.
     and_then (ok_or (SessionError sid ''No DID found when retrieving session!'') (h ''did'')) (\<lambda>did.
     Ok \<lparr>ses_id = sid, ses_challenge = challenge, ses_state = st, ses_did = did\<rparr>))))"

definition session_key :: "string \<Rightarrow> string" where
  "session_key sid = ''SESSION:'' @ sid"

definition create_session :: "'db redis \<Rightarrow> session \<Rightarrow> ('db, unit, mediator_error) effect" where
  "create_session R s =
     (let sid = session_key (ses_id s) in
      commit R (\<lambda>e. SessionError sid (''tried to create new session ('' @ sid @ '')! Error: '' @ e))
        [[''HSET'', sid, ''challenge'', ses_challenge s, ''state'', show_state (ses_state s),
          ''did'', ses_did s],
         [''HINCRBY'', ''GLOBAL'', ''SESSIONS_CREATED'', ''1''],
         [''EXPIRE'', sid, ''900'']])"

definition get_session :: "'db redis \<Rightarrow> string \<Rightarrow> ('db, session, mediator_error) effect" where
  "get_session R sid =
     eff_then (get_async_connection R) (\<lambda>_.
     eff_then (query R (rv_hash R)
         (\<lambda>e. SessionError sid (''tried to retrieve session('' @ sid @ ''). Error: '' @ e))
         [''HGETALL'', session_key sid]) (\<lambda>h.
     eff_of (session_of_hash sid h)))"

definition update_session_authenticated ::
  "'db redis \<Rightarrow> string \<Rightarrow> string \<Rightarrow> ('db, unit, mediator_error) effect" where
  "update_session_authenticated R old_id new_id =
     (let old_sid = session_key old_id; new_sid = session_key new_id in
      commit R (\<lambda>e. SessionError old_id
          (''tried to retrieve session('' @ old_id @ ''). Error: '' @ e))
        [[''RENAME'', old_sid, new_sid],
         [''HSET'', new_sid, ''state'', show_state Authenticated],
         [''HINCRBY'', ''GLOBAL'', ''SESSIONS_SUCCESS'', ''1''],
         [''EXPIRE'', new_sid, ''86400'']])"

subsection \<open>What the operations do to the rows\<close>

lemma session_key_inject [simp]: "session_key a = session_key b \<longleftrightarrow> a = b"
  by (simp add: session_key_def)

lemma session_key_GLOBAL [simp]: "session_key a \<noteq> ''GLOBAL''" "''GLOBAL'' \<noteq> session_key a"
  by (simp_all add: session_key_def)

text \<open>The decimal arguments of the commands.\<close>

lemma command_numbers:
  "''1'' = show_int 1" "''900'' = show_nat 900" "''86400'' = show_nat 86400"
  by (simp_all add: show_int_def show_nat.simps)

lemma sent_session_commands:
  "list_all sent
     [[''HSET'', k, ''challenge'', c, ''state'', st, ''did'', d],
      [''HINCRBY'', ''GLOBAL'', f, ''1''], [''EXPIRE'', k, ''900'']]"
  "list_all sent
     [[''RENAME'', a, b], [''HSET'', b, ''state'', st], [''HINCRBY'', ''GLOBAL'', f, ''1''],
      [''EXPIRE'', b, ''86400'']]"
  "sent [''HGETALL'', k]"
  unfolding command_numbers by (auto intro: sent.intros)

definition session_fields :: "session \<Rightarrow> (string \<rightharpoonup> string) \<Rightarrow> (string \<rightharpoonup> string)" where
  "session_fields s h =
     h(''challenge'' \<mapsto> ses_challenge s, ''state'' \<mapsto> show_state (ses_state s), ''did'' \<mapsto> ses_did s)"

lemma create_session_Ok:
  assumes "redis_laws R V" "create_session R s db = (Ok u, db')"
  shows "\<exists>h. V db' (session_key (ses_id s)) = Some (EHash (session_fields s h))"
proof -
  from commit_Ok[OF assms(1) sent_session_commands(1) assms(2)[unfolded create_session_def Let_def]]
  obtain r ks1 reps where c: "redis_command [''HSET'', session_key (ses_id s), ''challenge'', ses_challenge s,
      ''state'', show_state (ses_state s), ''did'', ses_did s] (V db) r ks1" and
    rest: "run_all [[''HINCRBY'', ''GLOBAL'', ''SESSIONS_CREATED'', ''1''], [''EXPIRE'', session_key (ses_id s), ''900'']]
      ks1 reps (V db')"
    by (subst (asm) run_all_simps(2)) blast
  have "V db' (session_key (ses_id s)) = ks1 (session_key (ses_id s))"
    by (rule run_all_frame[OF rest]) (simp add: command_keys_def)
  with c show ?thesis by (auto simp: hset_iff session_fields_def set_fields_def)
qed

lemma create_session_frame:
  assumes "redis_laws R V" "create_session R s db = (r, db')"
    and "k \<noteq> session_key (ses_id s)" "k \<noteq> ''GLOBAL''"
  shows "V db' k = V db k"
  by (rule commit_frame[OF assms(1) sent_session_commands(1)
        assms(2)[unfolded create_session_def Let_def]])
     (use assms(3,4) in \<open>simp add: command_keys_def\<close>)

lemma keeps_get_session [keeps_intros]:
  "redis_laws R V \<Longrightarrow> keeps (\<lambda>d. V d = ks) (get_session R sid)"
  by (auto simp: get_session_def intro!: keeps_intros)

lemma get_session_state:
  assumes "redis_laws R V" "get_session R sid db = (r, db')"
  shows "V db' = V db"
  by (rule keepsD[where P = "\<lambda>d. V d = V db" and m = "get_session R sid",
        OF keeps_get_session[OF assms(1)] assms(2)]) simp

lemma get_session_Ok:
  assumes "redis_laws R V" "conversion_laws R" "get_session R sid db = (Ok s, db')"
  shows "\<exists>h. V db (session_key sid) = Some (EHash h) \<and> session_of_hash sid h = Ok s"
proof -
  from assms(3) obtain h where
    q: "query R (rv_hash R)
          (\<lambda>e. SessionError sid (''tried to retrieve session('' @ sid @ ''). Error: '' @ e))
          [''HGETALL'', session_key sid] db = (Ok h, db')" and
    s: "session_of_hash sid h = Ok s"
    by (auto simp: get_session_def effect_simps dest!: get_async_connection_state)
  from query_Ok[OF assms(1) sent_session_commands(3) q] assms(2)
  have "as_hash (V db) (session_key sid) = Some h"
    by (auto simp: hgetall_iff conversion_laws_def resp2_hash_reply)
  with s show ?thesis
    by (auto simp: as_hash_def session_of_hash_def result_simps split: option.splits entry.splits)
qed

lemma update_session_Ok:
  assumes "redis_laws R V" "update_session_authenticated R old new db = (Ok u, db')" "old \<noteq> new"
  shows "V db' (session_key old) = None \<and>
     (\<exists>h. V db (session_key old) = Some (EHash h) \<and>
          V db' (session_key new) = Some (EHash (h(''state'' \<mapsto> ''Authenticated''))))"
proof -
  let ?o = "session_key old" and ?n = "session_key new"
  from commit_Ok[OF assms(1) sent_session_commands(2)
      assms(2)[unfolded update_session_authenticated_def Let_def]]
  obtain r1 ks1 r2 ks2 reps where
    a: "redis_command [''RENAME'', ?o, ?n] (V db) r1 ks1" and
    b: "redis_command [''HSET'', ?n, ''state'', show_state Authenticated] ks1 r2 ks2" and
    rest: "run_all [[''HINCRBY'', ''GLOBAL'', ''SESSIONS_SUCCESS'', ''1''], [''EXPIRE'', ?n, ''86400'']]
      ks2 reps (V db')"
    by (subst (asm) run_all_simps(2), subst (asm) run_all_simps(2)) blast
  have v: "V db' ?o = ks2 ?o" "V db' ?n = ks2 ?n"
    by (rule run_all_frame[OF rest], simp add: command_keys_def assms(3))+
  from a obtain e where e: "V db ?o = Some e" "ks1 = (V db)(?o := None, ?n \<mapsto> e)"
    by (auto simp: rename_iff)
  from b obtain h where h: "as_hash ks1 ?n = Some h"
      "ks2 = ks1(?n \<mapsto> EHash (h(''state'' \<mapsto> ''Authenticated'')))"
    by (auto simp: hset_iff set_fields_def)
  from h(1) e(2) have "e = EHash h" by (cases e) (auto simp: as_hash_def)
  with e v h(2) assms(3) show ?thesis by simp
qed

lemma update_session_frame:
  assumes "redis_laws R V" "update_session_authenticated R old new db = (r, db')"
    and "k \<noteq> session_key old" "k \<noteq> session_key new" "k \<noteq> ''GLOBAL''"
  shows "V db' k = V db k"
  by (rule commit_frame[OF assms(1) sent_session_commands(2)
        assms(2)[unfolded update_session_authenticated_def Let_def]])
     (use assms(3-5) in \<open>simp add: command_keys_def\<close>)

lemma session_of_fields:
  "session_of_hash (ses_id s) (session_fields s h) =
     (if ses_state s \<in> {ChallengeSent, Authenticated} then Ok s
      else Err (SessionError ''NA''
             (''Unknown SessionState: ('' @ show_state (ses_state s) @ '')'')))"
  by (cases "ses_state s") (auto simp: session_of_hash_def session_fields_def state_from_str_def)

text \<open>
  a session written by \<open>create_session\<close> is read back by \<open>get_session\<close> as it was, as long as
  the database answers. The states \<open>Unknown\<close> and \<open>Blocked\<close> are written too, but a session in one
  of them cannot be read any more: reading it is an error.
\<close>

theorem session_read_back:
  assumes "redis_laws R V" and "conversion_laws R"
    and "create_session R s db = (Ok u, db1)"
    and "pool_get R db1 = Inr ()"
    and "r_cmd R [''HGETALL'', session_key (ses_id s)] db1 = (Inr rep, db2)"
  shows "get_session R (ses_id s) db1 =
     (if ses_state s \<in> {ChallengeSent, Authenticated} then Ok s
      else Err (SessionError ''NA''
             (''Unknown SessionState: ('' @ show_state (ses_state s) @ '')'')), db2)"
proof -
  obtain h where h: "V db1 (session_key (ses_id s)) = Some (EHash (session_fields s h))"
    using create_session_Ok[OF assms(1,3)] by blast
  from redis_cmd_Ok[OF assms(1) sent_session_commands(3) assms(5)] h assms(2)
  have "rv_hash R rep = Inr (session_fields s h)"
    by (auto simp: hgetall_iff conversion_laws_def resp2_hash_reply as_hash_def)
  then show ?thesis
    using assms(4,5) session_of_fields[of s h]
    by (simp add: get_session_def get_async_connection_def query_def eff_then_def)
qed

text \<open>
  Renaming a row that does not answer fails and leaves a row of the state alone behind under the
  new id; in no case is there a row left under the old id, unless nothing happened at all.
\<close>

lemma update_session_any:
  assumes "redis_laws R V" "update_session_authenticated R old new db = (r, db')" "old \<noteq> new"
  shows "V db' = V db \<or>
     (V db' (session_key old) = None \<and>
      (\<forall>h. V db' (session_key new) = Some (EHash h) \<longrightarrow> h ''state'' = Some ''Authenticated''))"
proof -
  let ?o = "session_key old" and ?n = "session_key new"
  define cs where "cs = [[''HINCRBY'', ''GLOBAL'', ''SESSIONS_SUCCESS'', ''1''], [''EXPIRE'', ?n, ''86400'']]"
  have rest: "run_some cs ks ks' \<Longrightarrow> ks' ?o = ks ?o \<and> ks' ?n = ks ?n" for ks ks'
    by (auto simp: cs_def run_some_simps hincrby_iff expire_iff)
  have set_state: "\<exists>ks1. run_some cs ks1 ks' \<and> ks1 ?o = ks ?o \<and>
      (\<forall>h. ks1 ?n = Some (EHash h) \<longrightarrow> h ''state'' = Some ''Authenticated'')"
    if "run_some ([''HSET'', ?n, ''state'', show_state Authenticated] # cs) ks ks'" for ks ks'
  proof (cases "as_hash ks ?n")
    case None
    with that have "run_some cs ks ks'" by (auto simp: run_some_simps(2)[of _ cs] hset_iff)
    then show ?thesis using None by (auto simp: as_hash_def)
  next
    case (Some h)
    with that have "run_some cs (ks(?n \<mapsto> EHash (h(''state'' \<mapsto> ''Authenticated'')))) ks'"
      by (auto simp: run_some_simps(2)[of _ cs] hset_iff set_fields_def)
    then show ?thesis using assms(3)
      by (intro exI[of _ "ks(?n \<mapsto> EHash (h(''state'' \<mapsto> ''Authenticated'')))"]) auto
  qed
  have "V db' = V db \<or> run_some ([''RENAME'', ?o, ?n] #
      [''HSET'', ?n, ''state'', show_state Authenticated] # cs) (V db) (V db')"
    using commit_some[OF assms(1) sent_session_commands(2)
      assms(2)[unfolded update_session_authenticated_def Let_def]] by (simp add: cs_def)
  then show ?thesis
  proof
    assume "run_some ([''RENAME'', ?o, ?n] #
      [''HSET'', ?n, ''state'', show_state Authenticated] # cs) (V db) (V db')"
    then have "\<exists>ks1. ks1 ?o = None \<and>
        run_some ([''HSET'', ?n, ''state'', show_state Authenticated] # cs) ks1 (V db')"
    proof (cases rule: run_some.cases)
      case run_some_skip
      then show ?thesis by (cases "V db ?o") (auto simp: rename_iff)
    next
      case (run_some_Cons rep ks1)
      then show ?thesis using assms(3) by (intro exI[of _ ks1]) (auto simp: rename_iff)
    qed
    then obtain ks1 where k: "ks1 ?o = None"
      "run_some ([''HSET'', ?n, ''state'', show_state Authenticated] # cs) ks1 (V db')" by blast
    from set_state[OF k(2)] k(1) rest show ?thesis by metis
  qed simp
qed

end
