(* ===== verification/Errors.thy ===== *)
theory Errors
  imports Prelude
begin

text \<open>
  The errors of the DIDComm crate (\<open>affinidi-messaging-didcomm/src/error.rs\<close>): the kinds, the
  error with its chain of causes, and the extension traits that turn the error of a library
  call into one of the crate (\<open>kind\<close>, \<open>kind_no_context\<close>, \<open>context\<close>, \<open>to_didcomm\<close>). The
  source of an error is kept as the list of its messages, outermost first.
\<close>

datatype error_kind =
    DIDNotResolved
  | DIDUrlNotFound
  | SecretNotFound
  | Malformed
  | IoError
  | InvalidState
  | NoCompatibleCrypto
  | Unsupported
  | IllegalArgument
  | TooManyCryptoOperations

datatype error = Error (kind_of: error_kind) (source_of: "string list")

definition err_msg :: "error_kind \<Rightarrow> string \<Rightarrow> error" where
  "err_msg k m = Error k [m]"

text \<open>\<open>ResultExt::kind\<close>: the library error \<open>e\<close> becomes the cause of the new message.\<close>

definition with_kind :: "error_kind \<Rightarrow> string \<Rightarrow> string + 'a \<Rightarrow> ('a, error) result" where
  "with_kind k m r = map_err (\<lambda>e. Error k [m, e]) (of_sum r)"

text \<open>\<open>ResultExtNoContext\<close>: the library error is dropped.\<close>

definition to_error_kind :: "error_kind \<Rightarrow> 'e + 'a \<Rightarrow> ('a, error_kind) result" where
  "to_error_kind k r = map_err (\<lambda>_. k) (of_sum r)"

definition kind_no_context :: "error_kind \<Rightarrow> string \<Rightarrow> 'e + 'a \<Rightarrow> ('a, error) result" where
  "kind_no_context k m r = map_err (\<lambda>_. err_msg k m) (of_sum r)"

text \<open>The crate's frequent \<open>map_err(|err| Error::msg(kind, format!("{}: {}", m, err.message())))\<close>.\<close>

definition with_message :: "error_kind \<Rightarrow> string \<Rightarrow> string + 'a \<Rightarrow> ('a, error) result" where
  "with_message k m r = map_err (\<lambda>e. err_msg k (m @ '': '' @ e)) (of_sum r)"

text \<open>\<open>ResultContext::context\<close>: the kind stays, the message goes in front of the chain.\<close>

definition context_msg :: "string \<Rightarrow> ('a, error) result \<Rightarrow> ('a, error) result" where
  "context_msg m r = map_err (\<lambda>e. Error (kind_of e) (m # source_of e)) r"

text \<open>What \<open>thiserror\<close> displays for a kind and for an error.\<close>

fun kind_text :: "error_kind \<Rightarrow> string" where
  "kind_text DIDNotResolved = ''DID not resolved''"
| "kind_text DIDUrlNotFound = ''DID URL not found''"
| "kind_text SecretNotFound = ''Secret not found''"
| "kind_text Malformed = ''Malformed''"
| "kind_text IoError = ''IO error''"
| "kind_text InvalidState = ''Invalid state''"
| "kind_text NoCompatibleCrypto = ''No compatible crypto''"
| "kind_text Unsupported = ''Unsupported crypto or method''"
| "kind_text IllegalArgument = ''Illegal argument''"
| "kind_text TooManyCryptoOperations = ''Too many crypto operations''"

definition display_error :: "error \<Rightarrow> string" where
  "display_error e = kind_text (kind_of e) @ '': '' @ join '': '' (source_of e)"

text \<open>\<open>kind\<close> on an error of the crate itself: the old error becomes the cause of the new one.\<close>

definition rekind :: "error_kind \<Rightarrow> string \<Rightarrow> ('a, error) result \<Rightarrow> ('a, error) result" where
  "rekind k m r = map_err (\<lambda>e. Error k (m # display_error e # source_of e)) r"

subsection \<open>Library errors\<close>

text \<open>The categories of \<open>serde_json::Error\<close>; the text is what it displays.\<close>

datatype serde_category = CatIo | CatSyntax | CatData | CatEof

datatype serde_error = SerdeError serde_category string

fun from_serde :: "serde_error \<Rightarrow> error" where
  "from_serde (SerdeError c t) =
     (case c of CatIo \<Rightarrow> err_msg InvalidState t
      | CatEof \<Rightarrow> err_msg InvalidState t
      | _ \<Rightarrow> err_msg Malformed t)"

datatype bs58_error = BufferTooSmall string | Bs58Other string

fun from_bs58 :: "bs58_error \<Rightarrow> error" where
  "from_bs58 (BufferTooSmall t) = err_msg InvalidState t"
| "from_bs58 (Bs58Other t) = err_msg Malformed t"

definition serde_to_didcomm :: "string \<Rightarrow> serde_error + 'a \<Rightarrow> ('a, error) result" where
  "serde_to_didcomm m r = context_msg m (map_err from_serde (of_sum r))"

definition bs58_to_didcomm :: "string \<Rightarrow> bs58_error + 'a \<Rightarrow> ('a, error) result" where
  "bs58_to_didcomm m r = context_msg m (map_err from_bs58 (of_sum r))"

text \<open>Where \<open>kind\<close> is applied to a serde result, the cause is the displayed text.\<close>

fun serde_text :: "serde_error + 'a \<Rightarrow> string + 'a" where
  "serde_text (Inl (SerdeError c t)) = Inl t"
| "serde_text (Inr x) = Inr x"

lemma serde_text_Inr_iff [result_simps]: "serde_text r = Inr x \<longleftrightarrow> r = Inr x"
  by (cases r rule: serde_text.cases) auto

lemma with_kind_Ok_iff [result_simps]: "with_kind k m r = Ok x \<longleftrightarrow> r = Inr x"
  by (simp add: with_kind_def result_simps)

lemma with_kind_Err_kind [result_simps]:
  "with_kind k m r = Err e \<longleftrightarrow> (\<exists>t. r = Inl t \<and> e = Error k [m, t])"
  by (simp add: with_kind_def result_simps)

lemma with_kind_not_Panic [simp]: "with_kind k m r \<noteq> Panic"
  by (simp add: with_kind_def result_simps)

lemma with_message_Ok_iff [result_simps]: "with_message k m r = Ok x \<longleftrightarrow> r = Inr x"
  by (simp add: with_message_def result_simps)

lemma with_message_Err_kind [result_simps]:
  "with_message k m r = Err e \<longleftrightarrow> (\<exists>t. r = Inl t \<and> e = err_msg k (m @ '': '' @ t))"
  by (simp add: with_message_def result_simps)

lemma with_message_not_Panic [simp]: "with_message k m r \<noteq> Panic"
  by (simp add: with_message_def result_simps)

lemma context_msg_Ok_iff [result_simps]: "context_msg m r = Ok x \<longleftrightarrow> r = Ok x"
  by (simp add: context_msg_def result_simps)

lemma context_msg_Err_iff [result_simps]:
  "context_msg m r = Err e \<longleftrightarrow>
     (\<exists>e'. r = Err e' \<and> e = Error (kind_of e') (m # source_of e'))"
  by (simp add: context_msg_def result_simps)

lemma context_msg_Panic_iff [result_simps]: "context_msg m r = Panic \<longleftrightarrow> r = Panic"
  by (simp add: context_msg_def result_simps)

lemma rekind_Ok_iff [result_simps]: "rekind k m r = Ok x \<longleftrightarrow> r = Ok x"
  by (simp add: rekind_def result_simps)

lemma rekind_Panic_iff [result_simps]: "rekind k m r = Panic \<longleftrightarrow> r = Panic"
  by (simp add: rekind_def result_simps)

lemma serde_to_didcomm_Ok_iff [result_simps]: "serde_to_didcomm m r = Ok x \<longleftrightarrow> r = Inr x"
  by (simp add: serde_to_didcomm_def result_simps)

lemma serde_to_didcomm_not_Panic [simp]: "serde_to_didcomm m r \<noteq> Panic"
  by (simp add: serde_to_didcomm_def result_simps)

lemma bs58_to_didcomm_Ok_iff [result_simps]: "bs58_to_didcomm m r = Ok x \<longleftrightarrow> r = Inr x"
  by (simp add: bs58_to_didcomm_def result_simps)

lemma bs58_to_didcomm_not_Panic [simp]: "bs58_to_didcomm m r \<noteq> Panic"
  by (simp add: bs58_to_didcomm_def result_simps)

lemma kind_err_msg [simp]: "kind_of (err_msg k m) = k"
  by (simp add: err_msg_def)

lemma err_msg_inject [simp]: "err_msg k m = err_msg k' m' \<longleftrightarrow> k = k' \<and> m = m'"
  by (simp add: err_msg_def)

text \<open>A context never changes the kind the caller matches on.\<close>

lemma context_msg_kind:
  "context_msg m r = Err e \<Longrightarrow> \<exists>e'. r = Err e' \<and> kind_of e = kind_of e'"
  by (auto simp: result_simps)

end
