(* ===== verification/Did.thy ===== *)
theory Did
  imports Errors
begin

text \<open>
  DIDs and DID URLs as the DIDComm crate reads them, and the multicodec prefix of a multibase
  key (\<open>affinidi-messaging-didcomm/src/document.rs\<close>). The \<open>varint\<close> crate is a parameter: its
  reader and its writer of an unsigned 32-bit varint.
\<close>

subsection \<open>DID or DID URL\<close>

definition did_or_url :: "string \<Rightarrow> string \<times> string option" where
  "did_or_url s =
     (case split_once CHR ''#'' s of
        Some (did, _) \<Rightarrow> (did, Some s)
      | None \<Rightarrow> (s, None))"

definition is_did :: "string \<Rightarrow> bool" where
  "is_did did = (let parts = split_on CHR '':'' did in 3 \<le> length parts \<and> hd parts = ''did'')"

text \<open>A key id names a key of a DID: the DID, a hash sign, a fragment.\<close>

abbreviation did_of :: "string \<Rightarrow> string" where
  "did_of s \<equiv> fst (did_or_url s)"

abbreviation is_did_url :: "string \<Rightarrow> bool" where
  "is_did_url s \<equiv> snd (did_or_url s) \<noteq> None"

lemma is_did_url_iff: "is_did_url s \<longleftrightarrow> CHR ''#'' \<in> set s"
  using split_once_None_iff[of "CHR ''#''" s]
  by (auto simp: did_or_url_def split: option.splits)

lemma did_or_url_plain [simp]: "CHR ''#'' \<notin> set s \<Longrightarrow> did_or_url s = (s, None)"
  by (simp add: did_or_url_def split_once_None_iff[THEN iffD2])

lemma did_or_url_url [simp]:
  "CHR ''#'' \<notin> set d \<Longrightarrow> did_or_url (d @ CHR ''#'' # f) = (d, Some (d @ CHR ''#'' # f))"
  by (simp add: did_or_url_def split_once_append)

lemma did_or_url_Some: "did_or_url s = (d, Some u) \<Longrightarrow> u = s \<and> (\<exists>f. s = d @ CHR ''#'' # f)"
  by (auto simp: did_or_url_def split: option.splits dest: split_once_Some)

lemma did_or_url_None: "did_or_url s = (d, None) \<Longrightarrow> d = s"
  by (auto simp: did_or_url_def split: option.splits)

lemma did_of_no_hash: "CHR ''#'' \<notin> set (did_of s)"
  using split_once_None_iff[of "CHR ''#''" s]
  by (auto simp: did_or_url_def split: option.splits dest: split_once_Some)

lemma did_of_did_of [simp]: "did_or_url (did_of s) = (did_of s, None)"
  by (simp add: did_of_no_hash)

lemma is_did_shape:
  assumes "CHR '':'' \<notin> set m"
  shows "is_did (''did:'' @ m @ CHR '':'' # i)"
proof -
  have "split_on CHR '':'' (''did'' @ CHR '':'' # (m @ CHR '':'' # i)) =
      ''did'' # m # split_on CHR '':'' i"
    using assms by (simp add: split_on_append)
  then show ?thesis
    by (cases "split_on CHR '':'' i") (simp_all add: is_did_def Let_def)
qed

text \<open>
  \<open>is_did\<close> accepts exactly the strings that start with \<open>did:\<close>, a method without a colon, and
  another colon; in particular a DID URL passes the test of its DID.
\<close>

lemma is_did_iff:
  "is_did s \<longleftrightarrow> (\<exists>m i. s = ''did:'' @ m @ CHR '':'' # i \<and> CHR '':'' \<notin> set m)"
proof
  assume *: "is_did s"
  obtain a b c where sp: "split_on CHR '':'' s = a # b # c" and a: "a = ''did''" and "c \<noteq> []"
    using * unfolding is_did_def Let_def
    by (cases "split_on CHR '':'' s"; cases "tl (split_on CHR '':'' s)";
        cases "tl (tl (split_on CHR '':'' s))") auto
  then obtain c1 cs where c: "c = c1 # cs" by (cases c) auto
  have s: "s = ''did:'' @ b @ CHR '':'' # join '':'' c"
    using join_split_on[of "CHR '':''" s] sp a c by simp
  have nb: "CHR '':'' \<notin> set b"
  proof
    assume "CHR '':'' \<in> set b"
    then obtain u v where b: "b = u @ CHR '':'' # v" and "CHR '':'' \<notin> set u"
      by (meson split_list_first)
    then have "split_on CHR '':'' s = ''did'' # u # split_on CHR '':'' (v @ CHR '':'' # join '':'' c)"
      using s by (simp add: split_on_append)
    then have "b = u" using sp by simp
    with b show False by simp
  qed
  from s nb show "\<exists>m i. s = ''did:'' @ m @ CHR '':'' # i \<and> CHR '':'' \<notin> set m" by blast
next
  assume "\<exists>m i. s = ''did:'' @ m @ CHR '':'' # i \<and> CHR '':'' \<notin> set m"
  then show "is_did s" using is_did_shape by blast
qed

subsection \<open>Multicodec prefixes\<close>

datatype codec = X25519Pub | Ed25519Pub | X25519Priv | Ed25519Priv

definition codec_by_prefix :: "32 word \<Rightarrow> (codec, error) result" where
  "codec_by_prefix v =
     (if v = 0xEC then Ok X25519Pub
      else if v = 0xED then Ok Ed25519Pub
      else if v = 0x1302 then Ok X25519Priv
      else if v = 0x1300 then Ok Ed25519Priv
      else Err (err_msg IllegalArgument ''Unsupported prefix''))"

record varint_ext =
  read_varint :: "bytes \<Rightarrow> string + 32 word"
  write_varint :: "32 word \<Rightarrow> string + bytes"

text \<open>\<open>split_at\<close> panics where the index is beyond the end.\<close>

definition split_at :: "nat \<Rightarrow> 'a list \<Rightarrow> ('a list \<times> 'a list, 'e) result" where
  "split_at n xs = (if n \<le> length xs then Ok (take n xs, drop n xs) else Panic)"

definition from_multicodec :: "'z varint_ext_scheme \<Rightarrow> bytes \<Rightarrow> (codec \<times> bytes, error) result" where
  "from_multicodec X value =
     and_then (with_kind InvalidState ''Cannot read varint'' (read_varint X value)) (\<lambda>prefix_int.
     and_then (codec_by_prefix prefix_int) (\<lambda>codec.
     and_then (with_kind InvalidState ''Cannot write varint'' (write_varint X prefix_int)) (\<lambda>prefix.
     and_then (split_at (length prefix) value) (\<lambda>(_, rest).
     Ok (codec, rest)))))"

lemma split_at_Ok_iff [result_simps]:
  "split_at n xs = Ok p \<longleftrightarrow> n \<le> length xs \<and> p = (take n xs, drop n xs)"
  by (auto simp: split_at_def)

lemma split_at_Panic_iff [result_simps]: "split_at n xs = Panic \<longleftrightarrow> length xs < n"
  by (auto simp: split_at_def)

text \<open>
  What a multicodec value is: the varint of a known prefix, then the key. Where the reader
  recovers what the writer wrote, the key comes back whole.
\<close>

lemma from_multicodec_append:
  assumes "write_varint X v = Inr p" and "read_varint X (p @ key) = Inr v"
    and "codec_by_prefix v = Ok c"
  shows "from_multicodec X (p @ key) = Ok (c, key)"
  using assms by (simp add: from_multicodec_def with_kind_def split_at_def)

end
