(* ===== verification/Keys.thy ===== *)
theory Keys
  imports Did Json
begin

text \<open>
  Key material and DID documents: the secrets of \<open>secrets/mod.rs\<close>, the key algorithms and
  key pairs of \<open>utils/crypto.rs\<close>, the JWK traits of \<open>jwk.rs\<close>, and the extension traits of
  \<open>document.rs\<close> that find the key pair of a verification method or of a secret. The key type
  \<open>'k\<close> stands for the four key pair types of \<open>askar_crypto\<close>; where the source picks one of them
  by a type argument, the model passes its \<open>known_key_alg\<close>. The libraries (\<open>askar_crypto\<close>, \<open>ssi\<close>,
  \<open>bs58\<close>, \<open>base64\<close>, \<open>serde_json\<close>, the DID resolver) are the fields of the record \<open>key_ext\<close>.
\<close>

subsection \<open>Data\<close>

datatype known_key_alg = Ed25519 | X25519 | P256 | K256 | UnsupportedAlg

datatype 'k known_key_pair = KpEd25519 'k | KpX25519 'k | KpP256 'k | KpK256 'k

text \<open>The algorithm a key pair belongs to.\<close>

fun pair_alg :: "'k known_key_pair \<Rightarrow> known_key_alg" where
  "pair_alg (KpEd25519 _) = Ed25519"
| "pair_alg (KpX25519 _) = X25519"
| "pair_alg (KpP256 _) = P256"
| "pair_alg (KpK256 _) = K256"

fun pair_key :: "'k known_key_pair \<Rightarrow> 'k" where
  "pair_key (KpEd25519 k) = k"
| "pair_key (KpX25519 k) = k"
| "pair_key (KpP256 k) = k"
| "pair_key (KpK256 k) = k"

datatype secret_type =
    JsonWebKey2020
  | X25519KeyAgreementKey2019
  | X25519KeyAgreementKey2020
  | Ed25519VerificationKey2018
  | Ed25519VerificationKey2020
  | EcdsaSecp256k1VerificationKey2019
  | OtherSecretType

datatype secret_material = MatJWK json | MatMultibase string | MatBase58 string

record secret =
  secret_id :: string
  secret_type_of :: secret_type
  secret_material_of :: secret_material

text \<open>\<open>ssi::jwk::Params\<close>, with the coordinates as the strings they serialise to.\<close>

datatype jwk_params =
    ParamsEC "string option" "string option" "string option"
  | ParamsRSA
  | ParamsSymmetric
  | ParamsOKP string string

record jwk =
  jwk_params_of :: jwk_params

text \<open>
  The parts of a DID document the source reads. The verification relationships hold references,
  which the source resolves against the document's own DID.
\<close>

record vm =
  vm_id :: string
  vm_type :: string
  vm_properties :: "(string \<times> json) list"

datatype endpoint = EndpointUri string | EndpointMap "(string \<times> json) list"

record service =
  service_id :: string
  service_types :: "string list"
  service_endpoint :: "endpoint list option"

record document =
  doc_id :: string
  verification_method :: "vm list"
  authentication_refs :: "string list"
  key_agreement_refs :: "string list"
  doc_services :: "service list"

record 'k key_ext = varint_ext +
  b64_encode :: "bytes \<Rightarrow> string"
  b64_decode :: "string \<Rightarrow> string + bytes"
  bs58_decode :: "string \<Rightarrow> bs58_error + bytes"
  ser_value :: "json \<Rightarrow> serde_error + string"
  de_value :: "string \<Rightarrow> serde_error + json"
  multibase_decode :: "string \<Rightarrow> string + bytes"
  multi_encoded_new :: "bytes \<Rightarrow> string + bytes"
  jwk_from_multicodec :: "bytes \<Rightarrow> string + jwk"
  jwk_from_value :: "json \<Rightarrow> serde_error + jwk"
  from_jwk :: "known_key_alg \<Rightarrow> string \<Rightarrow> string + 'k"
  to_jwk_public :: "'k \<Rightarrow> string + string"
  from_secret_bytes :: "known_key_alg \<Rightarrow> bytes \<Rightarrow> string + 'k"
  public_bytes :: "'k \<Rightarrow> bytes"
  secret_bytes :: "'k \<Rightarrow> bytes option"
  did_resolve :: "string \<Rightarrow> string + document"
  resolve_ref :: "string \<Rightarrow> string \<Rightarrow> string"
  contains_key_agreement :: "document \<Rightarrow> string \<Rightarrow> bool"
  contains_authentication :: "document \<Rightarrow> string \<Rightarrow> bool"
  find_key_agreement :: "document \<Rightarrow> string option \<Rightarrow> string list"
  get_verification_method :: "document \<Rightarrow> string \<Rightarrow> vm option"
  doc_service :: "document \<Rightarrow> string \<Rightarrow> service option"

subsection \<open>JWK values\<close>

definition from_jwk_value ::
  "('k, 'z) key_ext_scheme \<Rightarrow> known_key_alg \<Rightarrow> json \<Rightarrow> ('k, error) result" where
  "from_jwk_value X alg v =
     and_then (with_kind InvalidState ''Unable produce jwk string'' (serde_text (ser_value X v)))
       (\<lambda>jwk. with_message Malformed ''Unable produce jwk'' (from_jwk X alg jwk))"

definition to_jwk_public_value ::
  "('k, 'z) key_ext_scheme \<Rightarrow> 'k \<Rightarrow> (json, error) result" where
  "to_jwk_public_value X k =
     and_then (with_message Malformed ''Unable produce jwk string'' (to_jwk_public X k))
       (\<lambda>jwk. with_kind InvalidState ''Unable produce jwk value'' (serde_text (de_value X jwk)))"

subsection \<open>Verification methods\<close>

text \<open>
  \<open>get_jwk\<close> of a verification method. A \<open>JsonWebKey2020\<close> method without a readable
  \<open>publicKeyJwk\<close> hits an \<open>unwrap\<close>.
\<close>

definition get_jwk :: "('k, 'z) key_ext_scheme \<Rightarrow> vm \<Rightarrow> (jwk option, error) result" where
  "get_jwk X vm =
     (if vm_type vm = ''Multikey'' then
        (case map_of (vm_properties vm) ''publicKeyMultibase'' of
           None \<Rightarrow> Ok None
         | Some v \<Rightarrow>
             (case as_str v of
                None \<Rightarrow> Ok None
              | Some key \<Rightarrow>
                  (case multibase_decode X key of
                     Inl _ \<Rightarrow> Ok None
                   | Inr decoded \<Rightarrow>
                       (case multi_encoded_new X decoded of
                          Inl _ \<Rightarrow> Ok None
                        | Inr m \<Rightarrow>
                            (case jwk_from_multicodec X m of
                               Inr jwk \<Rightarrow> Ok (Some jwk)
                             | Inl _ \<Rightarrow> Ok None)))))
      else if vm_type vm = ''JsonWebKey2020'' then
        (case map_of (vm_properties vm) ''publicKeyJwk'' of
           None \<Rightarrow> Panic
         | Some v \<Rightarrow> (case jwk_from_value X v of Inl _ \<Rightarrow> Panic | Inr jwk \<Rightarrow> Ok (Some jwk)))
      else Ok None)"

definition or_empty :: "string option \<Rightarrow> string" where
  "or_empty s = (case s of None \<Rightarrow> '''' | Some t \<Rightarrow> t)"

definition key_alg :: "jwk \<Rightarrow> known_key_alg" where
  "key_alg j =
     (case jwk_params_of j of
        ParamsEC crv _ _ \<Rightarrow>
          (if or_empty crv = ''P-256'' then P256
           else if or_empty crv = ''secp256k1'' then K256
           else UnsupportedAlg)
      | ParamsOKP crv _ \<Rightarrow>
          (if crv = ''Ed25519'' then Ed25519
           else if crv = ''X25519'' then X25519
           else UnsupportedAlg)
      | _ \<Rightarrow> UnsupportedAlg)"

definition json_opt :: "string option \<Rightarrow> json" where
  "json_opt s = (case s of None \<Rightarrow> JNull | Some t \<Rightarrow> JString t)"

text \<open>One parse of a JWK into the key pair of the given algorithm.\<close>

definition parse_pair ::
  "('k, 'z) key_ext_scheme \<Rightarrow> string \<Rightarrow> known_key_alg \<Rightarrow> ('k \<Rightarrow> 'k known_key_pair) \<Rightarrow> json
     \<Rightarrow> ('k known_key_pair, error) result" where
  "parse_pair X m alg mk v =
     and_then (rekind Malformed m (from_jwk_value X alg v)) (\<lambda>k. Ok (mk k))"

definition as_key_pair ::
  "('k, 'z) key_ext_scheme \<Rightarrow> jwk \<Rightarrow> ('k known_key_pair, error) result" where
  "as_key_pair X j =
     (case jwk_params_of j of
        ParamsEC crv x y \<Rightarrow>
          (let v = JObject [(''kty'', JString ''EC''), (''crv'', json_opt crv),
                            (''x'', json_opt x), (''y'', json_opt y)]
           in if or_empty crv = ''P-256'' then parse_pair X ''Unable parse jwk'' P256 KpP256 v
              else if or_empty crv = ''secp256k1'' then
                parse_pair X ''Unable parse jwk'' K256 KpK256 v
              else Err (err_msg Unsupported ''Unsupported key type or curve''))
      | ParamsOKP crv x \<Rightarrow>
          (let v = JObject [(''kty'', JString ''OKP''), (''crv'', JString crv),
                            (''x'', JString x)]
           in if crv = ''Ed25519'' then parse_pair X ''Unable parse jwk'' Ed25519 KpEd25519 v
              else if crv = ''X25519'' then parse_pair X ''Unable parse jwk'' X25519 KpX25519 v
              else Err (err_msg Unsupported ''Unsupported key type or curve''))
      | ParamsRSA \<Rightarrow> Err (err_msg Unsupported ''Unsupported key type or curve (RSA)'')
      | ParamsSymmetric \<Rightarrow>
          Err (err_msg Unsupported ''Unsupported key type or curve (Symmetric)''))"

text \<open>
  \<open>as_ed25519\<close>, \<open>as_x25519\<close>, \<open>as_p256\<close> and \<open>as_k256\<close> of a verification method differ in the
  algorithm they ask for, which is the argument \<open>alg\<close> here.
\<close>

definition as_alg ::
  "('k, 'z) key_ext_scheme \<Rightarrow> known_key_alg \<Rightarrow> jwk \<Rightarrow> ('k, error) result" where
  "as_alg X alg j =
     and_then (ensure (key_alg j = alg) (err_msg InvalidState ''Unexpected key alg'')) (\<lambda>_.
     and_then (as_key_pair X j) (\<lambda>kp.
       if pair_alg kp = alg then Ok (pair_key kp)
       else Err (err_msg InvalidState ''Unexpected key pair type'')))"

lemma parse_pair_Ok_iff [result_simps]:
  "parse_pair X m alg mk v = Ok kp \<longleftrightarrow> (\<exists>k. from_jwk_value X alg v = Ok k \<and> kp = mk k)"
  by (auto simp: parse_pair_def result_simps)

text \<open>A key pair has the algorithm that was announced for it.\<close>

lemma as_key_pair_alg: "as_key_pair X j = Ok kp \<Longrightarrow> pair_alg kp = key_alg j"
  by (auto simp: as_key_pair_def key_alg_def Let_def result_simps split: jwk_params.splits if_splits)

lemma as_alg_Ok_iff:
  "as_alg X alg j = Ok k \<longleftrightarrow>
     key_alg j = alg \<and> (\<exists>kp. as_key_pair X j = Ok kp \<and> k = pair_key kp)"
  by (auto simp: as_alg_def result_simps dest: as_key_pair_alg split: if_splits)

lemma from_jwk_value_not_Panic [simp]: "from_jwk_value X alg v \<noteq> Panic"
  by (auto simp: from_jwk_value_def result_simps)

lemma as_key_pair_not_Panic [simp]: "as_key_pair X j \<noteq> Panic"
  by (auto simp: as_key_pair_def parse_pair_def Let_def result_simps split: jwk_params.splits)

lemma as_alg_not_Panic [simp]: "as_alg X alg j \<noteq> Panic"
  by (auto simp: as_alg_def result_simps)

end
