(* ===== verification/Secrets.thy ===== *)
theory Secrets
  imports Keys
begin

text \<open>
  Secrets: the key pair of a secret (\<open>AsKnownKeyPairSecret\<close> of \<open>document.rs\<close> and
  \<open>utils/crypto.rs\<close>), the trait \<open>SecretsResolver\<close> (\<open>secrets/mod.rs\<close>) as a record of its two
  operations and as a locale with the contract its users rely on, and the resolvers of the
  repository, which keep a list of known secrets.
\<close>

subsection \<open>The key pair of a secret\<close>

text \<open>The pair of \<open>kty\<close> and \<open>crv\<close> of a private JWK.\<close>

definition jwk_value_alg :: "json \<Rightarrow> known_key_alg" where
  "jwk_value_alg v =
     (case (as_str (json_index v ''kty''), as_str (json_index v ''crv'')) of
        (Some kty, Some crv) \<Rightarrow>
          (if kty = ''EC'' \<and> crv = ''P-256'' then P256
           else if kty = ''EC'' \<and> crv = ''secp256k1'' then K256
           else if kty = ''OKP'' \<and> crv = ''Ed25519'' then Ed25519
           else if kty = ''OKP'' \<and> crv = ''X25519'' then X25519
           else UnsupportedAlg)
      | _ \<Rightarrow> UnsupportedAlg)"

fun secret_key_alg_of :: "secret_type \<Rightarrow> secret_material \<Rightarrow> known_key_alg" where
  "secret_key_alg_of JsonWebKey2020 (MatJWK v) = jwk_value_alg v"
| "secret_key_alg_of X25519KeyAgreementKey2019 (MatBase58 _) = X25519"
| "secret_key_alg_of Ed25519VerificationKey2018 (MatBase58 _) = Ed25519"
| "secret_key_alg_of X25519KeyAgreementKey2020 (MatMultibase _) = X25519"
| "secret_key_alg_of Ed25519VerificationKey2020 (MatMultibase _) = Ed25519"
| "secret_key_alg_of _ _ = UnsupportedAlg"

definition secret_key_alg :: "secret \<Rightarrow> known_key_alg" where
  "secret_key_alg s = secret_key_alg_of (secret_type_of s) (secret_material_of s)"

text \<open>
  An X25519 private key in bytes: rebuilt as a JWK with its public part and parsed again.
\<close>

definition x25519_from_bytes ::
  "('k, 'z) key_ext_scheme \<Rightarrow> string \<Rightarrow> bytes \<Rightarrow> ('k known_key_pair, error) result" where
  "x25519_from_bytes X m b =
     and_then (with_message Malformed ''Unable parse x25519 secret material''
                 (from_secret_bytes X X25519 b)) (\<lambda>key_pair.
     let jwk = JObject ([(''kty'', JString ''OKP''), (''crv'', JString ''X25519''),
                         (''x'', JString (b64_encode X (public_bytes X key_pair)))] @
                        (case secret_bytes X key_pair of
                           Some sk \<Rightarrow> [(''d'', JString (b64_encode X sk))]
                         | None \<Rightarrow> []))
     in parse_pair X m X25519 KpX25519 jwk)"

text \<open>An Ed25519 private key in bytes: the first 32 are \<open>d\<close>, the rest is \<open>x\<close>.\<close>

definition ed25519_from_bytes ::
  "('k, 'z) key_ext_scheme \<Rightarrow> string \<Rightarrow> bytes \<Rightarrow> ('k known_key_pair, error) result" where
  "ed25519_from_bytes X m b =
     and_then (split_at 32 b) (\<lambda>(d_value, x_value).
       parse_pair X m Ed25519 KpEd25519
         (JObject [(''kty'', JString ''OKP''), (''crv'', JString ''Ed25519''),
                   (''x'', JString (b64_encode X x_value)),
                   (''d'', JString (b64_encode X d_value))]))"

text \<open>The key bytes of a multibase secret, which must be base58 and carry the given codec.\<close>

definition multibase_secret ::
  "('k, 'z) key_ext_scheme \<Rightarrow> codec \<Rightarrow> string \<Rightarrow> (bytes, error) result" where
  "multibase_secret X c value =
     and_then (ensure (value \<noteq> [] \<and> hd value = CHR ''z'')
                 (err_msg IllegalArgument (''Multibase must start with '' @ [CHR 0x27, CHR ''z'', CHR 0x27]))) (\<lambda>_.
     and_then (bs58_to_didcomm ''Wrong multibase value in secret material''
                 (bs58_decode X (drop 1 value))) (\<lambda>decoded.
     and_then (from_multicodec X decoded) (\<lambda>(codec, decoded_value).
     and_then (ensure (codec = c)
                 (err_msg IllegalArgument ''Wrong codec in multibase secret material'')) (\<lambda>_.
     Ok decoded_value))))"

fun secret_pair_of ::
  "('k, 'z) key_ext_scheme \<Rightarrow> secret_type \<Rightarrow> secret_material \<Rightarrow> ('k known_key_pair, error) result" where
  "secret_pair_of X JsonWebKey2020 (MatJWK v) =
     (case jwk_value_alg v of
        P256 \<Rightarrow> parse_pair X ''Unable parse jwk'' P256 KpP256 v
      | K256 \<Rightarrow> parse_pair X ''Unable parse jwk'' K256 KpK256 v
      | Ed25519 \<Rightarrow> parse_pair X ''Unable parse jwk'' Ed25519 KpEd25519 v
      | X25519 \<Rightarrow> parse_pair X ''Unable parse jwk'' X25519 KpX25519 v
      | UnsupportedAlg \<Rightarrow> Err (err_msg Unsupported ''Unsupported key type or curve''))"
| "secret_pair_of X X25519KeyAgreementKey2019 (MatBase58 value) =
     and_then (bs58_to_didcomm ''Wrong base58 value in secret material'' (bs58_decode X value))
       (x25519_from_bytes X ''Unable parse base58 secret material'')"
| "secret_pair_of X Ed25519VerificationKey2018 (MatBase58 value) =
     and_then (bs58_to_didcomm ''Wrong base58 value in secret material'' (bs58_decode X value))
       (ed25519_from_bytes X ''Unable parse base58 secret material'')"
| "secret_pair_of X X25519KeyAgreementKey2020 (MatMultibase value) =
     and_then (multibase_secret X X25519Priv value)
       (x25519_from_bytes X ''Unable parse multibase secret material'')"
| "secret_pair_of X Ed25519VerificationKey2020 (MatMultibase value) =
     and_then (multibase_secret X Ed25519Priv value)
       (ed25519_from_bytes X ''Unable parse multibase secret material'')"
| "secret_pair_of X _ _ =
     Err (err_msg Unsupported ''Unsupported secret method type and material combination'')"

definition secret_as_key_pair ::
  "('k, 'z) key_ext_scheme \<Rightarrow> secret \<Rightarrow> ('k known_key_pair, error) result" where
  "secret_as_key_pair X s = secret_pair_of X (secret_type_of s) (secret_material_of s)"

definition secret_as_alg ::
  "('k, 'z) key_ext_scheme \<Rightarrow> known_key_alg \<Rightarrow> secret \<Rightarrow> ('k, error) result" where
  "secret_as_alg X alg s =
     and_then (ensure (secret_key_alg s = alg) (err_msg InvalidState ''Unexpected key alg'')) (\<lambda>_.
     and_then (secret_as_key_pair X s) (\<lambda>kp.
       if pair_alg kp = alg then Ok (pair_key kp)
       else Err (err_msg InvalidState ''Unexpected key pair type'')))"

lemma x25519_from_bytes_alg: "x25519_from_bytes X m b = Ok kp \<Longrightarrow> pair_alg kp = X25519"
  by (auto simp: x25519_from_bytes_def Let_def result_simps)

lemma ed25519_from_bytes_alg: "ed25519_from_bytes X m b = Ok kp \<Longrightarrow> pair_alg kp = Ed25519"
  by (auto simp: ed25519_from_bytes_def result_simps)

text \<open>
  The algorithm a secret announces is the algorithm of the key pair it gives, so the
  second test of \<open>as_x25519\<close> and its siblings never fails.
\<close>

lemma secret_pair_alg:
  "secret_pair_of X t m = Ok kp \<Longrightarrow> pair_alg kp = secret_key_alg_of t m"
  by (induction X t m rule: secret_pair_of.induct)
     (auto simp: result_simps dest: x25519_from_bytes_alg ed25519_from_bytes_alg
           split: known_key_alg.splits)

lemma secret_as_alg_Ok_iff:
  "secret_as_alg X alg s = Ok k \<longleftrightarrow>
     secret_key_alg s = alg \<and> (\<exists>kp. secret_as_key_pair X s = Ok kp \<and> k = pair_key kp)"
  by (auto simp: secret_as_alg_def secret_as_key_pair_def secret_key_alg_def result_simps
           dest: secret_pair_alg split: if_splits)

subsection \<open>The interface\<close>

record secrets_resolver =
  get_secret :: "string \<Rightarrow> (secret option, error) result"
  find_secrets :: "string list \<Rightarrow> (string list, error) result"

text \<open>
  The contract of the trait's comments: \<open>get_secret\<close> gives a secret of the id asked for, or
  nothing; \<open>find_secrets\<close> keeps, in their order, the ids a secret is present for.
\<close>

locale secrets_contract =
  fixes SR :: secrets_resolver
  assumes get_id: "get_secret SR i = Ok (Some s) \<Longrightarrow> secret_id s = i"
    and find_present:
      "find_secrets SR ids = Ok found \<Longrightarrow>
         found = filter (\<lambda>i. \<exists>s. get_secret SR i = Ok (Some s)) ids"
begin

lemma found_subset: "find_secrets SR ids = Ok found \<Longrightarrow> set found \<subseteq> set ids"
  by (auto dest: find_present)

lemma found_present:
  "find_secrets SR ids = Ok found \<Longrightarrow> i \<in> set found \<Longrightarrow> \<exists>s. get_secret SR i = Ok (Some s)"
  by (auto dest: find_present)

text \<open>
  The error of the callers "secret not found after existence checking" is dead code for a
  resolver that keeps the contract.
\<close>

lemma found_never_missing:
  assumes "find_secrets SR ids = Ok found" and "i \<in> set found"
  shows "and_then (get_secret SR i) (ok_or e) = Ok (the (case get_secret SR i of Ok so \<Rightarrow> so))"
  using found_present[OF assms] by auto

lemma find_idem:
  assumes "find_secrets SR ids = Ok found" and "find_secrets SR found = Ok found'"
  shows "found' = found"
proof -
  let ?p = "\<lambda>i. \<exists>s. get_secret SR i = Ok (Some s)"
  have "found = filter ?p ids" and "found' = filter ?p found"
    using assms by (auto dest: find_present)
  then show ?thesis by simp
qed

end

subsection \<open>Resolvers over a list of secrets\<close>

text \<open>\<open>AffinidiSecrets\<close> of the mediator and \<open>ExampleSecretsResolver\<close> of the DIDComm crate.\<close>

definition known_get :: "secret list \<Rightarrow> string \<Rightarrow> (secret option, error) result" where
  "known_get known i = Ok (find (\<lambda>s. secret_id s = i) known)"

definition known_find :: "secret list \<Rightarrow> string list \<Rightarrow> (string list, error) result" where
  "known_find known ids = Ok (filter (\<lambda>sid. \<exists>s \<in> set known. secret_id s = sid) ids)"

definition known_secrets :: "secret list \<Rightarrow> secrets_resolver" where
  "known_secrets known = \<lparr>get_secret = known_get known, find_secrets = known_find known\<rparr>"

lemma find_secret_Some_iff:
  "(\<exists>s. find (\<lambda>s. secret_id s = i) known = Some s) \<longleftrightarrow> (\<exists>s \<in> set known. secret_id s = i)"
  by (induction known) auto

interpretation known: secrets_contract "known_secrets ks"
proof
  show "secret_id s = i" if "get_secret (known_secrets ks) i = Ok (Some s)" for i s
    using that by (auto simp: known_secrets_def known_get_def find_Some_iff)
  show "found = filter (\<lambda>i. \<exists>s. get_secret (known_secrets ks) i = Ok (Some s)) ids"
    if "find_secrets (known_secrets ks) ids = Ok found" for ids found
    using that
    by (auto simp: known_secrets_def known_get_def known_find_def find_secret_Some_iff
             intro!: filter_cong)
qed

text \<open>
  for the wallets of the repository, every id \<open>find_secrets\<close> reports has a secret of that id,
  so the error \<open>secret not found after existence checking\<close> of its callers cannot happen.
\<close>

theorem known_secret_found:
  assumes "find_secrets (known_secrets ks) ids = Ok found" and "i \<in> set found"
  shows "i \<in> set ids \<and> (\<exists>s. get_secret (known_secrets ks) i = Ok (Some s) \<and> secret_id s = i)"
proof -
  obtain s where "get_secret (known_secrets ks) i = Ok (Some s)"
    using known.found_present[OF assms] by blast
  with known.get_id known.found_subset[OF assms(1)] assms(2) show ?thesis by blast
qed

definition one_secret :: secret where
  "one_secret = \<lparr>secret_id = ''did:ex:a#1'', secret_type_of = JsonWebKey2020,
                secret_material_of = MatJWK JNull\<rparr>"

lemma known_secret_found_witness:
  "''did:ex:a#1'' \<in> set [''did:ex:b#1'', ''did:ex:a#1''] \<and>
   (\<exists>s. get_secret (known_secrets [one_secret]) ''did:ex:a#1'' = Ok (Some s) \<and> secret_id s = ''did:ex:a#1'')"
  by (rule known_secret_found[where found = "[''did:ex:a#1'']"])
     (simp_all add: known_secrets_def known_find_def one_secret_def)

end
