(* ===== verification/Jwe.thy ===== *)
theory Jwe
  imports Secrets
begin

text \<open>
  JSON Web Encryption: the envelope (\<open>jwe/envelope.rs\<close>), key derivation and key wrapping
  (\<open>utils/crypto.rs\<close>), encryption (\<open>jwe/encrypt.rs\<close>), parsing and the DIDComm checks
  (\<open>jwe/parse.rs\<close>) and decryption (\<open>jwe/decrypt.rs\<close>). The type arguments of the source's generic
  functions are value arguments: the content cipher \<open>CE\<close> is a \<open>content_alg\<close>, the derivation
  \<open>KDF\<close> a \<open>kdf\<close>, the key type \<open>KE\<close> a \<open>known_key_alg\<close>; \<open>KW\<close> is always \<open>AesKey<A256Kw>\<close>. What a
  call draws at random (content key, ephemeral key, nonce) is an argument of type \<open>draws\<close>.
\<close>

subsection \<open>The envelope\<close>

datatype jwe_algorithm = Ecdh1puA256kw | EcdhEsA256kw | OtherAlgorithm string

fun alg_as_str :: "jwe_algorithm \<Rightarrow> string" where
  "alg_as_str Ecdh1puA256kw = ''ECDH-1PU+A256KW''"
| "alg_as_str EcdhEsA256kw = ''ECDH-ES+A256KW''"
| "alg_as_str (OtherAlgorithm s) = s"

datatype enc_algorithm = A256cbcHs512 | Xc20P | A256Gcm | OtherEnc string

record recipient =
  rec_kid :: string
  rec_encrypted_key :: string

record jwe =
  jwe_protected :: string
  jwe_recipients :: "recipient list"
  jwe_iv :: string
  jwe_ciphertext :: string
  jwe_tag :: string

record protected_header =
  ph_typ :: "string option"
  ph_alg :: jwe_algorithm
  ph_enc :: enc_algorithm
  ph_skid :: "string option"
  ph_apu :: "string option"
  ph_apv :: string
  ph_epk :: json

record parsed_jwe =
  pj_jwe :: jwe
  pj_protected :: protected_header
  pj_apu :: "bytes option"
  pj_apv :: bytes
  pj_to_kids :: "string list"

datatype content_alg = CeA256CbcHs512 | CeXc20P | CeA256Gcm

datatype kdf = KdfEcdhEs | KdfEcdh1PU

record ('k, 'c, 'w) jwe_ext = "'k key_ext" +
  sha256 :: "bytes \<Rightarrow> bytes"
  ser_jwe_header :: "protected_header \<Rightarrow> serde_error + string"
  de_jwe_header :: "bytes \<Rightarrow> serde_error + protected_header"
  ser_jwe :: "jwe \<Rightarrow> serde_error + string"
  de_jwe :: "string \<Rightarrow> serde_error + jwe"
  derive_es :: "known_key_alg \<Rightarrow> 'k \<Rightarrow> 'k \<Rightarrow> bytes \<Rightarrow> bytes \<Rightarrow> bytes \<Rightarrow> bool \<Rightarrow> string + 'w"
  derive_1pu :: "known_key_alg \<Rightarrow> 'k \<Rightarrow> 'k \<Rightarrow> 'k \<Rightarrow> bytes \<Rightarrow> bytes \<Rightarrow> bytes \<Rightarrow> bytes \<Rightarrow> bool
                   \<Rightarrow> string + 'w"
  cek_length :: "'c \<Rightarrow> string + nat"
  cek_write :: "'c \<Rightarrow> string + bytes"
  cek_from_bytes :: "content_alg \<Rightarrow> bytes \<Rightarrow> string + 'c"
  ce_encrypt :: "content_alg \<Rightarrow> 'c \<Rightarrow> bytes \<Rightarrow> bytes \<Rightarrow> bytes \<Rightarrow> string + (bytes \<times> nat)"
  ce_decrypt :: "content_alg \<Rightarrow> 'c \<Rightarrow> bytes \<Rightarrow> bytes \<Rightarrow> bytes \<Rightarrow> string + bytes"
  kw_encrypt :: "'w \<Rightarrow> bytes \<Rightarrow> string + bytes"
  kw_decrypt :: "'w \<Rightarrow> bytes \<Rightarrow> string + bytes"

record ('k, 'c) draws =
  draw_cek :: "content_alg \<Rightarrow> string + 'c"
  draw_epk :: "known_key_alg \<Rightarrow> string + 'k"
  draw_nonce :: "content_alg \<Rightarrow> bytes"
  draw_uuid :: string

subsection \<open>Key derivation and key wrapping\<close>

definition derive_key ::
  "('k, 'c, 'w, 'z) jwe_ext_scheme \<Rightarrow> kdf \<Rightarrow> known_key_alg \<Rightarrow> 'k \<Rightarrow> 'k option \<Rightarrow> 'k
     \<Rightarrow> bytes \<Rightarrow> bytes \<Rightarrow> bytes \<Rightarrow> bytes \<Rightarrow> bool \<Rightarrow> ('w, error) result" where
  "derive_key X d ke ephem_key send_key recip_key alg apu apv cc_tag receive =
     (case d of
        KdfEcdh1PU \<Rightarrow>
          and_then (ok_or (err_msg InvalidState ''No sender key for ecdh-1pu'') send_key)
            (\<lambda>sk. with_message InvalidState ''Unable derive kw''
                    (derive_1pu X ke ephem_key sk recip_key alg apu apv cc_tag receive))
      | KdfEcdhEs \<Rightarrow>
          with_message InvalidState ''Unable derive kw''
            (derive_es X ke ephem_key recip_key alg apu apv receive))"

definition wrap_key :: "('k, 'c, 'w, 'z) jwe_ext_scheme \<Rightarrow> 'w \<Rightarrow> 'c \<Rightarrow> (bytes, error) result" where
  "wrap_key X kw cek =
     and_then (with_message InvalidState ''Unable get key len'' (cek_length X cek)) (\<lambda>_.
     and_then (with_message InvalidState ''Unable encrypt'' (cek_write X cek)) (\<lambda>buf.
     with_message InvalidState ''Unable encrypt'' (kw_encrypt X kw buf)))"

definition unwrap_key ::
  "('k, 'c, 'w, 'z) jwe_ext_scheme \<Rightarrow> content_alg \<Rightarrow> 'w \<Rightarrow> bytes \<Rightarrow> ('c, error) result" where
  "unwrap_key X ce kw ciphertext =
     and_then (with_message Malformed ''Unable decrypt key'' (kw_decrypt X kw ciphertext)) (\<lambda>buf.
     with_message Malformed ''Unable create key'' (cek_from_bytes X ce buf))"

subsection \<open>Encryption\<close>

definition kids_digest :: "('k, 'c, 'w, 'z) jwe_ext_scheme \<Rightarrow> string list \<Rightarrow> bytes" where
  "kids_digest X kids = sha256 X (join ''.'' (sort kids))"

text \<open>The encrypted content key for one recipient.\<close>

definition encrypt_key ::
  "('k, 'c, 'w, 'z) jwe_ext_scheme \<Rightarrow> kdf \<Rightarrow> known_key_alg \<Rightarrow> 'k \<Rightarrow> 'c \<Rightarrow> (string \<times> 'k) option
     \<Rightarrow> jwe_algorithm \<Rightarrow> bytes \<Rightarrow> bytes \<Rightarrow> string \<times> 'k \<Rightarrow> (recipient, error) result" where
  "encrypt_key X d ke epk cek sender alg apv tag_raw r =
     (case r of (kid, key) \<Rightarrow>
        and_then (rekind InvalidState ''Unable derive kw''
                    (derive_key X d ke epk (map_option snd sender) key (alg_as_str alg)
                       (case sender of None \<Rightarrow> [] | Some (skid, _) \<Rightarrow> skid) apv tag_raw False)) (\<lambda>kw.
        and_then (rekind InvalidState ''Unable wrap key'' (wrap_key X kw cek)) (\<lambda>encrypted_key.
        Ok \<lparr>rec_kid = kid, rec_encrypted_key = b64_encode X encrypted_key\<rparr>)))"

definition encrypt ::
  "('k, 'c, 'w, 'z) jwe_ext_scheme \<Rightarrow> ('k, 'c) draws \<Rightarrow> content_alg \<Rightarrow> kdf \<Rightarrow> known_key_alg
     \<Rightarrow> bytes \<Rightarrow> jwe_algorithm \<Rightarrow> enc_algorithm \<Rightarrow> (string \<times> 'k) option \<Rightarrow> (string \<times> 'k) list
     \<Rightarrow> (string, error) result" where
  "encrypt X r ce d ke plaintext alg enc sender recipients =
     and_then (with_message InvalidState ''Unable generate cek'' (draw_cek r ce)) (\<lambda>cek.
     let apv = kids_digest X (map fst recipients) in
     and_then (with_message InvalidState ''Unable generate epk'' (draw_epk r ke)) (\<lambda>epk.
     and_then (to_jwk_public_value X epk) (\<lambda>epk_value.
     let skid = map_option fst sender;
         p = \<lparr>ph_typ = Some ''application/didcomm-encrypted+json'', ph_alg = alg, ph_enc = enc,
              ph_skid = skid, ph_apu = map_option (b64_encode X) skid,
              ph_apv = b64_encode X apv, ph_epk = epk_value\<rparr> in
     and_then (with_kind InvalidState ''Unable serialize protected header''
                 (serde_text (ser_jwe_header X p))) (\<lambda>p_str.
     let protected_b64 = b64_encode X p_str;
         iv = draw_nonce r ce in
     and_then (with_message InvalidState ''Unable encrypt content''
                 (ce_encrypt X ce cek plaintext iv protected_b64)) (\<lambda>(buf, ciphertext_len).
     and_then (split_at ciphertext_len buf) (\<lambda>(ciphertext, tag_raw).
     and_then (collect (encrypt_key X d ke epk cek sender alg apv tag_raw) recipients) (\<lambda>rs.
     with_kind InvalidState ''Unable serialize jwe'' (serde_text (ser_jwe X
       \<lparr>jwe_protected = protected_b64, jwe_recipients = rs, jwe_iv = b64_encode X iv,
        jwe_ciphertext = b64_encode X ciphertext, jwe_tag = b64_encode X tag_raw\<rparr>)))))))))"

subsection \<open>Parsing\<close>

definition jwe_from_str :: "('k, 'c, 'w, 'z) jwe_ext_scheme \<Rightarrow> string \<Rightarrow> (jwe, error) result" where
  "jwe_from_str X s = serde_to_didcomm ''Unable parse jwe'' (de_jwe X s)"

text \<open>\<open>Option<Result<_>>::transpose\<close>.\<close>

definition transpose_opt :: "('a, 'e) result option \<Rightarrow> ('a option, 'e) result" where
  "transpose_opt m = (case m of None \<Rightarrow> Ok None | Some r \<Rightarrow> and_then r (\<lambda>x. Ok (Some x)))"

definition jwe_parse :: "('k, 'c, 'w, 'z) jwe_ext_scheme \<Rightarrow> jwe \<Rightarrow> (parsed_jwe, error) result" where
  "jwe_parse X j =
     and_then (with_kind Malformed ''Unable decode protected header''
                 (b64_decode X (filter (\<lambda>c. c \<noteq> CHR ''='') (jwe_protected j)))) (\<lambda>decoded.
     and_then (serde_to_didcomm ''Unable parse protected header'' (de_jwe_header X decoded))
       (\<lambda>protected.
     and_then (with_kind Malformed ''Unable decode apv'' (b64_decode X (ph_apv protected))) (\<lambda>apv.
     and_then (transpose_opt (map_option
                 (\<lambda>apu. with_kind Malformed ''Unable decode apu'' (b64_decode X apu))
                 (ph_apu protected))) (\<lambda>apu.
     Ok \<lparr>pj_jwe = j, pj_protected = protected, pj_apu = apu, pj_apv = apv,
         pj_to_kids = map rec_kid (jwe_recipients j)\<rparr>))))"

definition verify_didcomm ::
  "('k, 'c, 'w, 'z) jwe_ext_scheme \<Rightarrow> parsed_jwe \<Rightarrow> (parsed_jwe, error) result" where
  "verify_didcomm X pj =
     and_then (ensure (pj_apv pj = kids_digest X (map rec_kid (jwe_recipients (pj_jwe pj))))
                 (err_msg Malformed ''APV mismatch'')) (\<lambda>_.
     and_then (transpose_opt (map_option
                 (\<lambda>apu. map_err (\<lambda>e. Error Malformed [''Invalid utf8 for apu'', e]) (from_utf8 apu))
                 (pj_apu pj))) (\<lambda>apu.
     case (apu, ph_skid (pj_protected pj)) of
       (Some a, Some skid) \<Rightarrow>
         (if a \<noteq> skid then Err (err_msg Malformed ''APU mismatch'') else Ok pj)
     | (None, Some _) \<Rightarrow> Err (err_msg Malformed ''SKID present, but no apu'')
     | _ \<Rightarrow> Ok pj))"

subsection \<open>Decryption\<close>

definition decrypt ::
  "('k, 'c, 'w, 'z) jwe_ext_scheme \<Rightarrow> content_alg \<Rightarrow> kdf \<Rightarrow> known_key_alg
     \<Rightarrow> (string \<times> 'k) option \<Rightarrow> string \<times> 'k \<Rightarrow> parsed_jwe \<Rightarrow> (bytes, error) result" where
  "decrypt X ce d ke sender recipient pj =
     (case recipient of (kid, key) \<Rightarrow>
     and_then (ensure (map_option fst sender = pj_apu pj)
                 (err_msg InvalidState ''Wrong skid used'')) (\<lambda>_.
     and_then (ok_or (err_msg InvalidState ''Recipient not found'')
                 (find (\<lambda>r. rec_kid r = kid) (jwe_recipients (pj_jwe pj)))) (\<lambda>r.
     and_then (with_kind Malformed ''Unable decode encrypted_key''
                 (b64_decode X (rec_encrypted_key r))) (\<lambda>encrypted_key.
     and_then (context_msg ''Unable instantiate epk''
                 (from_jwk_value X ke (ph_epk (pj_protected pj)))) (\<lambda>epk.
     and_then (with_kind Malformed ''Unable decode tag'' (b64_decode X (jwe_tag (pj_jwe pj)))) (\<lambda>tag.
     and_then (rekind InvalidState ''Unable derive kw''
                 (derive_key X d ke epk (map_option snd sender) key
                    (alg_as_str (ph_alg (pj_protected pj)))
                    (case pj_apu pj of None \<Rightarrow> [] | Some apu \<Rightarrow> apu) (pj_apv pj) tag True)) (\<lambda>kw.
     and_then (rekind Malformed ''Unable unwrap cek'' (unwrap_key X ce kw encrypted_key)) (\<lambda>cek.
     and_then (with_kind Malformed ''Unable decode ciphertext''
                 (b64_decode X (jwe_ciphertext (pj_jwe pj)))) (\<lambda>ciphertext.
     and_then (with_kind Malformed ''Unable decode iv'' (b64_decode X (jwe_iv (pj_jwe pj)))) (\<lambda>iv.
     with_message Malformed ''Unable decrypt content''
       (ce_decrypt X ce cek (ciphertext @ tag) iv (jwe_protected (pj_jwe pj)))))))))))))"

end
