(* ===== verification/JweProps.thy ===== *)
theory JweProps
  imports Jwe
begin

text \<open>
  What holds of \<open>Jwe\<close>: a JWE that \<open>encrypt\<close> makes parses, passes the DIDComm checks and is
  decrypted by each recipient to the plaintext, with and without a sender; what the DIDComm
  checks guarantee of a JWE that passes them. The libraries appear through the laws their
  documentation gives, stated as predicates on the record of their operations.
\<close>

subsection \<open>What the libraries promise\<close>

text \<open>
  Unpadded URL-safe base64: decoding inverts encoding, and neither the padding sign nor a full
  stop is in the alphabet.
\<close>

definition b64_laws :: "('k, 'z) key_ext_scheme \<Rightarrow> bool" where
  "b64_laws X \<longleftrightarrow> (\<forall>b. b64_decode X (b64_encode X b) = Inr b \<and>
      CHR ''='' \<notin> set (b64_encode X b) \<and> CHR ''.'' \<notin> set (b64_encode X b))"

text \<open>\<open>serde_json\<close> reads back what it wrote.\<close>

definition jwe_serde_laws :: "('k, 'c, 'w, 'z) jwe_ext_scheme \<Rightarrow> bool" where
  "jwe_serde_laws X \<longleftrightarrow>
     (\<forall>h s. ser_jwe_header X h = Inr s \<longrightarrow> de_jwe_header X s = Inr h) \<and>
     (\<forall>j s. ser_jwe X j = Inr s \<longrightarrow> de_jwe X s = Inr j)"

text \<open>
  \<open>askar_crypto\<close>: authenticated encryption and key wrapping are inverted by the same key, and
  the two ends of an ECDH exchange derive the same key, the sender from the private ephemeral
  (and sender) key and the public recipient key, the recipient from the public ephemeral (and
  sender) key and its private key. \<open>pub\<close> gives the public half of a key.
\<close>

definition askar_laws :: "('k, 'c, 'w, 'z) jwe_ext_scheme \<Rightarrow> ('k \<Rightarrow> 'k) \<Rightarrow> bool" where
  "askar_laws X pub \<longleftrightarrow>
     (\<forall>ce c p iv aad buf n. ce_encrypt X ce c p iv aad = Inr (buf, n) \<longrightarrow>
        ce_decrypt X ce c buf iv aad = Inr p) \<and>
     (\<forall>w b e. kw_encrypt X w b = Inr e \<longrightarrow> kw_decrypt X w e = Inr b) \<and>
     (\<forall>ke epk rk alg apu apv w. derive_es X ke epk (pub rk) alg apu apv False = Inr w \<longrightarrow>
        derive_es X ke (pub epk) rk alg apu apv True = Inr w) \<and>
     (\<forall>ke epk sk rk alg apu apv tag w.
        derive_1pu X ke epk sk (pub rk) alg apu apv tag False = Inr w \<longrightarrow>
        derive_1pu X ke (pub epk) (pub sk) rk alg apu apv tag True = Inr w)"

text \<open>
  A drawn content key is rebuilt from its bytes, a drawn ephemeral key is read back from its
  public JWK as its public half.
\<close>

definition draws_laws ::
  "('k, 'c, 'w, 'z) jwe_ext_scheme \<Rightarrow> ('k \<Rightarrow> 'k) \<Rightarrow> ('k, 'c) draws \<Rightarrow> bool" where
  "draws_laws X pub r \<longleftrightarrow>
     (\<forall>ce c b. draw_cek r ce = Inr c \<longrightarrow> cek_write X c = Inr b \<longrightarrow> cek_from_bytes X ce b = Inr c) \<and>
     (\<forall>ke e v. draw_epk r ke = Inr e \<longrightarrow> to_jwk_public_value X e = Ok v \<longrightarrow>
        from_jwk_value X ke v = Ok (pub e))"

definition jwe_laws ::
  "('k, 'c, 'w, 'z) jwe_ext_scheme \<Rightarrow> ('k \<Rightarrow> 'k) \<Rightarrow> ('k, 'c) draws \<Rightarrow> bool" where
  "jwe_laws X pub r \<longleftrightarrow>
     b64_laws X \<and> jwe_serde_laws X \<and> askar_laws X pub \<and> draws_laws X pub r"

lemma b64_lawsD:
  assumes "b64_laws X"
  shows "b64_decode X (b64_encode X b) = Inr b"
    and "filter (\<lambda>c. c \<noteq> CHR ''='') (b64_encode X b) = b64_encode X b"
    and "CHR ''.'' \<notin> set (b64_encode X b)"
  using assms by (auto simp: b64_laws_def filter_id_conv) 

subsection \<open>Encryption\<close>

text \<open>The parts of a successful encryption.\<close>

definition header_for ::
  "('k, 'c, 'w, 'z) jwe_ext_scheme \<Rightarrow> jwe_algorithm \<Rightarrow> enc_algorithm \<Rightarrow> string option
     \<Rightarrow> string list \<Rightarrow> json \<Rightarrow> protected_header" where
  "header_for X alg enc skid kids epk =
     \<lparr>ph_typ = Some ''application/didcomm-encrypted+json'', ph_alg = alg, ph_enc = enc,
      ph_skid = skid, ph_apu = map_option (b64_encode X) skid,
      ph_apv = b64_encode X (kids_digest X kids), ph_epk = epk\<rparr>"

lemma encrypt_OkE:
  assumes "encrypt X r ce d ke plaintext alg enc sender recipients = Ok s"
  obtains cek epk v p buf n rs where
    "draw_cek r ce = Inr cek" "draw_epk r ke = Inr epk" "to_jwk_public_value X epk = Ok v"
    "ser_jwe_header X (header_for X alg enc (map_option fst sender) (map fst recipients) v) = Inr p"
    "ce_encrypt X ce cek plaintext (draw_nonce r ce) (b64_encode X p) = Inr (buf, n)"
    "n \<le> length buf"
    "collect (encrypt_key X d ke epk cek sender alg (kids_digest X (map fst recipients))
       (drop n buf)) recipients = Ok rs"
    "ser_jwe X \<lparr>jwe_protected = b64_encode X p, jwe_recipients = rs,
       jwe_iv = b64_encode X (draw_nonce r ce), jwe_ciphertext = b64_encode X (take n buf),
       jwe_tag = b64_encode X (drop n buf)\<rparr> = Inr s"
  using assms
  by (auto simp: encrypt_def header_for_def Let_def result_simps split: prod.splits)

lemma encrypt_key_Ok_iff:
  "encrypt_key X d ke epk cek sender alg apv tag (kid, key) = Ok r \<longleftrightarrow>
     (\<exists>kw e. derive_key X d ke epk (map_option snd sender) key (alg_as_str alg)
               (case sender of None \<Rightarrow> [] | Some (skid, _) \<Rightarrow> skid) apv tag False = Ok kw \<and>
             wrap_key X kw cek = Ok e \<and>
             r = \<lparr>rec_kid = kid, rec_encrypted_key = b64_encode X e\<rparr>)"
  by (auto simp: encrypt_key_def result_simps)

lemma encrypt_keys_kids:
  assumes "collect (encrypt_key X d ke epk cek sender alg apv tag) recipients = Ok rs"
  shows "map rec_kid rs = map fst recipients"
  using assms
  by (rule collect_Ok_map) (auto simp: encrypt_key_Ok_iff)

lemma encrypt_keys_find:
  assumes "collect (encrypt_key X d ke epk cek sender alg apv tag) recipients = Ok rs"
    and "distinct (map fst recipients)" and "(kid, key) \<in> set recipients"
  shows "\<exists>e. find (\<lambda>r. rec_kid r = kid) rs = Some e \<and>
     encrypt_key X d ke epk cek sender alg apv tag (kid, key) = Ok e"
  using assms
proof (induction recipients arbitrary: rs)
  case Nil
  then show ?case by simp
next
  case (Cons p ps)
  obtain kid' key' where p: "p = (kid', key')" by (cases p)
  from Cons.prems(1) p obtain e rs' where
    e: "encrypt_key X d ke epk cek sender alg apv tag (kid', key') = Ok e" and
    rs': "collect (encrypt_key X d ke epk cek sender alg apv tag) ps = Ok rs'" and
    rs: "rs = e # rs'"
    by (auto simp: result_simps)
  have ek: "rec_kid e = kid'" using e by (auto simp: encrypt_key_Ok_iff)
  show ?case
  proof (cases "kid = kid'")
    case True
    with Cons.prems(2,3) p have "key = key'" by (force simp: image_iff)
    with True e ek rs show ?thesis by simp
  next
    case False
    with Cons.prems(2,3) p rs' Cons.IH[OF rs'] ek rs show ?thesis by auto
  qed
qed

lemma derive_key_symmetric:
  assumes "askar_laws X pub"
    and "derive_key X d ke epk (map_option snd sender) (pub rk) alg apu apv tag False = Ok kw"
  shows "derive_key X d ke (pub epk) (map_option snd (map_option (map_prod id pub) sender)) rk
           alg apu apv tag True = Ok kw"
  using assms
  by (cases d; cases sender)
     (auto simp: askar_laws_def derive_key_def result_simps split: option.splits)

lemma unwrap_wrap:
  assumes "askar_laws X pub" and "draws_laws X pub r"
    and "draw_cek r ce = Inr cek" and "wrap_key X kw cek = Ok e"
  shows "unwrap_key X ce kw e = Ok cek"
  using assms
  by (auto simp: wrap_key_def unwrap_key_def askar_laws_def draws_laws_def result_simps)

text \<open>What parsing gives back of an encrypted envelope.\<close>

lemma jwe_parse_encrypted:
  assumes "b64_laws X" and "jwe_serde_laws X"
    and "ser_jwe_header X (header_for X alg enc skid kids v) = Inr p"
    and "jwe_protected j = b64_encode X p"
  shows "jwe_parse X j = Ok \<lparr>pj_jwe = j, pj_protected = header_for X alg enc skid kids v,
           pj_apu = skid, pj_apv = kids_digest X kids, pj_to_kids = map rec_kid (jwe_recipients j)\<rparr>"
proof -
  have "de_jwe_header X p = Inr (header_for X alg enc skid kids v)"
    using assms(2,3) by (simp add: jwe_serde_laws_def)
  then show ?thesis using b64_lawsD[OF assms(1)] assms(4)
    by (cases skid)
       (simp_all add: jwe_parse_def header_for_def transpose_opt_def with_kind_def
                      serde_to_didcomm_def context_msg_def)
qed

text \<open>Whatever was encrypted for a recipient, the recipient can read.\<close>

lemma encrypt_parse_decrypt:
  assumes laws: "jwe_laws X pub r"
    and enc: "encrypt X r ce d ke plaintext alg enc sender recipients = Ok s"
    and skid: "\<And>skid sk. sender = Some (skid, sk) \<Longrightarrow> utf8_valid skid"
    and kids: "distinct (map fst recipients)"
    and mem: "(kid, pub rk) \<in> set recipients"
  shows "\<exists>pj. and_then (jwe_from_str X s) (jwe_parse X) = Ok pj \<and>
           verify_didcomm X pj = Ok pj \<and>
           pj_to_kids pj = map fst recipients \<and>
           pj_apu pj = map_option fst sender \<and>
           ph_alg (pj_protected pj) = alg \<and> ph_enc (pj_protected pj) = enc \<and>
           decrypt X ce d ke (map_option (map_prod id pub) sender) (kid, rk) pj = Ok plaintext"
proof -
  note l = laws[unfolded jwe_laws_def]
  from enc obtain cek epk v p buf n rs where
    cek: "draw_cek r ce = Inr cek" and epk: "draw_epk r ke = Inr epk" and
    v: "to_jwk_public_value X epk = Ok v" and
    p: "ser_jwe_header X (header_for X alg enc (map_option fst sender) (map fst recipients) v) = Inr p" and
    buf: "ce_encrypt X ce cek plaintext (draw_nonce r ce) (b64_encode X p) = Inr (buf, n)" and
    n: "n \<le> length buf" and
    rs: "collect (encrypt_key X d ke epk cek sender alg (kids_digest X (map fst recipients))
           (drop n buf)) recipients = Ok rs" and
    s: "ser_jwe X \<lparr>jwe_protected = b64_encode X p, jwe_recipients = rs,
          jwe_iv = b64_encode X (draw_nonce r ce), jwe_ciphertext = b64_encode X (take n buf),
          jwe_tag = b64_encode X (drop n buf)\<rparr> = Inr s"
    by (rule encrypt_OkE)
  let ?kids = "map fst recipients" and ?skid = "map_option fst sender"
  let ?j = "\<lparr>jwe_protected = b64_encode X p, jwe_recipients = rs,
          jwe_iv = b64_encode X (draw_nonce r ce), jwe_ciphertext = b64_encode X (take n buf),
          jwe_tag = b64_encode X (drop n buf)\<rparr>"
  let ?pj = "\<lparr>pj_jwe = ?j, pj_protected = header_for X alg enc ?skid ?kids v,
     pj_apu = ?skid, pj_apv = kids_digest X ?kids, pj_to_kids = map rec_kid rs\<rparr>"
  have b64: "\<And>b. b64_decode X (b64_encode X b) = Inr b" using l b64_lawsD(1) by blast
  have rk: "map rec_kid rs = ?kids" using rs by (rule encrypt_keys_kids)
  have "jwe_from_str X s = Ok ?j"
    using l s by (simp add: jwe_from_str_def jwe_serde_laws_def result_simps)
  moreover have "jwe_parse X ?j = Ok ?pj"
    using jwe_parse_encrypted[of X alg enc ?skid ?kids v p ?j] l p by simp
  moreover have "verify_didcomm X ?pj = Ok ?pj"
    using rk skid
    by (cases sender) (auto simp: verify_didcomm_def transpose_opt_def from_utf8_def header_for_def)
  moreover have "decrypt X ce d ke (map_option (map_prod id pub) sender) (kid, rk) ?pj = Ok plaintext"
  proof -
    obtain rec where f: "find (\<lambda>r. rec_kid r = kid) rs = Some rec" and
      ek: "encrypt_key X d ke epk cek sender alg (kids_digest X ?kids) (drop n buf) (kid, pub rk) = Ok rec"
      using encrypt_keys_find[OF rs kids mem] by blast
    obtain kw e where
      dk: "derive_key X d ke epk (map_option snd sender) (pub rk) (alg_as_str alg)
             (case sender of None \<Rightarrow> [] | Some (skid, _) \<Rightarrow> skid) (kids_digest X ?kids) (drop n buf)
             False = Ok kw" and
      wk: "wrap_key X kw cek = Ok e" and re: "rec_encrypted_key rec = b64_encode X e"
      using ek by (auto simp: encrypt_key_Ok_iff)
    have "from_jwk_value X ke v = Ok (pub epk)"
      using l epk v by (simp add: draws_laws_def)
    moreover have "derive_key X d ke (pub epk) (map_option snd (map_option (map_prod id pub) sender))
       rk (alg_as_str alg) (case sender of None \<Rightarrow> [] | Some (skid, _) \<Rightarrow> skid)
       (kids_digest X ?kids) (drop n buf) True = Ok kw"
      by (rule derive_key_symmetric[where pub = pub, OF _ dk]) (use l in simp)
    moreover have "unwrap_key X ce kw e = Ok cek" 
      by (rule unwrap_wrap[where pub = pub, OF _ _ cek wk]) (use l in simp_all)
    moreover have "ce_decrypt X ce cek buf (draw_nonce r ce) (b64_encode X p) = Inr plaintext"
      using l buf by (simp add: askar_laws_def)
    moreover have "map_option fst (map_option (map_prod id pub) sender) = ?skid"
      by (cases sender) auto
    moreover have "(case ?skid of None \<Rightarrow> [] | Some apu \<Rightarrow> apu) =
        (case sender of None \<Rightarrow> [] | Some (skid, _) \<Rightarrow> skid)"
      by (cases sender) auto
    ultimately show ?thesis using f re b64
      by (simp add: decrypt_def with_kind_def with_message_def context_msg_def rekind_def header_for_def)
  qed
  ultimately show ?thesis using rk by (auto simp: header_for_def)
qed

subsection \<open>The DIDComm checks\<close>

lemma verify_didcomm_Ok_iff:
  "verify_didcomm X pj = Ok pj' \<longleftrightarrow>
     pj' = pj \<and> pj_apv pj = kids_digest X (map rec_kid (jwe_recipients (pj_jwe pj))) \<and>
     (\<forall>apu. pj_apu pj = Some apu \<longrightarrow> utf8_valid apu) \<and>
     (\<forall>skid. ph_skid (pj_protected pj) = Some skid \<longrightarrow> pj_apu pj = Some skid)"
  by (auto simp: verify_didcomm_def transpose_opt_def result_simps split: option.splits if_splits)

lemma verify_didcomm_not_Panic [simp]: "verify_didcomm X pj \<noteq> Panic"
  by (auto simp: verify_didcomm_def transpose_opt_def result_simps split: option.splits if_splits)

lemma transpose_opt_not_Panic: "m \<noteq> Some Panic \<Longrightarrow> transpose_opt m \<noteq> Panic"
  by (auto simp: transpose_opt_def result_simps split: option.splits)

lemma jwe_parse_not_Panic [simp]: "jwe_parse X j \<noteq> Panic"
  by (auto simp: jwe_parse_def result_simps transpose_opt_def split: option.splits)

lemma jwe_parse_kids: "jwe_parse X j = Ok pj \<Longrightarrow> pj_to_kids pj = map rec_kid (jwe_recipients j) \<and> pj_jwe pj = j"
  by (auto simp: jwe_parse_def result_simps)

text \<open>Decryption asks for the sender key that the envelope names, whatever the rest.\<close>

lemma decrypt_sender: "decrypt X ce d ke sender recip pj = Ok m \<Longrightarrow> map_option fst sender = pj_apu pj"
  by (cases recip) (auto simp: decrypt_def result_simps)

lemma decrypt_not_Panic [simp]: "decrypt X ce d ke sender recip pj \<noteq> Panic"
  by (cases recip) (auto simp: decrypt_def derive_key_def unwrap_key_def result_simps split: kdf.splits)

end
