(* ===== verification/Jws.thy ===== *)
theory Jws
  imports JweProps
begin

text \<open>
  JSON Web Signatures: the envelope (\<open>jws/envelope.rs\<close>), signing in the general and the compact
  form (\<open>jws/sign.rs\<close>), parsing (\<open>jws/parse.rs\<close>) and verification (\<open>jws/verify.rs\<close>). Signing and
  checking bytes under a key are operations of the key type, in the record \<open>jws_ext\<close>.
\<close>

datatype jws_algorithm = EdDSA | Es256 | Es256K | OtherJwsAlgorithm string

datatype signature_type = SigEdDSA | SigES256 | SigES256K

fun sig_type :: "jws_algorithm \<Rightarrow> (signature_type, error) result" where
  "sig_type EdDSA = Ok SigEdDSA"
| "sig_type Es256 = Ok SigES256"
| "sig_type Es256K = Ok SigES256K"
| "sig_type (OtherJwsAlgorithm _) = Err (err_msg Unsupported ''Unsupported signature type'')"

record signature =
  sg_kid :: string
  sg_protected :: string
  sg_signature :: string

record jws =
  jws_signatures :: "signature list"
  jws_payload :: string

record jws_header =
  jh_typ :: string
  jh_alg :: jws_algorithm

record compact_header =
  ch_typ :: string
  ch_alg :: jws_algorithm
  ch_kid :: string

record parsed_jws =
  pjs_jws :: jws
  pjs_protected :: "jws_header list"

record parsed_compact_jws =
  pc_header :: string
  pc_parsed_header :: compact_header
  pc_payload :: string
  pc_signature :: string

record ('k, 'c, 'w) jws_ext = "('k, 'c, 'w) jwe_ext" +
  ser_jws_header :: "jws_header \<Rightarrow> serde_error + string"
  de_jws_header :: "bytes \<Rightarrow> serde_error + jws_header"
  ser_compact_header :: "compact_header \<Rightarrow> serde_error + string"
  de_compact_header :: "bytes \<Rightarrow> serde_error + compact_header"
  ser_jws :: "jws \<Rightarrow> serde_error + string"
  de_jws :: "string \<Rightarrow> serde_error + jws"
  create_signature :: "'k \<Rightarrow> bytes \<Rightarrow> signature_type \<Rightarrow> string + bytes"
  verify_signature :: "'k \<Rightarrow> bytes \<Rightarrow> bytes \<Rightarrow> signature_type \<Rightarrow> string + bool"

subsection \<open>Signing\<close>

text \<open>The signing input: the two encoded parts with a full stop between them.\<close>

definition sign_input :: "string \<Rightarrow> string \<Rightarrow> bytes" where
  "sign_input header payload = header @ ''.'' @ payload"

definition sign ::
  "('k, 'c, 'w, 'z) jws_ext_scheme \<Rightarrow> bytes \<Rightarrow> string \<times> 'k \<Rightarrow> jws_algorithm \<Rightarrow> (string, error) result" where
  "sign X payload signer alg =
     (case signer of (kid, key) \<Rightarrow>
     and_then (sig_type alg) (\<lambda>st.
     and_then (with_kind InvalidState ''Unable serialize protected header''
                 (serde_text (ser_jws_header X
                    \<lparr>jh_typ = ''application/didcomm-signed+json'', jh_alg = alg\<rparr>))) (\<lambda>hdr.
     let protected_b64 = b64_encode X hdr; payload_b64 = b64_encode X payload in
     and_then (with_message InvalidState ''Unable create signature''
                 (create_signature X key (sign_input protected_b64 payload_b64) st)) (\<lambda>sig.
     with_kind InvalidState ''Unable serialize jws'' (serde_text (ser_jws X
       \<lparr>jws_signatures = [\<lparr>sg_kid = kid, sg_protected = protected_b64,
                           sg_signature = b64_encode X sig\<rparr>],
        jws_payload = payload_b64\<rparr>))))))"

definition sign_compact ::
  "('k, 'c, 'w, 'z) jws_ext_scheme \<Rightarrow> bytes \<Rightarrow> string \<times> 'k \<Rightarrow> string \<Rightarrow> jws_algorithm
     \<Rightarrow> (string, error) result" where
  "sign_compact X payload signer typ alg =
     (case signer of (kid, key) \<Rightarrow>
     and_then (sig_type alg) (\<lambda>st.
     and_then (with_kind InvalidState ''Unable serialize header''
                 (serde_text (ser_compact_header X
                    \<lparr>ch_typ = typ, ch_alg = alg, ch_kid = kid\<rparr>))) (\<lambda>hdr.
     let header_b64 = b64_encode X hdr; payload_b64 = b64_encode X payload in
     and_then (with_message InvalidState ''Unable create signature''
                 (create_signature X key (sign_input header_b64 payload_b64) st)) (\<lambda>sig.
     Ok (header_b64 @ ''.'' @ payload_b64 @ ''.'' @ b64_encode X sig)))))"

subsection \<open>Parsing\<close>

definition jws_from_str :: "('k, 'c, 'w, 'z) jws_ext_scheme \<Rightarrow> string \<Rightarrow> (jws, error) result" where
  "jws_from_str X s = serde_to_didcomm ''Unable parse jws'' (de_jws X s)"

definition jws_parse :: "('k, 'c, 'w, 'z) jws_ext_scheme \<Rightarrow> jws \<Rightarrow> (parsed_jws, error) result" where
  "jws_parse X j =
     and_then (collect (\<lambda>sig.
         and_then (with_kind Malformed ''Unable decode protected header''
                     (b64_decode X (sg_protected sig))) (\<lambda>b.
         serde_to_didcomm ''Unable parse protected header'' (de_jws_header X b)))
       (jws_signatures j)) (\<lambda>protected.
     Ok \<lparr>pjs_jws = j, pjs_protected = protected\<rparr>)"

definition parse_compact ::
  "('k, 'c, 'w, 'z) jws_ext_scheme \<Rightarrow> string \<Rightarrow> (parsed_compact_jws, error) result" where
  "parse_compact X s =
     (case split_on CHR ''.'' s of
        [header, payload, signature] \<Rightarrow>
          and_then (with_kind Malformed ''Unable decode header'' (b64_decode X header)) (\<lambda>buf.
          and_then (with_kind Malformed ''Unable parse header''
                      (serde_text (de_compact_header X buf))) (\<lambda>parsed_header.
          Ok \<lparr>pc_header = header, pc_parsed_header = parsed_header, pc_payload = payload,
              pc_signature = signature\<rparr>))
      | _ \<Rightarrow> Err (err_msg Malformed ''Unable to parse compactly serialized JWS''))"

subsection \<open>Verification\<close>

text \<open>The first signature of the key id, with its position.\<close>

fun find_index :: "('a \<Rightarrow> bool) \<Rightarrow> 'a list \<Rightarrow> (nat \<times> 'a) option" where
  "find_index P [] = None"
| "find_index P (x # xs) =
     (if P x then Some (0, x)
      else (case find_index P xs of None \<Rightarrow> None | Some (i, y) \<Rightarrow> Some (Suc i, y)))"

definition nth_opt :: "'a list \<Rightarrow> nat \<Rightarrow> 'a option" where
  "nth_opt xs i = (if i < length xs then Some (xs ! i) else None)"

definition jws_verify ::
  "('k, 'c, 'w, 'z) jws_ext_scheme \<Rightarrow> parsed_jws \<Rightarrow> string \<times> 'k \<Rightarrow> (bool, error) result" where
  "jws_verify X pj signer =
     (case signer of (kid, key) \<Rightarrow>
     and_then (ok_or (err_msg InvalidState ''KID not found'')
                 (find_index (\<lambda>sig. sg_kid sig = kid) (jws_signatures (pjs_jws pj)))) (\<lambda>(i, sig).
     and_then (ok_or (err_msg InvalidState ''Invalid protected header index'')
                 (nth_opt (pjs_protected pj) i)) (\<lambda>protected.
     and_then (sig_type (jh_alg protected)) (\<lambda>st.
     and_then (with_kind Malformed ''Unable decode signature''
                 (b64_decode X (sg_signature sig))) (\<lambda>sig_bytes.
     with_message Malformed ''Unable verify signature''
       (verify_signature X key (sign_input (sg_protected sig) (jws_payload (pjs_jws pj)))
          sig_bytes st))))))"

definition compact_verify ::
  "('k, 'c, 'w, 'z) jws_ext_scheme \<Rightarrow> parsed_compact_jws \<Rightarrow> 'k \<Rightarrow> (bool, error) result" where
  "compact_verify X pc key =
     and_then (sig_type (ch_alg (pc_parsed_header pc))) (\<lambda>st.
     and_then (with_kind Malformed ''Unable decode signature''
                 (b64_decode X (pc_signature pc))) (\<lambda>sig_bytes.
     with_message Malformed ''Unable verify signature''
       (verify_signature X key (sign_input (pc_header pc) (pc_payload pc)) sig_bytes st)))"

subsection \<open>Round trips\<close>

definition jws_serde_laws :: "('k, 'c, 'w, 'z) jws_ext_scheme \<Rightarrow> bool" where
  "jws_serde_laws X \<longleftrightarrow>
     (\<forall>h s. ser_jws_header X h = Inr s \<longrightarrow> de_jws_header X s = Inr h) \<and>
     (\<forall>h s. ser_compact_header X h = Inr s \<longrightarrow> de_compact_header X s = Inr h) \<and>
     (\<forall>j s. ser_jws X j = Inr s \<longrightarrow> de_jws X s = Inr j)"

text \<open>A signature made with a key is accepted under its public half.\<close>

definition signature_laws :: "('k, 'c, 'w, 'z) jws_ext_scheme \<Rightarrow> ('k \<Rightarrow> 'k) \<Rightarrow> bool" where
  "signature_laws X pub \<longleftrightarrow>
     (\<forall>k m st sig. create_signature X k m st = Inr sig \<longrightarrow>
        verify_signature X (pub k) m sig st = Inr True)"

lemma sig_type_not_Panic [simp]: "sig_type a \<noteq> Panic"
  by (cases a) auto

lemma jws_parse_not_Panic [simp]: "jws_parse X j \<noteq> Panic"
  by (auto simp: jws_parse_def result_simps dest!: collect_Panic_mem)

lemma jws_parse_length: "jws_parse X j = Ok pj \<Longrightarrow> length (pjs_protected pj) = length (jws_signatures j)"
  by (auto simp: jws_parse_def result_simps dest: collect_Ok_length)

lemma jws_parse_jws: "jws_parse X j = Ok pj \<Longrightarrow> pjs_jws pj = j"
  by (auto simp: jws_parse_def result_simps)

lemma jws_verify_not_Panic [simp]: "jws_verify X pj s \<noteq> Panic"
  by (cases s) (auto simp: jws_verify_def result_simps split: prod.splits)

lemma compact_verify_not_Panic [simp]: "compact_verify X pc k \<noteq> Panic"
  by (auto simp: compact_verify_def result_simps)

lemma parse_compact_not_Panic [simp]: "parse_compact X s \<noteq> Panic"
  by (auto simp: parse_compact_def result_simps split: list.splits)

lemma sign_parse_verify:
  assumes "b64_laws X" and "jws_serde_laws X" and "signature_laws X pub"
    and sg: "sign X payload (kid, key) alg = Ok s"
  shows "\<exists>pj. and_then (jws_from_str X s) (jws_parse X) = Ok pj \<and>
           map jh_alg (pjs_protected pj) = [alg] \<and>
           map sg_kid (jws_signatures (pjs_jws pj)) = [kid] \<and>
           jws_verify X pj (kid, pub key) = Ok True \<and>
           b64_decode X (jws_payload (pjs_jws pj)) = Inr payload"
proof -
  let ?h = "\<lparr>jh_typ = ''application/didcomm-signed+json'', jh_alg = alg\<rparr>"
  from sg obtain st hdr sig where
    st: "sig_type alg = Ok st" and hdr: "ser_jws_header X ?h = Inr hdr" and
    sig: "create_signature X key (sign_input (b64_encode X hdr) (b64_encode X payload)) st = Inr sig" and
    s: "ser_jws X \<lparr>jws_signatures = [\<lparr>sg_kid = kid, sg_protected = b64_encode X hdr,
                           sg_signature = b64_encode X sig\<rparr>],
        jws_payload = b64_encode X payload\<rparr> = Inr s"
    by (auto simp: sign_def Let_def result_simps)
  have "de_jws_header X hdr = Inr ?h" using assms(2) hdr by (simp add: jws_serde_laws_def)
  moreover have "verify_signature X (pub key)
      (sign_input (b64_encode X hdr) (b64_encode X payload)) sig st = Inr True"
    using assms(3) sig by (simp add: signature_laws_def)
  ultimately show ?thesis
    using assms(2) s st b64_lawsD[OF assms(1)]
    by (simp add: jws_serde_laws_def jws_from_str_def jws_parse_def jws_verify_def nth_opt_def
          serde_to_didcomm_def context_msg_def with_kind_def with_message_def)
qed

lemma sign_compact_parse_verify:
  assumes "b64_laws X" and "jws_serde_laws X" and "signature_laws X pub"
    and sg: "sign_compact X payload (kid, key) typ alg = Ok s"
  shows "\<exists>pc. parse_compact X s = Ok pc \<and>
           pc_parsed_header pc = \<lparr>ch_typ = typ, ch_alg = alg, ch_kid = kid\<rparr> \<and>
           compact_verify X pc (pub key) = Ok True \<and>
           b64_decode X (pc_payload pc) = Inr payload"
proof -
  let ?h = "\<lparr>ch_typ = typ, ch_alg = alg, ch_kid = kid\<rparr>"
  from sg obtain st hdr sig where
    st: "sig_type alg = Ok st" and hdr: "ser_compact_header X ?h = Inr hdr" and
    sig: "create_signature X key (sign_input (b64_encode X hdr) (b64_encode X payload)) st = Inr sig" and
    s: "s = b64_encode X hdr @ ''.'' @ b64_encode X payload @ ''.'' @ b64_encode X sig"
    by (auto simp: sign_compact_def Let_def result_simps)
  have "split_on CHR ''.'' s = [b64_encode X hdr, b64_encode X payload, b64_encode X sig]"
    using b64_lawsD(3)[OF assms(1)] by (simp add: s split_on_append split_on_absent)
  moreover have "de_compact_header X hdr = Inr ?h" using assms(2) hdr by (simp add: jws_serde_laws_def)
  moreover have "verify_signature X (pub key)
      (sign_input (b64_encode X hdr) (b64_encode X payload)) sig st = Inr True"
    using assms(3) sig by (simp add: signature_laws_def)
  ultimately show ?thesis
    using st b64_lawsD[OF assms(1)]
    by (simp add: parse_compact_def compact_verify_def with_kind_def with_message_def)
qed

end
