(* ===== verification/Message.thy ===== *)
theory Message
  imports Errors Json
begin

text \<open>
  The plaintext message and its builder (\<open>message/message.rs\<close>), the attachments and their
  builder (\<open>message/attachment.rs\<close>), and the reader of forward messages (\<open>try_parse_forward\<close> of
  \<open>protocols/routing/mod.rs\<close>). The header map of a message is a map; a builder method takes the
  builder and returns the changed one, as the source's \<open>mut self\<close> methods do.
\<close>

subsection \<open>Attachments\<close>

record base64_data =
  b64_value :: string
  b64_jws :: "string option"

record json_data =
  json_value :: json
  json_jws :: "string option"

record links_data =
  links_value :: "string list"
  links_hash :: string
  links_jws :: "string option"

datatype attachment_data =
    DataBase64 base64_data
  | DataJson json_data
  | DataLinks links_data
  | DataRkyv bytes
  | DataBytes bytes

record attachment =
  a_data :: attachment_data
  a_id :: "string option"
  a_description :: "string option"
  a_filename :: "string option"
  a_media_type :: "string option"
  a_format :: "string option"
  a_lastmod_time :: "u64 option"
  a_byte_count :: "u64 option"

record attachment_builder =
  ab_data :: attachment_data
  ab_id :: "string option"
  ab_description :: "string option"
  ab_filename :: "string option"
  ab_media_type :: "string option"
  ab_format :: "string option"
  ab_lastmod_time :: "u64 option"
  ab_byte_count :: "u64 option"

definition attachment_builder_new :: "attachment_data \<Rightarrow> attachment_builder" where
  "attachment_builder_new d =
     \<lparr>ab_data = d, ab_id = None, ab_description = None, ab_filename = None,
      ab_media_type = None, ab_format = None, ab_lastmod_time = None, ab_byte_count = None\<rparr>"

definition attachment_base64 :: "string \<Rightarrow> attachment_builder" where
  "attachment_base64 s = attachment_builder_new (DataBase64 \<lparr>b64_value = s, b64_jws = None\<rparr>)"

definition attachment_json :: "json \<Rightarrow> attachment_builder" where
  "attachment_json v = attachment_builder_new (DataJson \<lparr>json_value = v, json_jws = None\<rparr>)"

definition attachment_links :: "string list \<Rightarrow> string \<Rightarrow> attachment_builder" where
  "attachment_links ls h =
     attachment_builder_new (DataLinks \<lparr>links_value = ls, links_hash = h, links_jws = None\<rparr>)"

definition attachment_rkyv :: "bytes \<Rightarrow> attachment_builder" where
  "attachment_rkyv b = attachment_builder_new (DataRkyv b)"

definition attachment_bytes :: "bytes \<Rightarrow> attachment_builder" where
  "attachment_bytes b = attachment_builder_new (DataBytes b)"

definition ab_with_id :: "string \<Rightarrow> attachment_builder \<Rightarrow> attachment_builder" where
  "ab_with_id i b = b\<lparr>ab_id := Some i\<rparr>"

definition ab_with_description :: "string \<Rightarrow> attachment_builder \<Rightarrow> attachment_builder" where
  "ab_with_description s b = b\<lparr>ab_description := Some s\<rparr>"

definition ab_with_filename :: "string \<Rightarrow> attachment_builder \<Rightarrow> attachment_builder" where
  "ab_with_filename s b = b\<lparr>ab_filename := Some s\<rparr>"

definition ab_with_media_type :: "string \<Rightarrow> attachment_builder \<Rightarrow> attachment_builder" where
  "ab_with_media_type s b = b\<lparr>ab_media_type := Some s\<rparr>"

definition ab_with_format :: "string \<Rightarrow> attachment_builder \<Rightarrow> attachment_builder" where
  "ab_with_format s b = b\<lparr>ab_format := Some s\<rparr>"

definition ab_with_lastmod_time :: "u64 \<Rightarrow> attachment_builder \<Rightarrow> attachment_builder" where
  "ab_with_lastmod_time t b = b\<lparr>ab_lastmod_time := Some t\<rparr>"

definition ab_with_byte_count :: "u64 \<Rightarrow> attachment_builder \<Rightarrow> attachment_builder" where
  "ab_with_byte_count n b = b\<lparr>ab_byte_count := Some n\<rparr>"

definition ab_with_jws :: "string \<Rightarrow> attachment_builder \<Rightarrow> attachment_builder" where
  "ab_with_jws j b =
     b\<lparr>ab_data :=
        (case ab_data b of
           DataBase64 v \<Rightarrow> DataBase64 (v\<lparr>b64_jws := Some j\<rparr>)
         | DataJson v \<Rightarrow> DataJson (v\<lparr>json_jws := Some j\<rparr>)
         | DataLinks v \<Rightarrow> DataLinks (v\<lparr>links_jws := Some j\<rparr>)
         | d \<Rightarrow> d)\<rparr>"

definition attachment_finalize :: "attachment_builder \<Rightarrow> attachment" where
  "attachment_finalize b =
     \<lparr>a_data = ab_data b, a_id = ab_id b, a_description = ab_description b,
      a_filename = ab_filename b, a_media_type = ab_media_type b, a_format = ab_format b,
      a_lastmod_time = ab_lastmod_time b, a_byte_count = ab_byte_count b\<rparr>"

subsection \<open>Messages\<close>

record message =
  m_id :: string
  m_typ :: string
  m_type :: string
  m_body :: json
  m_from :: "string option"
  m_to :: "string list option"
  m_thid :: "string option"
  m_pthid :: "string option"
  m_extra_headers :: "string \<rightharpoonup> json"
  m_created_time :: "u64 option"
  m_expires_time :: "u64 option"
  m_from_prior :: "string option"
  m_attachments :: "attachment list option"

definition plaintext_typ :: string where
  "plaintext_typ = ''application/didcomm-plain+json''"

definition validate :: "message \<Rightarrow> (message, error) result" where
  "validate m =
     (if m_typ m \<noteq> plaintext_typ
      then Err (err_msg Malformed
             (''`typ` must be '' @ [CHR 0x22] @ plaintext_typ @ [CHR 0x22]))
      else Ok m)"

record message_builder =
  mb_id :: string
  mb_type :: string
  mb_body :: json
  mb_from :: "string option"
  mb_to :: "string list option"
  mb_thid :: "string option"
  mb_pthid :: "string option"
  mb_extra_headers :: "string \<rightharpoonup> json"
  mb_created_time :: "u64 option"
  mb_expires_time :: "u64 option"
  mb_from_prior :: "string option"
  mb_attachments :: "attachment list option"

definition message_build :: "string \<Rightarrow> string \<Rightarrow> json \<Rightarrow> message_builder" where
  "message_build i t b =
     \<lparr>mb_id = i, mb_type = t, mb_body = b, mb_from = None, mb_to = None, mb_thid = None,
      mb_pthid = None, mb_extra_headers = Map.empty, mb_created_time = None,
      mb_expires_time = None, mb_from_prior = None, mb_attachments = None\<rparr>"

definition with_body :: "json \<Rightarrow> message_builder \<Rightarrow> message_builder" where
  "with_body v b = b\<lparr>mb_body := v\<rparr>"

definition with_to :: "string \<Rightarrow> message_builder \<Rightarrow> message_builder" where
  "with_to t b =
     (case mb_to b of
        Some sto \<Rightarrow> b\<lparr>mb_to := Some (sto @ [t])\<rparr>
      | None \<Rightarrow> b\<lparr>mb_to := Some [t]\<rparr>)"

definition with_to_many :: "string list \<Rightarrow> message_builder \<Rightarrow> message_builder" where
  "with_to_many ts b =
     (case mb_to b of
        Some sto \<Rightarrow> b\<lparr>mb_to := Some (sto @ ts)\<rparr>
      | None \<Rightarrow> b\<lparr>mb_to := Some ts\<rparr>)"

definition with_from :: "string \<Rightarrow> message_builder \<Rightarrow> message_builder" where
  "with_from f b = b\<lparr>mb_from := Some f\<rparr>"

definition with_thid :: "string \<Rightarrow> message_builder \<Rightarrow> message_builder" where
  "with_thid t b = b\<lparr>mb_thid := Some t\<rparr>"

definition with_pthid :: "string \<Rightarrow> message_builder \<Rightarrow> message_builder" where
  "with_pthid t b = b\<lparr>mb_pthid := Some t\<rparr>"

definition with_header :: "string \<Rightarrow> json \<Rightarrow> message_builder \<Rightarrow> message_builder" where
  "with_header k v b = b\<lparr>mb_extra_headers := (mb_extra_headers b)(k \<mapsto> v)\<rparr>"

definition with_created_time :: "u64 \<Rightarrow> message_builder \<Rightarrow> message_builder" where
  "with_created_time t b = b\<lparr>mb_created_time := Some t\<rparr>"

definition with_expires_time :: "u64 \<Rightarrow> message_builder \<Rightarrow> message_builder" where
  "with_expires_time t b = b\<lparr>mb_expires_time := Some t\<rparr>"

definition with_from_prior :: "string \<Rightarrow> message_builder \<Rightarrow> message_builder" where
  "with_from_prior j b = b\<lparr>mb_from_prior := Some j\<rparr>"

definition with_attachment :: "attachment \<Rightarrow> message_builder \<Rightarrow> message_builder" where
  "with_attachment a b =
     (case mb_attachments b of
        Some as \<Rightarrow> b\<lparr>mb_attachments := Some (as @ [a])\<rparr>
      | None \<Rightarrow> b\<lparr>mb_attachments := Some [a]\<rparr>)"

definition with_attachments :: "attachment list \<Rightarrow> message_builder \<Rightarrow> message_builder" where
  "with_attachments new b =
     (case mb_attachments b of
        Some as \<Rightarrow> b\<lparr>mb_attachments := Some (as @ new)\<rparr>
      | None \<Rightarrow> b\<lparr>mb_attachments := Some new\<rparr>)"

definition message_finalize :: "message_builder \<Rightarrow> message" where
  "message_finalize b =
     \<lparr>m_id = mb_id b, m_typ = plaintext_typ, m_type = mb_type b, m_body = mb_body b,
      m_from = mb_from b, m_to = mb_to b, m_thid = mb_thid b, m_pthid = mb_pthid b,
      m_extra_headers = mb_extra_headers b, m_created_time = mb_created_time b,
      m_expires_time = mb_expires_time b, m_from_prior = mb_from_prior b,
      m_attachments = mb_attachments b\<rparr>"

lemmas builder_defs =
  message_build_def with_body_def with_to_def with_to_many_def with_from_def with_thid_def
  with_pthid_def with_header_def with_created_time_def with_expires_time_def
  with_from_prior_def with_attachment_def with_attachments_def message_finalize_def

lemmas attachment_builder_defs =
  attachment_builder_new_def attachment_base64_def attachment_json_def attachment_links_def
  attachment_rkyv_def attachment_bytes_def attachment_finalize_def ab_with_id_def

lemma validate_Ok_iff [result_simps]: "validate m = Ok m' \<longleftrightarrow> m' = m \<and> m_typ m = plaintext_typ"
  by (auto simp: validate_def)

lemma validate_not_Panic [simp]: "validate m \<noteq> Panic"
  by (simp add: validate_def)

lemma validate_finalize: "validate (message_finalize b) = Ok (message_finalize b)"
  by (simp add: validate_def message_finalize_def)

text \<open>Adding recipients one by one is adding them at once.\<close>

lemma with_to_many_snoc:
  "with_to t (with_to_many ts b) = with_to_many (ts @ [t]) b"
  by (auto simp: with_to_def with_to_many_def split: option.splits)

lemma with_to_fold:
  "ts \<noteq> [] \<Longrightarrow> fold with_to ts b = with_to_many ts b"
proof (induction ts rule: rev_nonempty_induct)
  case (single t)
  then show ?case by (auto simp: with_to_def with_to_many_def split: option.splits)
next
  case (snoc t ts)
  then show ?case by (simp add: with_to_many_snoc)
qed

subsection \<open>Forward messages\<close>

definition forward_msg_type :: string where
  "forward_msg_type = ''https://didcomm.org/routing/2.0/forward''"

record parsed_forward =
  pf_msg :: message
  pf_next :: string
  pf_forwarded_msg :: json

definition try_parse_forward :: "message \<Rightarrow> parsed_forward option" where
  "try_parse_forward m =
     (if m_type m \<noteq> forward_msg_type then None
      else
        (case (case m_body m of
                 JObject body \<Rightarrow>
                   (case map_of body ''next'' of Some (JString next) \<Rightarrow> Some next | _ \<Rightarrow> None)
               | _ \<Rightarrow> None) of
           None \<Rightarrow> None
         | Some next \<Rightarrow>
             (case (case m_attachments m of
                      Some as \<Rightarrow>
                        (case as of
                           a # _ \<Rightarrow> (case a_data a of DataJson v \<Rightarrow> Some v | _ \<Rightarrow> None)
                         | [] \<Rightarrow> None)
                    | None \<Rightarrow> None) of
                None \<Rightarrow> None
              | Some v \<Rightarrow>
                  Some \<lparr>pf_msg = m, pf_next = next, pf_forwarded_msg = json_value v\<rparr>)))"

lemma try_parse_forward_Some_iff:
  "try_parse_forward m = Some p \<longleftrightarrow>
     m_type m = forward_msg_type \<and>
     (\<exists>body next a as v. m_body m = JObject body \<and> map_of body ''next'' = Some (JString next) \<and>
        m_attachments m = Some (a # as) \<and> a_data a = DataJson v \<and>
        p = \<lparr>pf_msg = m, pf_next = next, pf_forwarded_msg = json_value v\<rparr>)"
  by (auto simp: try_parse_forward_def
           split: json.splits option.splits list.splits attachment_data.splits)

end
