(* ===== verification/FromPrior.thy ===== *)
theory FromPrior
  imports Jws Message
begin

text \<open>
  DID rotation and the unencrypted forms of a message: \<open>from_prior\<close> values with their builder
  (\<open>message/from_prior/mod.rs\<close>), packed into and unpacked from a signed JWT
  (\<open>from_prior/pack.rs\<close>, \<open>from_prior/unpack.rs\<close>), plaintext packing (\<open>message/pack_plaintext.rs\<close>)
  and signed packing (\<open>message/pack_signed.rs\<close>).
\<close>

record from_prior =
  fp_iss :: string
  fp_sub :: string
  fp_aud :: "string option"
  fp_exp :: "u64 option"
  fp_nbf :: "u64 option"
  fp_iat :: "u64 option"
  fp_jti :: "string option"

definition from_prior_build :: "string \<Rightarrow> string \<Rightarrow> from_prior" where
  "from_prior_build iss sub =
     \<lparr>fp_iss = iss, fp_sub = sub, fp_aud = None, fp_exp = None, fp_nbf = None, fp_iat = None,
      fp_jti = None\<rparr>"

record ('k, 'c, 'w) msg_ext = "('k, 'c, 'w) jws_ext" +
  ser_from_prior :: "from_prior \<Rightarrow> serde_error + string"
  de_from_prior :: "string \<Rightarrow> serde_error + from_prior"
  ser_message :: "message \<Rightarrow> serde_error + string"

definition jwt_typ :: string where
  "jwt_typ = ''JWT''"

text \<open>The references of a relationship, as the DID URLs they resolve to in the document.\<close>

definition doc_refs :: "('k, 'z) key_ext_scheme \<Rightarrow> document \<Rightarrow> string list \<Rightarrow> string list" where
  "doc_refs X doc refs = map (resolve_ref X (doc_id doc)) refs"

definition find_vm :: "document \<Rightarrow> string \<Rightarrow> vm option" where
  "find_vm doc kid = find (\<lambda>vm. vm_id vm = kid) (verification_method doc)"

text \<open>The key algorithm a signature algorithm needs, and the other way round.\<close>

fun verify_key_alg :: "jws_algorithm \<Rightarrow> known_key_alg option" where
  "verify_key_alg EdDSA = Some Ed25519"
| "verify_key_alg Es256 = Some P256"
| "verify_key_alg Es256K = Some K256"
| "verify_key_alg (OtherJwsAlgorithm _) = None"

fun signing_alg :: "'k known_key_pair \<Rightarrow> jws_algorithm option" where
  "signing_alg (KpEd25519 _) = Some EdDSA"
| "signing_alg (KpP256 _) = Some Es256"
| "signing_alg (KpK256 _) = Some Es256K"
| "signing_alg (KpX25519 _) = None"

lemma verify_key_alg_signing: "signing_alg kp = Some a \<Longrightarrow> verify_key_alg a = Some (pair_alg kp)"
  by (cases kp) auto

subsection \<open>Validation\<close>

definition validate_pack :: "from_prior \<Rightarrow> string option \<Rightarrow> (unit, error) result" where
  "validate_pack fp issuer_kid =
     and_then (ensure (is_did (fp_iss fp) \<and> snd (did_or_url (fp_iss fp)) = None)
                 (err_msg Malformed ''from_prior `iss` must be a non-fragment DID'')) (\<lambda>_.
     and_then (ensure (is_did (fp_sub fp) \<and> snd (did_or_url (fp_sub fp)) = None)
                 (err_msg Malformed ''from_prior `sub` must be a non-fragment DID'')) (\<lambda>_.
     and_then (ensure (fp_iss fp \<noteq> fp_sub fp)
                 (err_msg Malformed ''from_prior `iss` and `sub` values must not be equal'')) (\<lambda>_.
     case issuer_kid of
       None \<Rightarrow> Ok ()
     | Some kid \<Rightarrow>
         (case did_or_url kid of (did, url) \<Rightarrow>
         and_then (ensure (url \<noteq> None)
                     (err_msg IllegalArgument ''issuer_kid content is not DID URL'')) (\<lambda>_.
         ensure (did = fp_iss fp)
           (err_msg IllegalArgument
              ''from_prior issuer kid does not belong to from_prior `iss`''))))))"

lemma validate_pack_Ok_iff:
  "validate_pack fp issuer_kid = Ok u \<longleftrightarrow>
     is_did (fp_iss fp) \<and> is_did (fp_sub fp) \<and> \<not> is_did_url (fp_iss fp) \<and>
     \<not> is_did_url (fp_sub fp) \<and> fp_iss fp \<noteq> fp_sub fp \<and>
     (\<forall>kid. issuer_kid = Some kid \<longrightarrow> is_did_url kid \<and> did_of kid = fp_iss fp)"
  by (auto simp: validate_pack_def result_simps prod_eq_iff split: option.splits)

lemma validate_pack_not_Panic [simp]: "validate_pack fp k \<noteq> Panic"
  by (auto simp: validate_pack_def result_simps split: option.splits prod.splits)

subsection \<open>Unpacking\<close>

definition from_prior_unpack ::
  "('k, 'c, 'w, 'z) msg_ext_scheme \<Rightarrow> string \<Rightarrow> (from_prior \<times> string, error) result" where
  "from_prior_unpack X jwt =
     and_then (parse_compact X jwt) (\<lambda>parsed.
     let typ = ch_typ (pc_parsed_header parsed); alg = ch_alg (pc_parsed_header parsed);
         kid = ch_kid (pc_parsed_header parsed) in
     and_then (ensure (typ = ''JWT'')
                 (err_msg Malformed ''from_prior is malformed: typ is not JWT'')) (\<lambda>_.
     case did_or_url kid of (did, did_url) \<Rightarrow>
     and_then (ensure (did_url \<noteq> None)
                 (err_msg Malformed ''from_prior kid is not DID URL'')) (\<lambda>_.
     and_then (case did_resolve X did of
                 Inr doc \<Rightarrow> Ok doc
               | Inl e \<Rightarrow> Err (err_msg DIDNotResolved
                   (''from_prior issuer DID ('' @ did @ '') couldn'' @ [CHR 0x27] @
                    ''t be resolved. Reason: '' @ e))) (\<lambda>doc.
     and_then (ok_or (err_msg DIDUrlNotFound ''Provided issuer_kid is not found in DIDDoc'')
                 (find (\<lambda>a. a = kid) (doc_refs X doc (authentication_refs doc)))) (\<lambda>kid.
     and_then (ok_or (err_msg DIDUrlNotFound
                        ''from_prior issuer verification method not found in DIDDoc'')
                 (find_vm doc kid)) (\<lambda>key.
     and_then (get_jwk X key) (\<lambda>jwk_opt.
     and_then (ok_or (err_msg Unsupported (''Couldn'' @ [CHR 0x27] @ ''t convert key to jwk''))
                 jwk_opt) (\<lambda>jwk.
     and_then (case verify_key_alg alg of
                 Some ka \<Rightarrow>
                   and_then (context_msg ''Unable to instantiate from_prior issuer key''
                               (as_alg X ka jwk)) (\<lambda>k.
                   context_msg ''Unable to verify from_prior signature''
                     (compact_verify X parsed k))
               | None \<Rightarrow> Err (err_msg Unsupported ''Unsupported signature algorithm'')) (\<lambda>valid.
     and_then (ensure valid (err_msg Malformed ''Wrong from_prior signature'')) (\<lambda>_.
     and_then (with_kind Malformed ''from_prior payload is not a valid base64''
                 (b64_decode X (pc_payload parsed))) (\<lambda>payload.
     and_then (map_err (\<lambda>e. Error Malformed [''Decoded from_prior payload is not a valid UTF-8'', e])
                 (from_utf8 payload)) (\<lambda>payload.
     and_then (with_kind Malformed ''Unable to parse from_prior''
                 (serde_text (de_from_prior X payload))) (\<lambda>fp.
     Ok (fp, kid))))))))))))))"

subsection \<open>Packing\<close>

text \<open>\<open>find_secrets(..).first()\<close>, then \<open>get_secret\<close>: the key the wallet can sign with.\<close>

definition first_secret ::
  "secrets_resolver \<Rightarrow> string list \<Rightarrow> string \<Rightarrow> string \<Rightarrow> error \<Rightarrow> error
     \<Rightarrow> (string \<times> secret, error) result" where
  "first_secret SR kids find_ctx get_ctx none_found not_found =
     and_then (context_msg find_ctx (find_secrets SR kids)) (\<lambda>found.
     and_then (ok_or none_found (case found of [] \<Rightarrow> None | k # _ \<Rightarrow> Some k)) (\<lambda>kid.
     and_then (context_msg get_ctx (get_secret SR kid)) (\<lambda>so.
     and_then (ok_or not_found so) (\<lambda>s. Ok (kid, s)))))"

definition from_prior_pack ::
  "('k, 'c, 'w, 'z) msg_ext_scheme \<Rightarrow> secrets_resolver \<Rightarrow> from_prior \<Rightarrow> string option
     \<Rightarrow> (string \<times> string, error) result" where
  "from_prior_pack X SR fp issuer_kid =
     and_then (validate_pack fp issuer_kid) (\<lambda>_.
     and_then (with_kind InvalidState ''Unable serialize message''
                 (serde_text (ser_from_prior X fp))) (\<lambda>fp_str.
     and_then (case did_resolve X (fp_iss fp) of
                 Inr doc \<Rightarrow> Ok doc
               | Inl e \<Rightarrow> Err (err_msg DIDNotResolved
                   (''from_prior issuer DIDDoc is not found. Reason: '' @ e))) (\<lambda>doc.
     and_then (case issuer_kid of
                 Some issuer_kid \<Rightarrow>
                   (case did_or_url issuer_kid of (did, url) \<Rightarrow>
                   and_then (ok_or (err_msg IllegalArgument ''issuer_kid content is not DID URL'')
                               url) (\<lambda>kid.
                   and_then (ensure (did = fp_iss fp)
                               (err_msg IllegalArgument
                                  ''from_prior issuer kid does not belong to from_prior `iss`'')) (\<lambda>_.
                   and_then (ok_or (err_msg DIDUrlNotFound
                                      ''Provided issuer_kid is not found in DIDDoc'')
                               (find (\<lambda>a. a = kid) (doc_refs X doc (authentication_refs doc)))) (\<lambda>kid.
                   Ok [kid]))))
               | None \<Rightarrow> Ok (doc_refs X doc (authentication_refs doc))) (\<lambda>authentication_kids.
     and_then (first_secret SR authentication_kids ''Unable to find secrets''
                 ''Unable to find secret''
                 (err_msg SecretNotFound ''No from_prior issuer secrets found'')
                 (err_msg SecretNotFound ''from_prior issuer secret not found'')) (\<lambda>(kid, secret).
     and_then (context_msg ''Unable to instantiate from_prior issuer key''
                 (secret_as_key_pair X secret)) (\<lambda>sign_key.
     and_then (case signing_alg sign_key of
                 Some alg \<Rightarrow>
                   context_msg ''Unable to produce signature''
                     (sign_compact X fp_str (kid, pair_key sign_key) jwt_typ alg)
               | None \<Rightarrow> Err (err_msg Unsupported ''Unsupported signature alg'')) (\<lambda>jwt.
     Ok (jwt, kid))))))))"

subsection \<open>Plaintext and signed messages\<close>

definition validate_pack_plaintext ::
  "message \<Rightarrow> from_prior option \<Rightarrow> string option \<Rightarrow> (unit, error) result" where
  "validate_pack_plaintext m fp issuer_kid =
     (case fp of
        None \<Rightarrow> Ok ()
      | Some fp \<Rightarrow>
          and_then (validate_pack fp issuer_kid) (\<lambda>_.
          case m_from m of
            None \<Rightarrow> Ok ()
          | Some from \<Rightarrow> ensure (fp_sub fp = from)
              (err_msg Malformed ''from_prior `sub` value is not equal to message `from` value'')))"

definition pack_plaintext ::
  "('k, 'c, 'w, 'z) msg_ext_scheme \<Rightarrow> message \<Rightarrow> (string, error) result" where
  "pack_plaintext X m =
     and_then (case m_from_prior m of
                 Some fp \<Rightarrow> and_then (from_prior_unpack X fp) (\<lambda>(fp, kid). Ok (Some fp, Some kid))
               | None \<Rightarrow> Ok (None, None)) (\<lambda>(fp, kid).
     and_then (validate_pack_plaintext m fp kid) (\<lambda>_.
     with_kind InvalidState ''Unable to serialize message'' (serde_text (ser_message X m))))"

definition pack_signed ::
  "('k, 'c, 'w, 'z) msg_ext_scheme \<Rightarrow> secrets_resolver \<Rightarrow> message \<Rightarrow> string
     \<Rightarrow> (string \<times> string, error) result" where
  "pack_signed X SR m sign_by =
     and_then (ensure (is_did sign_by)
                 (err_msg IllegalArgument ''`sign_from` value is not a valid DID or DID URL'')) (\<lambda>_.
     case did_or_url sign_by of (did, key_id) \<Rightarrow>
     and_then (case did_resolve X did of
                 Inr doc \<Rightarrow> Ok doc
               | Inl e \<Rightarrow> Err (err_msg DIDNotResolved
                   (''Couldn'' @ [CHR 0x27] @ ''t resolve ('' @ did @ ''). Reason: '' @ e))) (\<lambda>doc.
     and_then (case key_id of
                 Some key_id \<Rightarrow>
                   (if contains_authentication X doc key_id then Ok [key_id]
                    else Err (err_msg DIDUrlNotFound ''Signer key id not found in did doc''))
               | None \<Rightarrow> Ok (doc_refs X doc (authentication_refs doc))) (\<lambda>authentications.
     and_then (first_secret SR authentications ''Unable find secrets'' ''Unable get secret''
                 (err_msg SecretNotFound ''No signer secrets found'')
                 (err_msg SecretNotFound ''Signer secret not found'')) (\<lambda>(key_id, secret).
     and_then (context_msg ''Unable instantiate sign key'' (secret_as_key_pair X secret)) (\<lambda>sign_key.
     and_then (pack_plaintext X m) (\<lambda>payload.
     and_then (case signing_alg sign_key of
                 Some alg \<Rightarrow>
                   context_msg ''Unable produce signatire''
                     (sign X payload (key_id, pair_key sign_key) alg)
               | None \<Rightarrow> Err (err_msg Unsupported ''Unsupported signature alg'')) (\<lambda>msg.
     Ok (msg, key_id))))))))"

subsection \<open>Round trip\<close>

text \<open>
  A document publishes a key pair under a key id for authentication: the relationship names
  it, the first verification method of that id reads as a JWK, and the JWK is the public half.
\<close>

definition publishes ::
  "('k, 'z) key_ext_scheme \<Rightarrow> ('k \<Rightarrow> 'k) \<Rightarrow> document \<Rightarrow> string \<Rightarrow> 'k known_key_pair \<Rightarrow> bool" where
  "publishes X pub doc kid kp \<longleftrightarrow>
     kid \<in> set (doc_refs X doc (authentication_refs doc)) \<and>
     (\<exists>vm j. find_vm doc kid = Some vm \<and> get_jwk X vm = Ok (Some j) \<and>
        as_alg X (pair_alg kp) j = Ok (pub (pair_key kp)))"

lemma find_eq_Some: "find (\<lambda>a. a = k) xs = Some y \<longleftrightarrow> k \<in> set xs \<and> y = k"
  by (induction xs) auto

lemma first_secret_Ok_iff:
  "first_secret SR kids a b e e' = Ok (kid, s) \<longleftrightarrow>
     (\<exists>rest. find_secrets SR kids = Ok (kid # rest)) \<and> get_secret SR kid = Ok (Some s)"
  by (auto simp: first_secret_def result_simps)

definition from_prior_serde_laws :: "('k, 'c, 'w, 'z) msg_ext_scheme \<Rightarrow> bool" where
  "from_prior_serde_laws X \<longleftrightarrow>
     (\<forall>fp s. ser_from_prior X fp = Inr s \<longrightarrow> utf8_valid s \<and> de_from_prior X s = Inr fp)"

lemma from_prior_pack_OkE:
  assumes "from_prior_pack X SR fp issuer_kid = Ok (jwt, kid)"
  obtains doc fp_str secret kp alg kids rest where
    "did_resolve X (fp_iss fp) = Inr doc" "validate_pack fp issuer_kid = Ok ()"
    "ser_from_prior X fp = Inr fp_str"
    "set kids \<subseteq> set (doc_refs X doc (authentication_refs doc))"
    "find_secrets SR kids = Ok (kid # rest)"
    "get_secret SR kid = Ok (Some secret)" "secret_as_key_pair X secret = Ok kp"
    "signing_alg kp = Some alg"
    "sign_compact X fp_str (kid, pair_key kp) jwt_typ alg = Ok jwt"
proof (cases issuer_kid)
  case None
  with assms show ?thesis
    by (auto simp: from_prior_pack_def result_simps first_secret_Ok_iff intro: that)
next
  case (Some k)
  have one: "set [k] \<subseteq> set ks" if "k \<in> set ks" for k :: string and ks using that by simp
  from Some assms show ?thesis
    by (auto simp: from_prior_pack_def result_simps first_secret_Ok_iff find_eq_Some
             intro: that[OF _ _ _ one])
qed

lemma from_prior_unpack_OkE:
  assumes "from_prior_unpack X jwt = Ok (fp, kid)"
  obtains parsed doc vm jwk ka k payload where
    "parse_compact X jwt = Ok parsed" "ch_typ (pc_parsed_header parsed) = ''JWT''"
    "ch_kid (pc_parsed_header parsed) = kid" "is_did_url kid"
    "did_resolve X (did_of kid) = Inr doc"
    "kid \<in> set (doc_refs X doc (authentication_refs doc))" "find_vm doc kid = Some vm"
    "get_jwk X vm = Ok (Some jwk)" "verify_key_alg (ch_alg (pc_parsed_header parsed)) = Some ka"
    "as_alg X ka jwk = Ok k" "compact_verify X parsed k = Ok True"
    "b64_decode X (pc_payload parsed) = Inr payload" "utf8_valid payload"
    "de_from_prior X payload = Inr fp"
  using assms
  by (auto simp: from_prior_unpack_def Let_def result_simps find_eq_Some
           split: option.splits prod.splits sum.splits)

lemma from_prior_unpack_Ok:
  assumes "parse_compact X jwt = Ok parsed" "ch_typ (pc_parsed_header parsed) = ''JWT''"
    "ch_kid (pc_parsed_header parsed) = kid" "is_did_url kid"
    "did_resolve X (did_of kid) = Inr doc"
    "kid \<in> set (doc_refs X doc (authentication_refs doc))" "find_vm doc kid = Some vm"
    "get_jwk X vm = Ok (Some jwk)" "verify_key_alg (ch_alg (pc_parsed_header parsed)) = Some ka"
    "as_alg X ka jwk = Ok k" "compact_verify X parsed k = Ok True"
    "b64_decode X (pc_payload parsed) = Inr payload" "utf8_valid payload"
    "de_from_prior X payload = Inr fp"
  shows "from_prior_unpack X jwt = Ok (fp, kid)"
proof -
  obtain did url where d: "did_or_url kid = (did, Some url)"
    using assms(4) by (cases "did_or_url kid") auto
  then have r: "did_resolve X did = Inr doc" using assms(5) by simp
  have f: "find (\<lambda>a. a = kid) (doc_refs X doc (authentication_refs doc)) = Some kid"
    using assms(6) by (simp add: find_eq_Some)
  show ?thesis using assms d r f
    by (simp add: from_prior_unpack_def Let_def with_kind_def from_utf8_def context_msg_def)
qed

text \<open>
  C7: a \<open>from_prior\<close> that the old DID has packed into a JWT is unpacked to the same value by
  anyone who resolves the DID, with the key id it was signed with.
\<close>

theorem from_prior_pack_unpack:
  assumes "b64_laws X" "jws_serde_laws X" "signature_laws X pub" "from_prior_serde_laws X"
    and pack: "from_prior_pack X SR fp issuer_kid = Ok (jwt, kid)"
    and kid: "is_did_url kid" "did_of kid = fp_iss fp"
    and pub: "\<And>doc secret kp. did_resolve X (fp_iss fp) = Inr doc \<Longrightarrow>
                get_secret SR kid = Ok (Some secret) \<Longrightarrow> secret_as_key_pair X secret = Ok kp \<Longrightarrow>
                publishes X pub doc kid kp"
  shows "from_prior_unpack X jwt = Ok (fp, kid)"
proof -
  from pack obtain doc fp_str secret kp alg kids rest where
    doc: "did_resolve X (fp_iss fp) = Inr doc" and fp_str: "ser_from_prior X fp = Inr fp_str" and
    secret: "get_secret SR kid = Ok (Some secret)" and kp: "secret_as_key_pair X secret = Ok kp" and
    alg: "signing_alg kp = Some alg" and
    jwt: "sign_compact X fp_str (kid, pair_key kp) jwt_typ alg = Ok jwt"
    by (rule from_prior_pack_OkE)
  from sign_compact_parse_verify[OF assms(1-3) jwt] obtain pc where
    pc: "parse_compact X jwt = Ok pc" "pc_parsed_header pc = \<lparr>ch_typ = jwt_typ, ch_alg = alg, ch_kid = kid\<rparr>"
      "compact_verify X pc (pub (pair_key kp)) = Ok True" "b64_decode X (pc_payload pc) = Inr fp_str"
    by blast
  from pub[OF doc secret kp] obtain vm j where
    p: "kid \<in> set (doc_refs X doc (authentication_refs doc))" "find_vm doc kid = Some vm"
      "get_jwk X vm = Ok (Some j)" "as_alg X (pair_alg kp) j = Ok (pub (pair_key kp))"
    by (auto simp: publishes_def)
  have s: "utf8_valid fp_str" "de_from_prior X fp_str = Inr fp"
    using assms(4) fp_str by (auto simp: from_prior_serde_laws_def)
  show ?thesis
    by (rule from_prior_unpack_Ok[OF pc(1) _ _ kid(1) _ p(1-3) _ p(4) pc(3,4) s])
       (use pc(2) kid(2) doc verify_key_alg_signing[OF alg] in \<open>simp_all add: jwt_typ_def\<close>)
qed

end
