(* ===== verification/Envelope.thy ===== *)
theory Envelope
  imports FromPrior
begin

text \<open>
  Envelopes (\<open>envelope.rs\<close>, with \<open>fill_envelope_from\<close> of \<open>jwe/parse.rs\<close> and the algorithms of
  \<open>algorithms.rs\<close>): the three forms a DIDComm text can have, their parsing and checking, and the
  record of what is known about a received message. A method that takes \<open>&mut self\<close> returns the
  changed record; after an error no caller of the source reads the record again, so an error
  carries none.
\<close>

subsection \<open>Data\<close>

datatype auth_crypt_alg = AuthA256cbcHs512Ecdh1puA256kw

datatype anon_crypt_alg =
    AnonA256cbcHs512EcdhEsA256kw
  | AnonXc20pEcdhEsA256kw
  | AnonA256gcmEcdhEsA256kw

datatype sign_alg = SignEdDSA | SignES256 | SignES256K

datatype envelope = EnvJwe jwe | EnvJws jws | EnvMessage message

datatype parsed_envelope = PeJwe parsed_jwe | PeJws parsed_jws | PeMessage message

record unpack_metadata =
  um_encrypted :: bool
  um_authenticated :: bool
  um_non_repudiation :: bool
  um_anonymous_sender :: bool
  um_re_wrapped_in_forward :: bool
  um_encrypted_from_kid :: "string option"
  um_encrypted_to_kids :: "string list option"
  um_sign_from :: "string option"
  um_from_prior_issuer_kid :: "string option"
  um_enc_alg_auth :: "auth_crypt_alg option"
  um_enc_alg_anon :: "anon_crypt_alg option"
  um_sign_alg :: "sign_alg option"
  um_signed_message :: "jws option"
  um_from_prior :: "from_prior option"

definition default_metadata :: unpack_metadata where
  "default_metadata =
     \<lparr>um_encrypted = False, um_authenticated = False, um_non_repudiation = False,
      um_anonymous_sender = False, um_re_wrapped_in_forward = False,
      um_encrypted_from_kid = None, um_encrypted_to_kids = None, um_sign_from = None,
      um_from_prior_issuer_kid = None, um_enc_alg_auth = None, um_enc_alg_anon = None,
      um_sign_alg = None, um_signed_message = None, um_from_prior = None\<rparr>"

record 'k meta_envelope =
  me_envelope :: "envelope option"
  me_parsed_envelope :: "parsed_envelope option"
  me_metadata :: unpack_metadata
  me_from_kid :: "string option"
  me_from_did :: "string option"
  me_from_ddoc :: "document option"
  me_from_key :: "'k known_key_pair option"
  me_to_kid :: "string option"
  me_to_did :: "string option"
  me_to_kids_found :: "string list"

definition default_meta_envelope :: "'k meta_envelope" where
  "default_meta_envelope =
     \<lparr>me_envelope = None, me_parsed_envelope = None, me_metadata = default_metadata,
      me_from_kid = None, me_from_did = None, me_from_ddoc = None, me_from_key = None,
      me_to_kid = None, me_to_did = None, me_to_kids_found = []\<rparr>"

record ('k, 'c, 'w) env_ext = "('k, 'c, 'w) msg_ext" +
  de_message :: "string \<Rightarrow> serde_error + message"
  untagged_error :: "string \<Rightarrow> serde_error"

subsection \<open>Parsing\<close>

text \<open>The untagged enum: the variants are tried in their order.\<close>

definition de_envelope ::
  "('k, 'c, 'w, 'z) env_ext_scheme \<Rightarrow> string \<Rightarrow> serde_error + envelope" where
  "de_envelope X s =
     (case de_jwe X s of
        Inr j \<Rightarrow> Inr (EnvJwe j)
      | Inl _ \<Rightarrow>
          (case de_jws X s of
             Inr j \<Rightarrow> Inr (EnvJws j)
           | Inl _ \<Rightarrow>
               (case de_message X s of
                  Inr m \<Rightarrow> Inr (EnvMessage m)
                | Inl _ \<Rightarrow> Inl (untagged_error X s))))"

definition envelope_from_str ::
  "('k, 'c, 'w, 'z) env_ext_scheme \<Rightarrow> string \<Rightarrow> (envelope, error) result" where
  "envelope_from_str X s = serde_to_didcomm ''Unable deserialize envelope'' (de_envelope X s)"

fun envelope_parse ::
  "('k, 'c, 'w, 'z) env_ext_scheme \<Rightarrow> envelope \<Rightarrow> (parsed_envelope, error) result" where
  "envelope_parse X (EnvJwe j) = and_then (jwe_parse X j) (\<lambda>p. Ok (PeJwe p))"
| "envelope_parse X (EnvJws j) = and_then (jws_parse X j) (\<lambda>p. Ok (PeJws p))"
| "envelope_parse X (EnvMessage m) = Ok (PeMessage m)"

fun envelope_verify_didcomm ::
  "('k, 'c, 'w, 'z) env_ext_scheme \<Rightarrow> parsed_envelope \<Rightarrow> (parsed_envelope, error) result" where
  "envelope_verify_didcomm X (PeJwe p) = and_then (verify_didcomm X p) (\<lambda>p. Ok (PeJwe p))"
| "envelope_verify_didcomm X (PeJws p) = Ok (PeJws p)"
| "envelope_verify_didcomm X (PeMessage m) = Ok (PeMessage m)"

fun envelope_type :: "parsed_envelope \<Rightarrow> string" where
  "envelope_type (PeJwe _) = ''JWE''"
| "envelope_type (PeJws _) = ''JWS''"
| "envelope_type (PeMessage _) = ''JMS''"

text \<open>The chain \<open>Envelope::from_str(s)?.parse()?.verify_didcomm()?\<close> of the unpacking steps.\<close>

definition read_envelope ::
  "('k, 'c, 'w, 'z) env_ext_scheme \<Rightarrow> string \<Rightarrow> (parsed_envelope, error) result" where
  "read_envelope X s =
     and_then (envelope_from_str X s) (\<lambda>e.
     and_then (envelope_parse X e) (\<lambda>p.
     envelope_verify_didcomm X p))"

subsection \<open>The sender and the recipients\<close>

text \<open>The first recipient key, where all recipient keys are key ids of one DID.\<close>

definition recipients_of_one_did :: "string list \<Rightarrow> (string, error) result" where
  "recipients_of_one_did kids =
     and_then (ok_or (err_msg Malformed ''No recipient keys found'')
                 (case kids of [] \<Rightarrow> None | k # _ \<Rightarrow> Some k)) (\<lambda>to_kid.
     let to_did = fst (did_or_url to_kid) in
     and_then (ensure (\<not> list_ex (\<lambda>k. fst (did_or_url k) \<noteq> to_did \<or> snd (did_or_url k) = None) kids)
                 (err_msg Malformed (''Recipient keys are outside of one did or can'' @ [CHR 0x27] @
                    ''t be resolved to key agreement''))) (\<lambda>_.
     Ok to_kid))"

definition fill_sender ::
  "('k, 'c, 'w, 'z) env_ext_scheme \<Rightarrow> bytes \<Rightarrow> 'k meta_envelope \<Rightarrow> ('k meta_envelope, error) result" where
  "fill_sender X apu me =
     and_then (map_err (\<lambda>e. Error Malformed [''apu is invalid utf8'', e]) (from_utf8 apu)) (\<lambda>from_kid.
     case did_or_url from_kid of (from_did, from_url) \<Rightarrow>
     and_then (ensure (from_url \<noteq> None)
                 (err_msg Malformed (''Sender key can'' @ [CHR 0x27] @
                    ''t be resolved to key agreement''))) (\<lambda>_.
     and_then (case did_resolve X from_did of
                 Inl e \<Rightarrow> Err (err_msg DIDNotResolved e)
               | Inr doc \<Rightarrow> Ok doc) (\<lambda>doc.
     and_then (ensure (contains_key_agreement X doc from_kid)
                 (err_msg DIDUrlNotFound ''Sender kid not found in did'')) (\<lambda>_.
     and_then (ok_or (err_msg DIDUrlNotFound ''Sender verification method not found in did'')
                 (get_verification_method X doc from_kid)) (\<lambda>vm.
     and_then (get_jwk X vm) (\<lambda>jwk_opt.
     and_then (ok_or (err_msg Malformed (''Can'' @ [CHR 0x27] @
                        ''t convert verification method to a JWK'')) jwk_opt) (\<lambda>jwk.
     and_then (map_err (\<lambda>e. err_msg Malformed (''Can'' @ [CHR 0x27] @
                          ''t convert verification method to a key pair: '' @ display_error e))
                 (as_key_pair X jwk)) (\<lambda>key_pair.
     Ok (me\<lparr>me_from_did := Some from_did, me_from_ddoc := Some doc, me_from_kid := Some from_kid,
            me_from_key := Some key_pair,
            me_metadata := (me_metadata me)\<lparr>um_authenticated := True, um_encrypted := True,
              um_encrypted_from_kid := Some from_kid\<rparr>\<rparr>)))))))))"

definition fill_recipients ::
  "secrets_resolver \<Rightarrow> string list \<Rightarrow> 'k meta_envelope \<Rightarrow> ('k meta_envelope, error) result" where
  "fill_recipients SR to_kids me =
     and_then (recipients_of_one_did to_kids) (\<lambda>to_kid.
     and_then (find_secrets SR to_kids) (\<lambda>found.
     and_then (ensure (found \<noteq> []) (err_msg SecretNotFound ''No recipient secrets found'')) (\<lambda>_.
     Ok (me\<lparr>me_to_kid := Some to_kid, me_to_did := Some (fst (did_or_url to_kid)),
            me_to_kids_found := found,
            me_metadata := (me_metadata me)\<lparr>um_encrypted_to_kids := Some to_kids\<rparr>\<rparr>))))"

definition fill_envelope_from ::
  "('k, 'c, 'w, 'z) env_ext_scheme \<Rightarrow> secrets_resolver \<Rightarrow> parsed_jwe \<Rightarrow> 'k meta_envelope
     \<Rightarrow> ('k meta_envelope, error) result" where
  "fill_envelope_from X SR pj me =
     and_then (case pj_apu pj of
                 Some apu \<Rightarrow> fill_sender X apu me
               | None \<Rightarrow> Ok (me\<lparr>me_metadata := (me_metadata me)\<lparr>um_anonymous_sender := True\<rparr>\<rparr>))
       (fill_recipients SR (pj_to_kids pj))"

definition meta_envelope_from ::
  "('k, 'c, 'w, 'z) env_ext_scheme \<Rightarrow> secrets_resolver \<Rightarrow> 'k meta_envelope
     \<Rightarrow> ('k meta_envelope, error) result" where
  "meta_envelope_from X SR me =
     (case me_parsed_envelope me of
        Some (PeJwe pj) \<Rightarrow> fill_envelope_from X SR pj me
      | Some (PeJws _) \<Rightarrow> Ok me
      | Some (PeMessage _) \<Rightarrow> Ok me
      | None \<Rightarrow> Err (err_msg Malformed ''Unable to fill envelope from''))"

definition meta_envelope_new ::
  "('k, 'c, 'w, 'z) env_ext_scheme \<Rightarrow> secrets_resolver \<Rightarrow> string \<Rightarrow> ('k meta_envelope, error) result" where
  "meta_envelope_new X SR msg =
     and_then (envelope_from_str X msg) (\<lambda>e.
     and_then (and_then (envelope_parse X e) (envelope_verify_didcomm X)) (\<lambda>p.
     meta_envelope_from X SR
       (default_meta_envelope\<lparr>me_envelope := Some e, me_parsed_envelope := Some p\<rparr>)))"

subsection \<open>What the record of a received envelope says\<close>

text \<open>
  The DID document of a key id publishes a key pair under it for key agreement: what
  \<open>fill_sender\<close> has looked up and converted.
\<close>

definition published_sender ::
  "('k, 'z) key_ext_scheme \<Rightarrow> string \<Rightarrow> 'k known_key_pair \<Rightarrow> bool" where
  "published_sender X kid kp \<longleftrightarrow>
     is_did_url kid \<and>
     (\<exists>doc vm j. did_resolve X (did_of kid) = Inr doc \<and> contains_key_agreement X doc kid \<and>
        get_verification_method X doc kid = Some vm \<and> get_jwk X vm = Ok (Some j) \<and>
        as_key_pair X j = Ok kp)"

text \<open>The sender fields agree with each other and with the documents.\<close>

definition sender_wf :: "('k, 'z) key_ext_scheme \<Rightarrow> 'k meta_envelope \<Rightarrow> bool" where
  "sender_wf X me \<longleftrightarrow>
     um_encrypted_from_kid (me_metadata me) = me_from_kid me \<and>
     (me_from_key me = None \<longleftrightarrow> me_from_kid me = None) \<and>
     (\<forall>kid kp. me_from_kid me = Some kid \<longrightarrow> me_from_key me = Some kp \<longrightarrow> published_sender X kid kp) \<and>
     (um_authenticated (me_metadata me) \<longrightarrow>
        me_from_kid me \<noteq> None \<or> um_sign_from (me_metadata me) \<noteq> None)"

lemma sender_wf_default: "sender_wf X default_meta_envelope"
  by (simp add: sender_wf_def default_meta_envelope_def default_metadata_def)

lemma fill_sender_Ok_iff:
  "fill_sender X apu me = Ok me' \<longleftrightarrow>
     utf8_valid apu \<and>
     (\<exists>doc kp. did_resolve X (did_of apu) = Inr doc \<and> published_sender X apu kp \<and>
        me' = me\<lparr>me_from_did := Some (did_of apu), me_from_ddoc := Some doc,
                 me_from_kid := Some apu, me_from_key := Some kp,
                 me_metadata := (me_metadata me)\<lparr>um_authenticated := True, um_encrypted := True,
                   um_encrypted_from_kid := Some apu\<rparr>\<rparr>)"
  by (cases "did_or_url apu")
     (auto simp: fill_sender_def published_sender_def result_simps prod_eq_iff)

lemma recipients_of_one_did_Ok_iff [result_simps]:
  "recipients_of_one_did kids = Ok k \<longleftrightarrow>
     (\<exists>rest. kids = k # rest) \<and> (\<forall>j \<in> set kids. did_of j = did_of k \<and> is_did_url j)"
  by (cases kids) (auto simp: recipients_of_one_did_def Let_def result_simps list_ex_iff)

lemma recipients_of_one_did_not_Panic [simp]: "recipients_of_one_did kids \<noteq> Panic"
  by (auto simp: recipients_of_one_did_def Let_def result_simps)

lemma fill_recipients_Ok_iff:
  "fill_recipients SR kids me = Ok me' \<longleftrightarrow>
     (\<exists>k found. recipients_of_one_did kids = Ok k \<and> find_secrets SR kids = Ok found \<and> found \<noteq> [] \<and>
        me' = me\<lparr>me_to_kid := Some k, me_to_did := Some (did_of k), me_to_kids_found := found,
                 me_metadata := (me_metadata me)\<lparr>um_encrypted_to_kids := Some kids\<rparr>\<rparr>)"
  by (auto simp: fill_recipients_def result_simps ensure_def)

lemma fill_sender_wf: "fill_sender X apu me = Ok me' \<Longrightarrow> sender_wf X me'"
  by (auto simp: fill_sender_Ok_iff sender_wf_def)

lemma fill_recipients_sender:
  assumes "fill_recipients SR kids me = Ok me'"
  shows "me_from_kid me' = me_from_kid me" and "me_from_key me' = me_from_key me"
    and "sender_wf X me' = sender_wf X me"
    and "um_sign_from (me_metadata me') = um_sign_from (me_metadata me)"
    and "um_enc_alg_auth (me_metadata me') = um_enc_alg_auth (me_metadata me)"
  using assms by (auto simp: fill_recipients_Ok_iff sender_wf_def)

text \<open>
  After \<open>fill_envelope_from\<close>, the sender of the record is the one the envelope names in its
  \<open>apu\<close>, if it names one, and the record is well-formed.
\<close>

lemma fill_envelope_from_sender:
  assumes "fill_envelope_from X SR pj me = Ok me'" and "sender_wf X me"
  shows "sender_wf X me'"
    and "me_from_kid me' = (case pj_apu pj of None \<Rightarrow> me_from_kid me | Some apu \<Rightarrow> Some apu)"
proof -
  obtain me1 where me1: "(case pj_apu pj of Some apu \<Rightarrow> fill_sender X apu me
               | None \<Rightarrow> Ok (me\<lparr>me_metadata := (me_metadata me)\<lparr>um_anonymous_sender := True\<rparr>\<rparr>)) = Ok me1"
    and r: "fill_recipients SR (pj_to_kids pj) me1 = Ok me'"
    using assms(1) by (auto simp: fill_envelope_from_def result_simps)
  have wf: "sender_wf X me1"
  proof (cases "pj_apu pj")
    case None
    with me1 assms(2) show ?thesis by (auto simp: sender_wf_def)
  next
    case (Some apu)
    with me1 show ?thesis by (auto intro: fill_sender_wf)
  qed
  have k: "me_from_kid me1 = (case pj_apu pj of None \<Rightarrow> me_from_kid me | Some apu \<Rightarrow> Some apu)"
    using me1 by (auto simp: fill_sender_Ok_iff split: option.splits)
  show "sender_wf X me'" using wf by (simp add: fill_recipients_sender(3)[OF r])
  show "me_from_kid me' = (case pj_apu pj of None \<Rightarrow> me_from_kid me | Some apu \<Rightarrow> Some apu)"
    using fill_recipients_sender(1)[OF r] k by simp
qed

lemma fill_envelope_from_sign:
  "fill_envelope_from X SR pj me = Ok me' \<Longrightarrow>
     um_sign_from (me_metadata me') = um_sign_from (me_metadata me)"
  by (cases "pj_apu pj")
     (auto simp: fill_envelope_from_def result_simps fill_sender_Ok_iff fill_recipients_Ok_iff)

lemma fill_envelope_from_parsed:
  "fill_envelope_from X SR pj me = Ok me' \<Longrightarrow> me_parsed_envelope me' = me_parsed_envelope me"
  by (cases "pj_apu pj")
     (auto simp: fill_envelope_from_def result_simps fill_sender_Ok_iff fill_recipients_Ok_iff)

lemma meta_envelope_new_OkE:
  assumes "meta_envelope_new X SR msg = Ok me"
  obtains e p where "envelope_from_str X msg = Ok e" "read_envelope X msg = Ok p"
    "meta_envelope_from X SR
       (default_meta_envelope\<lparr>me_envelope := Some e, me_parsed_envelope := Some p\<rparr>) = Ok me"
  using assms by (auto simp: meta_envelope_new_def read_envelope_def result_simps)

lemma envelope_parse_not_Panic [simp]: "envelope_parse X e \<noteq> Panic"
  by (cases e) (auto simp: result_simps)

lemma envelope_verify_not_Panic [simp]: "envelope_verify_didcomm X p \<noteq> Panic"
  by (cases p) (auto simp: result_simps)

lemma read_envelope_not_Panic [simp]: "read_envelope X s \<noteq> Panic"
  by (auto simp: read_envelope_def envelope_from_str_def result_simps)

text \<open>Checking leaves an envelope as it is, and a JWE that passes has the checked properties.\<close>

lemma envelope_verify_Ok_iff:
  "envelope_verify_didcomm X p = Ok p' \<longleftrightarrow>
     p' = p \<and> (\<forall>pj. p = PeJwe pj \<longrightarrow> verify_didcomm X pj = Ok pj)"
  by (cases p) (auto simp: result_simps verify_didcomm_Ok_iff)

lemma read_envelope_Jwe:
  assumes "jwe_from_str X s = Ok j" and "jwe_parse X j = Ok pj" and "verify_didcomm X pj = Ok pj"
  shows "read_envelope X s = Ok (PeJwe pj)" and "envelope_from_str X s = Ok (EnvJwe j)"
  using assms
  by (simp_all add: read_envelope_def envelope_from_str_def de_envelope_def jwe_from_str_def
        serde_to_didcomm_def context_msg_def result_simps)

end
