(* ===== verification/PackCrypt.thy ===== *)
theory PackCrypt
  imports Envelope
begin

text \<open>
  The two encryptions of a packed message: \<open>anoncrypt\<close> and \<open>authcrypt\<close> of
  \<open>message/pack_encrypted/\<close>, with the options of \<open>pack_encrypted/mod.rs\<close>. The arms of the source
  that differ in the key type and the content cipher are one equation over \<open>known_key_alg\<close> and
  \<open>anon_crypt_alg\<close>. Each encryption gets its random draws as an argument.
\<close>

record pack_encrypted_options =
  po_protect_sender :: bool
  po_forward :: bool
  po_forward_headers :: "(string \<times> json) list option"
  po_messaging_service :: "string option"
  po_enc_alg_auth :: auth_crypt_alg
  po_enc_alg_anon :: anon_crypt_alg
  po_to_kids_limit :: u64

definition default_pack_options :: pack_encrypted_options where
  "default_pack_options =
     \<lparr>po_protect_sender = False, po_forward = True, po_forward_headers = None,
      po_messaging_service = None, po_enc_alg_auth = AuthA256cbcHs512Ecdh1puA256kw,
      po_enc_alg_anon = AnonXc20pEcdhEsA256kw, po_to_kids_limit = 100\<rparr>"

text \<open>The content cipher of each algorithm, as the type argument and in the header.\<close>

fun anon_content :: "anon_crypt_alg \<Rightarrow> content_alg \<times> enc_algorithm" where
  "anon_content AnonA256cbcHs512EcdhEsA256kw = (CeA256CbcHs512, A256cbcHs512)"
| "anon_content AnonXc20pEcdhEsA256kw = (CeXc20P, Xc20P)"
| "anon_content AnonA256gcmEcdhEsA256kw = (CeA256Gcm, A256Gcm)"

fun auth_content :: "auth_crypt_alg \<Rightarrow> content_alg \<times> enc_algorithm" where
  "auth_content AuthA256cbcHs512Ecdh1puA256kw = (CeA256CbcHs512, A256cbcHs512)"

definition encrypt_anon ::
  "('k, 'c, 'w, 'z) jwe_ext_scheme \<Rightarrow> ('k, 'c) draws \<Rightarrow> known_key_alg \<Rightarrow> anon_crypt_alg \<Rightarrow> bytes
     \<Rightarrow> (string \<times> 'k) list \<Rightarrow> (string, error) result" where
  "encrypt_anon X r ke alg msg keys =
     (case anon_content alg of (ce, enc) \<Rightarrow>
        encrypt X r ce KdfEcdhEs ke msg EcdhEsA256kw enc None keys)"

definition encrypt_auth ::
  "('k, 'c, 'w, 'z) jwe_ext_scheme \<Rightarrow> ('k, 'c) draws \<Rightarrow> known_key_alg \<Rightarrow> auth_crypt_alg \<Rightarrow> bytes
     \<Rightarrow> string \<times> 'k \<Rightarrow> (string \<times> 'k) list \<Rightarrow> (string, error) result" where
  "encrypt_auth X r ke alg msg sender keys =
     (case auth_content alg of (ce, enc) \<Rightarrow>
        encrypt X r ce KdfEcdh1PU ke msg Ecdh1puA256kw enc (Some sender) keys)"

subsection \<open>Recipient keys\<close>

text \<open>The algorithm of a verification method, where it reads as a JWK.\<close>

definition vm_alg :: "('k, 'z) key_ext_scheme \<Rightarrow> vm \<Rightarrow> (known_key_alg option, error) result" where
  "vm_alg X vm = and_then (get_jwk X vm) (\<lambda>j. Ok (map_option key_alg j))"

definition find_vms ::
  "document \<Rightarrow> (string \<Rightarrow> error) \<Rightarrow> string list \<Rightarrow> (vm list, error) result" where
  "find_vms doc missing kids = collect (\<lambda>kid. ok_or (missing kid) (find_vm doc kid)) kids"

fun first_supported_alg ::
  "('k, 'z) key_ext_scheme \<Rightarrow> vm list \<Rightarrow> (known_key_alg option, error) result" where
  "first_supported_alg X [] = Ok None"
| "first_supported_alg X (v # vs) =
     and_then (vm_alg X v) (\<lambda>a.
     case a of
       Some alg \<Rightarrow> if alg = UnsupportedAlg then first_supported_alg X vs else Ok (Some alg)
     | None \<Rightarrow> first_supported_alg X vs)"

definition vms_of_alg ::
  "('k, 'z) key_ext_scheme \<Rightarrow> known_key_alg \<Rightarrow> vm list \<Rightarrow> (vm list, error) result" where
  "vms_of_alg X alg vs = filter_res (\<lambda>v. and_then (vm_alg X v) (\<lambda>a. Ok (a = Some alg))) vs"

definition vm_keys ::
  "('k, 'z) key_ext_scheme \<Rightarrow> known_key_alg \<Rightarrow> string \<Rightarrow> vm list
     \<Rightarrow> ((string \<times> 'k) list, error) result" where
  "vm_keys X alg label vs =
     collect (\<lambda>vm. and_then (get_jwk X vm) (\<lambda>jwk_opt.
       case jwk_opt of
         Some jwk \<Rightarrow> and_then (as_alg X alg jwk) (\<lambda>k. Ok (vm_id vm, k))
       | None \<Rightarrow> Err (err_msg NoCompatibleCrypto (''Couldn'' @ [CHR 0x27] @ ''t create JWK for '' @ label)))) vs"

definition too_many_keys :: "u64 \<Rightarrow> nat \<Rightarrow> error" where
  "too_many_keys limit n =
     err_msg TooManyCryptoOperations
       (''Too many keys in did. Keys limit is '' @ [CHR 0x27] @ show_nat (unat limit) @ [CHR 0x27] @
        '' but found '' @ [CHR 0x27] @ show_nat n @ [CHR 0x27] @ '' key(s).'')"

text \<open>The algorithms a key agreement can use.\<close>

fun agreement_label :: "known_key_alg \<Rightarrow> string option" where
  "agreement_label X25519 = Some ''x25519''"
| "agreement_label P256 = Some ''p256''"
| "agreement_label K256 = Some ''k256''"
| "agreement_label _ = None"

subsection \<open>Anonymous encryption\<close>

definition anoncrypt ::
  "('k, 'c, 'w, 'z) env_ext_scheme \<Rightarrow> ('k, 'c) draws \<Rightarrow> string \<Rightarrow> bytes \<Rightarrow> anon_crypt_alg \<Rightarrow> u64
     \<Rightarrow> (string \<times> string list, error) result" where
  "anoncrypt X r to msg enc_alg_anon to_kids_limit =
     (case did_or_url to of (to_did, to_kid) \<Rightarrow>
     and_then (case did_resolve X to_did of
                 Inl _ \<Rightarrow> Err (err_msg DIDNotResolved ''Recipient did not found'')
               | Inr doc \<Rightarrow> Ok doc) (\<lambda>to_ddoc.
     let to_kids = find_key_agreement X to_ddoc to_kid in
     and_then (ensure (to_kids \<noteq> [])
                 (err_msg DIDUrlNotFound ''No recipient key agreements found'')) (\<lambda>_.
     and_then (ensure (\<not> unat to_kids_limit < length to_kids)
                 (too_many_keys to_kids_limit (length to_kids))) (\<lambda>_.
     and_then (find_vms to_ddoc
                 (\<lambda>_. err_msg Unsupported ''External keys are unsupported in this version'')
                 to_kids) (\<lambda>to_keys.
     and_then (and_then (first_supported_alg X to_keys)
                 (ok_or (err_msg InvalidState ''No key agreement keys found for recipient''))) (\<lambda>alg.
     and_then (vms_of_alg X alg to_keys) (\<lambda>to_keys.
     and_then (case agreement_label alg of
                 None \<Rightarrow> Err (err_msg InvalidState ''Unsupported recipient key agreement alg'')
               | Some label \<Rightarrow>
                   and_then (vm_keys X alg label to_keys) (\<lambda>keys.
                   context_msg ''Unable produce anoncrypt envelope''
                     (encrypt_anon X r alg enc_alg_anon msg keys))) (\<lambda>msg.
     Ok (msg, map vm_id to_keys)))))))))"

subsection \<open>Authenticated encryption\<close>

text \<open>
  The first sender key of a supported algorithm that some recipient key shares.
\<close>

fun pick_sender_key ::
  "('k, 'z) key_ext_scheme \<Rightarrow> vm list \<Rightarrow> vm list \<Rightarrow> (vm option, error) result" where
  "pick_sender_key X to_keys [] = Ok None"
| "pick_sender_key X to_keys (f # fs) =
     and_then (vm_alg X f) (\<lambda>a.
     if a = None \<or> a = Some UnsupportedAlg then pick_sender_key X to_keys fs
     else and_then (any_res (\<lambda>t. and_then (vm_alg X t) (\<lambda>b. Ok (b = a))) to_keys) (\<lambda>hit.
          if hit then Ok (Some f) else pick_sender_key X to_keys fs))"

fun auth_label :: "known_key_alg \<Rightarrow> string option" where
  "auth_label X25519 = Some ''x25519''"
| "auth_label P256 = Some ''p_256''"
| "auth_label K256 = Some ''k_256''"
| "auth_label _ = None"

text \<open>
  The encryption to the chosen recipient keys, and the second, anonymous one where the sender
  is to be hidden from mediators.
\<close>

definition authcrypt_keys ::
  "('k, 'c, 'w, 'z) env_ext_scheme \<Rightarrow> (nat \<Rightarrow> ('k, 'c) draws) \<Rightarrow> bytes \<Rightarrow> auth_crypt_alg
     \<Rightarrow> anon_crypt_alg \<Rightarrow> bool \<Rightarrow> known_key_alg \<Rightarrow> string \<Rightarrow> string \<Rightarrow> secret \<Rightarrow> vm list
     \<Rightarrow> (string, error) result" where
  "authcrypt_keys X rs msg enc_alg_auth enc_alg_anon protect_sender alg label from_kid from_priv to_keys =
     and_then (vm_keys X alg label to_keys) (\<lambda>keys.
     and_then (secret_as_alg X alg from_priv) (\<lambda>from_key.
     and_then (context_msg ''Unable produce authcrypt envelope''
                 (encrypt_auth X (rs 0) alg enc_alg_auth msg (from_kid, from_key) keys)) (\<lambda>msg.
     if protect_sender
     then context_msg ''Unable produce authcrypt envelope''
            (encrypt_anon X (rs 1) alg enc_alg_anon msg keys)
     else Ok msg)))"

definition authcrypt ::
  "('k, 'c, 'w, 'z) env_ext_scheme \<Rightarrow> secrets_resolver \<Rightarrow> (nat \<Rightarrow> ('k, 'c) draws) \<Rightarrow> string \<Rightarrow> string
     \<Rightarrow> bytes \<Rightarrow> auth_crypt_alg \<Rightarrow> anon_crypt_alg \<Rightarrow> bool \<Rightarrow> u64
     \<Rightarrow> (string \<times> string \<times> string list, error) result" where
  "authcrypt X SR rs to from msg enc_alg_auth enc_alg_anon protect_sender to_kids_limit =
     (case did_or_url to of (to_did, to_kid) \<Rightarrow>
     and_then (case did_resolve X to_did of
                 Inl _ \<Rightarrow> Err (err_msg DIDNotResolved ''Recipient did not found'')
               | Inr doc \<Rightarrow> Ok doc) (\<lambda>to_ddoc.
     case did_or_url from of (from_did, from_kid) \<Rightarrow>
     and_then (case did_resolve X from_did of
                 Inl _ \<Rightarrow> Err (err_msg DIDNotResolved ''Sender did not found'')
               | Inr doc \<Rightarrow> Ok doc) (\<lambda>from_ddoc.
     let from_kids = find_key_agreement X from_ddoc from_kid in
     and_then (ensure (from_kids \<noteq> [])
                 (err_msg DIDUrlNotFound ''No sender key agreements found'')) (\<lambda>_.
     and_then (context_msg ''Unable find secrets'' (find_secrets SR from_kids)) (\<lambda>from_kids.
     and_then (ensure (from_kids \<noteq> []) (err_msg SecretNotFound ''No sender secrets found'')) (\<lambda>_.
     and_then (find_vms from_ddoc (\<lambda>kid. err_msg Malformed
                 (''No verification material found for sender key agreement '' @ kid)) from_kids) (\<lambda>from_keys.
     let to_kids = find_key_agreement X to_ddoc to_kid in
     and_then (ensure (to_kids \<noteq> [])
                 (err_msg DIDUrlNotFound ''No recipient key agreements found'')) (\<lambda>_.
     and_then (ensure (\<not> unat to_kids_limit < length to_kids)
                 (too_many_keys to_kids_limit (length to_kids))) (\<lambda>_.
     and_then (find_vms to_ddoc (\<lambda>kid. err_msg Malformed
                 (''No verification material found for recipient key agreement '' @ kid)) to_kids) (\<lambda>to_keys.
     and_then (and_then (pick_sender_key X to_keys from_keys)
                 (ok_or (err_msg NoCompatibleCrypto
                    ''No common keys between sender and recipient found''))) (\<lambda>from_key.
     and_then (context_msg ''Unable resolve sender secret'' (get_secret SR (vm_id from_key))) (\<lambda>so.
     and_then (ok_or (err_msg InvalidState ''Sender secret not found'') so) (\<lambda>from_priv_key.
     and_then (and_then (get_jwk X from_key) unwrap) (\<lambda>from_jwk.
     let alg = key_alg from_jwk in
     and_then (vms_of_alg X alg to_keys) (\<lambda>to_keys.
     and_then (case auth_label alg of
                 None \<Rightarrow> Err (err_msg Unsupported ''Unsupported recipient key agreement method'')
               | Some label \<Rightarrow>
                   authcrypt_keys X rs msg enc_alg_auth enc_alg_anon protect_sender alg label
                     (vm_id from_key) from_priv_key to_keys) (\<lambda>msg.
     Ok (msg, vm_id from_key, map vm_id to_keys)))))))))))))))))"

end
