(* ===== verification/Routing.thy ===== *)
theory Routing
  imports PackCrypt
begin

text \<open>
  Routing (\<open>protocols/routing/mod.rs\<close>): the DIDComm services of a DID document, the chain of
  services of a recipient, forward messages, and the onion of forwards around an encrypted
  message.
\<close>

definition didcomm_v2_profile :: string where
  "didcomm_v2_profile = ''didcomm/v2''"

record didcomm_service =
  ds_uri :: string
  ds_accept :: "string list option"
  ds_routing_keys :: "string list"

subsection \<open>Services\<close>

definition check_service_type :: "service \<Rightarrow> (unit, error) result" where
  "check_service_type s =
     (if map_option (\<lambda>t. t = ''DIDCommMessaging'')
           (case service_types s of [] \<Rightarrow> None | t # _ \<Rightarrow> Some t) \<noteq> None
      then Ok ()
      else Err (err_msg InvalidState
             (''Service ('' @ service_id s @ '') is not type `DIDCommMessaging. Instead it is ('' @
              (case service_types s of [] \<Rightarrow> [] | t # _ \<Rightarrow> t) @ '')'')))"

text \<open>What \<open>serde\<close> derives: a list of strings, and the fields of the service.\<close>

fun as_strings :: "json list \<Rightarrow> string list option" where
  "as_strings [] = Some []"
| "as_strings (v # vs) =
     (case (as_str v, as_strings vs) of (Some s, Some ss) \<Rightarrow> Some (s # ss) | _ \<Rightarrow> None)"

fun string_list :: "json \<Rightarrow> string list option" where
  "string_list (JArray vs) = as_strings vs"
| "string_list _ = None"

definition optional_strings :: "json option \<Rightarrow> string list option option" where
  "optional_strings v =
     (case v of
        None \<Rightarrow> Some None
      | Some JNull \<Rightarrow> Some None
      | Some v \<Rightarrow> map_option Some (string_list v))"

definition service_from_value :: "(string \<times> json) list \<Rightarrow> didcomm_service option" where
  "service_from_value ms =
     (case (map_of ms ''uri'', optional_strings (map_of ms ''accept''),
            case map_of ms ''routingKeys'' of None \<Rightarrow> Some [] | Some v \<Rightarrow> string_list v) of
        (Some (JString uri), Some accept, Some keys) \<Rightarrow>
          Some \<lparr>ds_uri = uri, ds_accept = accept, ds_routing_keys = keys\<rparr>
      | _ \<Rightarrow> None)"

fun accepts_v2 :: "endpoint \<Rightarrow> bool" where
  "accepts_v2 (EndpointMap ms) =
     (case map_of ms ''accept'' of
        Some accept \<Rightarrow>
          (case string_list accept of Some a \<Rightarrow> didcomm_v2_profile \<in> set a | None \<Rightarrow> False)
      | None \<Rightarrow> True)"
| "accepts_v2 (EndpointUri _) = False"

definition check_service :: "service \<Rightarrow> ((string \<times> didcomm_service) option, error) result" where
  "check_service s =
     and_then (check_service_type s) (\<lambda>_.
     let invalid = err_msg InvalidState
           (''Service ('' @ service_id s @ '') has an invalid serviceEndpoint definition'') in
     case service_endpoint s of
       Some eps \<Rightarrow>
         (case find accepts_v2 eps of
            Some ep \<Rightarrow>
              (case ep of
                 EndpointMap ms \<Rightarrow>
                   (case service_from_value ms of
                      Some ds \<Rightarrow> Ok (Some (service_id s, ds))
                    | None \<Rightarrow> Err invalid)
               | EndpointUri _ \<Rightarrow> Err invalid)
          | None \<Rightarrow> Err (err_msg IllegalArgument
              ''Service with the specified ID does not accept didcomm/v2 profile''))
     | None \<Rightarrow> Err (err_msg InvalidState
         (''Service ('' @ service_id s @ '') has no serviceEndpoint definitions'')))"

text \<open>\<open>find_map\<close> over the services, skipping those that fail the check.\<close>

fun first_service :: "service list \<Rightarrow> (string \<times> didcomm_service) option" where
  "first_service [] = None"
| "first_service (s # ss) =
     (case (case check_service s of Ok so \<Rightarrow> so | _ \<Rightarrow> None) of
        Some x \<Rightarrow> Some x
      | None \<Rightarrow> first_service ss)"

definition find_did_comm_service ::
  "('k, 'z) key_ext_scheme \<Rightarrow> document \<Rightarrow> string option
     \<Rightarrow> ((string \<times> didcomm_service) option, error) result" where
  "find_did_comm_service X doc wanted =
     (case wanted of
        Some sid \<Rightarrow>
          and_then (ok_or (err_msg InvalidState
                             ''Service with the specified ID not found in the DID document'')
                      (doc_service X doc sid)) check_service
      | None \<Rightarrow> Ok (first_service (doc_services doc)))"

text \<open>
  The loop over endpoints that are DIDs. A chain of more than one service whose first endpoint is
  again a DID is refused, so the loop turns at most twice.
\<close>

function follow_services ::
  "('k, 'z) key_ext_scheme \<Rightarrow> string \<Rightarrow> (string \<times> didcomm_service) list \<Rightarrow> string
     \<Rightarrow> ((string \<times> didcomm_service) list, error) result" where
  "follow_services X to services uri =
     (if \<not> is_did uri then Ok services
      else if 1 < length services
      then Err (err_msg InvalidState ''DID doc defines alternative endpoints recursively'')
      else
        and_then (case did_resolve X uri of
                    Inl e \<Rightarrow> Err (err_msg DIDNotResolved
                      (''Couldn'' @ [CHR 0x27] @ ''t resolve DID('' @ to @ ''). Reason: '' @ e))
                  | Inr doc \<Rightarrow> Ok doc) (\<lambda>doc.
        and_then (and_then (find_did_comm_service X doc None)
                    (ok_or (err_msg InvalidState
                       ''Referenced mediator does not provide any DIDCommMessaging services''))) (\<lambda>s.
        follow_services X to (s # services) (ds_uri (snd s)))))"
  by pat_completeness auto

termination
  by (relation "measure (\<lambda>(X, to, services, uri). 2 - length services)") auto

declare follow_services.simps [simp del]

definition resolve_services_chain ::
  "('k, 'z) key_ext_scheme \<Rightarrow> string \<Rightarrow> string option
     \<Rightarrow> ((string \<times> didcomm_service) list, error) result" where
  "resolve_services_chain X to wanted =
     and_then (case did_resolve X to of
                 Inl e \<Rightarrow> Err (err_msg DIDNotResolved
                   (''Couldn'' @ [CHR 0x27] @ ''t resolve DID('' @ to @ ''). Reason: '' @ e))
               | Inr doc \<Rightarrow> Ok doc) (\<lambda>doc.
     and_then (find_did_comm_service X doc wanted) (\<lambda>so.
     case so of
       None \<Rightarrow> Ok []
     | Some s \<Rightarrow> follow_services X to [s] (ds_uri (snd s))))"

subsection \<open>Forward messages\<close>

definition build_forward_message ::
  "('k, 'c, 'w, 'z) env_ext_scheme \<Rightarrow> string \<Rightarrow> string \<Rightarrow> string \<Rightarrow> (string \<times> json) list option
     \<Rightarrow> (message, error) result" where
  "build_forward_message X uuid forwarded_msg nxt headers =
     (let body = JObject [(''next'', JString nxt)] in
      and_then (with_kind Malformed ''Unable deserialize forwarded message''
                  (serde_text (de_value X forwarded_msg))) (\<lambda>v.
      let attachment = attachment_finalize (attachment_json v);
          b = message_build uuid forward_msg_type body;
          b = (case headers of None \<Rightarrow> b | Some hs \<Rightarrow> fold (\<lambda>(name, value). with_header name value) hs b)
      in Ok (message_finalize (with_to nxt (with_attachment attachment b)))))"

definition forward_message ::
  "('k, 'c, 'w, 'z) env_ext_scheme \<Rightarrow> string \<Rightarrow> string \<Rightarrow> string \<Rightarrow> (string \<times> json) list option
     \<Rightarrow> (string, error) result" where
  "forward_message X uuid forwarded_msg nxt headers =
     and_then (build_forward_message X uuid forwarded_msg nxt headers) (\<lambda>m.
     with_kind InvalidState ''Unable serialize forward message'' (serde_text (ser_message X m)))"

text \<open>One layer of the onion for each pair of a key to encrypt to and a next hop, innermost first.\<close>

fun wrap_layers ::
  "('k, 'c, 'w, 'z) env_ext_scheme \<Rightarrow> (nat \<Rightarrow> ('k, 'c) draws) \<Rightarrow> (string \<times> json) list option
     \<Rightarrow> anon_crypt_alg \<Rightarrow> u64 \<Rightarrow> string \<Rightarrow> (string \<times> string) list \<Rightarrow> (string, error) result" where
  "wrap_layers X rs headers alg limit msg [] = Ok msg"
| "wrap_layers X rs headers alg limit msg ((hop, nxt) # hops) =
     and_then (forward_message X (draw_uuid (rs 0)) msg nxt headers) (\<lambda>msg.
     and_then (anoncrypt X (rs 0) hop msg alg limit) (\<lambda>(msg, _).
     wrap_layers X (\<lambda>i. rs (Suc i)) headers alg limit msg hops))"

definition wrap_in_forward ::
  "('k, 'c, 'w, 'z) env_ext_scheme \<Rightarrow> (nat \<Rightarrow> ('k, 'c) draws) \<Rightarrow> string
     \<Rightarrow> (string \<times> json) list option \<Rightarrow> string \<Rightarrow> string list \<Rightarrow> anon_crypt_alg \<Rightarrow> u64
     \<Rightarrow> (string, error) result" where
  "wrap_in_forward X rs msg headers to routing_keys alg limit =
     (case routing_keys of
        [] \<Rightarrow> Panic
      | _ # rest \<Rightarrow>
          wrap_layers X rs headers alg limit msg (zip (rev routing_keys) (rev (rest @ [to]))))"

record messaging_service_metadata =
  ms_id :: string
  ms_service_endpoint :: string

definition wrap_in_forward_if_needed ::
  "('k, 'c, 'w, 'z) env_ext_scheme \<Rightarrow> (nat \<Rightarrow> ('k, 'c) draws) \<Rightarrow> string \<Rightarrow> string
     \<Rightarrow> pack_encrypted_options \<Rightarrow> ((string \<times> messaging_service_metadata) option, error) result" where
  "wrap_in_forward_if_needed X rs msg to opts =
     (if \<not> po_forward opts then Ok None
      else
        and_then (resolve_services_chain X to (po_messaging_service opts)) (\<lambda>chain.
        if chain = [] then Ok None
        else
          let routing_keys = map (\<lambda>s. ds_uri (snd s)) (tl chain) @ ds_routing_keys (snd (last chain)) in
          if routing_keys = [] then Ok None
          else
            and_then (wrap_in_forward X rs msg (po_forward_headers opts) to routing_keys
                        (po_enc_alg_anon opts) (po_to_kids_limit opts)) (\<lambda>forward_msg.
            Ok (Some (forward_msg,
              \<lparr>ms_id = fst (last chain), ms_service_endpoint = ds_uri (snd (hd chain))\<rparr>)))))"

end
