(* ===== verification/PackEncrypted.thy ===== *)
theory PackEncrypted
  imports Routing
begin

text \<open>
  Packing an encrypted message (\<open>message/pack_encrypted/mod.rs\<close>): the checks on the parties, the
  inner signed or plain text, the encryption, the forwarding. The draws of one call are a
  sequence: the first two for the encryption, the rest for the layers of forwards.
\<close>

record pack_encrypted_metadata =
  pm_messaging_service :: "messaging_service_metadata option"
  pm_from_kid :: "string option"
  pm_sign_by_kid :: "string option"
  pm_to_kids :: "string list"

definition validate_pack_encrypted ::
  "message \<Rightarrow> string \<Rightarrow> string option \<Rightarrow> string option \<Rightarrow> (unit, error) result" where
  "validate_pack_encrypted m to from sign_by =
     and_then (ensure (is_did to)
                 (err_msg IllegalArgument ''`to` value is not a valid DID or DID URL'')) (\<lambda>_.
     and_then (case from of
                 Some f \<Rightarrow> ensure (is_did f)
                   (err_msg IllegalArgument ''`from` value is not a valid DID or DID URL'')
               | None \<Rightarrow> Ok ()) (\<lambda>_.
     and_then (case sign_by of
                 Some s \<Rightarrow> ensure (is_did s)
                   (err_msg IllegalArgument ''`sign_from` value is not a valid DID or DID URL'')
               | None \<Rightarrow> Ok ()) (\<lambda>_.
     and_then (case m_to m of
                 Some sto \<Rightarrow> ensure (fst (did_or_url to) \<in> set sto)
                   (err_msg IllegalArgument (''`message.to` value does not contain `to` value'' @
                      [CHR 0x27] @ ''s DID''))
               | None \<Rightarrow> Ok ()) (\<lambda>_.
     case (from, m_from m) of
       (Some f, Some sfrom) \<Rightarrow> ensure (fst (did_or_url f) = sfrom)
         (err_msg IllegalArgument (''`message.from` value is not equal to `from` value'' @
            [CHR 0x27] @ ''s DID''))
     | _ \<Rightarrow> Ok ()))))"

definition pack_inner ::
  "('k, 'c, 'w, 'z) env_ext_scheme \<Rightarrow> secrets_resolver \<Rightarrow> message \<Rightarrow> string option
     \<Rightarrow> (string \<times> string option, error) result" where
  "pack_inner X SR m sign_by =
     (case sign_by of
        Some s \<Rightarrow>
          and_then (context_msg ''Unable produce sign envelope'' (pack_signed X SR m s))
            (\<lambda>(msg, kid). Ok (msg, Some kid))
      | None \<Rightarrow>
          and_then (context_msg ''Unable produce plaintext'' (pack_plaintext X m))
            (\<lambda>msg. Ok (msg, None)))"

definition pack_outer ::
  "('k, 'c, 'w, 'z) env_ext_scheme \<Rightarrow> secrets_resolver \<Rightarrow> (nat \<Rightarrow> ('k, 'c) draws) \<Rightarrow> string \<Rightarrow> string
     \<Rightarrow> string option \<Rightarrow> pack_encrypted_options \<Rightarrow> (string \<times> string option \<times> string list, error) result" where
  "pack_outer X SR rs msg to from opts =
     (case from of
        Some f \<Rightarrow>
          and_then (authcrypt X SR rs to f msg (po_enc_alg_auth opts) (po_enc_alg_anon opts)
                      (po_protect_sender opts) (po_to_kids_limit opts))
            (\<lambda>(msg, from_kid, to_kids). Ok (msg, Some from_kid, to_kids))
      | None \<Rightarrow>
          and_then (anoncrypt X (rs 0) to msg (po_enc_alg_anon opts) (po_to_kids_limit opts))
            (\<lambda>(msg, to_kids). Ok (msg, None, to_kids)))"

definition pack_encrypted ::
  "('k, 'c, 'w, 'z) env_ext_scheme \<Rightarrow> secrets_resolver \<Rightarrow> (nat \<Rightarrow> ('k, 'c) draws) \<Rightarrow> message
     \<Rightarrow> string \<Rightarrow> string option \<Rightarrow> string option \<Rightarrow> pack_encrypted_options
     \<Rightarrow> (string \<times> pack_encrypted_metadata, error) result" where
  "pack_encrypted X SR rs m to from sign_by opts =
     and_then (validate_pack_encrypted m to from sign_by) (\<lambda>_.
     and_then (pack_inner X SR m sign_by) (\<lambda>(msg, sign_by_kid).
     and_then (pack_outer X SR rs msg to from opts) (\<lambda>(msg, from_kid, to_kids).
     and_then (wrap_in_forward_if_needed X (\<lambda>i. rs (i + 2)) msg to opts) (\<lambda>fwd.
     case (case fwd of Some (f, service) \<Rightarrow> (f, Some service) | None \<Rightarrow> (msg, None)) of
       (msg, messaging_service) \<Rightarrow>
         Ok (msg, \<lparr>pm_messaging_service = messaging_service, pm_from_kid = from_kid,
                  pm_sign_by_kid = sign_by_kid, pm_to_kids = to_kids\<rparr>)))))"

subsection \<open>What the steps have done\<close>

lemma find_vms_ids:
  assumes "find_vms doc e kids = Ok vs"
  shows "map vm_id vs = kids" and "\<forall>v \<in> set vs. find_vm doc (vm_id v) = Some v"
proof -
  have v: "find_vm doc k = Some v \<Longrightarrow> vm_id v = k" for k v
    by (auto simp: find_vm_def find_Some_iff)
  have l: "list_all2 (\<lambda>k v. find_vm doc k = Some v) kids vs"
    using assms by (auto simp: find_vms_def collect_Ok_iff result_simps)
  then show "map vm_id vs = kids" by (induction rule: list_all2_induct) (auto dest: v)
  from l show "\<forall>v \<in> set vs. find_vm doc (vm_id v) = Some v"
    by (induction rule: list_all2_induct) (auto dest: v)
qed

lemma vms_of_alg_Ok:
  "vms_of_alg X alg vs = Ok ws \<Longrightarrow>
     ws = filter (\<lambda>v. vm_alg X v = Ok (Some alg)) vs"
  unfolding vms_of_alg_def by (drule filter_res_Ok) (auto simp: result_simps intro!: filter_cong)

lemma vm_keys_ids:
  "vm_keys X alg label vs = Ok keys \<Longrightarrow> map fst keys = map vm_id vs"
  unfolding vm_keys_def by (erule collect_Ok_map) (auto simp: result_simps split: option.splits)

lemma vm_keys_mem:
  assumes "vm_keys X alg label vs = Ok keys" and "v \<in> set vs"
  shows "\<exists>j k. get_jwk X v = Ok (Some j) \<and> as_alg X alg j = Ok k \<and> (vm_id v, k) \<in> set keys"
proof -
  have "list_all2 (\<lambda>v y. \<exists>j k. get_jwk X v = Ok (Some j) \<and> as_alg X alg j = Ok k \<and> y = (vm_id v, k))
          vs keys"
    using assms(1) unfolding vm_keys_def collect_Ok_iff
    by (rule list_all2_mono) (auto simp: result_simps split: option.splits)
  then show ?thesis using assms(2)
    by (induction rule: list_all2_induct) auto
qed

lemma first_supported_alg_Some:
  "first_supported_alg X vs = Ok (Some alg) \<Longrightarrow> alg \<noteq> UnsupportedAlg \<and> (\<exists>v \<in> set vs. vm_alg X v = Ok (Some alg))"
  by (induction vs) (auto simp: result_simps split: option.splits if_splits)

lemma pick_sender_key_Some:
  "pick_sender_key X ts fs = Ok (Some f) \<Longrightarrow>
     f \<in> set fs \<and> (\<exists>a. a \<noteq> UnsupportedAlg \<and> vm_alg X f = Ok (Some a) \<and>
        (\<exists>t \<in> set ts. vm_alg X t = Ok (Some a)))"
  by (induction fs) (auto simp: result_simps dest!: any_res_True split: if_splits)

text \<open>
  What \<open>anoncrypt\<close> has encrypted to: keys of one algorithm, each of a key agreement method of the
  recipient's document.
\<close>

lemma anoncrypt_OkE:
  assumes "anoncrypt X r to msg enc limit = Ok (s, kids)"
  obtains doc alg vs label keys where
    "did_resolve X (did_of to) = Inr doc" "agreement_label alg = Some label"
    "set vs \<subseteq> {v. find_vm doc (vm_id v) = Some v \<and> vm_alg X v = Ok (Some alg)}"
    "map vm_id vs = kids" "kids \<noteq> []" "vm_keys X alg label vs = Ok keys"
    "encrypt_anon X r alg enc msg keys = Ok s"
    "set kids \<subseteq> set (find_key_agreement X doc (snd (did_or_url to)))"
    "distinct (find_key_agreement X doc (snd (did_or_url to))) \<longrightarrow> distinct kids"
proof -
  obtain did url where du: "did_or_url to = (did, url)" by (cases "did_or_url to")
  from assms obtain doc vs0 alg vs label keys where
    *: "did_resolve X did = Inr doc" "find_vms doc (\<lambda>_. err_msg Unsupported
          ''External keys are unsupported in this version'') (find_key_agreement X doc url) = Ok vs0"
      "first_supported_alg X vs0 = Ok (Some alg)" "vms_of_alg X alg vs0 = Ok vs"
      "agreement_label alg = Some label" "vm_keys X alg label vs = Ok keys"
      "encrypt_anon X r alg enc msg keys = Ok s" "kids = map vm_id vs"
    by (auto simp: anoncrypt_def du Let_def result_simps)
  note ids = find_vms_ids[OF *(2)] and vs = vms_of_alg_Ok[OF *(4)]
  have d: "distinct (map vm_id vs0) \<longrightarrow> distinct kids"
    using vs *(8) by (simp add: distinct_map_filter)
  have ne: "kids \<noteq> []"
    using first_supported_alg_Some[OF *(3)] vs *(8) by (auto simp: filter_empty_conv)
  have sub: "set kids \<subseteq> set (map vm_id vs0)" using vs *(8) by auto
  show thesis
    by (rule that[of doc alg label vs keys]) (use du * ids vs d ne sub in auto)
qed

lemma authcrypt_OkE:
  assumes "authcrypt X SR rs to from msg ea en protect limit = Ok (s, from_kid, kids)"
  obtains doc fdoc alg vs label fvm fjwk secret where
    "did_resolve X (did_of to) = Inr doc" "did_resolve X (did_of from) = Inr fdoc"
    "auth_label alg = Some label" "find_vm fdoc from_kid = Some fvm" "get_jwk X fvm = Ok (Some fjwk)"
    "key_alg fjwk = alg" "get_secret SR from_kid = Ok (Some secret)"
    "set vs \<subseteq> {v. find_vm doc (vm_id v) = Some v \<and> vm_alg X v = Ok (Some alg)}"
    "map vm_id vs = kids" "kids \<noteq> []"
    "authcrypt_keys X rs msg ea en protect alg label from_kid secret vs = Ok s"
    "set kids \<subseteq> set (find_key_agreement X doc (snd (did_or_url to)))"
    "distinct (find_key_agreement X doc (snd (did_or_url to))) \<longrightarrow> distinct kids"
proof -
  obtain did url where du: "did_or_url to = (did, url)" by (cases "did_or_url to")
  obtain fdid furl where fu: "did_or_url from = (fdid, furl)" by (cases "did_or_url from")
  from assms obtain doc fdoc fkids fvms e e' vs0 fvm fjwk secret vs label where
    *: "did_resolve X did = Inr doc" "did_resolve X fdid = Inr fdoc"
      "find_vms fdoc e fkids = Ok fvms" "find_vms doc e' (find_key_agreement X doc url) = Ok vs0"
      "pick_sender_key X vs0 fvms = Ok (Some fvm)" "get_secret SR (vm_id fvm) = Ok (Some secret)"
      "get_jwk X fvm = Ok (Some fjwk)" "vms_of_alg X (key_alg fjwk) vs0 = Ok vs"
      "auth_label (key_alg fjwk) = Some label"
      "authcrypt_keys X rs msg ea en protect (key_alg fjwk) label (vm_id fvm) secret vs = Ok s"
      "from_kid = vm_id fvm" "kids = map vm_id vs"
    by (auto simp: authcrypt_def du fu Let_def result_simps)
  note ids = find_vms_ids[OF *(4)] and fids = find_vms_ids[OF *(3)] and vs = vms_of_alg_Ok[OF *(8)]
  have d: "distinct (map vm_id vs0) \<longrightarrow> distinct kids"
    using vs *(12) by (simp add: distinct_map_filter)
  have pick: "fvm \<in> set fvms" "\<exists>t \<in> set vs0. vm_alg X t = Ok (Some (key_alg fjwk))"
    using pick_sender_key_Some[OF *(5)] *(7) by (auto simp: vm_alg_def)
  then have ne: "kids \<noteq> []" using vs *(12) by (auto simp: filter_empty_conv)
  have sub: "set kids \<subseteq> set (map vm_id vs0)" using vs *(12) by auto
  show thesis
    by (rule that[of doc fdoc "key_alg fjwk" label fvm fjwk secret vs])
       (use du fu * ids fids vs d ne pick sub in auto)
qed

end
