(* ===== verification/Unpack.thy ===== *)
theory Unpack
  imports Envelope
begin

text \<open>
  Unpacking a received envelope (\<open>message/unpack/\<close>): the loop over anonymous encryption and
  re-wrapped forwards, authenticated encryption, the signature, the plaintext. The state that the
  steps share is the \<open>meta_envelope\<close>; each step returns the inner envelope it has uncovered,
  where there is one, and the changed state.
\<close>

record unpack_options =
  uo_expect_decrypt_by_all_keys :: bool
  uo_unwrap_re_wrapping_forward :: bool
  uo_crypto_operations_limit :: u64

definition default_unpack_options :: unpack_options where
  "default_unpack_options =
     \<lparr>uo_expect_decrypt_by_all_keys = False, uo_unwrap_re_wrapping_forward = True,
      uo_crypto_operations_limit = 1000\<rparr>"

definition too_many_operations :: "u64 \<Rightarrow> nat \<Rightarrow> error" where
  "too_many_operations limit n =
     err_msg TooManyCryptoOperations
       (''Limit is reached. limit = '' @ show_nat (unat limit) @ '', executed crypto operations '' @
        show_nat n)"

text \<open>The changes the steps make to the metadata.\<close>

definition upd_metadata ::
  "(unpack_metadata \<Rightarrow> unpack_metadata) \<Rightarrow> 'k meta_envelope \<Rightarrow> 'k meta_envelope" where
  "upd_metadata f me = me\<lparr>me_metadata := f (me_metadata me)\<rparr>"

text \<open>\<open>get_secret\<close>, then \<open>as_key_pair\<close>: the private key of a recipient key id.\<close>

definition recipient_key ::
  "('k, 'z) key_ext_scheme \<Rightarrow> secrets_resolver \<Rightarrow> string \<Rightarrow> ('k known_key_pair, error) result" where
  "recipient_key X SR kid =
     and_then (get_secret SR kid) (\<lambda>so.
     and_then (ok_or (err_msg InvalidState ''Recipient secret not found after existence checking'')
                 so) (\<lambda>s.
     secret_as_key_pair X s))"

subsection \<open>Anonymous encryption\<close>

text \<open>The nine supported pairs of key and content encryption.\<close>

fun anon_scheme ::
  "'k known_key_pair \<Rightarrow> enc_algorithm \<Rightarrow> (anon_crypt_alg \<times> content_alg \<times> known_key_alg \<times> 'k) option" where
  "anon_scheme (KpX25519 k) A256cbcHs512 = Some (AnonA256cbcHs512EcdhEsA256kw, CeA256CbcHs512, X25519, k)"
| "anon_scheme (KpX25519 k) Xc20P = Some (AnonXc20pEcdhEsA256kw, CeXc20P, X25519, k)"
| "anon_scheme (KpX25519 k) A256Gcm = Some (AnonA256gcmEcdhEsA256kw, CeA256Gcm, X25519, k)"
| "anon_scheme (KpP256 k) A256cbcHs512 = Some (AnonA256cbcHs512EcdhEsA256kw, CeA256CbcHs512, P256, k)"
| "anon_scheme (KpP256 k) Xc20P = Some (AnonXc20pEcdhEsA256kw, CeXc20P, P256, k)"
| "anon_scheme (KpP256 k) A256Gcm = Some (AnonA256gcmEcdhEsA256kw, CeA256Gcm, P256, k)"
| "anon_scheme (KpK256 k) A256cbcHs512 = Some (AnonA256cbcHs512EcdhEsA256kw, CeA256CbcHs512, K256, k)"
| "anon_scheme (KpK256 k) Xc20P = Some (AnonXc20pEcdhEsA256kw, CeXc20P, K256, k)"
| "anon_scheme (KpK256 k) A256Gcm = Some (AnonA256gcmEcdhEsA256kw, CeA256Gcm, K256, k)"
| "anon_scheme _ _ = None"

text \<open>The loop over the recipient keys a secret was found for.\<close>

fun anon_decrypt ::
  "('k, 'c, 'w, 'z) env_ext_scheme \<Rightarrow> secrets_resolver \<Rightarrow> unpack_options \<Rightarrow> parsed_jwe
     \<Rightarrow> bytes option \<Rightarrow> 'k meta_envelope \<Rightarrow> string list
     \<Rightarrow> (bytes option \<times> 'k meta_envelope, error) result" where
  "anon_decrypt X SR opts jwe payload me [] = Ok (payload, me)"
| "anon_decrypt X SR opts jwe payload me (to_kid # kids) =
     and_then (recipient_key X SR to_kid) (\<lambda>to_key.
     case anon_scheme to_key (ph_enc (pj_protected jwe)) of
       None \<Rightarrow> Err (err_msg Unsupported ''Unsupported recipient key agreement method'')
     | Some (alg, ce, ke, key) \<Rightarrow>
         (let me = upd_metadata (\<lambda>md. md\<lparr>um_enc_alg_anon := Some alg\<rparr>) me
          in and_then (decrypt X ce KdfEcdhEs ke None (to_kid, key) jwe) (\<lambda>p.
             if \<not> uo_expect_decrypt_by_all_keys opts then Ok (Some p, me)
             else anon_decrypt X SR opts jwe (Some p) me kids)))"

definition try_unpack_anoncrypt ::
  "('k, 'c, 'w, 'z) env_ext_scheme \<Rightarrow> secrets_resolver \<Rightarrow> unpack_options \<Rightarrow> parsed_envelope
     \<Rightarrow> 'k meta_envelope \<Rightarrow> (parsed_envelope option \<times> 'k meta_envelope, error) result" where
  "try_unpack_anoncrypt X SR opts pe me =
     (case pe of
        PeJwe jwe \<Rightarrow>
          if ph_alg (pj_protected jwe) \<noteq> EcdhEsA256kw then Ok (None, me)
          else
            and_then (recipients_of_one_did (pj_to_kids jwe)) (\<lambda>_.
            let me = upd_metadata (\<lambda>md. md\<lparr>um_encrypted_to_kids := Some (pj_to_kids jwe),
                        um_encrypted := True, um_anonymous_sender := True\<rparr>) me in
            and_then (find_secrets SR (pj_to_kids jwe)) (\<lambda>found.
            and_then (ensure (found \<noteq> []) (err_msg SecretNotFound ''No recipient secrets found'')) (\<lambda>_.
            and_then (anon_decrypt X SR opts jwe None me found) (\<lambda>(payload, me).
            and_then (ok_or (err_msg InvalidState ''Payload is none'') payload) (\<lambda>payload.
            and_then (map_err (\<lambda>e. Error Malformed [''Anoncrypt payload is invalid utf8'', e])
                        (from_utf8 payload)) (\<lambda>payload.
            and_then (read_envelope X payload) (\<lambda>e.
            Ok (Some e, me))))))))
      | _ \<Rightarrow> Ok (None, me))"

subsection \<open>Forwards\<close>

definition has_key_agreement_secret ::
  "('k, 'z) key_ext_scheme \<Rightarrow> secrets_resolver \<Rightarrow> string \<Rightarrow> (bool, error) result" where
  "has_key_agreement_secret X SR did_or_kid =
     and_then (case did_or_url did_or_kid of
                 (_, Some kid) \<Rightarrow> Ok [kid]
               | (did, None) \<Rightarrow>
                   (case did_resolve X did of
                      Inl e \<Rightarrow> Err (err_msg DIDNotResolved
                        (''Couldn'' @ [CHR 0x27] @ ''t resolve did('' @ did @ ''). Reason: '' @ e))
                    | Inr doc \<Rightarrow> Ok (doc_refs X doc (key_agreement_refs doc)))) (\<lambda>kids.
     and_then (find_secrets SR kids) (\<lambda>ids.
     Ok (ids \<noteq> [])))"

definition try_unwrap_forwarded_message ::
  "('k, 'c, 'w, 'z) env_ext_scheme \<Rightarrow> secrets_resolver \<Rightarrow> parsed_envelope
     \<Rightarrow> (string option, error) result" where
  "try_unwrap_forwarded_message X SR pe =
     (case pe of
        PeMessage m \<Rightarrow>
          (case try_parse_forward m of
             Some fwd \<Rightarrow>
               and_then (has_key_agreement_secret X SR (pf_next fwd)) (\<lambda>has.
               if has then
                 and_then (with_kind InvalidState ''Unable serialize forwarded message''
                             (serde_text (ser_value X (pf_forwarded_msg fwd)))) (\<lambda>s.
                 Ok (Some s))
               else Ok None)
           | None \<Rightarrow> Ok None)
      | _ \<Rightarrow> Ok None)"

subsection \<open>The loop\<close>

lemma and_then_cong [fundef_cong]:
  "m = m' \<Longrightarrow> (\<And>x. m' = Ok x \<Longrightarrow> f x = f' x) \<Longrightarrow> and_then m f = and_then m' f'"
  by (cases m') auto

text \<open>
  One turn counts one crypto operation, whatever it does. The count cannot pass the limit, a
  64-bit number, so it is a natural number here; the measure of the recursion is what is left of
  the limit. The result is the envelope under anonymous encryption, the envelope the last turn
  started from, the count, and the state.
\<close>

function unpack_loop ::
  "('k, 'c, 'w, 'z) env_ext_scheme \<Rightarrow> secrets_resolver \<Rightarrow> unpack_options \<Rightarrow> parsed_envelope
     \<Rightarrow> nat \<Rightarrow> 'k meta_envelope
     \<Rightarrow> (parsed_envelope option \<times> parsed_envelope \<times> nat \<times> 'k meta_envelope, error) result" where
  "unpack_loop X SR opts jwe count me =
     (if unat (uo_crypto_operations_limit opts) \<le> count + 1
      then Err (too_many_operations (uo_crypto_operations_limit opts) (count + 1))
      else
        and_then (try_unpack_anoncrypt X SR opts jwe me) (\<lambda>(anoncrypted, me).
        and_then (case anoncrypted of
                    Some a \<Rightarrow> if uo_unwrap_re_wrapping_forward opts
                              then try_unwrap_forwarded_message X SR a else Ok None
                  | None \<Rightarrow> Ok None) (\<lambda>forwarded.
        case forwarded of
          Some f \<Rightarrow>
            and_then (read_envelope X f) (\<lambda>jwe'.
            unpack_loop X SR opts jwe' (count + 1)
              (upd_metadata (\<lambda>md. md\<lparr>um_re_wrapped_in_forward := True\<rparr>) me))
        | None \<Rightarrow> Ok (anoncrypted, jwe, count + 1, me))))"
  by pat_completeness auto

termination
  by (relation "measure (\<lambda>(X, SR, opts, jwe, count, me).
        unat (uo_crypto_operations_limit opts) - count)") auto

declare unpack_loop.simps [simp del]

subsection \<open>Authenticated encryption\<close>

text \<open>What the match over sender key, recipient key and content encryption decides.\<close>

definition auth_scheme ::
  "'k known_key_pair \<Rightarrow> 'k known_key_pair \<Rightarrow> enc_algorithm \<Rightarrow> (known_key_alg \<times> 'k \<times> 'k, error) result" where
  "auth_scheme from_key to_key enc =
     (let incompatible = Err (err_msg Malformed
            ''Incompatible sender and recipient key agreement curves'');
          unsupported = Err (err_msg Unsupported ''Unsupported key agreement method'')
      in case (from_key, to_key) of
           (KpX25519 f, KpX25519 t) \<Rightarrow> if enc = A256cbcHs512 then Ok (X25519, f, t) else unsupported
         | (KpP256 f, KpP256 t) \<Rightarrow> if enc = A256cbcHs512 then Ok (P256, f, t) else unsupported
         | (KpX25519 _, KpP256 _) \<Rightarrow> incompatible
         | (KpP256 _, KpX25519 _) \<Rightarrow> incompatible
         | (KpK256 f, KpK256 t) \<Rightarrow> if enc = A256cbcHs512 then Ok (K256, f, t) else unsupported
         | (KpX25519 _, KpK256 _) \<Rightarrow> incompatible
         | (KpK256 _, KpX25519 _) \<Rightarrow> incompatible
         | _ \<Rightarrow> unsupported)"

text \<open>
  The loop over the recipient keys. It unwraps the sender key of the state: a JWE without an
  \<open>apu\<close> leaves none there.
\<close>

fun auth_decrypt ::
  "('k, 'c, 'w, 'z) env_ext_scheme \<Rightarrow> secrets_resolver \<Rightarrow> unpack_options \<Rightarrow> parsed_jwe
     \<Rightarrow> nat \<Rightarrow> bytes option \<Rightarrow> 'k meta_envelope \<Rightarrow> string list
     \<Rightarrow> (bytes option \<times> 'k meta_envelope, error) result" where
  "auth_decrypt X SR opts jwe count payload me [] = Ok (payload, me)"
| "auth_decrypt X SR opts jwe count payload me (to_kid # kids) =
     (if unat (uo_crypto_operations_limit opts) \<le> count + 1
      then Err (too_many_operations (uo_crypto_operations_limit opts) (count + 1))
      else
        and_then (recipient_key X SR to_kid) (\<lambda>to_key.
        and_then (unwrap (me_from_key me)) (\<lambda>from_key.
        and_then (auth_scheme from_key to_key (ph_enc (pj_protected jwe))) (\<lambda>(ke, fk, tk).
        let me = upd_metadata (\<lambda>md. md\<lparr>um_enc_alg_auth := Some AuthA256cbcHs512Ecdh1puA256kw\<rparr>) me in
        and_then (unwrap (me_from_kid me)) (\<lambda>from_kid.
        and_then (decrypt X CeA256CbcHs512 KdfEcdh1PU ke (Some (from_kid, fk)) (to_kid, tk) jwe) (\<lambda>p.
        if \<not> uo_expect_decrypt_by_all_keys opts then Ok (Some p, me)
        else auth_decrypt X SR opts jwe (count + 1) (Some p) me kids))))))"

definition try_unpack_authcrypt ::
  "('k, 'c, 'w, 'z) env_ext_scheme \<Rightarrow> secrets_resolver \<Rightarrow> unpack_options \<Rightarrow> parsed_envelope
     \<Rightarrow> 'k meta_envelope \<Rightarrow> nat \<Rightarrow> (parsed_envelope option \<times> 'k meta_envelope, error) result" where
  "try_unpack_authcrypt X SR opts pe me count =
     (case pe of
        PeJwe jwe \<Rightarrow>
          if ph_alg (pj_protected jwe) \<noteq> Ecdh1puA256kw then Ok (None, me)
          else
            and_then (if pj_apu jwe \<noteq> None \<and> me_from_kid me = None
                      then fill_envelope_from X SR jwe me else Ok me) (\<lambda>me.
            and_then (auth_decrypt X SR opts jwe count None me (me_to_kids_found me)) (\<lambda>(payload, me).
            and_then (ok_or (err_msg InvalidState ''Payload is none'') payload) (\<lambda>payload.
            and_then (map_err (\<lambda>e. Error Malformed [''Authcrypt payload is invalid utf8'', e])
                        (from_utf8 payload)) (\<lambda>payload.
            and_then (read_envelope X payload) (\<lambda>e.
            Ok (Some e, me))))))
      | _ \<Rightarrow> Ok (None, me))"


subsection \<open>Signatures and plaintext\<close>

text \<open>
  The check of the one signature: the key the signer's document publishes for authentication, and
  the algorithm the metadata records.
\<close>

definition check_signature ::
  "('k, 'c, 'w, 'z) env_ext_scheme \<Rightarrow> parsed_jws \<Rightarrow> string \<Rightarrow> jwk \<Rightarrow> jws_algorithm
     \<Rightarrow> (sign_alg \<times> bool, error) result" where
  "check_signature X pjs signer_kid jwk alg =
     (let check = (\<lambda>sa ka.
            and_then (context_msg ''Unable instantiate signer key'' (as_alg X ka jwk)) (\<lambda>k.
            and_then (context_msg ''Unable verify sign envelope'' (jws_verify X pjs (signer_kid, k)))
              (\<lambda>valid. Ok (sa, valid))))
      in case alg of
           EdDSA \<Rightarrow> check SignEdDSA Ed25519
         | Es256 \<Rightarrow> check SignES256 P256
         | Es256K \<Rightarrow> check SignES256K K256
         | OtherJwsAlgorithm _ \<Rightarrow> Err (err_msg Unsupported ''Unsupported signature algorithm''))"

definition note_signature :: "sign_alg \<Rightarrow> string \<Rightarrow> jws \<Rightarrow> unpack_metadata \<Rightarrow> unpack_metadata" where
  "note_signature sa kid j md =
     md\<lparr>um_sign_alg := Some sa, um_authenticated := True, um_non_repudiation := True,
        um_sign_from := Some kid, um_signed_message := Some j\<rparr>"

text \<open>The key the document of the signer publishes for the key id, for authentication.\<close>

definition signer_jwk :: "('k, 'z) key_ext_scheme \<Rightarrow> string \<Rightarrow> (jwk, error) result" where
  "signer_jwk X signer_kid =
     (case did_or_url signer_kid of (signer_did, signer_url) \<Rightarrow>
      and_then (ensure (signer_url \<noteq> None)
                  (err_msg Malformed (''Signer key can'' @ [CHR 0x27] @
                     ''t be resolved to key agreement''))) (\<lambda>_.
      and_then (case did_resolve X signer_did of
                  Inl _ \<Rightarrow> Err (err_msg DIDNotResolved ''Signer did not found'')
                | Inr doc \<Rightarrow> Ok doc) (\<lambda>doc.
      and_then (ensure (contains_authentication X doc signer_kid)
                  (err_msg DIDUrlNotFound ''Signer kid not found in did'')) (\<lambda>_.
      and_then (ok_or (err_msg DIDUrlNotFound ''Sender verification method not found in did'')
                  (find_vm doc signer_kid)) (\<lambda>vm.
      and_then (get_jwk X vm) (\<lambda>jwk_opt.
      ok_or (err_msg NoCompatibleCrypto
               (''Couldn'' @ [CHR 0x27] @ ''t convert signing key to JWK'')) jwk_opt))))))"

definition try_unpack_sign ::
  "('k, 'c, 'w, 'z) env_ext_scheme \<Rightarrow> parsed_envelope \<Rightarrow> 'k meta_envelope
     \<Rightarrow> (parsed_envelope option \<times> 'k meta_envelope, error) result" where
  "try_unpack_sign X pe me =
     (case pe of
        PeJws pjs \<Rightarrow>
          and_then (ensure (length (pjs_protected pjs) = 1)
                      (err_msg Malformed ''Wrong amount of signatures for jws'')) (\<lambda>_.
          and_then (ok_or (err_msg InvalidState ''Unexpected absence of first protected header'')
                      (case pjs_protected pjs of [] \<Rightarrow> None | h # _ \<Rightarrow> Some h)) (\<lambda>header.
          and_then (ok_or (err_msg InvalidState ''Unexpected absence of first signature'')
                      (case jws_signatures (pjs_jws pjs) of [] \<Rightarrow> None | s # _ \<Rightarrow> Some s)) (\<lambda>sig.
          let alg = jh_alg header; signer_kid = sg_kid sig in
          and_then (signer_jwk X signer_kid) (\<lambda>jwk.
          and_then (check_signature X pjs signer_kid jwk alg) (\<lambda>(sa, valid).
          and_then (ensure valid (err_msg Malformed ''Wrong signature'')) (\<lambda>_.
          and_then (with_kind Malformed ''Signed payload is invalid base64''
                      (b64_decode X (jws_payload (pjs_jws pjs)))) (\<lambda>payload.
          and_then (map_err (\<lambda>e. Error Malformed [''Signed payload is invalid utf8'', e])
                      (from_utf8 payload)) (\<lambda>payload.
          and_then (read_envelope X payload) (\<lambda>e.
          Ok (Some e, upd_metadata (note_signature sa signer_kid (pjs_jws pjs)) me))))))))))
      | _ \<Rightarrow> Ok (None, me))"

definition try_unpack_plaintext ::
  "('k, 'c, 'w, 'z) env_ext_scheme \<Rightarrow> parsed_envelope \<Rightarrow> 'k meta_envelope
     \<Rightarrow> (message option \<times> 'k meta_envelope, error) result" where
  "try_unpack_plaintext X pe me =
     (case pe of
        PeMessage m \<Rightarrow>
          and_then (validate m) (\<lambda>m.
          case m_from_prior m of
            Some jwt \<Rightarrow>
              and_then (from_prior_unpack X jwt) (\<lambda>(fp, kid).
              Ok (Some m, upd_metadata (\<lambda>md. md\<lparr>um_from_prior := Some fp,
                            um_from_prior_issuer_kid := Some kid\<rparr>) me))
          | None \<Rightarrow> Ok (Some m, me))
      | _ \<Rightarrow> Ok (None, me))"

subsection \<open>Unpacking\<close>

definition unpack ::
  "('k, 'c, 'w, 'z) env_ext_scheme \<Rightarrow> secrets_resolver \<Rightarrow> unpack_options \<Rightarrow> 'k meta_envelope
     \<Rightarrow> (message \<times> unpack_metadata, error) result" where
  "unpack X SR opts me =
     and_then (ok_or (err_msg InvalidState ''Parsed envelope not found'') (me_parsed_envelope me)) (\<lambda>jwe.
     and_then (unpack_loop X SR opts jwe 0 me) (\<lambda>(anoncrypted, jwe, count, me).
     let jwe = (case anoncrypted of Some a \<Rightarrow> a | None \<Rightarrow> jwe) in
     and_then (try_unpack_authcrypt X SR opts jwe me count) (\<lambda>(authcrypted, me).
     let jwe = (case authcrypted of Some a \<Rightarrow> a | None \<Rightarrow> jwe) in
     and_then (try_unpack_sign X jwe me) (\<lambda>(signed, me).
     let jwe = (case signed of Some s \<Rightarrow> s | None \<Rightarrow> jwe) in
     and_then (try_unpack_plaintext X jwe me) (\<lambda>(msg, me).
     and_then (ok_or (err_msg Malformed ''Message is not a valid JWE, JWS or JWM'') msg) (\<lambda>msg.
     Ok (msg, me_metadata me)))))))"

text \<open>\<open>Message::unpack_string\<close>: read the text, then unpack it.\<close>

definition unpack_string ::
  "('k, 'c, 'w, 'z) env_ext_scheme \<Rightarrow> secrets_resolver \<Rightarrow> unpack_options \<Rightarrow> string
     \<Rightarrow> (message \<times> unpack_metadata, error) result" where
  "unpack_string X SR opts s = and_then (meta_envelope_new X SR s) (unpack X SR opts)"

end
