(* ===== verification/MediatorState.thy ===== *)
theory MediatorState
  imports Session PackEncrypted Unpack
begin

text \<open>
  What every handler of the mediator shares: the functions of other crates it calls (\<open>med_ext\<close>,
  on top of those of the message library), the shared data of the server with its configuration
  (\<open>SharedData\<close> and \<open>Config\<close>), the body of a posted message (\<open>InboundMessage\<close>) and the types of
  the messages the mediator understands (\<open>messages/mod.rs\<close>).
\<close>

subsection \<open>Posted messages\<close>

record inbound_message =
  im_protected :: string
  im_recipients :: "recipient list"
  im_iv :: string
  im_ciphertext :: string
  im_tag :: string

text \<open>What is published for a client that is live: its DID's hash, the message, and whether to send it
  to a client that is not live.\<close>

record pubsub_record =
  ps_did_hash :: string
  ps_message :: string
  ps_force_delivery :: bool

text \<open>
  SHA-256 in hexadecimal, the JSON Web Tokens of \<open>jsonwebtoken\<close> (the decoding at a time, which
  checks the audience and the expiry), \<open>serde_json::to_string\<close> of a posted message and of a
  published record with its inverse, the text \<open>serde\<close> gives when a value is no value of the type
  of the given name, the debug text of a message, and the \<open>regex\<close> crate (a pattern and a text).
\<close>

record ('k, 'c, 'w) med_ext = "('k, 'c, 'w) env_ext" +
  digest :: "string \<Rightarrow> string"
  jwt_encode :: "bytes \<Rightarrow> session_claims \<Rightarrow> string + string"
  jwt_decode :: "bytes \<Rightarrow> u64 \<Rightarrow> string \<Rightarrow> string + session_claims"
  ser_inbound :: "inbound_message \<Rightarrow> string + string"
  ser_pubsub :: "pubsub_record \<Rightarrow> string + string"
  de_pubsub :: "string \<Rightarrow> string + pubsub_record"
  value_error :: "string \<Rightarrow> json \<Rightarrow> string"
  debug_message :: "message \<Rightarrow> string"
  regex_is_match :: "string \<Rightarrow> string \<Rightarrow> bool"

subsection \<open>Shared data\<close>

record 'db shared =
  sh_mediator_did :: string
  sh_mediator_secrets :: secrets_resolver
  sh_crypto_operations_limit :: u64
  sh_to_recipients_limit :: nat
  sh_to_keys_limit :: u64
  sh_max_listed_messages :: nat
  sh_max_deleted_messages :: nat
  sh_ws_size_limit :: nat
  sh_jwt_encoding_key :: "bytes option"
  sh_jwt_decoding_key :: "bytes option"
  sh_has_streaming_task :: bool
  sh_database :: "'db redis"

text \<open>The random alphanumeric strings: \<open>n\<close> characters of the generator, from the \<open>i\<close>th on.\<close>

definition create_random_string :: "(nat \<Rightarrow> char) \<Rightarrow> nat \<Rightarrow> nat \<Rightarrow> string" where
  "create_random_string rng i n = map rng [i..<i + n]"

subsection \<open>Message types\<close>

datatype message_type =
    AffinidiAuthenticate
  | ForwardRequest
  | MessagePickupStatusRequest
  | MessagePickupDeliveryRequest
  | MessagePickupMessagesReceived
  | MessagePickupLiveDeliveryChange
  | TrustPing

definition message_type_of :: "string \<Rightarrow> (message_type, mediator_error) result" where
  "message_type_of s =
     (if s = ''https://didcomm.org/trust-ping/2.0/ping'' then Ok TrustPing
      else if s = ''https://affinidi.com/atm/1.0/authenticate'' then Ok AffinidiAuthenticate
      else if s = ''https://didcomm.org/messagepickup/3.0/status-request''
      then Ok MessagePickupStatusRequest
      else if s = ''https://didcomm.org/messagepickup/3.0/live-delivery-change''
      then Ok MessagePickupLiveDeliveryChange
      else if s = ''https://didcomm.org/messagepickup/3.0/delivery-request''
      then Ok MessagePickupDeliveryRequest
      else if s = ''https://didcomm.org/messagepickup/3.0/messages-received''
      then Ok MessagePickupMessagesReceived
      else if s = ''https://didcomm.org/routing/2.0/forward'' then Ok ForwardRequest
      else Err (ParseError ''-1'' s (''Couldn'' @ [CHR 0x27] @ ''t match on MessageType'')))"

text \<open>The check every handler makes: an expiry time that has come refuses the message.\<close>

definition check_expiry ::
  "string \<Rightarrow> u64 \<Rightarrow> message \<Rightarrow> (unit, mediator_error) result" where
  "check_expiry sid now m =
     (case m_expires_time m of
        Some expires \<Rightarrow>
          ensure (\<not> expires \<le> now)
            (MessageExpired sid (show_nat (unat expires)) (show_nat (unat now)))
      | None \<Rightarrow> Ok ())"

lemma check_expiry_not_Panic [simp]: "check_expiry sid now m \<noteq> Panic"
  by (simp add: check_expiry_def split: option.splits)

lemma check_expiry_Ok_iff [result_simps]:
  "check_expiry sid now m = Ok u \<longleftrightarrow> (\<forall>e. m_expires_time m = Some e \<longrightarrow> now < e)"
  by (auto simp: check_expiry_def result_simps split: option.splits)

text \<open>Reading and unpacking a posted text, as both entry points do it.\<close>

definition open_inbound ::
  "('k, 'c, 'w, 'z) med_ext_scheme \<Rightarrow> secrets_resolver \<Rightarrow> string \<Rightarrow> unpack_options \<Rightarrow> string
     \<Rightarrow> (message \<times> unpack_metadata, mediator_error) result" where
  "open_inbound X SR sid opts s =
     and_then (map_err (\<lambda>e. ParseError sid ''Raw inbound DIDComm message'' (display_error e))
                 (meta_envelope_new X SR s)) (\<lambda>envelope.
     map_err (\<lambda>e. MessageUnpackError sid
                ((''Couldn'' @ [CHR 0x27] @ ''t unpack incoming message. Reason: '') @ display_error e))
       (unpack X SR opts envelope))"

lemma open_inbound_Ok_iff [result_simps]:
  "open_inbound X SR sid opts s = Ok r \<longleftrightarrow> unpack_string X SR opts s = Ok r"
  by (auto simp: open_inbound_def unpack_string_def result_simps)

end
