(* ===== verification/MessageStore.thy ===== *)
theory MessageStore
  imports MediatorState
begin

text \<open>
  The messages the mediator keeps for its clients: the Lua functions that run in the database
  (\<open>atm-functions.lua\<close>) and the functions around them (\<open>database/store.rs\<close>, \<open>delete.rs\<close>,
  \<open>fetch.rs\<close>, \<open>get.rs\<close>, \<open>list.rs\<close> and \<open>stats.rs\<close>). A message is kept under its hash with its
  metadata, and has an entry in the receive queue of its receiver and in the send queue of its
  sender, which are named by the hashes of their DIDs.
\<close>

subsection \<open>Lua values\<close>

text \<open>
  What the scripts take apart: replies that are texts, arrays and maps. The texts that are used as
  numbers are decimal ones, and minus zero is written as Lua writes it.
\<close>

definition lua_string :: "reply \<Rightarrow> (string, string) result" where
  "lua_string r = (case r of RBulk s \<Rightarrow> Ok s | _ \<Rightarrow> Err ''not a string'')"

definition lua_array :: "reply \<Rightarrow> (reply list, string) result" where
  "lua_array r = (case r of RArray rs \<Rightarrow> Ok rs | _ \<Rightarrow> Err ''not a table'')"

definition lua_strings :: "reply \<Rightarrow> (string list, string) result" where
  "lua_strings r = and_then (lua_array r) (collect lua_string)"

definition lua_entry :: "reply \<times> reply \<Rightarrow> (string \<times> string, string) result" where
  "lua_entry p = (case p of (k, v) \<Rightarrow>
     and_then (lua_string k) (\<lambda>k. and_then (lua_string v) (\<lambda>v. Ok (k, v))))"

definition lua_map :: "reply \<Rightarrow> ((string \<times> string) list, string) result" where
  "lua_map r = (case r of RMap ps \<Rightarrow> collect lua_entry ps | _ \<Rightarrow> Err ''no map'')"

definition lua_not_nil :: "'a option \<Rightarrow> ('a, string) result" where
  "lua_not_nil v = ok_or ''attempt to use a nil value'' v"

definition tonumber :: "string \<Rightarrow> nat option" where
  "tonumber s = (if s = [] then None else parse_digits 0 s)"

definition lua_minus :: "string \<Rightarrow> (string, string) result" where
  "lua_minus s =
     (case tonumber s of
        Some n \<Rightarrow> Ok (if n = 0 then ''-0'' else show_int (- int n))
      | None \<Rightarrow> Err ''attempt to perform arithmetic on a string value'')"

subsection \<open>Keys\<close>

definition msg_key :: "string \<Rightarrow> string" where
  "msg_key h = ''MSG:'' @ h"

definition meta_key :: "string \<Rightarrow> string" where
  "meta_key h = ''MSG:META:'' @ h"

definition did_row :: "string \<Rightarrow> string" where
  "did_row d = ''DID:'' @ d"

definition receive_q :: "string \<Rightarrow> string" where
  "receive_q d = ''RECEIVE_Q:'' @ d"

definition send_q :: "string \<Rightarrow> string" where
  "send_q d = ''SEND_Q:'' @ d"

text \<open>
  Keys of different kinds are different. The key of a message and that of the metadata of one
  collide only if the first hash starts like the second key.
\<close>

lemma keys_inject [simp]:
  "msg_key a = msg_key b \<longleftrightarrow> a = b" "meta_key a = meta_key b \<longleftrightarrow> a = b"
  "did_row a = did_row b \<longleftrightarrow> a = b" "receive_q a = receive_q b \<longleftrightarrow> a = b"
  "send_q a = send_q b \<longleftrightarrow> a = b"
  by (simp_all add: msg_key_def meta_key_def did_row_def receive_q_def send_q_def)

lemma keys_distinct [simp]:
  "msg_key a \<noteq> did_row b" "msg_key a \<noteq> receive_q b" "msg_key a \<noteq> send_q b"
  "meta_key a \<noteq> did_row b" "meta_key a \<noteq> receive_q b" "meta_key a \<noteq> send_q b"
  "did_row a \<noteq> receive_q b" "did_row a \<noteq> send_q b" "receive_q a \<noteq> send_q b"
  "msg_key a \<noteq> ''GLOBAL''" "meta_key a \<noteq> ''GLOBAL''" "did_row a \<noteq> ''GLOBAL''"
  "receive_q a \<noteq> ''GLOBAL''" "send_q a \<noteq> ''GLOBAL''"
  "msg_key a \<noteq> ''MSG_EXPIRY''" "meta_key a \<noteq> ''MSG_EXPIRY''" "did_row a \<noteq> ''MSG_EXPIRY''"
  "receive_q a \<noteq> ''MSG_EXPIRY''" "send_q a \<noteq> ''MSG_EXPIRY''"
  by (simp_all add: msg_key_def meta_key_def did_row_def receive_q_def send_q_def)

lemmas keys_distinct_sym [simp] = keys_distinct[symmetric]

lemma msg_key_meta [simp]: "msg_key a \<noteq> meta_key a" "meta_key a \<noteq> msg_key a"
proof -
  have "length a \<noteq> length (''META:'' @ a)" by simp
  then show "msg_key a \<noteq> meta_key a" by (auto simp: msg_key_def meta_key_def)
  then show "meta_key a \<noteq> msg_key a" by simp
qed

lemma msg_key_meta_hash:
  "CHR '':'' \<notin> set a \<Longrightarrow> msg_key a \<noteq> meta_key b"
  by (auto simp: msg_key_def meta_key_def)

subsection \<open>Storing\<close>

text \<open>
  The first argument is the key of the call. A call that returns \<open>redis.error_reply\<close> is an error
  of the script.
\<close>

definition store_counters ::
  "'db redis \<Rightarrow> string \<Rightarrow> string \<Rightarrow> string \<Rightarrow> string \<Rightarrow> ('db, unit) script" where
  "store_counters R row what bytes u =
     eff_then (call R [''HINCRBY'', row, what @ ''_BYTES'', bytes]) (\<lambda>_.
     eff_then (call R [''HINCRBY'', row, what @ ''_COUNT'', u]) (\<lambda>_. eff_of (Ok ())))"

definition enqueue ::
  "'db redis \<Rightarrow> string \<Rightarrow> string \<Rightarrow> string list \<Rightarrow> ('db, string) script" where
  "enqueue R q time fvs =
     eff_then (call R (''XADD'' # q # (time @ ''-*'') # fvs)) (\<lambda>r. eff_of (lua_string r))"

definition server_time :: "'db redis \<Rightarrow> ('db, string) script" where
  "server_time R =
     eff_then (call R [''TIME'']) (\<lambda>r.
     eff_of (and_then (lua_strings r) (\<lambda>time.
       case time of
         s # us # _ \<Rightarrow>
           and_then (ok_or ''number expected'' (tonumber s)) (\<lambda>s.
           and_then (ok_or ''number expected'' (tonumber us)) (\<lambda>us.
           Ok (show_nat s @ show_nat (us div 1000))))
       | _ \<Rightarrow> Err ''number expected'')))"

definition store_message_lua ::
  "'db redis \<Rightarrow> string \<Rightarrow> string list \<Rightarrow> ('db, reply) script" where
  "store_message_lua R key args =
     (if length args < 5 then eff_of (Err ''store_message: not enough arguments'')
      else if 6 < length args then eff_of (Err ''store_message: too many arguments'')
      else
        eff_then (server_time R) (\<lambda>time.
        eff_then (eff_of (ok_or ''store_message: invalid bytes'' (tonumber (args ! 1)))) (\<lambda>n.
        let bytes = show_nat n in
        eff_then (call R [''SET'', msg_key key, args ! 0]) (\<lambda>_.
        eff_then (store_counters R ''GLOBAL'' ''RECEIVED'' bytes ''1'') (\<lambda>_.
        eff_then (call R [''RPUSH'', ''MSG_EXPIRY'', key @ '':'' @ time]) (\<lambda>_.
        eff_then (store_counters R (did_row (args ! 3)) ''RECEIVE_QUEUE'' bytes ''1'') (\<lambda>_.
        eff_then (enqueue R (receive_q (args ! 3)) time
                    [''MSG_ID'', key, ''BYTES'', bytes, ''FROM'', args ! 4]) (\<lambda>rq.
        eff_then (if length args = 6
                  then eff_then (store_counters R (did_row (args ! 5)) ''SEND_QUEUE'' bytes ''1'') (\<lambda>_.
                       eff_then (enqueue R (send_q (args ! 5)) time
                                   [''MSG_ID'', key, ''BYTES'', bytes, ''TO'', args ! 2]) (\<lambda>sq.
                       eff_of (Ok (Some sq))))
                  else eff_of (Ok None)) (\<lambda>sq.
        eff_then (call R [''HMSET'', meta_key key, ''BYTES'', bytes, ''TO'', args ! 3,
                          ''TIMESTAMP'', time, ''RECEIVE_ID'', rq]) (\<lambda>_.
        eff_then (case sq of
                    Some sq \<Rightarrow> eff_then (call R [''HMSET'', meta_key key, ''FROM'', args ! 5,
                                                  ''SEND_ID'', sq]) (\<lambda>_. eff_of (Ok ()))
                  | None \<Rightarrow> eff_of (Ok ())) (\<lambda>_.
        eff_of (Ok (RStatus ''OK'')))))))))))))"

definition store_message ::
  "('k, 'c, 'w, 'z) med_ext_scheme \<Rightarrow> 'db redis \<Rightarrow> string \<Rightarrow> string \<Rightarrow> string \<Rightarrow> string option
     \<Rightarrow> ('db, string, mediator_error) effect" where
  "store_message X R sid message to_did from_did =
     (let message_hash = digest X message; to_hash = digest X to_did in
      eff_then (fcall R (rv_string R)
          (\<lambda>e. DatabaseError sid ((''Couldn'' @ [CHR 0x27] @ ''t store message in database: '') @ e))
          (store_message_lua R message_hash
             ([message, show_nat (length message), to_did, to_hash] @
              (case from_did of
                 Some d \<Rightarrow> [d, digest X d]
               | None \<Rightarrow> [''ANONYMOUS''])))) (\<lambda>_.
      eff_of (Ok message_hash)))"

subsection \<open>Deleting\<close>

definition delete_message_lua :: "'db redis \<Rightarrow> string \<Rightarrow> string \<Rightarrow> ('db, reply) script" where
  "delete_message_lua R key did =
     eff_then (call R [''HGETALL'', meta_key key]) (\<lambda>r.
     eff_then (eff_of (lua_map r)) (\<lambda>al.
     let meta = map_of al in
     eff_then (eff_of (ensure (meta ''TO'' = Some did \<or> meta ''FROM'' = Some did)
                 ''Requesting DID does not have ownership of this message'')) (\<lambda>_.
     eff_then (eff_of (ok_or (''message ('' @ key @ '') metadata did not contain BYTES field.'')
                         (meta ''BYTES''))) (\<lambda>bytes.
     eff_then (call R [''DEL'', msg_key key]) (\<lambda>_.
     eff_then (store_counters R ''GLOBAL'' ''DELETED'' bytes ''1'') (\<lambda>_.
     eff_then (eff_of (lua_not_nil (meta ''TO''))) (\<lambda>to.
     eff_then (eff_of (lua_minus bytes)) (\<lambda>minus.
     eff_then (store_counters R (did_row to) ''RECEIVE_QUEUE'' minus ''-1'') (\<lambda>_.
     eff_then (eff_of (lua_not_nil (meta ''RECEIVE_ID''))) (\<lambda>rq.
     eff_then (call R [''XDEL'', receive_q to, rq]) (\<lambda>_.
     eff_then (case meta ''SEND_ID'' of
                 Some sq \<Rightarrow>
                   eff_then (eff_of (lua_not_nil (meta ''FROM''))) (\<lambda>frm.
                   eff_then (store_counters R (did_row frm) ''SEND_QUEUE'' minus ''-1'') (\<lambda>_.
                   eff_then (call R [''XDEL'', send_q frm, sq]) (\<lambda>_. eff_of (Ok ()))))
               | None \<Rightarrow> eff_of (Ok ())) (\<lambda>_.
     eff_then (call R [''DEL'', meta_key key]) (\<lambda>_.
     eff_of (Ok (RStatus ''OK'')))))))))))))))"

definition delete_message ::
  "'db redis \<Rightarrow> string \<Rightarrow> string \<Rightarrow> string \<Rightarrow> ('db, unit, mediator_error) effect" where
  "delete_message R sid did_hash message_hash =
     eff_then (fcall R (rv_string R)
         (\<lambda>e. DatabaseError did_hash ((''Couldn'' @ [CHR 0x27] @ ''t delete message_id('') @ message_hash @
            '') from database for DID '' @ did_hash @ '': '' @ e))
         (delete_message_lua R message_hash did_hash)) (\<lambda>response.
     eff_of (ensure (response = ''OK'') (DatabaseError sid response)))"

end
