(* ===== verification/Streaming.thy ===== *)
theory Streaming
  imports MessageStore
begin

text \<open>
  Live streaming: which client is connected to which mediator (\<open>database/streaming.rs\<close>, with the
  Lua function \<open>clean_start_streaming\<close>), and the task that passes published messages to the
  websockets of its clients (\<open>tasks/websocket_streaming.rs\<close>). The hash \<open>GLOBAL_STREAMING\<close> has a row
  for each client that is connected, with the id of its mediator and whether it is live; a channel
  to a websocket is the number of the connection.
\<close>

subsection \<open>The rows of the clients\<close>

definition global_streaming :: string where
  "global_streaming = ''GLOBAL_STREAMING''"

definition streaming_sessions :: "string \<Rightarrow> string" where
  "streaming_sessions uuid = ''STREAMING_SESSIONS:'' @ uuid"

definition streaming_row :: "string \<Rightarrow> bool \<Rightarrow> string" where
  "streaming_row uuid live = uuid @ (if live then '':TRUE'' else '':FALSE'')"

definition streaming_is_client_live ::
  "'db redis \<Rightarrow> string \<Rightarrow> bool \<Rightarrow> ('db, string option, mediator_error) effect" where
  "streaming_is_client_live R did_hash force_delivery =
     eff_match (eff_then (get_async_connection R) (\<lambda>_.
                query R (rv_opt_string R) (\<lambda>e. DatabaseError ''NA'' e)
                  [''HGET'', global_streaming, did_hash]))
       (\<lambda>response. eff_of (Ok
          (case response of
             Some row \<Rightarrow>
               (case split_on CHR '':'' row of
                  [uuid, live] \<Rightarrow> if live = ''TRUE'' \<or> force_delivery then Some uuid else None
                | _ \<Rightarrow> None)
           | None \<Rightarrow> None)))
       (\<lambda>_. eff_of (Ok None))"

definition streaming_publish_message ::
  "('k, 'c, 'w, 'z) med_ext_scheme \<Rightarrow> 'db redis \<Rightarrow> string \<Rightarrow> string \<Rightarrow> string \<Rightarrow> bool
     \<Rightarrow> ('db, unit, mediator_error) effect" where
  "streaming_publish_message X R did_hash stream_uuid message force_delivery =
     eff_then (eff_of (map_err
         (\<lambda>e. DatabaseError ''NA'' (''publish_live_message() for did_hash('' @ did_hash @
            '') failed to serialize message. Reason: '' @ e))
         (of_sum (ser_pubsub X \<lparr>ps_did_hash = did_hash, ps_message = message,
                                ps_force_delivery = force_delivery\<rparr>)))) (\<lambda>rec.
     eff_then (get_async_connection R) (\<lambda>_.
     query R (\<lambda>_. Inr ())
       (\<lambda>e. DatabaseError ''NA'' (''publish_live_message() for did_hash('' @ did_hash @
          '') channel(CHANNEL:'' @ stream_uuid @ '') failed. Reason: '' @ e))
       [''PUBLISH'', ''CHANNEL:'' @ stream_uuid, rec]))"

definition streaming_error :: "string \<Rightarrow> string \<Rightarrow> string \<Rightarrow> string \<Rightarrow> mediator_error" where
  "streaming_error what did_hash stream_uuid e =
     DatabaseError ''NA'' (what @ ''() for did_hash('' @ did_hash @ '') stream_uuid(STREAMING_SESSIONS:'' @
       stream_uuid @ '') failed. Reason: '' @ e)"

definition streaming_register_client ::
  "'db redis \<Rightarrow> string \<Rightarrow> string \<Rightarrow> ('db, unit, mediator_error) effect" where
  "streaming_register_client R did_hash stream_uuid =
     commit R (streaming_error ''streaming_register_client'' did_hash stream_uuid)
       [[''SADD'', streaming_sessions stream_uuid, did_hash],
        [''HSET'', global_streaming, did_hash, streaming_row stream_uuid False]]"

definition streaming_set_live ::
  "'db redis \<Rightarrow> string \<Rightarrow> string \<Rightarrow> string \<Rightarrow> bool \<Rightarrow> ('db, unit, mediator_error) effect" where
  "streaming_set_live R what did_hash stream_uuid live =
     eff_then (get_async_connection R) (\<lambda>_.
     query R (\<lambda>_. Inr ()) (streaming_error what did_hash stream_uuid)
       [''HSET'', global_streaming, did_hash, streaming_row stream_uuid live])"

definition streaming_start_live ::
  "'db redis \<Rightarrow> string \<Rightarrow> string \<Rightarrow> ('db, unit, mediator_error) effect" where
  "streaming_start_live R did_hash stream_uuid =
     streaming_set_live R ''streaming_start_live'' did_hash stream_uuid True"

definition streaming_stop_live ::
  "'db redis \<Rightarrow> string \<Rightarrow> string \<Rightarrow> ('db, unit, mediator_error) effect" where
  "streaming_stop_live R did_hash stream_uuid =
     streaming_set_live R ''streaming_stop_live'' did_hash stream_uuid False"

definition streaming_deregister_client ::
  "'db redis \<Rightarrow> string \<Rightarrow> string \<Rightarrow> ('db, unit, mediator_error) effect" where
  "streaming_deregister_client R did_hash stream_uuid =
     commit R (streaming_error ''streaming_deregister_client'' did_hash stream_uuid)
       [[''SREM'', streaming_sessions stream_uuid, did_hash],
        [''HDEL'', global_streaming, did_hash]]"

subsection \<open>Cleaning up after a previous run\<close>

text \<open>
  The loop of the script: it takes a client out of the set until the set is empty. It need not
  end on a server of which nothing is known, so not ending is \<open>None\<close>.
\<close>

definition set_member :: "reply \<Rightarrow> (reply list, string) result" where
  "set_member r = (case r of RSet rs \<Rightarrow> Ok rs | _ \<Rightarrow> Err ''no set'')"

definition clean_one :: "'db redis \<Rightarrow> string \<Rightarrow> ('db, nat, string) effect" where
  "clean_one R key =
     eff_then (call R [''SPOP'', key, ''1'']) (\<lambda>r.
     eff_then (eff_of (set_member r)) (\<lambda>ms.
     if ms = [] then eff_of (Ok 0)
     else
       eff_then (eff_of (lua_string (last ms))) (\<lambda>client.
       eff_then (call R [''HDEL'', global_streaming, client]) (\<lambda>_. eff_of (Ok (length ms))))))"

partial_function (option) clean_loop ::
  "'db redis \<Rightarrow> string \<Rightarrow> nat \<Rightarrow> 'db \<Rightarrow> ((reply, string) result \<times> 'db) option" where
  "clean_loop R key counter db =
     (case clean_one R key db of
        (Ok n, db') \<Rightarrow> if n = 0 then Some (Ok (RInt (int counter)), db') else clean_loop R key (counter + n) db'
      | (Err e, db') \<Rightarrow> Some (Err e, db')
      | (Panic, db') \<Rightarrow> Some (Panic, db'))"

text \<open>
  The reply of the transaction is that of its one call.
\<close>

definition streaming_clean_start ::
  "'db redis \<Rightarrow> string \<Rightarrow> 'db \<Rightarrow> ((unit, mediator_error) result \<times> 'db) option" where
  "streaming_clean_start R uuid db =
     (case get_async_connection R db of
        (Ok _, db1) \<Rightarrow>
          (case clean_loop R (streaming_sessions uuid) 0 db1 of
             None \<Rightarrow> None
           | Some (r, db2) \<Rightarrow> Some (
               and_then (map_err (\<lambda>e. DatabaseError ''NA''
                   (''redis function clean_start_streaming() failed. Reason: '' @ fcall_error R e)) r) (\<lambda>rep.
               case rv_i64 R (resp2 rep) of
                 Inr _ \<Rightarrow> Ok ()
               | Inl _ \<Rightarrow> Err (DatabaseError ''NA'' (''redis fn clean_start_streaming() failed. Response ('' @
                   debug_reply R (RArray [resp2 rep]) @ '')''))), db2))
      | (Err e, db1) \<Rightarrow> Some (Err e, db1)
      | (Panic, db1) \<Rightarrow> Some (Panic, db1))"

subsection \<open>The streaming task\<close>

text \<open>The updates the websockets send to the task; a \<open>Register\<close> carries the channel of the socket.\<close>

datatype streaming_update_state = Register nat | Start | Stop | Deregister

record streaming_update =
  su_did_hash :: string
  su_state :: streaming_update_state

text \<open>
  The clients of the task (\<open>true\<close> for a live one), and the messages it has passed to channels, in
  order. Sending to a channel that is closed is logged and has no other effect.
\<close>

record stream_task =
  tk_clients :: "string \<rightharpoonup> nat \<times> bool"
  tk_sent :: "(nat \<times> string) list"

definition new_task :: stream_task where
  "new_task = \<lparr>tk_clients = Map.empty, tk_sent = []\<rparr>"

text \<open>An error of the database is logged.\<close>

definition logged :: "('db, unit, mediator_error) effect \<Rightarrow> ('db, unit, mediator_error) effect" where
  "logged m = eff_match m (\<lambda>_. eff_of (Ok ())) (\<lambda>_. eff_of (Ok ()))"

text \<open>A published message arrives. A text that is no record is a panic.\<close>

definition stream_payload ::
  "('k, 'c, 'w, 'z) med_ext_scheme \<Rightarrow> 'db redis \<Rightarrow> string \<Rightarrow> string \<Rightarrow> stream_task
     \<Rightarrow> ('db, stream_task, mediator_error) effect" where
  "stream_payload X R uuid text t =
     (case de_pubsub X text of
        Inl _ \<Rightarrow> eff_of Panic
      | Inr payload \<Rightarrow>
          (case tk_clients t (ps_did_hash payload) of
             Some (tx, active) \<Rightarrow>
               if ps_force_delivery payload \<or> active
               then eff_of (Ok (t\<lparr>tk_sent := tk_sent t @ [(tx, ps_message payload)]\<rparr>))
               else eff_then (logged (streaming_stop_live R (ps_did_hash payload) uuid)) (\<lambda>_. eff_of (Ok t))
           | None \<Rightarrow> eff_of (Ok t)))"

text \<open>
  An update arrives. Starting and stopping write the row of a client that is not there, too. The
  texts of the log are left out, and with them the number of clients that deregistering prints,
  \<open>clients.len() - 1\<close>: with no client left that subtraction panics in a build with overflow checks.
\<close>

definition set_active :: "string \<Rightarrow> bool \<Rightarrow> stream_task \<Rightarrow> stream_task" where
  "set_active d b t =
     (case tk_clients t d of
        Some (tx, _) \<Rightarrow> t\<lparr>tk_clients := (tk_clients t)(d \<mapsto> (tx, b))\<rparr>
      | None \<Rightarrow> t)"

definition update_call :: "'db redis \<Rightarrow> string \<Rightarrow> streaming_update \<Rightarrow> ('db, unit, mediator_error) effect" where
  "update_call R uuid u =
     (let d = su_did_hash u in
      case su_state u of
        Register _ \<Rightarrow> streaming_register_client R d uuid
      | Start \<Rightarrow> streaming_start_live R d uuid
      | Stop \<Rightarrow> streaming_stop_live R d uuid
      | Deregister \<Rightarrow> streaming_deregister_client R d uuid)"

definition update_clients :: "streaming_update \<Rightarrow> stream_task \<Rightarrow> stream_task" where
  "update_clients u t =
     (let d = su_did_hash u in
      case su_state u of
        Register tx \<Rightarrow> t\<lparr>tk_clients := (tk_clients t)(d \<mapsto> (tx, False))\<rparr>
      | Start \<Rightarrow> set_active d True t
      | Stop \<Rightarrow> set_active d False t
      | Deregister \<Rightarrow> t\<lparr>tk_clients := (tk_clients t)(d := None)\<rparr>)"

definition stream_update ::
  "'db redis \<Rightarrow> string \<Rightarrow> streaming_update \<Rightarrow> stream_task \<Rightarrow> ('db, stream_task, mediator_error) effect" where
  "stream_update R uuid u t =
     eff_then (logged (update_call R uuid u)) (\<lambda>_. eff_of (Ok (update_clients u t)))"

end
