(* ===== verification/MessageRead.thy ===== *)
theory MessageRead
  imports MessageStore
begin

text \<open>
  Reading the stored messages (\<open>database/fetch.rs\<close>, \<open>get.rs\<close>, \<open>list.rs\<close>, with the Lua function
  \<open>fetch_messages\<close>) and the statistics of the mediator (\<open>database/stats.rs\<close>).
\<close>

record message_element =
  me_msg_id :: string
  me_send_id :: "string option"
  me_receive_id :: "string option"
  me_size :: nat
  me_timestamp :: nat
  me_to_address :: "string option"
  me_from_address :: "string option"
  me_msg :: "string option"

definition empty_element :: message_element where
  "empty_element =
     \<lparr>me_msg_id = [], me_send_id = None, me_receive_id = None, me_size = 0, me_timestamp = 0,
      me_to_address = None, me_from_address = None, me_msg = None\<rparr>"

datatype folder = Inbox | Outbox

record get_messages_response =
  gm_success :: "message_element list"
  gm_get_errors :: "(string \<times> string) list"
  gm_delete_errors :: "(string \<times> string) list"

datatype fetch_delete_policy = Optimistic | OnReceive | DoNotDelete

record fetch_options =
  fo_limit :: nat
  fo_start_id :: "string option"
  fo_delete_policy :: fetch_delete_policy

definition default_fetch_options :: fetch_options where
  "default_fetch_options = \<lparr>fo_limit = 10, fo_start_id = None, fo_delete_policy = DoNotDelete\<rparr>"

subsection \<open>Fetching\<close>

text \<open>
  \<open>table.insert\<close> of nothing leaves a table as it was: an index past the end, or a message that is
  not there.
\<close>

definition lua_index :: "string list \<Rightarrow> nat \<Rightarrow> string list" where
  "lua_index xs i = (if i < length xs then [xs ! i] else [])"

definition fetched_fields :: "'db redis \<Rightarrow> string list \<Rightarrow> ('db, string list) script" where
  "fetched_fields R sub =
     eff_then (eff_of (if 1 < length sub then Ok (sub ! 1) else Err ''attempt to use a nil value'')) (\<lambda>i.
     eff_then (call R [''GET'', msg_key i]) (\<lambda>msg.
     eff_then (eff_of (case msg of RNil \<Rightarrow> Ok [] | r \<Rightarrow> and_then (lua_string r) (\<lambda>s. Ok [s]))) (\<lambda>msg.
     eff_then (call R [''HGETALL'', meta_key i]) (\<lambda>r.
     eff_then (eff_of (lua_map r)) (\<lambda>meta.
     eff_of (Ok (lua_index sub 0 @ lua_index sub 1 @ [''FROM_DID''] @ lua_index sub 5 @ [''MSG''] @ msg @
       unpair (map (\<lambda>(k, v). (''META_'' @ k, v)) meta))))))))"

definition fetched_message :: "'db redis \<Rightarrow> reply \<Rightarrow> reply list \<Rightarrow> ('db, reply list) script" where
  "fetched_message R element acc =
     eff_then (eff_of (lua_array element)) (\<lambda>parts.
     case parts of
       [sid, sub] \<Rightarrow>
         eff_then (eff_of (lua_string sid)) (\<lambda>sid.
         eff_then (eff_of (lua_strings sub)) (\<lambda>sub.
         eff_then (fetched_fields R sub) (\<lambda>rest.
         eff_of (Ok (acc @ [RArray (map RBulk (''STREAM_ID'' # sid # rest))])))))
     | _ \<Rightarrow> eff_of (Err ''not a stream entry''))"

definition fetch_messages_lua :: "'db redis \<Rightarrow> string \<Rightarrow> string \<Rightarrow> string \<Rightarrow> ('db, reply) script" where
  "fetch_messages_lua R key start_id limit =
     eff_then (call R [''XRANGE'', receive_q key,
                       if start_id \<noteq> ''-'' then CHR ''('' # start_id else ''-'', ''+'', ''COUNT'', limit]) (\<lambda>r.
     eff_then (eff_of (lua_array r)) (\<lambda>elements.
     eff_then (eff_each (fetched_message R) elements []) (\<lambda>msgs.
     eff_of (Ok (RArray msgs)))))"

definition fetched_field :: "string \<times> string \<Rightarrow> message_element \<Rightarrow> message_element" where
  "fetched_field p m =
     (case p of (k, v) \<Rightarrow>
        if k = ''MSG_ID'' then m\<lparr>me_msg_id := v\<rparr>
        else if k = ''META_SEND_ID'' then m\<lparr>me_send_id := Some v\<rparr>
        else if k = ''META_RECEIVE_ID'' then m\<lparr>me_receive_id := Some v\<rparr>
        else if k = ''META_BYTES'' then m\<lparr>me_size := parse_or_zero 64 v\<rparr>
        else if k = ''META_TIMESTAMP'' then m\<lparr>me_timestamp := parse_or_zero 64 v\<rparr>
        else if k = ''META_TO'' then m\<lparr>me_to_address := Some v\<rparr>
        else if k = ''FROM_DID'' then m\<lparr>me_from_address := Some v\<rparr>
        else if k = ''MSG'' then m\<lparr>me_msg := Some v\<rparr>
        else m)"

definition fetched_element :: "string list \<Rightarrow> message_element" where
  "fetched_element ss = fold fetched_field (pairs_of ss) empty_element"

text \<open>One pass of the loop: an item that is no list of texts is an error of its own.\<close>

definition fetch_item ::
  "'db redis \<Rightarrow> string \<Rightarrow> string \<Rightarrow> fetch_delete_policy \<Rightarrow> reply \<Rightarrow> get_messages_response
     \<Rightarrow> ('db, get_messages_response, mediator_error) effect" where
  "fetch_item R sid did_hash policy item acc =
     (case rv_strings R item of
        Inl e \<Rightarrow> eff_of (Ok (acc\<lparr>gm_get_errors := gm_get_errors acc @ [(debug_reply R item, e)]\<rparr>))
      | Inr ss \<Rightarrow>
          let m = fetched_element ss in
          eff_then (if policy = Optimistic
                    then eff_match (delete_message R sid did_hash (me_msg_id m))
                           (\<lambda>_. eff_of (Ok acc))
                           (\<lambda>e. eff_of (Ok (acc\<lparr>gm_delete_errors := gm_delete_errors acc @
                                  [(me_msg_id m, mediator_error_text e)]\<rparr>)))
                    else eff_of (Ok acc)) (\<lambda>acc.
          eff_of (Ok (acc\<lparr>gm_success := gm_success acc @ [m]\<rparr>))))"

definition fetch_messages ::
  "'db redis \<Rightarrow> string \<Rightarrow> string \<Rightarrow> fetch_options
     \<Rightarrow> ('db, get_messages_response, mediator_error) effect" where
  "fetch_messages R sid did_hash opts =
     (let start_id = (case fo_start_id opts of Some s \<Rightarrow> s | None \<Rightarrow> ''-'') in
      eff_then (fcall R (rv_values R)
          (\<lambda>e. DatabaseError ''NA'' ((''Couldn'' @ [CHR 0x27] @ ''t fetch_messages() from database: '') @ e))
          (fetch_messages_lua R did_hash start_id (show_nat (fo_limit opts)))) (\<lambda>results.
      eff_each (fetch_item R sid did_hash (fo_delete_policy opts)) results
        \<lparr>gm_success = [], gm_get_errors = [], gm_delete_errors = []\<rparr>))"

subsection \<open>Statistics\<close>

record metadata_stats =
  st_received_bytes :: int
  st_sent_bytes :: int
  st_deleted_bytes :: int
  st_received_count :: int
  st_sent_count :: int
  st_deleted_count :: int
  st_websocket_open :: int
  st_websocket_close :: int
  st_sessions_created :: int
  st_sessions_success :: int

text \<open>\<open>s.parse::<i64>().unwrap_or(0)\<close>.\<close>

definition parse_i64_or_zero :: "string \<Rightarrow> int" where
  "parse_i64_or_zero s =
     (case s of
        c # cs \<Rightarrow>
          if c = CHR ''-''
          then (case (if cs = [] then None else parse_digits 0 cs) of
                  Some n \<Rightarrow> if n \<le> 2 ^ 63 then - int n else 0 | None \<Rightarrow> 0)
          else int (parse_or_zero 63 s)
      | [] \<Rightarrow> 0)"

definition stats_field :: "string \<times> string \<Rightarrow> metadata_stats \<Rightarrow> metadata_stats" where
  "stats_field p st =
     (case p of (k, v) \<Rightarrow>
        let n = parse_i64_or_zero v in
        if k = ''RECEIVED_BYTES'' then st\<lparr>st_received_bytes := n\<rparr>
        else if k = ''SENT_BYTES'' then st\<lparr>st_sent_bytes := n\<rparr>
        else if k = ''DELETED_BYTES'' then st\<lparr>st_deleted_bytes := n\<rparr>
        else if k = ''RECEIVED_COUNT'' then st\<lparr>st_received_count := n\<rparr>
        else if k = ''SENT_COUNT'' then st\<lparr>st_sent_count := n\<rparr>
        else if k = ''DELETED_COUNT'' then st\<lparr>st_deleted_count := n\<rparr>
        else if k = ''WEBSOCKET_OPEN'' then st\<lparr>st_websocket_open := n\<rparr>
        else if k = ''WEBSOCKET_CLOSE'' then st\<lparr>st_websocket_close := n\<rparr>
        else if k = ''SESSIONS_CREATED'' then st\<lparr>st_sessions_created := n\<rparr>
        else if k = ''SESSIONS_SUCCESS'' then st\<lparr>st_sessions_success := n\<rparr>
        else st)"

definition no_stats :: metadata_stats where
  "no_stats =
     \<lparr>st_received_bytes = 0, st_sent_bytes = 0, st_deleted_bytes = 0, st_received_count = 0,
      st_sent_count = 0, st_deleted_count = 0, st_websocket_open = 0, st_websocket_close = 0,
      st_sessions_created = 0, st_sessions_success = 0\<rparr>"

definition stats_of :: "string list \<Rightarrow> metadata_stats" where
  "stats_of ss = fold stats_field (pairs_of ss) no_stats"

definition get_db_metadata :: "'db redis \<Rightarrow> ('db, metadata_stats, mediator_error) effect" where
  "get_db_metadata R =
     eff_then (get_async_connection R) (\<lambda>_.
     eff_then (query R Inr
         (\<lambda>e. DatabaseError ''NA'' ((''Couldn'' @ [CHR 0x27] @ ''t get shared METADATA from database: '') @ e))
         [''HGETALL'', ''GLOBAL'']) (\<lambda>result.
     eff_then (eff_of (map_err
         (\<lambda>e. DatabaseError ''NA'' ((''Couldn'' @ [CHR 0x27] @ ''t parse GLOBAL metadata from database: '') @ e))
         (of_sum (rv_strings R result)))) (\<lambda>ss.
     eff_of (Ok (stats_of ss)))))"

text \<open>The differences of two readings, as 64-bit integers: an overflow is a panic of a debug build only.\<close>

definition stats_delta :: "metadata_stats \<Rightarrow> metadata_stats \<Rightarrow> metadata_stats" where
  "stats_delta a b =
     \<lparr>st_received_bytes = st_received_bytes a - st_received_bytes b,
      st_sent_bytes = st_sent_bytes a - st_sent_bytes b,
      st_deleted_bytes = st_deleted_bytes a - st_deleted_bytes b,
      st_received_count = st_received_count a - st_received_count b,
      st_sent_count = st_sent_count a - st_sent_count b,
      st_deleted_count = st_deleted_count a - st_deleted_count b,
      st_websocket_open = st_websocket_open a - st_websocket_open b,
      st_websocket_close = st_websocket_close a - st_websocket_close b,
      st_sessions_created = st_sessions_created a - st_sessions_created b,
      st_sessions_success = st_sessions_success a - st_sessions_success b\<rparr>"

text \<open>What the statistics task writes to the log.\<close>

definition display_stats :: "metadata_stats \<Rightarrow> string" where
  "display_stats st =
     (let line = (\<lambda>s. CHR 0x0A # s) in
      line (''    Message counts: recv('' @ show_int (st_received_count st) @ '') sent('' @ show_int (st_sent_count st) @
        '') deleted('' @ show_int (st_deleted_count st) @ '') queued('' @
        show_int (st_received_count st - st_deleted_count st) @ '')'') @
      line (''    Storage: received('' @ show_int (st_received_bytes st) @ ''), sent('' @ show_int (st_sent_bytes st) @
        ''), deleted('' @ show_int (st_deleted_bytes st) @ ''), current_queued('' @
        show_int (st_received_bytes st - st_deleted_bytes st) @ '')'') @
      line (''    Connections: ws_open('' @ show_int (st_websocket_open st) @ '') ws_close('' @
        show_int (st_websocket_close st) @ '') ws_current('' @
        show_int (st_websocket_open st - st_websocket_close st) @ '') :: sessions_created('' @
        show_int (st_sessions_created st) @ ''), sessions_authenticated('' @ show_int (st_sessions_success st) @ '')'') @
      line ''            '')"

text \<open>The second command leaves out the key, so it has one argument too few.\<close>

definition update_send_stats :: "'db redis \<Rightarrow> int \<Rightarrow> ('db, unit, mediator_error) effect" where
  "update_send_stats R sent_bytes =
     commit R (\<lambda>e. DatabaseError ''INTERNAL'' ((''Couldn'' @ [CHR 0x27] @ ''t update GLOBAL SEND stats. Reason: '') @ e))
       [[''HINCRBY'', ''GLOBAL'', ''SENT_BYTES'', show_int sent_bytes],
        [''HINCRBY'', ''SENT_COUNT'', ''1'']]"

definition increment_websocket :: "'db redis \<Rightarrow> string \<Rightarrow> ('db, unit, mediator_error) effect" where
  "increment_websocket R counter =
     eff_then (get_async_connection R) (\<lambda>_.
     query R (rv_unit R)
       (\<lambda>e. DatabaseError ''INTERNAL''
         ((''Couldn'' @ [CHR 0x27] @ ''t update GLOBAL('') @ counter @ '') stats. Reason: '' @ e))
       [''HINCRBY'', ''GLOBAL'', counter, ''1''])"

subsection \<open>Getting one message\<close>

definition got_field :: "string \<times> string \<Rightarrow> message_element \<Rightarrow> message_element" where
  "got_field p m =
     (case p of (k, v) \<Rightarrow>
        if k = ''MSG_ID'' then m\<lparr>me_msg_id := v\<rparr>
        else if k = ''BYTES'' then m\<lparr>me_size := parse_or_zero 64 v\<rparr>
        else if k = ''FROM'' then m\<lparr>me_from_address := Some v\<rparr>
        else if k = ''TO'' then m\<lparr>me_to_address := Some v\<rparr>
        else if k = ''TIMESTAMP'' then m\<lparr>me_timestamp := parse_or_zero 64 v\<rparr>
        else if k = ''SEND_ID'' then m\<lparr>me_send_id := Some v\<rparr>
        else if k = ''RECEIVE_ID'' then m\<lparr>me_receive_id := Some v\<rparr>
        else m)"

definition got_element :: "string \<Rightarrow> string \<Rightarrow> string list \<Rightarrow> message_element" where
  "got_element msg_id msg ss =
     fold got_field (pairs_of ss) (empty_element\<lparr>me_msg_id := msg_id, me_msg := Some msg\<rparr>)"

definition owned_by :: "string \<Rightarrow> message_element \<Rightarrow> bool" where
  "owned_by did_hash m \<longleftrightarrow>
     did_hash = (case me_from_address m of Some a \<Rightarrow> a | None \<Rightarrow> []) \<or>
     did_hash = (case me_to_address m of Some a \<Rightarrow> a | None \<Rightarrow> [])"

definition get_error :: "string \<Rightarrow> string \<Rightarrow> mediator_error" where
  "get_error msg_id e =
     DatabaseError ''NA'' ((''Couldn'' @ [CHR 0x27] @ ''t get message_id('') @ msg_id @ '') from database: '' @ e)"

text \<open>The transaction answers each of its two commands; the size is read as a signed integer.\<close>

definition get_message ::
  "'db redis \<Rightarrow> string \<Rightarrow> string \<Rightarrow> ('db, message_element, mediator_error) effect" where
  "get_message R did_hash msg_id =
     eff_then (get_async_connection R) (\<lambda>_.
     eff_then (transaction R (get_error msg_id) [[''GET'', msg_key msg_id], [''HGETALL'', meta_key msg_id]]) (\<lambda>reps.
     eff_then (eff_of (case reps of
         [a, b] \<Rightarrow> and_then (map_err (get_error msg_id) (of_sum (rv_strings R b))) (\<lambda>meta. Ok (a, meta))
       | _ \<Rightarrow> Err (get_error msg_id ''wrong number of replies''))) (\<lambda>(body, meta).
     eff_then (eff_of (case body of
         RNil \<Rightarrow> Err (DatabaseError did_hash (''Message not found for ID: '' @ msg_id))
       | r \<Rightarrow> map_err (\<lambda>e. InternalError did_hash
                 ((''Couldn'' @ [CHR 0x27] @ ''t convert didcomm_message to string: '') @ e))
                (of_sum (rv_string R r)))) (\<lambda>body.
     let m = got_element msg_id body meta in
     if owned_by did_hash m
     then eff_match (update_send_stats R (sint (word_of_nat (me_size m) :: u64)))
            (\<lambda>_. eff_of (Ok m)) (\<lambda>_. eff_of (Ok m))
     else eff_of (Err (DatabaseError did_hash (''Message not found for DID: '' @ did_hash)))))))"

subsection \<open>Listing\<close>

definition listed_field :: "string \<times> string \<Rightarrow> message_element \<Rightarrow> message_element" where
  "listed_field p m =
     (case p of (k, v) \<Rightarrow>
        if k = ''MSG_ID'' then m\<lparr>me_msg_id := v\<rparr>
        else if k = ''BYTES'' then m\<lparr>me_size := parse_or_zero 64 v\<rparr>
        else if k = ''FROM'' then m\<lparr>me_from_address := Some v\<rparr>
        else if k = ''TO'' then m\<lparr>me_to_address := Some v\<rparr>
        else m)"

definition queue_key :: "folder \<Rightarrow> string \<Rightarrow> string" where
  "queue_key fo did_hash =
     (case fo of Inbox \<Rightarrow> receive_q did_hash | Outbox \<Rightarrow> send_q did_hash)"

definition list_error :: "string \<Rightarrow> string \<Rightarrow> string \<Rightarrow> mediator_error" where
  "list_error did_hash key e =
     DatabaseError ''NA'' ((''Couldn'' @ [CHR 0x27] @ ''t parse message_list did('') @ did_hash @ '') folder('' @ key @ ''): '' @ e)"

definition listed_element ::
  "'db redis \<Rightarrow> folder \<Rightarrow> (string \<Rightarrow> mediator_error) \<Rightarrow> reply \<Rightarrow> (message_element, mediator_error) result" where
  "listed_element R fo err item =
     and_then (case rv_values R item of Inl _ \<Rightarrow> Panic | Inr vs \<Rightarrow> Ok vs) (\<lambda>vs.
     and_then (case vs of v # _ \<Rightarrow> Ok v | [] \<Rightarrow> Panic) (\<lambda>v0.
     and_then (map_err err (of_sum (rv_string R v0))) (\<lambda>stream_id.
     let m = (case fo of
                Inbox \<Rightarrow> empty_element\<lparr>me_receive_id := Some stream_id\<rparr>
              | Outbox \<Rightarrow> empty_element\<lparr>me_send_id := Some stream_id\<rparr>);
         m = m\<lparr>me_timestamp := parse_or_zero 64 (hd (split_on CHR ''-'' stream_id))\<rparr> in
     and_then (case vs of _ # v # _ \<Rightarrow> Ok v | _ \<Rightarrow> Panic) (\<lambda>v1.
     and_then (map_err err (of_sum (rv_strings R v1))) (\<lambda>fvs.
     Ok (fold listed_field (pairs_of fvs) m))))))"

definition list_messages ::
  "'db redis \<Rightarrow> string \<Rightarrow> folder \<Rightarrow> (string \<times> string) option \<Rightarrow> nat
     \<Rightarrow> ('db, message_element list, mediator_error) effect" where
  "list_messages R did_hash fo rng limit =
     (let key = queue_key fo did_hash;
          (start, stop) = (case rng of Some r \<Rightarrow> r | None \<Rightarrow> (''-'', ''+'')) in
      eff_then (get_async_connection R) (\<lambda>_.
      eff_then (query R Inr
          (\<lambda>e. DatabaseError did_hash ((''Couldn'' @ [CHR 0x27] @ ''t get message_list('') @ key @
             '') from database for DID_hash '' @ did_hash @ '': '' @ e))
          [''XRANGE'', key, start, stop, ''COUNT'', show_nat limit]) (\<lambda>r.
      eff_of (and_then (map_err (list_error did_hash key) (of_sum (rv_values R r)))
        (collect (listed_element R fo (list_error did_hash key)))))))"

subsection \<open>The metadata of a message\<close>

text \<open>
  \<open>get_message_metadata\<close> reads a field of the hash \<open>MESSAGE_STORE\<close>, which nothing writes, and takes its
  JSON apart with the reader \<open>de\<close>; no code calls it.
\<close>

record message_meta_data =
  mmd_bytes :: nat
  mmd_to_did_hash :: string
  mmd_from_did_hash :: "string option"
  mmd_timestamp :: nat

definition get_message_metadata ::
  "'db redis \<Rightarrow> (string \<Rightarrow> string + message_meta_data) \<Rightarrow> string \<Rightarrow> string
     \<Rightarrow> ('db, message_meta_data, mediator_error) effect" where
  "get_message_metadata R de sid message_hash =
     eff_then (get_async_connection R) (\<lambda>_.
     eff_then (query R (rv_string R)
         (\<lambda>e. DatabaseError sid ((''Couldn'' @ [CHR 0x27] @ ''t get message metadata from database: '') @ e))
         [''HGET'', ''MESSAGE_STORE'', ''METADATA:'' @ message_hash]) (\<lambda>metadata.
     eff_of (map_err
         (\<lambda>e. DatabaseError sid ((''Couldn'' @ [CHR 0x27] @ ''t parse message metadata from database: '') @ e))
         (of_sum (de metadata)))))"

end
