(* ===== verification/Config.thy ===== *)
theory Config
  imports Streaming MessageRead
begin

text \<open>
  The configuration of the mediator (\<open>common/config.rs\<close>): the file is read, comments are dropped and
  variables of the environment filled in, and its texts are turned into the settings of the server;
  then the connection to the database is made (\<open>database/handlers.rs\<close>) and the state that the
  handlers share is put together (\<open>server.rs\<close>). The operating system, the parsers of other crates
  and AWS are a parameter.
\<close>

subsection \<open>The configuration file\<close>

record server_config =
  sc_api_prefix :: string
  sc_http_size_limit :: string
  sc_ws_size_limit :: string

record database_config =
  dc_database_url :: string
  dc_database_pool_size :: string
  dc_database_timeout :: string
  dc_max_message_size :: string
  dc_max_queued_messages :: string
  dc_message_expiry_minutes :: string
  dc_max_listed_messages :: string
  dc_max_deleted_messages :: string

record security_config =
  sec_use_ssl :: string
  sec_ssl_certificate_file :: string
  sec_ssl_key_file :: string
  sec_jwt_authorization_secret :: string
  sec_cors_allow_origin :: "string option"

record streaming_config =
  stc_enabled :: string
  stc_uuid :: string

record did_resolver_config =
  drc_address :: "string option"
  drc_cache_capacity :: string
  drc_cache_ttl :: string
  drc_network_timeout :: string
  drc_network_limit :: string

record other_config =
  oc_to_recipients_limit :: string
  oc_crypto_operations_per_message_limit :: string
  oc_to_keys_per_recipient_limit :: string

record config_raw =
  raw_log_level :: string
  raw_listen_address :: string
  raw_mediator_did :: string
  raw_mediator_secrets :: string
  raw_server :: server_config
  raw_database :: database_config
  raw_security :: security_config
  raw_streaming :: streaming_config
  raw_did_resolver :: did_resolver_config
  raw_other :: other_config

subsection \<open>What the configuration asks of other code\<close>

text \<open>
  A file is its lines up to the first that cannot be read, or the error of opening it. The
  replacement of a pattern is given the captures \<open>env_var\<close> and \<open>default_value\<close> of each match. A
  parameter of AWS has a type and a value, both optional.
\<close>

record host =
  env_var :: "string \<Rightarrow> string option"
  open_lines :: "string \<Rightarrow> string + string list"
  replace_all :: "string \<Rightarrow> (string \<Rightarrow> string \<Rightarrow> string) \<Rightarrow> string \<Rightarrow> string"
  toml_config :: "string \<Rightarrow> string + config_raw"
  json_secrets :: "string \<Rightarrow> string + secret list"
  secret_value :: "string \<Rightarrow> string + string option"
  store_parameter :: "string \<Rightarrow> string + (string option \<times> string option \<times> string) option"
  url_safe_decode :: "string \<Rightarrow> string + bytes"
  ed25519_public :: "bytes \<Rightarrow> string + bytes"
  os_hostname :: "string + string"
  header_value :: "string \<Rightarrow> bool"
  reload_log_filter :: "string \<Rightarrow> string option"
  pool_of_url :: "string \<Rightarrow> string option"
  pool_build :: "nat \<Rightarrow> nat \<Rightarrow> string option"

definition config_error :: "string \<Rightarrow> mediator_error" where
  "config_error e = ConfigError ''NA'' e"

definition read_file_lines :: "host \<Rightarrow> string \<Rightarrow> (string list, mediator_error) result" where
  "read_file_lines H file_name =
     and_then (map_err (\<lambda>e. config_error (''Could not open file('' @ file_name @ ''). '' @ e))
                 (of_sum (open_lines H file_name))) (\<lambda>ls.
     Ok (filter (\<lambda>l. case l of c # _ \<Rightarrow> c \<noteq> CHR 0x23 | [] \<Rightarrow> True) ls))"

definition env_pattern :: string where
  "env_pattern = [CHR 0x5C] @ ''$'' @ [CHR 0x5C] @ ''{(?P<env_var>[A-Z_]{1,}[0-9A-Z_]*):(?P<default_value>.*)'' @
     [CHR 0x5C] @ ''}''"

definition expand_env_vars :: "host \<Rightarrow> string list \<Rightarrow> string list" where
  "expand_env_vars H raw_config =
     map (replace_all H env_pattern
       (\<lambda>name default. case env_var H name of Some v \<Rightarrow> v | None \<Rightarrow> default)) raw_config"

definition read_config_file :: "host \<Rightarrow> string \<Rightarrow> (config_raw, mediator_error) result" where
  "read_config_file H file_name =
     and_then (read_file_lines H file_name) (\<lambda>raw_config.
     map_err (\<lambda>e. config_error (''Could not parse configuration settings. Reason: '' @ e))
       (of_sum (toml_config H (join [CHR 0x0A] (expand_env_vars H raw_config)))))"

subsection \<open>Sources of settings\<close>

text \<open>\<open>s.split("://")\<close>.\<close>

function split_scheme :: "string \<Rightarrow> string list" where
  "split_scheme s =
     (case s of
        [] \<Rightarrow> [[]]
      | c # cs \<Rightarrow>
          if take 3 s = ''://'' then [] # split_scheme (drop 3 s)
          else (case split_scheme cs of p # ps \<Rightarrow> (c # p) # ps | [] \<Rightarrow> [[c]]))"
  by pat_completeness auto
termination by (relation "measure length") auto

declare split_scheme.simps [simp del]

definition read_did_config :: "host \<Rightarrow> string \<Rightarrow> (string, mediator_error) result" where
  "read_did_config H did_config =
     (case split_scheme did_config of
        [scheme, path] \<Rightarrow>
          if scheme = ''did'' then Ok path
          else if scheme = ''aws_parameter_store''
          then
            and_then (map_err (\<lambda>e. config_error (''Could not get mediator_did parameter. '' @ e))
                        (of_sum (store_parameter H path))) (\<lambda>response.
            and_then (ok_or (config_error ''No parameter string found in response'') response)
              (\<lambda>(type, value, name).
            and_then (case type of
                Some t \<Rightarrow> ensure (t = ''String'') (config_error ''Expected String parameter type'')
              | None \<Rightarrow> Err (config_error ''Unknown parameter type'')) (\<lambda>_.
            ok_or (config_error (''Parameter ('' @ name @ '') found, but no parameter value found in response''))
              value)))
          else Err (config_error ''Invalid MEDIATOR_SECRETS format! Expecting file:// or aws_secrets:// ...'')
      | _ \<Rightarrow> Err (config_error ''Invalid `mediator_did` format''))"

definition aws_secret :: "host \<Rightarrow> string \<Rightarrow> (string, mediator_error) result" where
  "aws_secret H path =
     and_then (map_err (\<lambda>e. config_error (''Could not get secret value. '' @ e)) (of_sum (secret_value H path)))
       (ok_or (config_error ''No secret string found in response''))"

definition load_secrets :: "host \<Rightarrow> string \<Rightarrow> (secret list, mediator_error) result" where
  "load_secrets H secrets =
     (case split_scheme secrets of
        [scheme, path] \<Rightarrow>
          and_then (if scheme = ''file'' then and_then (read_file_lines H path) (\<lambda>ls. Ok (concat ls))
                    else if scheme = ''aws_secrets'' then aws_secret H path
                    else Err (config_error
                      ''Invalid `mediator_secrets` format! Expecting file:// or aws_secrets:// ...'')) (\<lambda>content.
          map_err (\<lambda>e. config_error (''Could not parse `mediator_secrets` JSON content. '' @ e))
            (of_sum (json_secrets H content)))
      | _ \<Rightarrow> Err (config_error ''Invalid `mediator_secrets` format''))"

definition config_jwt_secret :: "host \<Rightarrow> string \<Rightarrow> (bytes, mediator_error) result" where
  "config_jwt_secret H jwt_secret =
     (case split_scheme jwt_secret of
        [scheme, path] \<Rightarrow>
          and_then (if scheme = ''string'' then Ok path
                    else if scheme = ''aws_secrets'' then aws_secret H path
                    else Err (config_error
                      ''Invalid `jwt_authorization_secret` format! Expecting string:// or aws_secrets:// ...''))
            (\<lambda>content.
          map_err (\<lambda>e. config_error (''Could not create JWT key pair. '' @ e)) (of_sum (url_safe_decode H content)))
      | _ \<Rightarrow> Err (config_error ''Invalid `jwt_authorization_secret` format''))"

definition get_hostname :: "host \<Rightarrow> string \<Rightarrow> (string, mediator_error) result" where
  "get_hostname H host_name =
     (if take 11 host_name = ''hostname://''
      then map_err (\<lambda>e. config_error ((''Couldn'' @ [CHR 0x27] @ ''t get hostname. Reason: '') @ e))
             (of_sum (os_hostname H))
      else if take 9 host_name = ''string://'' then Ok (drop 9 host_name)
      else Err (config_error ''Invalid hostname format!''))"

definition parse_cors_allow_origin :: "host \<Rightarrow> string \<Rightarrow> (string list, mediator_error) result" where
  "parse_cors_allow_origin H origins =
     collect (\<lambda>origin. if header_value H origin then Ok origin else Panic) (split_on CHR '','' origins)"

subsection \<open>The settings\<close>

text \<open>The keys for tokens are their bytes. The resolver and CORS are kept as what they are built from.\<close>

datatype log_level = Trace | Debug | Info | Warn | LogError

record resolver_config =
  rc_cache_capacity :: nat
  rc_cache_ttl :: nat

datatype cors = AllowAny | AllowOrigins "string list"

record config =
  cf_log_level :: log_level
  cf_listen_address :: string
  cf_mediator_did :: string
  cf_mediator_secrets :: "secret list"
  cf_database_url :: string
  cf_database_pool_size :: nat
  cf_database_timeout :: nat
  cf_api_prefix :: string
  cf_http_size_limit :: nat
  cf_ws_size_limit :: nat
  cf_max_message_size :: nat
  cf_max_queued_messages :: nat
  cf_message_expiry_minutes :: nat
  cf_max_listed_messages :: nat
  cf_max_deleted_messages :: nat
  cf_use_ssl :: bool
  cf_ssl_certificate_file :: string
  cf_ssl_key_file :: string
  cf_jwt_encoding_key :: "bytes option"
  cf_jwt_decoding_key :: "bytes option"
  cf_streaming_enabled :: bool
  cf_streaming_uuid :: string
  cf_did_resolver_config :: resolver_config
  cf_to_recipients_limit :: nat
  cf_cors_allow_origin :: cors
  cf_crypto_operations_per_message_limit :: nat
  cf_to_keys_per_recipient_limit :: nat

definition default_config :: config where
  "default_config =
     \<lparr>cf_log_level = Info, cf_listen_address = [], cf_mediator_did = [], cf_mediator_secrets = [],
      cf_database_url = ''redis://127.0.0.1/'', cf_database_pool_size = 10, cf_database_timeout = 2,
      cf_api_prefix = ''/mediator/v1/'', cf_http_size_limit = 10485760, cf_ws_size_limit = 10485760,
      cf_max_message_size = 1048576, cf_max_queued_messages = 100, cf_message_expiry_minutes = 10080,
      cf_max_listed_messages = 100, cf_max_deleted_messages = 100, cf_use_ssl = True,
      cf_ssl_certificate_file = [], cf_ssl_key_file = [], cf_jwt_encoding_key = None,
      cf_jwt_decoding_key = None, cf_streaming_enabled = True, cf_streaming_uuid = [],
      cf_did_resolver_config = \<lparr>rc_cache_capacity = 1000, rc_cache_ttl = 300\<rparr>,
      cf_to_recipients_limit = 100, cf_cors_allow_origin = AllowAny,
      cf_crypto_operations_per_message_limit = 1000, cf_to_keys_per_recipient_limit = 100\<rparr>"

definition parse_log_level :: "string \<Rightarrow> log_level" where
  "parse_log_level s =
     (if s = ''trace'' then Trace
      else if s = ''debug'' then Debug
      else if s = ''info'' then Info
      else if s = ''warn'' then Warn
      else if s = ''error'' then LogError
      else Info)"

text \<open>\<open>s.parse().unwrap_or(d)\<close> for an unsigned integer of \<open>w\<close> bits, and for a truth value.\<close>

definition parse_or :: "nat \<Rightarrow> nat \<Rightarrow> string \<Rightarrow> nat" where
  "parse_or w d s = (case parse_nat w s of Some n \<Rightarrow> n | None \<Rightarrow> d)"

definition parse_bool_or :: "bool \<Rightarrow> string \<Rightarrow> bool" where
  "parse_bool_or d s = (if s = ''true'' then True else if s = ''false'' then False else d)"

definition convert_resolver :: "did_resolver_config \<Rightarrow> resolver_config" where
  "convert_resolver r =
     \<lparr>rc_cache_capacity = parse_or 32 1000 (drc_cache_capacity r), rc_cache_ttl = parse_or 32 300 (drc_cache_ttl r)\<rparr>"

text \<open>The settings that are read from the file one by one; the others keep their defaults for now.\<close>

definition plain_settings :: "config_raw \<Rightarrow> string \<Rightarrow> config" where
  "plain_settings raw did =
     default_config
       \<lparr>cf_log_level := parse_log_level (raw_log_level raw),
        cf_listen_address := raw_listen_address raw,
        cf_mediator_did := did,
        cf_database_url := dc_database_url (raw_database raw),
        cf_database_pool_size := parse_or 64 10 (dc_database_pool_size (raw_database raw)),
        cf_database_timeout := parse_or 32 2 (dc_database_timeout (raw_database raw)),
        cf_max_message_size := parse_or 32 1048576 (dc_max_message_size (raw_database raw)),
        cf_max_queued_messages := parse_or 32 100 (dc_max_queued_messages (raw_database raw)),
        cf_max_listed_messages := parse_or 32 100 (dc_max_listed_messages (raw_database raw)),
        cf_max_deleted_messages := parse_or 32 100 (dc_max_deleted_messages (raw_database raw)),
        cf_message_expiry_minutes := parse_or 32 10080 (dc_message_expiry_minutes (raw_database raw)),
        cf_use_ssl := parse_bool_or True (sec_use_ssl (raw_security raw)),
        cf_ssl_certificate_file := sec_ssl_certificate_file (raw_security raw),
        cf_ssl_key_file := sec_ssl_key_file (raw_security raw),
        cf_streaming_enabled := parse_bool_or True (stc_enabled (raw_streaming raw)),
        cf_did_resolver_config := convert_resolver (raw_did_resolver raw),
        cf_to_recipients_limit := parse_or 64 100 (oc_to_recipients_limit (raw_other raw)),
        cf_api_prefix := sc_api_prefix (raw_server raw),
        cf_http_size_limit := parse_or 32 10485760 (sc_http_size_limit (raw_server raw)),
        cf_ws_size_limit := parse_or 32 10485760 (sc_ws_size_limit (raw_server raw)),
        cf_crypto_operations_per_message_limit :=
          parse_or 64 1000 (oc_crypto_operations_per_message_limit (raw_other raw)),
        cf_to_keys_per_recipient_limit := parse_or 64 100 (oc_to_keys_per_recipient_limit (raw_other raw))\<rparr>"

definition config_try_from :: "host \<Rightarrow> config_raw \<Rightarrow> (config, mediator_error) result" where
  "config_try_from H raw =
     and_then (read_did_config H (raw_mediator_did raw)) (\<lambda>did.
     let config = plain_settings raw did in
     and_then (case sec_cors_allow_origin (raw_security raw) of
         Some origins \<Rightarrow> and_then (parse_cors_allow_origin H origins) (\<lambda>os.
           Ok (config\<lparr>cf_cors_allow_origin := AllowOrigins os\<rparr>))
       | None \<Rightarrow> Ok config) (\<lambda>config.
     and_then (load_secrets H (raw_mediator_secrets raw)) (\<lambda>secrets.
     let config = config\<lparr>cf_mediator_secrets := secrets\<rparr> in
     and_then (config_jwt_secret H (sec_jwt_authorization_secret (raw_security raw))) (\<lambda>jwt_secret.
     let config = config\<lparr>cf_jwt_encoding_key := Some jwt_secret\<rparr> in
     and_then (map_err (\<lambda>e. config_error (''Could not create JWT key pair. '' @ e))
                 (of_sum (ed25519_public H jwt_secret))) (\<lambda>public_key.
     let config = config\<lparr>cf_jwt_decoding_key := Some public_key\<rparr> in
     if cf_streaming_enabled config
     then and_then (get_hostname H (stc_uuid (raw_streaming raw))) (\<lambda>uuid.
            Ok (config\<lparr>cf_streaming_uuid := uuid\<rparr>))
     else Ok config)))))"

text \<open>The start always asks for the log filter to be replaced, which the log library may refuse.\<close>

definition init :: "host \<Rightarrow> (config, mediator_error) result" where
  "init H =
     and_then (read_config_file H ''conf/mediator.toml'') (\<lambda>raw.
     and_then (case reload_log_filter H (raw_log_level raw) of
         Some e \<Rightarrow> Err (InternalError ''NA'' e)
       | None \<Rightarrow> Ok ()) (\<lambda>_.
     config_try_from H raw))"

subsection \<open>Connecting to the database\<close>

text \<open>
  One attempt: a connection and an answer to a ping. The start repeats it, every ten seconds, until
  it succeeds, which need never happen.
\<close>

definition ping_database :: "'db redis \<Rightarrow> ('db, string, mediator_error) effect" where
  "ping_database R =
     eff_then (get_async_connection R) (\<lambda>_. query R (rv_string R) (\<lambda>e. DatabaseError ''NA'' e) [''PING''])"

partial_function (option) connect_loop :: "'db redis \<Rightarrow> 'db \<Rightarrow> ((unit, mediator_error) result \<times> 'db) option" where
  "connect_loop R db =
     (case ping_database R db of
        (Ok _, db') \<Rightarrow> Some (Ok (), db')
      | (Err _, db') \<Rightarrow> connect_loop R db'
      | (Panic, db') \<Rightarrow> Some (Panic, db'))"

text \<open>The text of the functions file is built into the program; its name stands for it.\<close>

definition lua_scripts :: string where
  "lua_scripts = ''atm-functions.lua''"

text \<open>Loading the functions may fail, which is logged; the first reading of the statistics may not.\<close>

definition load_functions :: "'db redis \<Rightarrow> ('db, unit, mediator_error) effect" where
  "load_functions R =
     eff_then (get_async_connection R) (\<lambda>_.
     eff_match (query R (rv_string R) (\<lambda>e. DatabaseError ''NA'' e) [''FUNCTION'', ''LOAD'', ''REPLACE'', lua_scripts])
       (\<lambda>_. eff_of (Ok ())) (\<lambda>_. eff_of (Ok ())))"

definition database_handler_new ::
  "host \<Rightarrow> 'db redis \<Rightarrow> config \<Rightarrow> 'db \<Rightarrow> ((unit, mediator_error) result \<times> 'db) option" where
  "database_handler_new H R config db =
     (case pool_of_url H (cf_database_url config) of
        Some e \<Rightarrow> Some (Err (DatabaseError ''NA'' (''Database URL is invalid. Reason: '' @ e)), db)
      | None \<Rightarrow>
          (case pool_build H (cf_database_pool_size config) (cf_database_timeout config) of
             Some e \<Rightarrow> Some (Err (DatabaseError ''NA'' (''Database config is invalid. Reason: '' @ e)), db)
           | None \<Rightarrow>
               (case connect_loop R db of
                  Some (Ok _, db') \<Rightarrow> Some (eff_then (load_functions R) (\<lambda>_.
                      eff_then (get_db_metadata R) (\<lambda>_. eff_of (Ok ()))) db')
                | r \<Rightarrow> r)))"

subsection \<open>The state the handlers share\<close>

definition shared_of :: "config \<Rightarrow> 'db redis \<Rightarrow> 'db shared" where
  "shared_of config R =
     \<lparr>sh_mediator_did = cf_mediator_did config,
      sh_mediator_secrets = known_secrets (cf_mediator_secrets config),
      sh_crypto_operations_limit = word_of_nat (cf_crypto_operations_per_message_limit config),
      sh_to_recipients_limit = cf_to_recipients_limit config,
      sh_to_keys_limit = word_of_nat (cf_to_keys_per_recipient_limit config),
      sh_max_listed_messages = cf_max_listed_messages config,
      sh_max_deleted_messages = cf_max_deleted_messages config,
      sh_ws_size_limit = cf_ws_size_limit config,
      sh_jwt_encoding_key = cf_jwt_encoding_key config,
      sh_jwt_decoding_key = cf_jwt_decoding_key config,
      sh_has_streaming_task = cf_streaming_enabled config,
      sh_database = R\<rparr>"

subsection \<open>Statistics\<close>

text \<open>One turn of the statistics task: the statistics and what has changed, for the log.\<close>

definition statistics_turn ::
  "'db redis \<Rightarrow> metadata_stats \<Rightarrow> ('db, metadata_stats \<times> metadata_stats, mediator_error) effect" where
  "statistics_turn R previous =
     eff_then (get_db_metadata R) (\<lambda>stats. eff_of (Ok (stats, stats_delta stats previous)))"

end

