(* ===== verification/Pickup.thy ===== *)
theory Pickup
  imports MessageRead Streaming
begin

text \<open>
  The message pickup protocol of the mediator (\<open>messages/protocols/message_pickup.rs\<close>, with the Lua
  function \<open>get_status_reply\<close>): a client asks for the status of its inbox, for messages, confirms
  them, and switches live delivery. The handlers work on the database and on the queue of updates
  for the streaming task; \<open>clock i\<close> is the \<open>i\<close>th reading of the system time and \<open>uuid\<close> the new id of
  the answer.
\<close>

subsection \<open>The state of the handlers\<close>

text \<open>The queue is gone once the task has ended: nothing can be sent to it then.\<close>

record 'db world =
  w_db :: 'db
  w_updates :: "streaming_update list option"

definition on_db :: "('db, 'a, 'e) effect \<Rightarrow> ('db world, 'a, 'e) effect" where
  "on_db = eff_on w_db (\<lambda>db w. w\<lparr>w_db := db\<rparr>)"

definition send_update :: "streaming_update \<Rightarrow> ('db world, unit, unit) effect" where
  "send_update u = (\<lambda>w. case w_updates w of
     Some us \<Rightarrow> (Ok (), w\<lparr>w_updates := Some (us @ [u])\<rparr>)
   | None \<Rightarrow> (Err (), w))"

text \<open>What processing a message gives: whether to store the answer, and the answer.\<close>

datatype message_response = ResponseMessage message | PackedMessage string string

record process_response =
  pr_store_message :: bool
  pr_force_live_delivery :: bool
  pr_message_response :: message_response

definition unwrap_result :: "('a, 'e) result \<Rightarrow> ('a, 'f) result" where
  "unwrap_result r = (case r of Ok x \<Rightarrow> Ok x | _ \<Rightarrow> Panic)"

definition eff_unwrap :: "('s, 'a, 'e) effect \<Rightarrow> ('s, 'a, 'f) effect" where
  "eff_unwrap m = (\<lambda>s. case m s of (r, s') \<Rightarrow> (unwrap_result r, s'))"

subsection \<open>Bodies\<close>

text \<open>
  What \<open>serde\<close> derives for the bodies: an object with the members, or an array of their values in
  order. A missing or null optional member is \<open>None\<close>.
\<close>

definition status_request_body :: "json \<Rightarrow> string option option" where
  "status_request_body v =
     (case (case v of
              JObject ms \<Rightarrow> Some (map_of ms ''recipient_did'')
            | JArray [x] \<Rightarrow> Some (Some x)
            | _ \<Rightarrow> None) of
        Some None \<Rightarrow> Some None
      | Some (Some JNull) \<Rightarrow> Some None
      | Some (Some (JString s)) \<Rightarrow> Some (Some s)
      | _ \<Rightarrow> None)"

definition live_delivery_body :: "json \<Rightarrow> bool option" where
  "live_delivery_body v =
     (case (case v of JObject ms \<Rightarrow> map_of ms ''live_delivery'' | JArray [x] \<Rightarrow> Some x | _ \<Rightarrow> None) of
        Some (JBool b) \<Rightarrow> Some b
      | _ \<Rightarrow> None)"

definition delivery_request_body :: "json \<Rightarrow> (string \<times> nat) option" where
  "delivery_request_body v =
     (case (case v of
              JObject ms \<Rightarrow> (map_of ms ''recipient_did'', map_of ms ''limit'')
            | JArray [x, y] \<Rightarrow> (Some x, Some y)
            | _ \<Rightarrow> (None, None)) of
        (Some (JString did), Some (JNumber (PosInt n))) \<Rightarrow> Some (did, unat n)
      | _ \<Rightarrow> None)"

definition messages_received_body :: "json \<Rightarrow> string list option" where
  "messages_received_body v =
     (case (case v of JObject ms \<Rightarrow> map_of ms ''message_id_list'' | JArray [x] \<Rightarrow> Some x | _ \<Rightarrow> None) of
        Some ids \<Rightarrow> string_list ids
      | None \<Rightarrow> None)"

definition parse_message_received_body ::
  "('k, 'c, 'w, 'z) med_ext_scheme \<Rightarrow> client_session \<Rightarrow> message \<Rightarrow> (string list, mediator_error) result" where
  "parse_message_received_body X session msg =
     ok_or (RequestDataError (cs_session_id session)
         (''messages-received body isn'' @ [CHR 0x27] @ ''t valid. Reason: '' @
          value_error X ''MessagePickupMessagesReceived'' (m_body msg)))
       (messages_received_body (m_body msg))"

definition parse_and_validate_delivery_request_body ::
  "('k, 'c, 'w, 'z) med_ext_scheme \<Rightarrow> client_session \<Rightarrow> message
     \<Rightarrow> (string \<times> nat, mediator_error) result" where
  "parse_and_validate_delivery_request_body X session msg =
     and_then (ok_or (RequestDataError (cs_session_id session)
         (''delivery-request body isn'' @ [CHR 0x27] @ ''t valid. Reason: '' @
          value_error X ''MessagePickupDeliveryRequest'' (m_body msg)))
       (delivery_request_body (m_body msg))) (\<lambda>(recipient_did, limit).
     and_then (ensure (cs_did session = recipient_did)
         (Unauthorized (cs_session_id session)
            (''Session DID '' @ [CHR 0x22] @ cs_did session @ [CHR 0x22] @ '' doesn'' @ [CHR 0x27] @
             ''t match recipient DID '' @ [CHR 0x22] @ recipient_did @ [CHR 0x22]))) (\<lambda>_.
     and_then (ensure (1 \<le> limit \<and> limit \<le> 100)
         (RequestDataError (cs_session_id session)
            (''limit must be between 1 and 100 inclusive. Received limit('' @ show_nat limit @ '')''))) (\<lambda>_.
     Ok (recipient_did, limit))))"

subsection \<open>The check of every request\<close>

text \<open>The display of a JSON value is its text, which always exists.\<close>

definition display_value :: "('k, 'z) key_ext_scheme \<Rightarrow> json \<Rightarrow> string" where
  "display_value X v = (case ser_value X v of Inr s \<Rightarrow> s | Inl _ \<Rightarrow> [])"

definition validate_msg ::
  "('k, 'c, 'w, 'z) med_ext_scheme \<Rightarrow> 'db shared \<Rightarrow> client_session \<Rightarrow> u64 \<Rightarrow> message
     \<Rightarrow> (unit, mediator_error) result" where
  "validate_msg X S session now msg =
     (let err = RequestDataError (cs_session_id session) in
      and_then (check_expiry (cs_session_id session) now msg) (\<lambda>_.
      and_then (case m_to msg of
          Some (first # _) \<Rightarrow> Ok first
        | Some [] \<Rightarrow> Err (err (''Message missing valid '' @ [CHR 0x27] @ ''to'' @ [CHR 0x27] @
            '' field, expect at least one address in array.''))
        | None \<Rightarrow> Err (err (''Message missing '' @ [CHR 0x27] @ ''to'' @ [CHR 0x27] @ '' field''))) (\<lambda>to.
      and_then (ensure (to = sh_mediator_did S)
          (err (''message to: ('' @ to @ '') didn'' @ [CHR 0x27] @ ''t match ATM DID ('' @ sh_mediator_did S @
            ''). messages-received messages must be addressed directly to ATM!''))) (\<lambda>_.
      and_then (ensure (m_from msg \<noteq> None)
          (err ''Message Pickup 3.0 messages-received can not be anonymous as it is needed from to validate permissions''))
        (\<lambda>_.
      case m_extra_headers msg ''return_route'' of
        Some header \<Rightarrow>
          ensure (as_str header = Some ''all'')
            (err (''return_route: extra-header exists. Expected (all) but received ('' @ display_value X header @ '')''))
      | None \<Rightarrow> Err (err ''return_route: extra-header does not exist! It should!''))))))"

definition thread_of :: "message \<Rightarrow> string" where
  "thread_of msg = (case m_thid msg of Some thid \<Rightarrow> thid | None \<Rightarrow> m_id msg)"

subsection \<open>The status of an inbox\<close>

text \<open>
  The table the script gives: a number that is missing leaves its field out. The order of the fields
  of a table is not fixed; no two fields of it are read into the same place.
\<close>

definition tonumber_int :: "string \<Rightarrow> int option" where
  "tonumber_int s =
     (case s of
        c # cs \<Rightarrow> if c = CHR ''-'' then map_option (\<lambda>n. - int n) (tonumber cs) else map_option int (tonumber s)
      | [] \<Rightarrow> None)"

definition number_field :: "string \<Rightarrow> reply \<Rightarrow> (reply \<times> reply) list" where
  "number_field name r =
     (case r of
        RBulk s \<Rightarrow> (case tonumber_int s of Some i \<Rightarrow> [(RBulk name, RInt i)] | None \<Rightarrow> [])
      | _ \<Rightarrow> [])"

definition entry_id :: "reply option \<Rightarrow> (reply, string) result" where
  "entry_id r =
     (case r of
        Some (RArray (x # _)) \<Rightarrow> Ok x
      | Some (RArray []) \<Rightarrow> Ok (RInt 0)
      | Some RNil \<Rightarrow> Ok (RInt 0)
      | None \<Rightarrow> Ok (RInt 0)
      | _ \<Rightarrow> Err ''attempt to index a value'')"

definition queue_fields :: "reply \<Rightarrow> ((reply \<times> reply) list, string) result" where
  "queue_fields r =
     (case r of
        RMap ps \<Rightarrow>
          and_then (entry_id (map_of ps (RBulk ''first-entry''))) (\<lambda>oldest.
          and_then (entry_id (map_of ps (RBulk ''last-entry''))) (\<lambda>newest.
          Ok ([(RBulk ''oldest_received'', oldest), (RBulk ''newest_received'', newest)] @
              (case map_of ps (RBulk ''length'') of Some n \<Rightarrow> [(RBulk ''queue_count'', n)] | None \<Rightarrow> []))))
      | _ \<Rightarrow> Ok [])"

definition status_table :: "string \<Rightarrow> reply list \<Rightarrow> (reply \<times> reply) list \<Rightarrow> bool \<Rightarrow> reply" where
  "status_table key counts queue live =
     RMap ([(RBulk ''recipient_did'', RBulk key)] @
        (case counts of c # _ \<Rightarrow> number_field ''message_count'' c | [] \<Rightarrow> []) @
        (case counts of _ # b # _ \<Rightarrow> number_field ''total_bytes'' b | _ \<Rightarrow> []) @
        queue @ [(RBulk ''live_delivery'', RBool live)])"

definition get_status_reply_lua :: "'db redis \<Rightarrow> string \<Rightarrow> ('db, reply) script" where
  "get_status_reply_lua R key =
     eff_then (call R [''HMGET'', did_row key, ''RECEIVE_QUEUE_COUNT'', ''RECEIVE_QUEUE_BYTES'']) (\<lambda>r.
     eff_then (eff_of (lua_array r)) (\<lambda>counts.
     eff_then (eff_match (call R [''XINFO'', ''STREAM'', receive_q key])
                 (\<lambda>r. eff_of (queue_fields r)) (\<lambda>_. eff_of (Ok []))) (\<lambda>queue.
     eff_then (call R [''HEXISTS'', global_streaming, key]) (\<lambda>live.
     eff_of (Ok (status_table key counts queue (live \<noteq> RInt 0)))))))"

record status_reply =
  sp_recipient_did :: string
  sp_message_count :: nat
  sp_longest_waited_seconds :: "u64 option"
  sp_newest_received_time :: "u64 option"
  sp_oldest_received_time :: "u64 option"
  sp_total_bytes :: nat
  sp_live_delivery :: bool

text \<open>The seconds of a stream id; a text that is none leaves the field as it is.\<close>

definition received_time :: "'db redis \<Rightarrow> reply \<Rightarrow> u64 option \<Rightarrow> u64 option" where
  "received_time R v old =
     (case rv_string R v of
        Inr s \<Rightarrow>
          (case split_on CHR ''-'' s of
             [a, _] \<Rightarrow> map_option (\<lambda>t. word_of_nat t div 1000) (parse_nat 64 a)
           | _ \<Rightarrow> old)
      | Inl _ \<Rightarrow> old)"

definition status_field :: "'db redis \<Rightarrow> reply \<times> reply \<Rightarrow> status_reply \<Rightarrow> status_reply" where
  "status_field R p st =
     (case p of (k, v) \<Rightarrow>
        let k = (case rv_string R k of Inr s \<Rightarrow> s | Inl _ \<Rightarrow> []) in
        if k = ''newest_received''
        then st\<lparr>sp_newest_received_time := received_time R v (sp_newest_received_time st)\<rparr>
        else if k = ''oldest_received''
        then st\<lparr>sp_oldest_received_time := received_time R v (sp_oldest_received_time st)\<rparr>
        else if k = ''message_count''
        then (case rv_u32 R v of Inr n \<Rightarrow> st\<lparr>sp_message_count := n\<rparr> | Inl _ \<Rightarrow> st)
        else if k = ''live_delivery''
        then (case rv_bool R v of Inr b \<Rightarrow> st\<lparr>sp_live_delivery := b\<rparr> | Inl _ \<Rightarrow> st)
        else if k = ''total_bytes''
        then (case rv_u64 R v of Inr n \<Rightarrow> st\<lparr>sp_total_bytes := n\<rparr> | Inl _ \<Rightarrow> st)
        else st)"

definition status_of :: "'db redis \<Rightarrow> client_session \<Rightarrow> reply list \<Rightarrow> bool option \<Rightarrow> u64 \<Rightarrow> status_reply" where
  "status_of R session response override now =
     (let st = fold (status_field R) (pairs_of response)
            \<lparr>sp_recipient_did = cs_did session, sp_message_count = 0, sp_longest_waited_seconds = None,
             sp_newest_received_time = None, sp_oldest_received_time = None, sp_total_bytes = 0,
             sp_live_delivery = False\<rparr>;
          st = (case override of Some b \<Rightarrow> st\<lparr>sp_live_delivery := b\<rparr> | None \<Rightarrow> st)
      in case sp_oldest_received_time st of
           Some t \<Rightarrow> st\<lparr>sp_longest_waited_seconds := Some (now - t)\<rparr>
         | None \<Rightarrow> st)"

definition optional_number :: "string \<Rightarrow> u64 option \<Rightarrow> (string \<times> json) list" where
  "optional_number name v = (case v of Some n \<Rightarrow> [(name, JNumber (PosInt n))] | None \<Rightarrow> [])"

definition status_json :: "status_reply \<Rightarrow> json" where
  "status_json st =
     JObject ([(''recipient_did'', JString (sp_recipient_did st)),
               (''message_count'', JNumber (PosInt (word_of_nat (sp_message_count st))))] @
              optional_number ''longest_waited_seconds'' (sp_longest_waited_seconds st) @
              optional_number ''newest_received_time'' (sp_newest_received_time st) @
              optional_number ''oldest_received_time'' (sp_oldest_received_time st) @
              [(''total_bytes'', JNumber (PosInt (word_of_nat (sp_total_bytes st)))),
               (''live_delivery'', JBool (sp_live_delivery st))])"

text \<open>A message of the mediator to the client of the session.\<close>

definition answer_builder ::
  "'db shared \<Rightarrow> client_session \<Rightarrow> u64 \<Rightarrow> message_builder \<Rightarrow> message" where
  "answer_builder S session now b =
     message_finalize (with_expires_time (now + 300) (with_created_time now
       (with_from (sh_mediator_did S) (with_to (cs_did session) b))))"

definition generate_status_reply ::
  "'db shared \<Rightarrow> client_session \<Rightarrow> u64 \<Rightarrow> string \<Rightarrow> string \<Rightarrow> string \<Rightarrow> bool \<Rightarrow> bool option
     \<Rightarrow> ('db world, process_response option, mediator_error) effect" where
  "generate_status_reply S session now uuid did_hash thid force override =
     (let R = sh_database S in
      eff_then (on_db (fcall R (rv_values R)
          (\<lambda>e. DatabaseError (cs_session_id session) (''get_status_reply('' @ did_hash @ '') failed. Reason: '' @ e))
          (get_status_reply_lua R did_hash))) (\<lambda>response.
      let st = status_of R session response override now in
      eff_of (Ok (Some
        \<lparr>pr_store_message = False, pr_force_live_delivery = force,
         pr_message_response = ResponseMessage (answer_builder S session now
           (with_thid thid (message_build uuid ''https://didcomm.org/messagepickup/3.0/status''
              (status_json st))))\<rparr>))))"

subsection \<open>The requests\<close>

definition status_request ::
  "('k, 'c, 'w, 'z) med_ext_scheme \<Rightarrow> 'db shared \<Rightarrow> client_session \<Rightarrow> (nat \<Rightarrow> u64) \<Rightarrow> string \<Rightarrow> message
     \<Rightarrow> ('db world, process_response option, mediator_error) effect" where
  "status_request X S session clock uuid msg =
     eff_then (eff_of (unwrap_result (validate_msg X S session (clock 0) msg))) (\<lambda>_.
     eff_then (eff_of (case status_request_body (m_body msg) of
         Some (Some recipient_did) \<Rightarrow>
           if recipient_did \<noteq> cs_did session
           then Err (RequestDataError (cs_session_id session)
                  (''recipient_did: ('' @ recipient_did @ '') doesn'' @ [CHR 0x27] @ ''t match session.did!''))
           else Ok (digest X recipient_did)
       | _ \<Rightarrow> Ok (cs_did_hash session))) (\<lambda>recipient_did.
     generate_status_reply S session (clock 1) uuid recipient_did (thread_of msg) False None))"

definition toggle_live_delivery ::
  "('k, 'c, 'w, 'z) med_ext_scheme \<Rightarrow> 'db shared \<Rightarrow> client_session \<Rightarrow> (nat \<Rightarrow> u64) \<Rightarrow> string \<Rightarrow> message
     \<Rightarrow> ('db world, process_response option, mediator_error) effect" where
  "toggle_live_delivery X S session clock uuid msg =
     eff_then (eff_of (unwrap_result (validate_msg X S session (clock 0) msg))) (\<lambda>_.
     eff_then (eff_of (ok_or (RequestDataError (cs_session_id session)
         ''Failed to parse live_delivery from message body'') (live_delivery_body (m_body msg)))) (\<lambda>live.
     eff_then (if sh_has_streaming_task S
               then eff_map_err (\<lambda>_. InternalError (cs_session_id session)
                      (if live then ''Error sending start message to streaming task''
                       else ''Error sending stop message to streaming task''))
                      (send_update \<lparr>su_did_hash = cs_did_hash session, su_state = if live then Start else Stop\<rparr>)
               else eff_of (Ok ())) (\<lambda>_.
     generate_status_reply S session (clock 1) uuid (cs_did_hash session) (thread_of msg) True (Some live))))"

text \<open>A message of the inbox as an attachment of the delivery: those whose text is there.\<close>

definition delivery_attachments ::
  "('k, 'z) key_ext_scheme \<Rightarrow> message_element list \<Rightarrow> attachment list" where
  "delivery_attachments X es =
     concat (map (\<lambda>e. case me_msg e of
        Some msg \<Rightarrow> [attachment_finalize (ab_with_id (me_msg_id e) (attachment_base64 (b64_encode X msg)))]
      | None \<Rightarrow> []) es)"

definition delivery_request ::
  "('k, 'c, 'w, 'z) med_ext_scheme \<Rightarrow> 'db shared \<Rightarrow> client_session \<Rightarrow> (nat \<Rightarrow> u64) \<Rightarrow> string \<Rightarrow> message
     \<Rightarrow> ('db world, process_response option, mediator_error) effect" where
  "delivery_request X S session clock uuid msg =
     eff_then (eff_of (unwrap_result (validate_msg X S session (clock 0) msg))) (\<lambda>_.
     eff_then (eff_of (parse_and_validate_delivery_request_body X session msg)) (\<lambda>(recipient_did, limit).
     eff_then (on_db (fetch_messages (sh_database S) (cs_session_id session) (digest X recipient_did)
         (default_fetch_options\<lparr>fo_limit := limit\<rparr>))) (\<lambda>messages.
     if gm_success messages \<noteq> []
     then eff_of (Ok (Some
        \<lparr>pr_store_message = False, pr_force_live_delivery = False,
         pr_message_response = ResponseMessage (answer_builder S session (clock 1)
           (with_attachments (delivery_attachments X (gm_success messages))
             (with_thid (thread_of msg)
               (message_build uuid ''https://didcomm.org/messagepickup/3.0/delivery''
                  (JObject [(''recipient_did'', JString recipient_did)])))))\<rparr>))
     else generate_status_reply S session (clock 1) uuid (digest X recipient_did) (thread_of msg) False None)))"

text \<open>Each message of the list is read and deleted; what fails is logged.\<close>

definition received_one ::
  "'db redis \<Rightarrow> client_session \<Rightarrow> string \<Rightarrow> unit \<Rightarrow> ('db, unit, mediator_error) effect" where
  "received_one R session msg_id _ =
     eff_match (get_message R (cs_did_hash session) msg_id)
       (\<lambda>_. eff_match (delete_message R (cs_session_id session) (cs_did_hash session) msg_id)
              (\<lambda>_. eff_of (Ok ())) (\<lambda>_. eff_of (Ok ())))
       (\<lambda>_. eff_of (Ok ()))"

definition messages_received ::
  "('k, 'c, 'w, 'z) med_ext_scheme \<Rightarrow> 'db shared \<Rightarrow> client_session \<Rightarrow> (nat \<Rightarrow> u64) \<Rightarrow> string \<Rightarrow> message
     \<Rightarrow> ('db world, process_response option, mediator_error) effect" where
  "messages_received X S session clock uuid msg =
     eff_then (eff_of (unwrap_result (validate_msg X S session (clock 0) msg))) (\<lambda>_.
     eff_then (eff_of (parse_message_received_body X session msg)) (\<lambda>ids.
     eff_then (on_db (eff_each (received_one (sh_database S) session) ids ())) (\<lambda>_.
     eff_unwrap (generate_status_reply S session (clock 1) uuid (cs_did_hash session) (thread_of msg) False None))))"

end
