(* ===== verification/Inbound.thy ===== *)
theory Inbound
  imports Pickup
begin

text \<open>
  What the mediator does with a message that comes in: it unpacks it, processes it by its type
  (\<open>messages/mod.rs\<close>, \<open>protocols/ping.rs\<close>, \<open>protocols/routing.rs\<close>), packs the answer for its
  receivers, offers it to their live streams and stores it (\<open>messages/inbound.rs\<close>).
\<close>

subsection \<open>Trust ping and forward\<close>

definition ping_body :: "json \<Rightarrow> bool option" where
  "ping_body v =
     (case (case v of JObject ms \<Rightarrow> map_of ms ''response_requested'' | JArray [x] \<Rightarrow> Some x | _ \<Rightarrow> None) of
        Some (JBool b) \<Rightarrow> Some b
      | _ \<Rightarrow> None)"

definition ping_process ::
  "client_session \<Rightarrow> u64 \<Rightarrow> string \<Rightarrow> message \<Rightarrow> (process_response option, mediator_error) result" where
  "ping_process session now uuid msg =
     (let err = RequestDataError (cs_session_id session) in
      and_then (check_expiry (cs_session_id session) now msg) (\<lambda>_.
      and_then (case m_to msg of
          Some (first # _) \<Rightarrow> Ok first
        | Some [] \<Rightarrow> Err (err (''Message missing valid '' @ [CHR 0x27] @ ''to'' @ [CHR 0x27] @
            '' field, expect at least one address in array.''))
        | None \<Rightarrow> Err (err (''Message missing '' @ [CHR 0x27] @ ''to'' @ [CHR 0x27] @ '' field''))) (\<lambda>to.
      if (case ping_body (m_body msg) of Some b \<Rightarrow> b | None \<Rightarrow> True)
      then
        and_then (ok_or (err ''Anonymous Trust-Ping is asking for a response, this is an invalid request!'')
                    (m_from msg)) (\<lambda>from.
        Ok (Some
          \<lparr>pr_store_message = True, pr_force_live_delivery = False,
           pr_message_response = ResponseMessage (message_finalize
             (with_expires_time (now + 300) (with_created_time now (with_from to (with_to from
               (with_thid (m_id msg)
                 (message_build uuid ''https://didcomm.org/trust-ping/2.0/ping'' (JObject []))))))))\<rparr>))
      else Ok None)))"

definition routing_process ::
  "('k, 'c, 'w, 'z) med_ext_scheme \<Rightarrow> client_session \<Rightarrow> u64 \<Rightarrow> message
     \<Rightarrow> (process_response option, mediator_error) result" where
  "routing_process X session now msg =
     and_then (check_expiry (cs_session_id session) now msg) (\<lambda>_.
     case try_parse_forward msg of
       Some p \<Rightarrow>
         (case ser_value X (pf_forwarded_msg p) of
            Inr s \<Rightarrow> Ok (Some \<lparr>pr_store_message = True, pr_force_live_delivery = True,
                                pr_message_response = PackedMessage (pf_next p) s\<rparr>)
          | Inl _ \<Rightarrow> Panic)
     | None \<Rightarrow> Err (RequestDataError (cs_session_id session)
         (''Message is not a valid ForwardRequest:'' @ [CHR 0x0A] @ '' '' @ debug_message X msg @ [CHR 0x0A])))"

subsection \<open>Processing by type\<close>

text \<open>The time is read once before the type is looked at, and then again by the handler.\<close>

definition type_process ::
  "('k, 'c, 'w, 'z) med_ext_scheme \<Rightarrow> 'db shared \<Rightarrow> client_session \<Rightarrow> (nat \<Rightarrow> u64) \<Rightarrow> string
     \<Rightarrow> message_type \<Rightarrow> message \<Rightarrow> ('db world, process_response option, mediator_error) effect" where
  "type_process X S session clock uuid t msg =
     (case t of
        TrustPing \<Rightarrow> eff_of (ping_process session (clock 0) uuid msg)
      | MessagePickupStatusRequest \<Rightarrow> status_request X S session clock uuid msg
      | MessagePickupDeliveryRequest \<Rightarrow> delivery_request X S session clock uuid msg
      | MessagePickupMessagesReceived \<Rightarrow> messages_received X S session clock uuid msg
      | MessagePickupLiveDeliveryChange \<Rightarrow> toggle_live_delivery X S session clock uuid msg
      | AffinidiAuthenticate \<Rightarrow> eff_of (Err (NotImplemented (cs_session_id session)
          ''Affinidi Authentication is only handled by the Authorization handler''))
      | ForwardRequest \<Rightarrow> eff_of (routing_process X session (clock 0) msg))"

definition message_process ::
  "('k, 'c, 'w, 'z) med_ext_scheme \<Rightarrow> 'db shared \<Rightarrow> client_session \<Rightarrow> (nat \<Rightarrow> u64) \<Rightarrow> string
     \<Rightarrow> message \<Rightarrow> ('db world, process_response option, mediator_error) effect" where
  "message_process X S session clock uuid msg =
     eff_then (eff_of (message_type_of (m_type msg))) (\<lambda>t.
     eff_then (eff_of (check_expiry ''-1'' (clock 0) msg)) (\<lambda>_.
     type_process X S session (\<lambda>i. clock (i + 1)) uuid t msg))"

text \<open>
  \<open>Message::pack\<close>: only the answer to an encrypted message is packed, for one receiver, with a
  signature of the mediator.
\<close>

definition message_pack ::
  "('k, 'c, 'w, 'z) med_ext_scheme \<Rightarrow> 'db shared \<Rightarrow> (nat \<Rightarrow> ('k, 'c) draws) \<Rightarrow> unpack_metadata \<Rightarrow> message
     \<Rightarrow> string \<Rightarrow> (string \<times> pack_encrypted_metadata, mediator_error) result" where
  "message_pack X S rs metadata m to_did =
     (if um_encrypted metadata
      then map_err (\<lambda>e. MessagePackError ''-1'' (display_error e))
             (pack_encrypted X (sh_mediator_secrets S) rs m to_did (m_from m) (Some (sh_mediator_did S))
                (default_pack_options\<lparr>po_to_kids_limit := sh_to_keys_limit S\<rparr>))
      else Err (MessagePackError ''-1'' ''PACK METHOD NOT IMPLEMENTED''))"

subsection \<open>Live streams and the store\<close>

definition live_stream ::
  "('k, 'c, 'w, 'z) med_ext_scheme \<Rightarrow> 'db redis \<Rightarrow> string \<Rightarrow> string \<Rightarrow> string \<Rightarrow> bool
     \<Rightarrow> ('db, unit, mediator_error) effect" where
  "live_stream X R did_hash stream_uuid packed force =
     logged (streaming_publish_message X R did_hash stream_uuid packed force)"

definition try_live_stream ::
  "('k, 'c, 'w, 'z) med_ext_scheme \<Rightarrow> 'db redis \<Rightarrow> string \<Rightarrow> string \<Rightarrow> bool
     \<Rightarrow> ('db, unit, mediator_error) effect" where
  "try_live_stream X R did_hash packed force =
     eff_then (streaming_is_client_live R did_hash force) (\<lambda>stream_uuid.
     case stream_uuid of
       Some u \<Rightarrow> live_stream X R did_hash u packed force
     | None \<Rightarrow> eff_of (Ok ()))"

record inbound_message_list =
  il_messages :: "(string \<times> string) list"
  il_errors :: "(string \<times> string) list"

definition no_inbound_messages :: inbound_message_list where
  "no_inbound_messages = \<lparr>il_messages = [], il_errors = []\<rparr>"

datatype inbound_response = Stored inbound_message_list | Ephemeral string | EmptyResponse

text \<open>One pass of the storing loop; an error becomes part of the answer.\<close>

definition store_for ::
  "('k, 'c, 'w, 'z) med_ext_scheme \<Rightarrow> 'db shared \<Rightarrow> client_session \<Rightarrow> string \<times> string
     \<Rightarrow> inbound_message_list \<Rightarrow> ('db, inbound_message_list, mediator_error) effect" where
  "store_for X S session p acc =
     (case p of (to_did, packed) \<Rightarrow>
        eff_match (store_message X (sh_database S) (cs_session_id session) packed to_did (Some (sh_mediator_did S)))
          (\<lambda>msg_id. eff_of (Ok (acc\<lparr>il_messages := il_messages acc @ [(to_did, msg_id)]\<rparr>)))
          (\<lambda>e. eff_of (Ok (acc\<lparr>il_errors := il_errors acc @ [(to_did, mediator_error_text e)]\<rparr>))))"

definition try_store ::
  "('k, 'c, 'w, 'z) med_ext_scheme \<Rightarrow> 'db shared \<Rightarrow> client_session \<Rightarrow> string \<Rightarrow> string
     \<Rightarrow> ('db, inbound_message_list, mediator_error) effect" where
  "try_store X S session to_did packed = store_for X S session (to_did, packed) no_inbound_messages"

text \<open>
  The texts to send with their receivers. The packing tasks run concurrently, each with its own
  random draws; a failure of one is the result of all.
\<close>

primrec pack_all ::
  "(nat \<Rightarrow> string \<Rightarrow> (string \<times> pack_encrypted_metadata, mediator_error) result) \<Rightarrow> nat \<Rightarrow> string list
     \<Rightarrow> ((string \<times> string) list, mediator_error) result" where
  "pack_all f i [] = Ok []"
| "pack_all f i (to_did # ts) =
     and_then (f i to_did) (\<lambda>(packed, _). and_then (pack_all f (i + 1) ts) (\<lambda>ps. Ok ((to_did, packed) # ps)))"

definition pack_response ::
  "('k, 'c, 'w, 'z) med_ext_scheme \<Rightarrow> 'db shared \<Rightarrow> client_session \<Rightarrow> (nat \<Rightarrow> nat \<Rightarrow> ('k, 'c) draws)
     \<Rightarrow> unpack_metadata \<Rightarrow> message_response \<Rightarrow> ((string \<times> string) list, mediator_error) result" where
  "pack_response X S session rs metadata response =
     (case response of
        PackedMessage to packed \<Rightarrow> Ok [(to, packed)]
      | ResponseMessage m \<Rightarrow>
          (case m_to m of
             Some to_dids \<Rightarrow>
               and_then (ensure (length to_dids \<le> sh_to_recipients_limit S)
                   (MessagePackError (cs_session_id session)
                      (''Recipient count('' @ show_nat (length to_dids) @ '') exceeds limit''))) (\<lambda>_.
               and_then (ensure (to_dids \<noteq> [])
                   (MessagePackError (cs_session_id session) ''Recipients are empty'')) (\<lambda>_.
               pack_all (\<lambda>i. message_pack X S (rs i) metadata m) 0 to_dids))
           | None \<Rightarrow> Err (MessagePackError (cs_session_id session)
               (''MessageResponse is unmatched: Message('' @ debug_message X m @ '')''))))"

definition inbound_options :: "'db shared \<Rightarrow> unpack_options" where
  "inbound_options S =
     default_unpack_options\<lparr>uo_crypto_operations_limit := sh_crypto_operations_limit S\<rparr>"

definition deliver ::
  "('k, 'c, 'w, 'z) med_ext_scheme \<Rightarrow> 'db shared \<Rightarrow> client_session \<Rightarrow> bool \<Rightarrow> bool \<Rightarrow> (string \<times> string) list
     \<Rightarrow> ('db, inbound_response, mediator_error) effect" where
  "deliver X S session store force packed =
     eff_then (eff_each (\<lambda>(to_did, p) _. try_live_stream X (sh_database S) (digest X to_did) p force) packed ())
       (\<lambda>_.
     if store
     then eff_then (eff_each (store_for X S session) packed no_inbound_messages) (\<lambda>l. eff_of (Ok (Stored l)))
     else eff_of (case packed of (_, p) # _ \<Rightarrow> Ok (Ephemeral p) | [] \<Rightarrow> Panic))"

definition handle_inbound ::
  "('k, 'c, 'w, 'z) med_ext_scheme \<Rightarrow> 'db shared \<Rightarrow> client_session \<Rightarrow> (nat \<Rightarrow> u64) \<Rightarrow> string
     \<Rightarrow> (nat \<Rightarrow> nat \<Rightarrow> ('k, 'c) draws) \<Rightarrow> string \<Rightarrow> ('db world, inbound_response, mediator_error) effect" where
  "handle_inbound X S session clock uuid rs text =
     eff_then (eff_of (open_inbound X (sh_mediator_secrets S) (cs_session_id session) (inbound_options S) text))
       (\<lambda>(msg, metadata).
     eff_then (message_process X S session clock uuid msg) (\<lambda>response.
     case response of
       Some p \<Rightarrow>
         eff_then (eff_of (pack_response X S session rs metadata (pr_message_response p))) (\<lambda>packed.
         on_db (deliver X S session (pr_store_message p) (pr_force_live_delivery p) packed))
     | None \<Rightarrow> eff_of (Err (InternalError (cs_session_id session)
         ''Expected a message to return, but got None''))))"

end
