(* ===== verification/Handlers.thy ===== *)
theory Handlers
  imports Inbound
begin

text \<open>
  The HTTP handlers of the mediator over messages (\<open>handlers/inbox_fetch.rs\<close>,
  \<open>message_list.rs\<close>, \<open>message_outbound.rs\<close>, \<open>message_delete.rs\<close>, \<open>message_inbound.rs\<close>) and the
  websocket of a client (\<open>handlers/websocket.rs\<close>). The session comes from the token of the request.
\<close>

subsection \<open>Reading and deleting\<close>

definition start_id_pattern :: string where
  "start_id_pattern = [CHR 0x5C] @ ''d{13,14}-'' @ [CHR 0x5C] @ ''d{1,3}$''"

definition inbox_fetch_handler ::
  "('k, 'c, 'w, 'z) med_ext_scheme \<Rightarrow> 'db shared \<Rightarrow> client_session \<Rightarrow> fetch_options
     \<Rightarrow> ('db, nat \<times> get_messages_response success_response, mediator_error) effect" where
  "inbox_fetch_handler X S session body =
     eff_then (eff_of (ensure (1 \<le> fo_limit body \<and> fo_limit body \<le> 100)
         (ConfigError (cs_session_id session)
            (''limit must be between 1 and 100 inclusive. Received limit('' @ show_nat (fo_limit body) @ '')''))))
       (\<lambda>_.
     eff_then (eff_of (case fo_start_id body of
         Some start_id \<Rightarrow>
           ensure (regex_is_match X start_id_pattern start_id)
             (ConfigError (cs_session_id session)
                (''start_id isn'' @ [CHR 0x27] @ ''t valid. Should match UNIX_EPOCH in milliseconds + -(0..999). Received start_id('' @
                 start_id @ '')''))
       | None \<Rightarrow> Ok ())) (\<lambda>_.
     eff_then (fetch_messages (sh_database S) (cs_session_id session) (cs_did_hash session) body) (\<lambda>results.
     eff_of (Ok (success (cs_session_id session) results)))))"

definition message_list_handler ::
  "'db shared \<Rightarrow> client_session \<Rightarrow> string \<Rightarrow> folder
     \<Rightarrow> ('db, nat \<times> message_element list success_response, mediator_error) effect" where
  "message_list_handler S session did_hash fo =
     eff_then (eff_of (ensure (cs_did_hash session = did_hash)
         (PermissionError (cs_session_id session)
            (''You don'' @ [CHR 0x27] @ ''t have permission to access this resource.'')))) (\<lambda>_.
     eff_then (list_messages (sh_database S) did_hash fo None (sh_max_listed_messages S)) (\<lambda>messages.
     eff_of (Ok (success (cs_session_id session) messages))))"

record get_messages_request =
  gr_message_ids :: "string list"
  gr_delete :: bool

definition outbound_one ::
  "'db redis \<Rightarrow> client_session \<Rightarrow> bool \<Rightarrow> string \<Rightarrow> get_messages_response
     \<Rightarrow> ('db, get_messages_response, mediator_error) effect" where
  "outbound_one R session del msg_id acc =
     eff_match (get_message R (cs_did_hash session) msg_id)
       (\<lambda>msg.
          let acc = acc\<lparr>gm_success := gm_success acc @ [msg]\<rparr> in
          if del
          then eff_match (delete_message R (cs_session_id session) (cs_did_hash session) msg_id)
                 (\<lambda>_. eff_of (Ok acc))
                 (\<lambda>e. eff_of (Ok (acc\<lparr>gm_delete_errors := gm_delete_errors acc @
                        [(msg_id, mediator_error_text e)]\<rparr>)))
          else eff_of (Ok acc))
       (\<lambda>e. eff_of (Ok (acc\<lparr>gm_get_errors := gm_get_errors acc @ [(msg_id, mediator_error_text e)]\<rparr>)))"

definition message_outbound_handler ::
  "'db shared \<Rightarrow> client_session \<Rightarrow> get_messages_request
     \<Rightarrow> ('db, nat \<times> get_messages_response success_response, mediator_error) effect" where
  "message_outbound_handler S session body =
     eff_then (eff_each (outbound_one (sh_database S) session (gr_delete body)) (gr_message_ids body)
         \<lparr>gm_success = [], gm_get_errors = [], gm_delete_errors = []\<rparr>) (\<lambda>messages.
     eff_of (Ok (success (cs_session_id session) messages)))"

record delete_message_response =
  dr_success :: "string list"
  dr_errors :: "(string \<times> string) list"

definition delete_one ::
  "'db redis \<Rightarrow> client_session \<Rightarrow> string \<Rightarrow> delete_message_response
     \<Rightarrow> ('db, delete_message_response, mediator_error) effect" where
  "delete_one R session msg_id acc =
     eff_match (delete_message R (cs_session_id session) (cs_did_hash session) msg_id)
       (\<lambda>_. eff_of (Ok (acc\<lparr>dr_success := dr_success acc @ [msg_id]\<rparr>)))
       (\<lambda>e. eff_of (Ok (acc\<lparr>dr_errors := dr_errors acc @ [(msg_id, mediator_error_text e)]\<rparr>)))"

definition message_delete_handler ::
  "'db shared \<Rightarrow> client_session \<Rightarrow> string list
     \<Rightarrow> ('db, nat \<times> delete_message_response success_response, mediator_error) effect" where
  "message_delete_handler S session ids =
     eff_then (eff_of (ensure (length ids \<le> sh_max_deleted_messages S)
         (RequestDataError (cs_session_id session)
            (''Operation exceeds the allowed limit. You may delete a maximum of 100 messages per request. Received '' @
             show_nat (length ids) @ '' ids.'')))) (\<lambda>_.
     eff_then (eff_each (delete_one (sh_database S) session) ids \<lparr>dr_success = [], dr_errors = []\<rparr>) (\<lambda>deleted.
     eff_of (Ok (success (cs_session_id session) deleted))))"

subsection \<open>Sending\<close>

definition message_inbound_handler ::
  "('k, 'c, 'w, 'z) med_ext_scheme \<Rightarrow> 'db shared \<Rightarrow> client_session \<Rightarrow> (nat \<Rightarrow> u64) \<Rightarrow> string
     \<Rightarrow> (nat \<Rightarrow> nat \<Rightarrow> ('k, 'c) draws) \<Rightarrow> inbound_message
     \<Rightarrow> ('db world, nat \<times> inbound_response success_response, mediator_error) effect" where
  "message_inbound_handler X S session clock uuid rs body =
     eff_then (eff_of (case ser_inbound X body of Inr s \<Rightarrow> Ok s | Inl _ \<Rightarrow> Panic)) (\<lambda>s.
     eff_then (handle_inbound X S session clock uuid rs s) (\<lambda>response.
     eff_of (Ok (success (cs_session_id session) response))))"

subsection \<open>The websocket of a client\<close>

text \<open>
  What a socket can see next: a text or another message of the client, a failed receive, the end of
  the connection, a message of the streaming task, and that the task has dropped the channel. The
  loop goes through the events it is given; \<open>WsOpen\<close> says that it waits for the next one. The
  texts passed on to the client are collected. For the \<open>i\<close>th event, time, id and draws are those of
  the source \<open>rnd i\<close>.
\<close>

datatype ws_event =
    WsText string | WsOtherMessage | WsError | WsEnd | WsPush string | WsDropped

datatype ws_status = WsOpen | WsClosed

record ('k, 'c) source =
  src_clock :: "nat \<Rightarrow> u64"
  src_uuid :: string
  src_draws :: "nat \<Rightarrow> nat \<Rightarrow> ('k, 'c) draws"

fun ws_loop ::
  "('k, 'c, 'w, 'z) med_ext_scheme \<Rightarrow> 'db shared \<Rightarrow> client_session \<Rightarrow> (nat \<Rightarrow> ('k, 'c) source)
     \<Rightarrow> ws_event list \<Rightarrow> nat \<Rightarrow> string list
     \<Rightarrow> ('db world, ws_status \<times> string list, mediator_error) effect" where
  "ws_loop X S session rnd [] i out = eff_of (Ok (WsOpen, out))"
| "ws_loop X S session rnd (ev # evs) i out =
     (case ev of
        WsText msg \<Rightarrow>
          if sh_ws_size_limit S < length msg then eff_of (Ok (WsClosed, out))
          else eff_match (handle_inbound X S session (src_clock (rnd i)) (src_uuid (rnd i)) (src_draws (rnd i)) msg)
                 (\<lambda>_. ws_loop X S session rnd evs (i + 1) out)
                 (\<lambda>_. ws_loop X S session rnd evs (i + 1) out)
      | WsOtherMessage \<Rightarrow> ws_loop X S session rnd evs (i + 1) out
      | WsError \<Rightarrow> ws_loop X S session rnd evs (i + 1) out
      | WsEnd \<Rightarrow> eff_of (Ok (WsClosed, out))
      | WsPush msg \<Rightarrow> ws_loop X S session rnd evs (i + 1) (out @ [msg])
      | WsDropped \<Rightarrow> eff_of (Ok (WsClosed, out)))"

definition ws_count :: "'db shared \<Rightarrow> string \<Rightarrow> ('db world, unit, mediator_error) effect" where
  "ws_count S counter =
     on_db (logged (increment_websocket (sh_database S) counter))"

definition handle_socket ::
  "('k, 'c, 'w, 'z) med_ext_scheme \<Rightarrow> 'db shared \<Rightarrow> client_session \<Rightarrow> nat \<Rightarrow> (nat \<Rightarrow> ('k, 'c) source)
     \<Rightarrow> ws_event list \<Rightarrow> ('db world, ws_status \<times> string list, mediator_error) effect" where
  "handle_socket X S session tx rnd evs =
     eff_match (if sh_has_streaming_task S
                then send_update \<lparr>su_did_hash = cs_did_hash session, su_state = Register tx\<rparr>
                else eff_of (Ok ()))
       (\<lambda>_.
        eff_then (ws_count S ''WEBSOCKET_OPEN'') (\<lambda>_.
        eff_then (ws_loop X S session rnd evs 0 []) (\<lambda>(status, out).
        if status = WsOpen then eff_of (Ok (WsOpen, out))
        else
          eff_then (if sh_has_streaming_task S
                    then eff_match (send_update \<lparr>su_did_hash = cs_did_hash session, su_state = Deregister\<rparr>)
                           (\<lambda>_. eff_of (Ok ())) (\<lambda>_. eff_of (Ok ()))
                    else eff_of (Ok ())) (\<lambda>_.
          eff_then (ws_count S ''WEBSOCKET_CLOSE'') (\<lambda>_.
          eff_of (Ok (WsClosed, out)))))))
       (\<lambda>_. eff_of (Ok (WsClosed, [])))"

end
