(* ===== verification/Server.thy ===== *)
theory Server
  imports Config Handlers
begin

text \<open>
  The mediator as a server: the subscription of the streaming task and its loop
  (\<open>tasks/websocket_streaming.rs\<close>), the routes (\<open>handlers/mod.rs\<close>), the two handlers that need no
  token, and the start (\<open>server.rs\<close>).
\<close>

subsection \<open>The subscription of the streaming task\<close>

text \<open>The pubsub side of the client crate: opening a client, connecting, subscribing.\<close>

record 'db pubsub =
  ps_open :: "string \<Rightarrow> string option"
  ps_connect :: "'db \<Rightarrow> string option"
  ps_subscribe :: "string \<Rightarrow> 'db \<Rightarrow> string option"

definition get_pubsub_connection :: "'db pubsub \<Rightarrow> string \<Rightarrow> ('db, unit, mediator_error) effect" where
  "get_pubsub_connection P redis_url = (\<lambda>db.
     (case ps_open P redis_url of
        Some e \<Rightarrow> Err (DatabaseError ''NA'' ((''Couldn'' @ [CHR 0x27] @ ''t open redis pubsub connection. Reason: '') @ e))
      | None \<Rightarrow>
          (case ps_connect P db of
             Some e \<Rightarrow> Err (DatabaseError ''NA'' ((''Couldn'' @ [CHR 0x27] @ ''t get redis pubsub connection. Reason: '') @ e))
           | None \<Rightarrow> Ok ()), db))"

definition start_pubsub :: "'db pubsub \<Rightarrow> string \<Rightarrow> string \<Rightarrow> ('db, unit, mediator_error) effect" where
  "start_pubsub P redis_url uuid =
     eff_then (get_pubsub_connection P redis_url) (\<lambda>_ db.
     (case ps_subscribe P (''CHANNEL:'' @ uuid) db of
        Some e \<Rightarrow> Err (DatabaseError ''NA'' (''Error subscribing to channel: '' @ e))
      | None \<Rightarrow> Ok (), db))"

text \<open>
  What the task sees next: a published text, a message without a text, the loss of the
  connection, an update of a websocket; an update channel that is closed gives nothing. After a
  loss the task tries to subscribe again, once a second, in the states of the database that
  \<open>tries\<close> gives, until it succeeds.
\<close>

datatype 'db task_event =
    TaskPayload string
  | TaskNoText
  | TaskLost "nat \<Rightarrow> 'db"
  | TaskUpdate streaming_update
  | TaskNoUpdate

partial_function (option) resubscribe :: "'db pubsub \<Rightarrow> string \<Rightarrow> string \<Rightarrow> (nat \<Rightarrow> 'db) \<Rightarrow> nat \<Rightarrow> 'db option" where
  "resubscribe P redis_url uuid tries n =
     (case start_pubsub P redis_url uuid (tries n) of
        (Ok _, db) \<Rightarrow> Some db
      | _ \<Rightarrow> resubscribe P redis_url uuid tries (Suc n))"

text \<open>The task over the events it sees; \<open>None\<close> when it never gets past a loss.\<close>

fun task_loop ::
  "('k, 'c, 'w, 'z) med_ext_scheme \<Rightarrow> 'db redis \<Rightarrow> 'db pubsub \<Rightarrow> string \<Rightarrow> string \<Rightarrow> 'db task_event list
     \<Rightarrow> stream_task \<Rightarrow> 'db \<Rightarrow> ((stream_task, mediator_error) result \<times> 'db) option" where
  "task_loop X R P redis_url uuid [] t db = Some (Ok t, db)"
| "task_loop X R P redis_url uuid (ev # evs) t db =
     (let go = (\<lambda>r. case r of
          (Ok t', db') \<Rightarrow> task_loop X R P redis_url uuid evs t' db'
        | r \<Rightarrow> Some r) in
      case ev of
        TaskPayload s \<Rightarrow> go (stream_payload X R uuid s t db)
      | TaskUpdate u \<Rightarrow> go (stream_update R uuid u t db)
      | TaskNoText \<Rightarrow> go (Ok t, db)
      | TaskNoUpdate \<Rightarrow> go (Ok t, db)
      | TaskLost tries \<Rightarrow>
          (case resubscribe P redis_url uuid tries 0 of None \<Rightarrow> None | Some db' \<Rightarrow> go (Ok t, db')))"

text \<open>
  The whole task. It is spawned with an \<open>expect\<close> on its result: an error at its start is a panic of
  the spawned task only, and the mediator goes on without it.
\<close>

definition ws_streaming_task ::
  "('k, 'c, 'w, 'z) med_ext_scheme \<Rightarrow> 'db redis \<Rightarrow> 'db pubsub \<Rightarrow> string \<Rightarrow> string \<Rightarrow> 'db task_event list
     \<Rightarrow> 'db \<Rightarrow> ((stream_task, mediator_error) result \<times> 'db) option" where
  "ws_streaming_task X R P redis_url uuid evs db =
     (case streaming_clean_start R uuid db of
        Some (Ok _, db1) \<Rightarrow>
          (case start_pubsub P redis_url uuid db1 of
             (Ok _, db2) \<Rightarrow> task_loop X R P redis_url uuid evs new_task db2
           | (Err e, db2) \<Rightarrow> Some (Err e, db2)
           | (Panic, db2) \<Rightarrow> Some (Panic, db2))
      | Some (Err e, db1) \<Rightarrow> Some (Err e, db1)
      | Some (Panic, db1) \<Rightarrow> Some (Panic, db1)
      | None \<Rightarrow> None)"

subsection \<open>The routes\<close>

text \<open>
  The routes below the prefix of the API, in the order of the source. A segment of a path is
  either fixed or named by the handler. Matching a path against them is the work of axum, which
  takes the route whose segments agree.
\<close>

datatype http_method = GET | POST | DELETE

datatype segment = Fixed string | Param string

datatype handler =
    MessageInbound | MessageOutbound | InboxFetch | MessageList | MessageDelete
  | AuthChallenge | AuthResponse | Websocket | WellKnownDid

definition application_routes :: "(segment list \<times> http_method \<times> handler) list" where
  "application_routes =
     [([Fixed ''inboud''], POST, MessageInbound),
      ([Fixed ''inbound''], POST, MessageInbound),
      ([Fixed ''outbound''], POST, MessageOutbound),
      ([Fixed ''fetch''], POST, InboxFetch),
      ([Fixed ''list'', Param ''did_hash'', Param ''folder''], GET, MessageList),
      ([Fixed ''delete''], DELETE, MessageDelete),
      ([Fixed ''authenticate'', Fixed ''challenge''], POST, AuthChallenge),
      ([Fixed ''authenticate''], POST, AuthResponse),
      ([Fixed ''ws''], GET, Websocket),
      ([Fixed ''.well-known'', Fixed ''did''], GET, WellKnownDid)]"

fun segments_match :: "segment list \<Rightarrow> string list \<Rightarrow> bool" where
  "segments_match [] [] = True"
| "segments_match (Fixed s # ss) (p # ps) = (s = p \<and> segments_match ss ps)"
| "segments_match (Param _ # ss) (p # ps) = (p \<noteq> [] \<and> segments_match ss ps)"
| "segments_match _ _ = False"

definition route_of :: "http_method \<Rightarrow> string list \<Rightarrow> handler option" where
  "route_of m path =
     map_option (\<lambda>(_, _, h). h) (find (\<lambda>(ss, m', _). m' = m \<and> segments_match ss path) application_routes)"

definition well_known_did_fetch_handler :: "'db shared \<Rightarrow> nat \<times> string success_response" where
  "well_known_did_fetch_handler S = success [] (sh_mediator_did S)"

text \<open>The version comes from the build, the start time from the clock, already as texts.\<close>

definition health_checker_handler :: "string \<Rightarrow> string \<Rightarrow> (string \<times> string) list" where
  "health_checker_handler version started =
     [(''status'', ''success''),
      (''message'', ''Affinidi Secure Messaging Mediator Service, Version: '' @ version @
         '', Started: UTC '' @ started)]"

subsection \<open>The start\<close>

text \<open>
  What else the start needs: the resolver, the certificate and its key, the address, and the
  sockets, each of which may fail.
\<close>

record platform =
  pf_resolver :: "resolver_config \<Rightarrow> bool"
  pf_tls_files :: "string \<Rightarrow> string \<Rightarrow> bool"
  pf_address :: "string \<Rightarrow> bool"
  pf_bind :: "string \<Rightarrow> bool"

text \<open>
  How the start ends: with a panic, with an exit code, or with a server that takes requests on an
  address, with or without TLS, with the state of the handlers.
\<close>

datatype 'db started = StartPanic | StartExit nat | Serving bool string "'db shared"

definition start ::
  "host \<Rightarrow> platform \<Rightarrow> 'db redis \<Rightarrow> 'db \<Rightarrow> ('db started \<times> 'db) option" where
  "start H F R db =
     (case init H of
        Ok config \<Rightarrow>
          (case database_handler_new H R config db of
             None \<Rightarrow> None
           | Some (Err _, db1) \<Rightarrow> Some (StartExit 1, db1)
           | Some (Panic, db1) \<Rightarrow> Some (StartPanic, db1)
           | Some (Ok _, db1) \<Rightarrow>
               if \<not> pf_resolver F (cf_did_resolver_config config) then Some (StartPanic, db1)
               else if cf_use_ssl config \<and>
                       \<not> pf_tls_files F (cf_ssl_certificate_file config) (cf_ssl_key_file config)
               then Some (StartPanic, db1)
               else if pf_address F (cf_listen_address config) \<and> pf_bind F (cf_listen_address config)
               then Some (Serving (cf_use_ssl config) (cf_listen_address config) (shared_of config R), db1)
               else Some (StartPanic, db1))
      | _ \<Rightarrow> Some (StartPanic, db))"

end
