(* ===== verification/StoreProps.thy ===== *)
theory StoreProps
  imports MessageRead
begin

text \<open>
  What storing, deleting and reading do to the entries of the database: the queues keep the order
  in which the messages came, only the receiver and the sender of a message delete it or read it,
  and reading changes nothing.
\<close>

subsection \<open>Calls\<close>

lemma as_entries_update [simp]:
  "as_hash (ks(k \<mapsto> e)) k' = (if k' = k then (case e of EHash h \<Rightarrow> Some h | _ \<Rightarrow> None) else as_hash ks k')"
  "as_stream (ks(k \<mapsto> e)) k' =
     (if k' = k then (case e of EStream l es \<Rightarrow> Some (l, es) | _ \<Rightarrow> None) else as_stream ks k')"
  "as_list (ks(k \<mapsto> e)) k' = (if k' = k then (case e of EList l \<Rightarrow> Some l | _ \<Rightarrow> None) else as_list ks k')"
  by (simp_all add: as_hash_def as_stream_def as_list_def)

lemma as_entries_delete [simp]:
  "as_hash (ks(k := None)) k' = (if k' = k then Some Map.empty else as_hash ks k')"
  "as_stream (ks(k := None)) k' = (if k' = k then Some (StreamId 0 0, []) else as_stream ks k')"
  by (simp_all add: as_hash_def as_stream_def)

inductive_simps set_iff: "redis_command (''SET'' # args) ks rep ks'"
inductive_simps del_iff: "redis_command (''DEL'' # args) ks rep ks'"
inductive_simps rpush_iff: "redis_command (''RPUSH'' # args) ks rep ks'"
inductive_simps hmset_iff: "redis_command (''HMSET'' # args) ks rep ks'"
inductive_simps xadd_iff: "redis_command (''XADD'' # args) ks rep ks'"
inductive_simps xdel_iff: "redis_command (''XDEL'' # args) ks rep ks'"
inductive_simps xrange_iff: "redis_command (''XRANGE'' # args) ks rep ks'"
inductive_simps time_iff: "redis_command (''TIME'' # args) ks rep ks'"

text \<open>What a counter of a row reads.\<close>

definition counts :: "(string \<rightharpoonup> string) \<Rightarrow> string \<Rightarrow> int \<Rightarrow> bool" where
  "counts h f i \<longleftrightarrow> h f = Some (show_int i) \<or> (h f = None \<and> i = 0)"

lemma counts_update [simp]: "counts (h(g \<mapsto> v)) f i \<longleftrightarrow> (if f = g then v = show_int i else counts h f i)"
  using show_int_inject by (auto simp: counts_def)

lemma counts_unique: "counts h f i \<Longrightarrow> counts h f j \<Longrightarrow> i = j"
  using show_int_inject by (auto simp: counts_def)

lemma call_hincrby:
  assumes "redis_laws R V" "call R [''HINCRBY'', k, f, show_int d] db = (Ok rep, db')"
  shows "\<exists>h i. as_hash (V db) k = Some h \<and> counts h f i \<and>
     V db' = (V db)(k \<mapsto> EHash (h(f \<mapsto> show_int (i + d))))"
proof -
  have "redis_command [''HINCRBY'', k, f, show_int d] (V db) rep (V db')"
    by (rule call_Ok[OF assms(1) _ assms(2)]) (rule sent.intros)
  then show ?thesis by (auto simp: hincrby_iff counts_def dest!: show_int_inject)
qed

lemma store_counters_Ok:
  assumes "redis_laws R V"
    and "store_counters R row what (show_int b) (show_int d) db = (Ok u, db')"
  shows "\<exists>h i j. as_hash (V db) row = Some h \<and> counts h (what @ ''_BYTES'') i \<and>
     counts h (what @ ''_COUNT'') j \<and>
     V db' = (V db)(row \<mapsto> EHash (h(what @ ''_BYTES'' \<mapsto> show_int (i + b),
                                        what @ ''_COUNT'' \<mapsto> show_int (j + d))))"
proof -
  from assms(2) obtain r1 db1 r2 where
    a: "call R [''HINCRBY'', row, what @ ''_BYTES'', show_int b] db = (Ok r1, db1)" and
    b: "call R [''HINCRBY'', row, what @ ''_COUNT'', show_int d] db1 = (Ok r2, db')"
    by (auto simp: store_counters_def effect_simps)
  from call_hincrby[OF assms(1) a] obtain h i where h: "as_hash (V db) row = Some h"
      "counts h (what @ ''_BYTES'') i"
      "V db1 = (V db)(row \<mapsto> EHash (h(what @ ''_BYTES'' \<mapsto> show_int (i + b))))" by blast
  from call_hincrby[OF assms(1) b] h(3) obtain j where "counts h (what @ ''_COUNT'') j"
      "V db' = (V db)(row \<mapsto> EHash (h(what @ ''_BYTES'' \<mapsto> show_int (i + b),
                                        what @ ''_COUNT'' \<mapsto> show_int (j + d))))" by auto
  with h(1,2) show ?thesis by blast
qed

lemma lua_string_Ok_iff [simp]: "lua_string r = Ok s \<longleftrightarrow> r = RBulk s"
  by (cases r) (auto simp: lua_string_def)

lemma enqueue_Ok:
  assumes "redis_laws R V" "enqueue R q (show_nat ms) fvs db = (Ok i, db')"
    and "fvs \<noteq> []" "even (length fvs)"
  shows "\<exists>l es j. as_stream (V db) q = Some (l, es) \<and> next_id ms l = Some j \<and> i = show_id j \<and>
     V db' = (V db)(q \<mapsto> EStream j (es @ [(j, pairs_of fvs)]))"
proof -
  from assms(2) have c: "call R (''XADD'' # q # (show_nat ms @ ''-*'') # fvs) db = (Ok (RBulk i), db')"
    by (auto simp: enqueue_def effect_simps)
  have "redis_command (''XADD'' # q # (show_nat ms @ ''-*'') # fvs) (V db) (RBulk i) (V db')"
    by (rule call_Ok[OF assms(1) _ c]) (intro sent.intros assms)
  then show ?thesis by (auto simp: xadd_iff dest!: show_nat_inject)
qed

lemma show_nat_digit: "0 < x \<Longrightarrow> d < 10 \<Longrightarrow> show_nat (10 * x + d) = show_nat x @ [digit d]"
  by (simp add: show_nat.simps[of "10 * x + d"])

lemma show_nat_shift: "0 < s \<Longrightarrow> show_nat s @ show_nat m = show_nat (s * 10 ^ length (show_nat m) + m)"
proof (induction m rule: show_nat.induct)
  case (1 m)
  show ?case
  proof (cases "m < 10")
    case True
    then show ?thesis
      using show_nat_digit[OF 1(2) True] by (simp add: show_nat.simps[of m] mult.commute)
  next
    case False
    let ?x = "s * 10 ^ length (show_nat (m div 10)) + m div 10"
    have m: "show_nat m = show_nat (m div 10) @ [digit (m mod 10)]"
      using False by (simp add: show_nat.simps[of m])
    have "show_nat (10 * ?x + m mod 10) = show_nat ?x @ [digit (m mod 10)]"
      using 1(2) by (intro show_nat_digit) simp_all
    moreover have "10 * ?x + m mod 10 = s * 10 ^ length (show_nat m) + m"
      by (simp add: m algebra_simps)
    moreover have "show_nat s @ show_nat (m div 10) = show_nat ?x" using 1 False by simp
    ultimately show ?thesis by (metis m append_assoc)
  qed
qed

lemma tonumber_show [simp]: "tonumber (show_nat n) = Some n"
  by (simp add: tonumber_def parse_digits_show)

lemma server_time_Ok:
  assumes "redis_laws R V" "server_time R db = (Ok time, db')"
  shows "V db' = V db \<and> (\<exists>ms. time = show_nat ms)"
proof -
  from assms(2) obtain r where c: "call R [''TIME''] db = (Ok r, db')" and
    t: "and_then (lua_strings r) (\<lambda>time. case time of
         s # us # _ \<Rightarrow>
           and_then (ok_or ''number expected'' (tonumber s)) (\<lambda>s.
           and_then (ok_or ''number expected'' (tonumber us)) (\<lambda>us.
           Ok (show_nat s @ show_nat (us div 1000))))
       | _ \<Rightarrow> Err ''number expected'') = Ok time"
    by (auto simp: server_time_def effect_simps)
  have "redis_command [''TIME''] (V db) r (V db')"
    by (rule call_Ok[OF assms(1) _ c]) (rule sent.intros)
  with t show ?thesis
    by (auto simp: time_iff lua_strings_def lua_array_def lua_string_def show_nat_shift)
qed

subsection \<open>Storing a message\<close>

text \<open>
  One key after the other: the message, the counters, the queue entries with their ids \<open>i\<close> and
  \<open>j\<close>, and the metadata that points to them.
\<close>

definition receive_fields :: "string \<Rightarrow> nat \<Rightarrow> string \<Rightarrow> (string \<times> string) list" where
  "receive_fields key n from_did = [(''MSG_ID'', key), (''BYTES'', show_nat n), (''FROM'', from_did)]"

definition send_fields :: "string \<Rightarrow> nat \<Rightarrow> string \<Rightarrow> (string \<times> string) list" where
  "send_fields key n to_did = [(''MSG_ID'', key), (''BYTES'', show_nat n), (''TO'', to_did)]"

definition stored_meta ::
  "nat \<Rightarrow> string \<Rightarrow> string \<Rightarrow> stream_id \<Rightarrow> string \<Rightarrow> stream_id \<Rightarrow> (string \<rightharpoonup> string) \<Rightarrow> (string \<rightharpoonup> string)" where
  "stored_meta n to time i frm j h =
     h(''BYTES'' \<mapsto> show_nat n, ''TO'' \<mapsto> to, ''TIMESTAMP'' \<mapsto> time, ''RECEIVE_ID'' \<mapsto> show_id i,
       ''FROM'' \<mapsto> frm, ''SEND_ID'' \<mapsto> show_id j)"

definition bump :: "string \<Rightarrow> int \<Rightarrow> int \<Rightarrow> (string \<rightharpoonup> string) \<Rightarrow> (string \<rightharpoonup> string) \<Rightarrow> bool" where
  "bump what b d h h' \<longleftrightarrow> (\<exists>i j. counts h (what @ ''_BYTES'') i \<and> counts h (what @ ''_COUNT'') j \<and>
     h' = h(what @ ''_BYTES'' \<mapsto> show_int (i + b), what @ ''_COUNT'' \<mapsto> show_int (j + d)))"

lemma store_counters_bump:
  assumes "redis_laws R V"
    and "store_counters R row what (show_int b) (show_int d) db = (Ok u, db')"
  shows "\<exists>h h'. as_hash (V db) row = Some h \<and> bump what b d h h' \<and> V db' = (V db)(row \<mapsto> EHash h')"
  using store_counters_Ok[OF assms] unfolding bump_def by blast

lemma store_counters_up:
  assumes "redis_laws R V" and "store_counters R row what (show_nat n) ''1'' db = (Ok u, db')"
  shows "\<exists>h h'. as_hash (V db) row = Some h \<and> bump what (int n) 1 h h' \<and> V db' = (V db)(row \<mapsto> EHash h')"
  using store_counters_bump[of R V row what "int n" 1 db u db'] assms
  by (simp add: show_int_def[of 1] show_nat.simps[of "Suc 0"])

lemma call_put:
  assumes "redis_laws R V"
  shows "call R [''SET'', k, v] db = (Ok r, db') \<Longrightarrow> V db' = (V db)(k \<mapsto> EStr v)"
    and "call R [''DEL'', k] db = (Ok r, db') \<Longrightarrow> V db' = (V db)(k := None)"
    and "call R [''RPUSH'', k, v] db = (Ok r, db') \<Longrightarrow>
      \<exists>l. as_list (V db) k = Some l \<and> V db' = (V db)(k \<mapsto> EList (l @ [v]))"
    and "fvs \<noteq> [] \<Longrightarrow> even (length fvs) \<Longrightarrow> call R (''HMSET'' # k # fvs) db = (Ok r, db') \<Longrightarrow>
      \<exists>h. as_hash (V db) k = Some h \<and> V db' = (V db)(k \<mapsto> EHash (set_fields (pairs_of fvs) h))"
    and "call R [''XDEL'', k, show_id i] db = (Ok r, db') \<Longrightarrow>
      V db k = None \<and> V db' = V db \<or> (\<exists>l es. V db k = Some (EStream l es) \<and>
        V db' = (V db)(k \<mapsto> EStream l (filter (\<lambda>e. fst e \<noteq> i) es)))"
proof -
  note c = call_Ok[OF assms]
  show "call R [''SET'', k, v] db = (Ok r, db') \<Longrightarrow> V db' = (V db)(k \<mapsto> EStr v)"
    using c[of "[''SET'', k, v]"] by (auto simp: set_iff intro: sent.intros)
  show "call R [''DEL'', k] db = (Ok r, db') \<Longrightarrow> V db' = (V db)(k := None)"
    using c[of "[''DEL'', k]"] by (auto simp: del_iff intro: sent.intros)
  show "call R [''RPUSH'', k, v] db = (Ok r, db') \<Longrightarrow>
      \<exists>l. as_list (V db) k = Some l \<and> V db' = (V db)(k \<mapsto> EList (l @ [v]))"
    using c[of "[''RPUSH'', k, v]"] by (fastforce simp: rpush_iff intro: sent.intros)
  show "fvs \<noteq> [] \<Longrightarrow> even (length fvs) \<Longrightarrow> call R (''HMSET'' # k # fvs) db = (Ok r, db') \<Longrightarrow>
      \<exists>h. as_hash (V db) k = Some h \<and> V db' = (V db)(k \<mapsto> EHash (set_fields (pairs_of fvs) h))"
    using c[of "''HMSET'' # k # fvs"] by (fastforce simp: hmset_iff intro: sent.intros)
  show "V db k = None \<and> V db' = V db \<or> (\<exists>l es. V db k = Some (EStream l es) \<and>
        V db' = (V db)(k \<mapsto> EStream l (filter (\<lambda>e. fst e \<noteq> i) es)))"
    if "call R [''XDEL'', k, show_id i] db = (Ok r, db')"
  proof -
    have "redis_command [''XDEL'', k, show_id i] (V db) r (V db')"
      by (rule c[OF _ that]) (rule sent.intros)
    then show ?thesis by (auto simp: xdel_iff dest!: show_id_inject)
  qed
qed


lemma store_message_lua_Ok:
  assumes laws: "redis_laws R V"
    and "store_message_lua R key [msg, show_nat n, to_did, to, from_did, frm] db = (Ok rep, db')"
  shows "\<exists>time i j l es l' es' hd hd' hs hs' hm.
     as_stream (V db) (receive_q to) = Some (l, es) \<and> l < i \<and>
     as_stream (V db) (send_q frm) = Some (l', es') \<and> l' < j \<and>
     as_hash (V db) (did_row to) = Some hd \<and> bump ''RECEIVE_QUEUE'' (int n) 1 hd hd' \<and>
     (frm \<noteq> to \<longrightarrow> as_hash (V db) (did_row frm) = Some hs) \<and> (frm = to \<longrightarrow> hs = hd') \<and>
     bump ''SEND_QUEUE'' (int n) 1 hs hs' \<and> as_hash (V db) (meta_key key) = Some hm \<and>
     V db' = (V db)(msg_key key \<mapsto> EStr msg, ''GLOBAL'' := V db' ''GLOBAL'', ''MSG_EXPIRY'' := V db' ''MSG_EXPIRY'',
       did_row to \<mapsto> EHash hd', receive_q to \<mapsto> EStream i (es @ [(i, receive_fields key n from_did)]),
       did_row frm \<mapsto> EHash hs', send_q frm \<mapsto> EStream j (es' @ [(j, send_fields key n to_did)]),
       meta_key key \<mapsto> EHash (stored_meta n to time i frm j hm)) \<and> rep = RStatus ''OK''"
proof -
  from assms(2) obtain time d1 d2 d3 d4 d5 d6 d7 d8 d9 rq sq r1 r2 r3 r4 where
    t: "server_time R db = (Ok time, d1)" and
    c1: "call R [''SET'', msg_key key, msg] d1 = (Ok r1, d2)" and
    c2: "store_counters R ''GLOBAL'' ''RECEIVED'' (show_nat n) ''1'' d2 = (Ok (), d3)" and
    c3: "call R [''RPUSH'', ''MSG_EXPIRY'', key @ '':'' @ time] d3 = (Ok r2, d4)" and
    c4: "store_counters R (did_row to) ''RECEIVE_QUEUE'' (show_nat n) ''1'' d4 = (Ok (), d5)" and
    c5: "enqueue R (receive_q to) time [''MSG_ID'', key, ''BYTES'', show_nat n, ''FROM'', from_did] d5 = (Ok rq, d6)" and
    c6: "store_counters R (did_row frm) ''SEND_QUEUE'' (show_nat n) ''1'' d6 = (Ok (), d7)" and
    c7: "enqueue R (send_q frm) time [''MSG_ID'', key, ''BYTES'', show_nat n, ''TO'', to_did] d7 = (Ok sq, d8)" and
    c8: "call R [''HMSET'', meta_key key, ''BYTES'', show_nat n, ''TO'', to, ''TIMESTAMP'', time, ''RECEIVE_ID'', rq] d8 = (Ok r3, d9)" and
    c9: "call R [''HMSET'', meta_key key, ''FROM'', frm, ''SEND_ID'', sq] d9 = (Ok r4, db')" and
    rep: "rep = RStatus ''OK''"
    by (auto simp: store_message_lua_def effect_simps Let_def)
  from server_time_Ok[OF laws t] obtain ms where v1: "V d1 = V db" and ms: "time = show_nat ms" by blast
  note v2 = call_put(1)[OF laws c1, unfolded v1]
  from store_counters_up[OF laws c2] obtain g where v3: "V d3 = (V d2)(''GLOBAL'' \<mapsto> EHash g)" by blast
  from call_put(3)[OF laws c3] obtain ex where v4: "V d4 = (V d3)(''MSG_EXPIRY'' \<mapsto> EList ex)" by blast
  from store_counters_up[OF laws c4] obtain hd hd' where h: "as_hash (V db) (did_row to) = Some hd"
      "bump ''RECEIVE_QUEUE'' (int n) 1 hd hd'" and v5: "V d5 = (V d4)(did_row to \<mapsto> EHash hd')"
    by (auto simp: v4 v3 v2)
  from enqueue_Ok[OF laws c5[unfolded ms]] obtain l es i where s: "as_stream (V db) (receive_q to) = Some (l, es)"
      "next_id ms l = Some i" "rq = show_id i" and
    v6: "V d6 = (V d5)(receive_q to \<mapsto> EStream i (es @ [(i, receive_fields key n from_did)]))"
    by (auto simp: v5 v4 v3 v2 receive_fields_def)
  from store_counters_up[OF laws c6] obtain hs hs' where hs: "frm \<noteq> to \<longrightarrow> as_hash (V db) (did_row frm) = Some hs"
      "frm = to \<longrightarrow> hs = hd'" "bump ''SEND_QUEUE'' (int n) 1 hs hs'" and v7: "V d7 = (V d6)(did_row frm \<mapsto> EHash hs')"
    by (auto simp: v6 v5 v4 v3 v2 split: if_splits)
  from enqueue_Ok[OF laws c7[unfolded ms]] obtain l' es' j where s': "as_stream (V db) (send_q frm) = Some (l', es')"
      "next_id ms l' = Some j" "sq = show_id j" and
    v8: "V d8 = (V d7)(send_q frm \<mapsto> EStream j (es' @ [(j, send_fields key n to_did)]))"
    by (auto simp: v7 v6 v5 v4 v3 v2 send_fields_def)
  from call_put(4)[OF laws _ _ c8] obtain hm where hm: "as_hash (V db) (meta_key key) = Some hm" and
    v9: "V d9 = (V d8)(meta_key key \<mapsto> EHash (hm(''BYTES'' \<mapsto> show_nat n, ''TO'' \<mapsto> to, ''TIMESTAMP'' \<mapsto> time,
          ''RECEIVE_ID'' \<mapsto> rq)))"
    by (auto simp: v8 v7 v6 v5 v4 v3 v2 set_fields_def)
  from call_put(4)[OF laws _ _ c9] have "V db' = (V d8)(meta_key key \<mapsto> EHash (stored_meta n to time i frm j hm))"
    by (auto simp: v9 set_fields_def stored_meta_def s(3) s'(3))
  then have v: "V db' = (V db)(msg_key key \<mapsto> EStr msg, ''GLOBAL'' \<mapsto> EHash g, ''MSG_EXPIRY'' \<mapsto> EList ex,
       did_row to \<mapsto> EHash hd', receive_q to \<mapsto> EStream i (es @ [(i, receive_fields key n from_did)]),
       did_row frm \<mapsto> EHash hs', send_q frm \<mapsto> EStream j (es' @ [(j, send_fields key n to_did)]),
       meta_key key \<mapsto> EHash (stored_meta n to time i frm j hm))"
    unfolding v8 v7 v6 v5 v4 v3 v2 .
  then have "V db' ''GLOBAL'' = Some (EHash g)" "V db' ''MSG_EXPIRY'' = Some (EList ex)" by simp_all
  with v h s s' hs hm rep next_id_greater[OF s(2)] next_id_greater[OF s'(2)] show ?thesis
    by metis
qed

subsection \<open>Deleting a message\<close>

lemma lua_map_hash [simp]: "lua_map (hash_reply al) = Ok al"
  by (induction al) (auto simp: lua_map_def hash_reply_def lua_entry_def lua_string_def)

lemma call_hgetall:
  assumes "redis_laws R V" "call R [''HGETALL'', k] db = (Ok r, db')"
  shows "V db' = V db \<and> (\<exists>al. r = hash_reply al \<and> as_hash (V db) k = Some (map_of al) \<and> distinct (map fst al))"
proof -
  have "redis_command [''HGETALL'', k] (V db) r (V db')"
    by (rule call_Ok[OF assms(1) _ assms(2)]) (rule sent.intros, simp)
  then show ?thesis by (auto simp: hgetall_iff)
qed

lemma call_not_Panic [simp]: "call R c db \<noteq> (Panic, db')"
  by (auto simp: call_def split: prod.splits sum.splits)

lemma call_state_Err:
  assumes "redis_laws R V" "sent c" "call R c db = (r, db')" "\<nexists>x. r = Ok x"
  shows "V db' = V db \<and> (\<exists>e. r = Err e)"
  using assms call_Err[OF assms(1,2)] by (cases r) auto

text \<open>Who does not own a message cannot delete it: the script ends before it has changed anything.\<close>

definition message_owner :: "keyspace \<Rightarrow> string \<Rightarrow> string \<Rightarrow> bool" where
  "message_owner ks key did \<longleftrightarrow>
     (\<exists>h. ks (meta_key key) = Some (EHash h) \<and> (h ''TO'' = Some did \<or> h ''FROM'' = Some did))"

lemma delete_lua_refused:
  assumes laws: "redis_laws R V" and own: "\<not> message_owner (V db) key did"
    and d: "delete_message_lua R key did db = (r, db')"
  shows "V db' = V db \<and> (\<exists>e. r = Err e)"
proof -
  obtain r0 db0 where c: "call R [''HGETALL'', meta_key key] db = (r0, db0)"
    by (cases "call R [''HGETALL'', meta_key key] db")
  show ?thesis
  proof (cases r0)
    case (Ok rep)
    from call_hgetall[OF laws c[unfolded Ok]] obtain al where
      al: "V db0 = V db" "rep = hash_reply al" "as_hash (V db) (meta_key key) = Some (map_of al)" by blast
    have "map_of al ''TO'' \<noteq> Some did" "map_of al ''FROM'' \<noteq> Some did"
      using own al(3) by (auto simp: message_owner_def as_hash_def split: option.splits entry.splits)
    then have "(r, db') = (Err ''Requesting DID does not have ownership of this message'', db0)"
      using d c[unfolded Ok] al(2) by (simp add: delete_message_lua_def eff_then_def Let_def ensure_def)
    with al(1) show ?thesis by simp
  next
    case (Err e)
    with d c call_Err[OF laws _ c[unfolded Err]] show ?thesis
      by (auto simp: delete_message_lua_def eff_then_run intro: sent.intros)
  next
    case Panic
    with c show ?thesis by simp
  qed
qed

text \<open>
  C15: only the receiver and the sender of a message can delete it. For every other DID, and for a
  message that is not there, the request is refused, and the database stays as it was.
\<close>

theorem delete_only_by_owner:
  assumes "redis_laws R V" and "\<not> message_owner (V db) message_hash did_hash"
    and "delete_message R sid did_hash message_hash db = (r, db')"
  shows "V db' = V db \<and> (\<exists>e. r = Err e)"
proof (cases "pool_get R db")
  case (Inl e)
  with assms(3) show ?thesis
    by (auto simp: delete_message_def fcall_def get_async_connection_def eff_then_def)
next
  case (Inr u)
  obtain r0 db0 where d: "delete_message_lua R message_hash did_hash db = (r0, db0)"
    by (cases "delete_message_lua R message_hash did_hash db")
  from delete_lua_refused[OF assms(1,2) d] assms(3) Inr d show ?thesis
    by (auto simp: delete_message_def fcall_def get_async_connection_def eff_then_def eff_map_err_def)
qed

text \<open>The metadata of a message that was stored whole.\<close>

definition whole_meta ::
  "(string \<rightharpoonup> string) \<Rightarrow> nat \<Rightarrow> string \<Rightarrow> stream_id \<Rightarrow> string \<Rightarrow> stream_id \<Rightarrow> bool" where
  "whole_meta h n to i frm j \<longleftrightarrow>
     h ''BYTES'' = Some (show_nat n) \<and> h ''TO'' = Some to \<and> h ''RECEIVE_ID'' = Some (show_id i) \<and>
     h ''FROM'' = Some frm \<and> h ''SEND_ID'' = Some (show_id j)"

lemma whole_stored_meta [simp]: "whole_meta (stored_meta n to time i frm j h) n to i frm j"
  by (simp add: whole_meta_def stored_meta_def)

definition drop_entry :: "string \<Rightarrow> stream_id \<Rightarrow> keyspace \<Rightarrow> keyspace" where
  "drop_entry q i ks =
     (case ks q of
        Some (EStream l es) \<Rightarrow> ks(q \<mapsto> EStream l (filter (\<lambda>e. fst e \<noteq> i) es))
      | _ \<Rightarrow> ks)"

lemma call_xdel:
  assumes "redis_laws R V" "call R [''XDEL'', k, show_id i] db = (Ok r, db')"
  shows "V db' = drop_entry k i (V db)"
  using call_put(5)[OF assms] by (auto simp: drop_entry_def)

lemma store_counters_down:
  assumes "redis_laws R V" and "store_counters R row what neg ''-1'' db = (Ok u, db')"
    and "lua_minus (show_nat n) = Ok neg" "0 < n"
  shows "\<exists>h h'. as_hash (V db) row = Some h \<and> bump what (- int n) (- 1) h h' \<and> V db' = (V db)(row \<mapsto> EHash h')"
  using store_counters_bump[of R V row what "- int n" "- 1" db u db'] assms
  by (simp add: lua_minus_def show_int_def[of "- 1"] show_nat.simps[of "Suc 0"])

lemma delete_message_lua_Ok:
  assumes laws: "redis_laws R V"
    and d: "delete_message_lua R key did db = (Ok rep, db')"
    and meta: "V db (meta_key key) = Some (EHash hm)" "whole_meta hm n to i frm j" "0 < n"
  shows "\<exists>hd hd' hs hs'. as_hash (V db) (did_row to) = Some hd \<and>
     bump ''RECEIVE_QUEUE'' (- int n) (- 1) hd hd' \<and>
     (frm \<noteq> to \<longrightarrow> as_hash (V db) (did_row frm) = Some hs) \<and> (frm = to \<longrightarrow> hs = hd') \<and>
     bump ''SEND_QUEUE'' (- int n) (- 1) hs hs' \<and>
     V db' = (drop_entry (send_q frm) j ((drop_entry (receive_q to) i
       ((V db)(msg_key key := None, ''GLOBAL'' := V db' ''GLOBAL'', did_row to \<mapsto> EHash hd')))
       (did_row frm \<mapsto> EHash hs')))(meta_key key := None) \<and> rep = RStatus ''OK''"
proof -
  have m: "as_hash (V db) (meta_key key) = Some hm" using meta(1) by (simp add: as_hash_def)
  from d obtain r0 d0 where c0: "call R [''HGETALL'', meta_key key] db = (Ok r0, d0)"
    by (auto simp: delete_message_lua_def effect_simps)
  from call_hgetall[OF laws c0] m obtain al where v0: "V d0 = V db" and al: "r0 = hash_reply al" "map_of al = hm"
    by auto
  from d meta(2) obtain r1 d1 d2 d3 d4 d5 d6 r2 r3 r4 neg where
    c1: "call R [''DEL'', msg_key key] d0 = (Ok r1, d1)" and
    c2: "store_counters R ''GLOBAL'' ''DELETED'' (show_nat n) ''1'' d1 = (Ok (), d2)" and
    neg: "lua_minus (show_nat n) = Ok neg" and
    c3: "store_counters R (did_row to) ''RECEIVE_QUEUE'' neg ''-1'' d2 = (Ok (), d3)" and
    c4: "call R [''XDEL'', receive_q to, show_id i] d3 = (Ok r2, d4)" and
    c5: "store_counters R (did_row frm) ''SEND_QUEUE'' neg ''-1'' d4 = (Ok (), d5)" and
    c6: "call R [''XDEL'', send_q frm, show_id j] d5 = (Ok r3, d6)" and
    c7: "call R [''DEL'', meta_key key] d6 = (Ok r4, db')" and
    rep: "rep = RStatus ''OK''"
    by (auto simp: delete_message_lua_def effect_simps Let_def c0 al whole_meta_def lua_not_nil_def result_simps)
  note v1 = call_put(2)[OF laws c1, unfolded v0]
  from store_counters_up[OF laws c2] obtain g where v2: "V d2 = (V d1)(''GLOBAL'' \<mapsto> EHash g)" by blast
  from store_counters_down[OF laws c3 neg meta(3)] obtain hd hd' where h: "as_hash (V db) (did_row to) = Some hd"
      "bump ''RECEIVE_QUEUE'' (- int n) (- 1) hd hd'" and v3: "V d3 = (V d2)(did_row to \<mapsto> EHash hd')"
    by (auto simp: v2 v1)
  note v4 = call_xdel[OF laws c4]
  have row: "as_hash (V d4) (did_row frm) = (if frm = to then Some hd' else as_hash (V db) (did_row frm))"
    by (simp add: v4 drop_entry_def v3 v2 v1 as_hash_def split: option.splits entry.splits)
  from store_counters_down[OF laws c5 neg meta(3)] obtain hs hs' where hs: "frm \<noteq> to \<longrightarrow> as_hash (V db) (did_row frm) = Some hs"
      "frm = to \<longrightarrow> hs = hd'" "bump ''SEND_QUEUE'' (- int n) (- 1) hs hs'" and v5: "V d5 = (V d4)(did_row frm \<mapsto> EHash hs')"
    by (auto simp: row split: if_splits)
  note v6 = call_xdel[OF laws c6]
  note v7 = call_put(2)[OF laws c7]
  have v: "V db' = (drop_entry (send_q frm) j ((drop_entry (receive_q to) i
       ((V db)(msg_key key := None, ''GLOBAL'' \<mapsto> EHash g, did_row to \<mapsto> EHash hd')))
       (did_row frm \<mapsto> EHash hs')))(meta_key key := None)"
    unfolding v7 v6 v5 v4 v3 v2 v1 ..
  then have "V db' ''GLOBAL'' = Some (EHash g)"
    by (simp add: drop_entry_def split: option.splits entry.splits)
  with v h hs rep show ?thesis by metis
qed

end
