(* ===== verification/MailInvariant.thy ===== *)
theory MailInvariant
  imports StoreProps
begin

text \<open>
  The state of the stored messages as a whole: the queues are in the order of their ids, the
  counters of a DID count what is in its queues, and the metadata of a message points to its
  entries. Storing and deleting keep this, whatever the order in which clients do it.
\<close>

definition entries :: "keyspace \<Rightarrow> string \<Rightarrow> (stream_id \<times> (string \<times> string) list) list" where
  "entries ks q = (case as_stream ks q of Some (l, es) \<Rightarrow> es | None \<Rightarrow> [])"

definition stream_ok :: "keyspace \<Rightarrow> string \<Rightarrow> bool" where
  "stream_ok ks q \<longleftrightarrow> (\<exists>l es. as_stream ks q = Some (l, es) \<and> sorted_wrt (<) (map fst es) \<and>
     (\<forall>e \<in> set es. fst e \<le> l))"

definition entry_bytes :: "stream_id \<times> (string \<times> string) list \<Rightarrow> int" where
  "entry_bytes e = (case map_of (snd e) ''BYTES'' of
     Some s \<Rightarrow> (case tonumber s of Some n \<Rightarrow> int n | None \<Rightarrow> 0) | None \<Rightarrow> 0)"

lemma entry_bytes_nonneg: "0 \<le> sum_list (map entry_bytes es)"
  by (induction es) (simp_all add: entry_bytes_def split: option.split)

text \<open>A row whose counters \<open>what\<close> are those of a queue.\<close>

definition row_counts ::
  "(string \<rightharpoonup> string) \<Rightarrow> string \<Rightarrow> (stream_id \<times> (string \<times> string) list) list \<Rightarrow> bool" where
  "row_counts h what es \<longleftrightarrow> counts h (what @ ''_COUNT'') (int (length es)) \<and>
     counts h (what @ ''_BYTES'') (sum_list (map entry_bytes es))"

definition meta_points :: "keyspace \<Rightarrow> string \<Rightarrow> entry \<Rightarrow> bool" where
  "meta_points ks key e \<longleftrightarrow> CHR '':'' \<notin> set key \<and>
     (\<exists>h n to i frm j from_did to_did. e = EHash h \<and> whole_meta h n to i frm j \<and> 0 < n \<and>
        (i, receive_fields key n from_did) \<in> set (entries ks (receive_q to)) \<and>
        (j, send_fields key n to_did) \<in> set (entries ks (send_q frm)))"

definition mail_inv :: "keyspace \<Rightarrow> bool" where
  "mail_inv ks \<longleftrightarrow>
     (\<forall>d. stream_ok ks (receive_q d) \<and> stream_ok ks (send_q d)) \<and>
     (\<forall>d. \<exists>h. as_hash ks (did_row d) = Some h \<and>
        row_counts h ''RECEIVE_QUEUE'' (entries ks (receive_q d)) \<and>
        row_counts h ''SEND_QUEUE'' (entries ks (send_q d))) \<and>
     (\<forall>key e. ks (meta_key key) = Some e \<longrightarrow> meta_points ks key e)"

subsection \<open>Counters\<close>

lemma row_counts_bump:
  assumes "bump what b d h h'" "row_counts h what es"
    and "int (length es') = int (length es) + d"
    and "sum_list (map entry_bytes es') = sum_list (map entry_bytes es) + b"
  shows "row_counts h' what es'"
  using assms by (auto simp: bump_def row_counts_def dest: counts_unique)

text \<open>The counters of the other queue stay.\<close>

lemma bump_other: "bump what b d h h' \<Longrightarrow> k \<noteq> what @ ''_BYTES'' \<Longrightarrow> k \<noteq> what @ ''_COUNT'' \<Longrightarrow> h' k = h k"
  unfolding bump_def by (elim exE conjE) (simp only: fun_upd_apply if_False)

lemma row_counts_other:
  assumes "bump what b d h h'"
    and "what' @ ''_COUNT'' \<noteq> what @ ''_BYTES''" "what' @ ''_COUNT'' \<noteq> what @ ''_COUNT''"
    and "what' @ ''_BYTES'' \<noteq> what @ ''_BYTES''" "what' @ ''_BYTES'' \<noteq> what @ ''_COUNT''"
  shows "row_counts h' what' es = row_counts h what' es"
  by (simp only: row_counts_def counts_def bump_other[OF assms(1,2,3)] bump_other[OF assms(1,4,5)])

lemma entry_bytes_fields [simp]:
  "entry_bytes (i, receive_fields k n f) = int n" "entry_bytes (i, send_fields k n t) = int n"
  by (simp_all add: entry_bytes_def receive_fields_def send_fields_def)

subsection \<open>Queues\<close>

lemma entries_of [simp]: "as_stream ks q = Some (l, es) \<Longrightarrow> entries ks q = es"
  by (simp add: entries_def)

lemma drop_from_sorted:
  fixes es :: "(stream_id \<times> 'a) list"
  assumes "sorted_wrt (<) (map fst es)" "(i, f) \<in> set es"
  shows "\<exists>as bs. es = as @ (i, f) # bs \<and> filter (\<lambda>e. fst e \<noteq> i) es = as @ bs"
proof -
  from assms(2) obtain as bs where es: "es = as @ (i, f) # bs" by (meson split_list)
  have "fst e \<noteq> i" if "e \<in> set as \<or> e \<in> set bs" for e
    using assms(1) es that by (fastforce simp: sorted_wrt_append)
  then have "filter (\<lambda>e. fst e \<noteq> i) as = as" "filter (\<lambda>e. fst e \<noteq> i) bs = bs"
    by (auto simp: filter_id_conv)
  with es show ?thesis by auto
qed

lemma sorted_ids_unique:
  fixes es :: "(stream_id \<times> 'a) list"
  assumes "sorted_wrt (<) (map fst es)" "(i, f) \<in> set es" "(i, g) \<in> set es"
  shows "f = g"
proof -
  have "distinct (map fst es)" using assms(1) by (simp add: strict_sorted_iff)
  then show ?thesis using assms(2,3) by (rule eq_key_imp_eq_value)
qed

lemma stream_ok_append:
  assumes "as_stream ks q = Some (l, es)" "stream_ok ks q" "l < i" "as_stream ks' q = Some (i, es @ [(i, f)])"
  shows "stream_ok ks' q"
  using assms by (auto simp: stream_ok_def sorted_wrt_append intro: less_imp_le le_less_trans)

lemma stream_ok_filter:
  assumes "as_stream ks q = Some (l, es)" "stream_ok ks q" "as_stream ks' q = Some (l, filter P es)"
  shows "stream_ok ks' q"
  using assms by (auto simp: stream_ok_def sorted_wrt_map intro: sorted_wrt_filter)

lemma stream_ok_same: "as_stream ks' q = as_stream ks q \<Longrightarrow> stream_ok ks' q = stream_ok ks q"
  by (simp add: stream_ok_def)

lemma entries_same: "as_stream ks' q = as_stream ks q \<Longrightarrow> entries ks' q = entries ks q"
  by (simp add: entries_def)

subsection \<open>Storing keeps the invariant\<close>

text \<open>What storing does to the entries, key by key.\<close>

lemma store_views:
  assumes laws: "redis_laws R V"
    and s: "store_message_lua R key [msg, show_nat n, to_did, to, from_did, frm] db = (Ok rep, db')"
    and key: "CHR '':'' \<notin> set key"
  obtains l es i l' es' j hd hd' hs hs' time hm where
    "as_stream (V db) (receive_q to) = Some (l, es)" "l < i"
    "\<And>d. as_stream (V db') (receive_q d) =
       (if d = to then Some (i, es @ [(i, receive_fields key n from_did)]) else as_stream (V db) (receive_q d))"
    "as_stream (V db) (send_q frm) = Some (l', es')" "l' < j"
    "\<And>d. as_stream (V db') (send_q d) =
       (if d = frm then Some (j, es' @ [(j, send_fields key n to_did)]) else as_stream (V db) (send_q d))"
    "as_hash (V db) (did_row to) = Some hd" "bump ''RECEIVE_QUEUE'' (int n) 1 hd hd'"
    "bump ''SEND_QUEUE'' (int n) 1 hs hs'" "frm = to \<Longrightarrow> hs = hd'"
    "frm \<noteq> to \<Longrightarrow> as_hash (V db) (did_row frm) = Some hs"
    "\<And>d. as_hash (V db') (did_row d) =
       (if d = frm then Some hs' else if d = to then Some hd' else as_hash (V db) (did_row d))"
    "\<And>h. V db' (meta_key h) =
       (if h = key then Some (EHash (stored_meta n to time i frm j hm)) else V db (meta_key h))"
    "\<And>h. CHR '':'' \<notin> set h \<Longrightarrow>
       V db' (msg_key h) = (if h = key then Some (EStr msg) else V db (msg_key h))"
proof -
  note m = msg_key_meta_hash[OF key]
  from store_message_lua_Ok[OF laws s] obtain time i j l es l' es' hd hd' hs hs' hm where
    a: "as_stream (V db) (receive_q to) = Some (l, es)" "l < i"
     "as_stream (V db) (send_q frm) = Some (l', es')" "l' < j"
     "as_hash (V db) (did_row to) = Some hd" "bump ''RECEIVE_QUEUE'' (int n) 1 hd hd'"
     "frm \<noteq> to \<longrightarrow> as_hash (V db) (did_row frm) = Some hs" "frm = to \<longrightarrow> hs = hd'"
     "bump ''SEND_QUEUE'' (int n) 1 hs hs'" and
    v: "V db' = (V db)(msg_key key \<mapsto> EStr msg, ''GLOBAL'' := V db' ''GLOBAL'', ''MSG_EXPIRY'' := V db' ''MSG_EXPIRY'',
       did_row to \<mapsto> EHash hd', receive_q to \<mapsto> EStream i (es @ [(i, receive_fields key n from_did)]),
       did_row frm \<mapsto> EHash hs', send_q frm \<mapsto> EStream j (es' @ [(j, send_fields key n to_did)]),
       meta_key key \<mapsto> EHash (stored_meta n to time i frm j hm))"
    by metis
  define g where "g = V db' ''GLOBAL''"
  define ex where "ex = V db' ''MSG_EXPIRY''"
  note v = v[folded g_def ex_def]
  show thesis
    by (rule that[where time = time and hm = hm, OF a(1,2) _ a(3,4) _ a(5,6,9)])
       (use a(7,8) in \<open>simp_all add: fun_cong[OF v] as_stream_def as_hash_def m m[symmetric] msg_key_meta_hash\<close>)
qed


lemma meta_points_mono:
  assumes "meta_points ks key e"
    and "\<And>d. set (entries ks (receive_q d)) \<subseteq> set (entries ks' (receive_q d))"
    and "\<And>d. set (entries ks (send_q d)) \<subseteq> set (entries ks' (send_q d))"
  shows "meta_points ks' key e"
  using assms unfolding meta_points_def by blast

lemma mail_invD:
  assumes "mail_inv ks"
  shows "stream_ok ks (receive_q d)" "stream_ok ks (send_q d)"
    and "as_hash ks (did_row d) = Some h \<Longrightarrow> row_counts h ''RECEIVE_QUEUE'' (entries ks (receive_q d))"
    and "as_hash ks (did_row d) = Some h \<Longrightarrow> row_counts h ''SEND_QUEUE'' (entries ks (send_q d))"
    and "\<exists>h. as_hash ks (did_row d) = Some h"
    and "ks (meta_key key) = Some e \<Longrightarrow> meta_points ks key e"
  using assms unfolding mail_inv_def by (auto dest: spec[of _ d])

lemma store_keeps_inv:
  assumes laws: "redis_laws R V"
    and s: "store_message_lua R key [msg, show_nat n, to_did, to, from_did, frm] db = (Ok rep, db')"
    and key: "CHR '':'' \<notin> set key" and n: "0 < n" and inv: "mail_inv (V db)"
  shows "mail_inv (V db')"
proof (cases rule: store_views[OF laws s key])
  case (1 l es i l' es' j hd hd' hs hs' time hm)
  note rq = 1(1,2) and rq' = 1(3) and sq = 1(4,5) and sq' = 1(6) and hd = 1(7,8) and hs = 1(9-11)
    and row' = 1(12) and meta' = 1(13)
  note I = mail_invD[OF inv]
  have er: "entries (V db') (receive_q d) =
      (if d = to then es @ [(i, receive_fields key n from_did)] else entries (V db) (receive_q d))" for d
    by (simp add: entries_def rq')
  have es: "entries (V db') (send_q d) =
      (if d = frm then es' @ [(j, send_fields key n to_did)] else entries (V db) (send_q d))" for d
    by (simp add: entries_def sq')
  have "stream_ok (V db') (receive_q d)" for d
    using I(1)[of d] stream_ok_append[OF rq(1) I(1) rq(2), of "V db'"]
    by (cases "d = to") (simp_all add: stream_ok_def[of _ "receive_q d"] rq')
  moreover have "stream_ok (V db') (send_q d)" for d
    using I(2)[of d] stream_ok_append[OF sq(1) I(2) sq(2), of "V db'"]
    by (cases "d = frm") (simp_all add: stream_ok_def[of _ "send_q d"] sq')
  moreover have "\<exists>h. as_hash (V db') (did_row d) = Some h \<and>
      row_counts h ''RECEIVE_QUEUE'' (entries (V db') (receive_q d)) \<and>
      row_counts h ''SEND_QUEUE'' (entries (V db') (send_q d))" for d
  proof -
    have r: "row_counts hd' ''RECEIVE_QUEUE'' (entries (V db') (receive_q to))"
        "row_counts hd' ''SEND_QUEUE'' (entries (V db) (send_q to))"
      using row_counts_bump[OF hd(2), of es "entries (V db') (receive_q to)"] I(3)[OF hd(1)] rq(1)
        I(4)[OF hd(1)] row_counts_other[OF hd(2), of "''SEND_QUEUE''"] by (simp_all add: er)
    have f: "row_counts hs ''SEND_QUEUE'' es'" "row_counts hs ''RECEIVE_QUEUE'' (entries (V db') (receive_q frm))"
      using I(3,4)[OF hs(3)] hs(2) r sq(1) by (cases "frm = to"; simp add: er)+
    have "row_counts hs' ''SEND_QUEUE'' (entries (V db') (send_q frm))"
        "row_counts hs' ''RECEIVE_QUEUE'' (entries (V db') (receive_q frm))"
      using row_counts_bump[OF hs(1) f(1), of "entries (V db') (send_q frm)"] f(2)
        row_counts_other[OF hs(1), of "''RECEIVE_QUEUE''"] by (simp_all add: es)
    then show ?thesis
      using r I(3,4)[of d] I(5)[of d] by (auto simp: row' es er)
  qed
  moreover have "meta_points (V db') h e" if "V db' (meta_key h) = Some e" for h e
  proof (cases "h = key")
    case True
    with that have "e = EHash (stored_meta n to time i frm j hm)" by (simp add: meta')
    with True key n show ?thesis unfolding meta_points_def
      by (intro conjI exI[of _ "stored_meta n to time i frm j hm"] exI[of _ n] exI[of _ to] exI[of _ i]
          exI[of _ frm] exI[of _ j] exI[of _ from_did] exI[of _ to_did]) (simp_all add: er es)
  next
    case False
    with that have "meta_points (V db) h e" by (intro I(6)) (simp add: meta')
    then show ?thesis by (rule meta_points_mono) (use rq(1) sq(1) in \<open>auto simp: er es\<close>)
  qed
  ultimately show ?thesis by (simp add: mail_inv_def)
qed

subsection \<open>Deleting keeps the invariant\<close>

lemma drop_entry_simps [simp]:
  "as_stream (drop_entry q i ks) q' = (if q' = q
     then map_option (\<lambda>(l, es). (l, filter (\<lambda>e. fst e \<noteq> i) es)) (as_stream ks q) else as_stream ks q')"
  "as_hash (drop_entry q i ks) k = as_hash ks k"
  "k \<noteq> q \<Longrightarrow> drop_entry q i ks k = ks k"
  by (auto simp: drop_entry_def as_stream_def as_hash_def split: option.splits entry.splits)

lemma delete_views:
  assumes laws: "redis_laws R V"
    and d: "delete_message_lua R key did db = (Ok rep, db')"
    and meta: "V db (meta_key key) = Some (EHash hm)" "whole_meta hm n to i frm j" "0 < n"
    and key: "CHR '':'' \<notin> set key"
  obtains hd hd' hs hs' where
    "\<And>d. as_stream (V db') (receive_q d) =
       (if d = to then map_option (\<lambda>(l, es). (l, filter (\<lambda>e. fst e \<noteq> i) es)) (as_stream (V db) (receive_q to))
        else as_stream (V db) (receive_q d))"
    "\<And>d. as_stream (V db') (send_q d) =
       (if d = frm then map_option (\<lambda>(l, es). (l, filter (\<lambda>e. fst e \<noteq> j) es)) (as_stream (V db) (send_q frm))
        else as_stream (V db) (send_q d))"
    "as_hash (V db) (did_row to) = Some hd" "bump ''RECEIVE_QUEUE'' (- int n) (- 1) hd hd'"
    "bump ''SEND_QUEUE'' (- int n) (- 1) hs hs'" "frm = to \<Longrightarrow> hs = hd'"
    "frm \<noteq> to \<Longrightarrow> as_hash (V db) (did_row frm) = Some hs"
    "\<And>d. as_hash (V db') (did_row d) =
       (if d = frm then Some hs' else if d = to then Some hd' else as_hash (V db) (did_row d))"
    "\<And>h. V db' (meta_key h) = (if h = key then None else V db (meta_key h))"
    "\<And>h. CHR '':'' \<notin> set h \<Longrightarrow> V db' (msg_key h) = (if h = key then None else V db (msg_key h))"
    "rep = RStatus ''OK''"
proof -
  note m = msg_key_meta_hash[OF key]
  from delete_message_lua_Ok[OF laws d meta] obtain hd hd' hs hs' where
    a: "as_hash (V db) (did_row to) = Some hd" "bump ''RECEIVE_QUEUE'' (- int n) (- 1) hd hd'"
     "frm \<noteq> to \<longrightarrow> as_hash (V db) (did_row frm) = Some hs" "frm = to \<longrightarrow> hs = hd'"
     "bump ''SEND_QUEUE'' (- int n) (- 1) hs hs'" "rep = RStatus ''OK''" and
    v: "V db' = (drop_entry (send_q frm) j ((drop_entry (receive_q to) i
       ((V db)(msg_key key := None, ''GLOBAL'' := V db' ''GLOBAL'', did_row to \<mapsto> EHash hd')))
       (did_row frm \<mapsto> EHash hs')))(meta_key key := None)"
    by blast
  define g where "g = V db' ''GLOBAL''"
  note v = v[folded g_def]
  have g: "as_stream (ks(''GLOBAL'' := x)) (receive_q d) = as_stream ks (receive_q d)"
      "as_stream (ks(''GLOBAL'' := x)) (send_q d) = as_stream ks (send_q d)"
      "as_hash (ks(''GLOBAL'' := x)) (did_row d) = as_hash ks (did_row d)" for ks x d
    by (simp_all add: as_stream_def as_hash_def)
  have "V db' (meta_key h) = (if h = key then None else V db (meta_key h))" for h
    by (simp add: fun_cong[OF v, of "meta_key h"] m m[symmetric])
  moreover have "V db' (msg_key h) = (if h = key then None else V db (msg_key h))" if "CHR '':'' \<notin> set h" for h
    using msg_key_meta_hash[OF that] by (simp add: fun_cong[OF v, of "msg_key h"])
  moreover have "as_stream (V db') (receive_q d) =
       (if d = to then map_option (\<lambda>(l, es). (l, filter (\<lambda>e. fst e \<noteq> i) es)) (as_stream (V db) (receive_q to))
        else as_stream (V db) (receive_q d))" for d
    by (subst v) (simp add: g)
  moreover have "as_stream (V db') (send_q d) =
       (if d = frm then map_option (\<lambda>(l, es). (l, filter (\<lambda>e. fst e \<noteq> j) es)) (as_stream (V db) (send_q frm))
        else as_stream (V db) (send_q d))" for d
    by (subst v) (simp add: g)
  moreover have "as_hash (V db') (did_row d) =
       (if d = frm then Some hs' else if d = to then Some hd' else as_hash (V db) (did_row d))" for d
    by (subst v) (simp add: g)
  ultimately show thesis
    by (intro that[where hd = hd and hd' = hd' and hs = hs and hs' = hs']) (use a in simp_all)
qed

lemma delete_keeps_inv:
  assumes laws: "redis_laws R V"
    and d: "delete_message_lua R key did db = (Ok rep, db')"
    and inv: "mail_inv (V db)" and e: "V db (meta_key key) = Some e"
  shows "mail_inv (V db')"
proof -
  note I = mail_invD[OF inv]
  from I(6)[OF e] obtain hm n to i frm j from_did to_did where key: "CHR '':'' \<notin> set key" and
    m: "e = EHash hm" "whole_meta hm n to i frm j" "0 < n" and
    mi: "(i, receive_fields key n from_did) \<in> set (entries (V db) (receive_q to))" and
    mj: "(j, send_fields key n to_did) \<in> set (entries (V db) (send_q frm))"
    unfolding meta_points_def by blast
  from I(1)[of to] obtain l es where rq: "as_stream (V db) (receive_q to) = Some (l, es)" "sorted_wrt (<) (map fst es)"
    unfolding stream_ok_def by blast
  from I(2)[of frm] obtain l' es' where sq: "as_stream (V db) (send_q frm) = Some (l', es')" "sorted_wrt (<) (map fst es')"
    unfolding stream_ok_def by blast
  have mi': "(i, receive_fields key n from_did) \<in> set es" using mi rq by simp
  have mj': "(j, send_fields key n to_did) \<in> set es'" using mj sq by simp
  from drop_from_sorted[OF rq(2) mi'] obtain as bs where
    ab: "es = as @ (i, receive_fields key n from_did) # bs" "filter (\<lambda>e. fst e \<noteq> i) es = as @ bs" by blast
  from drop_from_sorted[OF sq(2) mj'] obtain as' bs' where
    ab': "es' = as' @ (j, send_fields key n to_did) # bs'" "filter (\<lambda>e. fst e \<noteq> j) es' = as' @ bs'" by blast
  show ?thesis
  proof (cases rule: delete_views[OF laws d e[unfolded m(1)] m(2,3) key])
    case (1 hd hd' hs hs')
    note rq' = 1(1) and sq' = 1(2) and hd = 1(3,4) and hs = 1(5-7) and row' = 1(8) and meta' = 1(9)
    have er: "entries (V db') (receive_q d) = (if d = to then as @ bs else entries (V db) (receive_q d))" for d
      by (simp add: entries_def rq' rq(1) ab(2))
    have es: "entries (V db') (send_q d) = (if d = frm then as' @ bs' else entries (V db) (send_q d))" for d
      by (simp add: entries_def sq' sq(1) ab'(2))
    have "stream_ok (V db') (receive_q d)" for d
      using I(1)[of d] stream_ok_filter[OF rq(1) I(1), of "V db'" "\<lambda>e. fst e \<noteq> i"]
      by (cases "d = to") (simp_all add: stream_ok_def[of _ "receive_q d"] rq' rq(1))
    moreover have "stream_ok (V db') (send_q d)" for d
      using I(2)[of d] stream_ok_filter[OF sq(1) I(2), of "V db'" "\<lambda>e. fst e \<noteq> j"]
      by (cases "d = frm") (simp_all add: stream_ok_def[of _ "send_q d"] sq' sq(1))
    moreover have "\<exists>h. as_hash (V db') (did_row d) = Some h \<and>
        row_counts h ''RECEIVE_QUEUE'' (entries (V db') (receive_q d)) \<and>
        row_counts h ''SEND_QUEUE'' (entries (V db') (send_q d))" for d
    proof -
      have r: "row_counts hd' ''RECEIVE_QUEUE'' (entries (V db') (receive_q to))"
          "row_counts hd' ''SEND_QUEUE'' (entries (V db) (send_q to))"
        using row_counts_bump[OF hd(2), of es "entries (V db') (receive_q to)"] I(3)[OF hd(1)] rq(1)
          I(4)[OF hd(1)] row_counts_other[OF hd(2), of "''SEND_QUEUE''"] by (simp_all add: er ab(1))
      have f: "row_counts hs ''SEND_QUEUE'' es'" "row_counts hs ''RECEIVE_QUEUE'' (entries (V db') (receive_q frm))"
        using I(3,4)[OF hs(3)] hs(2) r sq(1) by (cases "frm = to"; simp add: er)+
      have "row_counts hs' ''SEND_QUEUE'' (entries (V db') (send_q frm))"
          "row_counts hs' ''RECEIVE_QUEUE'' (entries (V db') (receive_q frm))"
        using row_counts_bump[OF hs(1) f(1), of "entries (V db') (send_q frm)"] f(2)
          row_counts_other[OF hs(1), of "''RECEIVE_QUEUE''"] by (simp_all add: es ab'(1))
      then show ?thesis
        using r I(3,4)[of d] I(5)[of d] by (auto simp: row' es er)
    qed
    moreover have "meta_points (V db') h e'" if h: "V db' (meta_key h) = Some e'" for h e'
    proof -
      from h have k: "h \<noteq> key" and "V db (meta_key h) = Some e'" by (simp_all add: meta' split: if_splits)
      from I(6)[OF this(2)] obtain hm2 n2 to2 i2 frm2 j2 fd td where m2: "CHR '':'' \<notin> set h" "e' = EHash hm2"
          "whole_meta hm2 n2 to2 i2 frm2 j2" "0 < n2"
          "(i2, receive_fields h n2 fd) \<in> set (entries (V db) (receive_q to2))"
          "(j2, send_fields h n2 td) \<in> set (entries (V db) (send_q frm2))"
        unfolding meta_points_def by blast
      have "to2 = to \<Longrightarrow> i2 \<noteq> i"
        using sorted_ids_unique[OF rq(2) mi', of "receive_fields h n2 fd"] m2(5) rq(1) k
        by (auto simp: receive_fields_def)
      then have "(i2, receive_fields h n2 fd) \<in> set (entries (V db') (receive_q to2))"
        using m2(5) rq(1) ab by (auto simp: er)
      moreover have "frm2 = frm \<Longrightarrow> j2 \<noteq> j"
        using sorted_ids_unique[OF sq(2) mj', of "send_fields h n2 td"] m2(6) sq(1) k
        by (auto simp: send_fields_def)
      then have "(j2, send_fields h n2 td) \<in> set (entries (V db') (send_q frm2))"
        using m2(6) sq(1) ab' by (auto simp: es)
      ultimately show ?thesis using m2(1-4) unfolding meta_points_def by blast
    qed
    ultimately show ?thesis by (simp add: mail_inv_def)
  qed
qed

end
