(* ===== verification/Mailbox.thy ===== *)
theory Mailbox
  imports MailInvariant "HOL-Library.Sublist"
begin

text \<open>
  The queues of the clients as mailboxes: the interface \<open>mailbox\<close> states what a client relies on,
  a message goes to the end of the box of its receiver and leaves the box when it is dropped, and
  what follows for every history of the boxes. The store of the mediator provides it.
\<close>

subsection \<open>The interface\<close>

datatype ('m, 'd) mail_event = Put 'm 'd | Drop 'm

fun replay :: "('m, 'd) mail_event list \<Rightarrow> 'd \<Rightarrow> 'm list \<Rightarrow> 'm list" where
  "replay [] d ms = ms"
| "replay (Put m d' # evs) d ms = replay evs d (if d' = d then ms @ [m] else ms)"
| "replay (Drop m # evs) d ms = replay evs d (filter (\<lambda>x. x \<noteq> m) ms)"

fun sent_to :: "'d \<Rightarrow> ('m, 'd) mail_event list \<Rightarrow> 'm list" where
  "sent_to d [] = []"
| "sent_to d (Put m d' # evs) = (if d' = d then m # sent_to d evs else sent_to d evs)"
| "sent_to d (Drop m # evs) = sent_to d evs"

lemma replay_in_order: "subseq (replay evs d ms) (ms @ sent_to d evs)"
proof (induction evs d ms rule: replay.induct)
  case (3 m evs d ms)
  have "subseq (filter (\<lambda>x. x \<noteq> m) ms @ sent_to d evs) (ms @ sent_to d evs)"
    by (simp add: list_emb_append_mono)
  with 3 show ?case by (auto intro: subseq_order.order_trans)
qed auto

lemma replay_keeps:
  "m \<in> set ms \<Longrightarrow> Drop m \<notin> set evs \<Longrightarrow> m \<in> set (replay evs d ms)"
  by (induction evs d ms rule: replay.induct) auto

lemma replay_put:
  "Put m d \<in> set evs \<Longrightarrow> Drop m \<notin> set evs \<Longrightarrow> m \<in> set (replay evs d ms)"
  by (induction evs d ms rule: replay.induct) (auto intro: replay_keeps)

inductive history ::
  "('m \<Rightarrow> 'd \<Rightarrow> 's \<Rightarrow> 's \<Rightarrow> bool) \<Rightarrow> ('m \<Rightarrow> 's \<Rightarrow> 's \<Rightarrow> bool) \<Rightarrow> ('m, 'd) mail_event list \<Rightarrow> 's \<Rightarrow> 's \<Rightarrow> bool"
  for put drop_msg where
  history_Nil: "history put drop_msg [] s s"
| history_put: "put m d s s' \<Longrightarrow> history put drop_msg evs s' s'' \<Longrightarrow> history put drop_msg (Put m d # evs) s s''"
| history_drop: "drop_msg m s s' \<Longrightarrow> history put drop_msg evs s' s'' \<Longrightarrow> history put drop_msg (Drop m # evs) s s''"

locale mailbox =
  fixes inbox :: "'s \<Rightarrow> 'd \<Rightarrow> 'm list"
    and put :: "'m \<Rightarrow> 'd \<Rightarrow> 's \<Rightarrow> 's \<Rightarrow> bool"
    and drop_msg :: "'m \<Rightarrow> 's \<Rightarrow> 's \<Rightarrow> bool"
    and wf :: "'s \<Rightarrow> bool"
  assumes put_inbox: "wf s \<Longrightarrow> put m d s s' \<Longrightarrow> inbox s' d' = (if d' = d then inbox s d @ [m] else inbox s d')"
    and put_wf: "wf s \<Longrightarrow> put m d s s' \<Longrightarrow> wf s'"
    and put_new: "wf s \<Longrightarrow> put m d s s' \<Longrightarrow> m \<notin> set (inbox s d')"
    and drop_inbox: "wf s \<Longrightarrow> drop_msg m s s' \<Longrightarrow> inbox s' d' = filter (\<lambda>x. x \<noteq> m) (inbox s d')"
    and drop_wf: "wf s \<Longrightarrow> drop_msg m s s' \<Longrightarrow> wf s'"
begin

lemma history_replay: "history put drop_msg evs s s' \<Longrightarrow> wf s \<Longrightarrow> inbox s' d = replay evs d (inbox s d) \<and> wf s'"
  by (induction rule: history.induct)
     (auto simp: put_inbox drop_inbox dest: put_wf drop_wf)

lemma history_in_order:
  "history put drop_msg evs s s' \<Longrightarrow> wf s \<Longrightarrow> subseq (inbox s' d) (inbox s d @ sent_to d evs)"
  using history_replay[of evs s s' d] by (simp add: replay_in_order)

lemma history_no_loss:
  "history put drop_msg evs s s' \<Longrightarrow> wf s \<Longrightarrow> Put m d \<in> set evs \<Longrightarrow> Drop m \<notin> set evs \<Longrightarrow> m \<in> set (inbox s' d)"
  using history_replay[of evs s s' d] by (simp add: replay_put)

lemma history_distinct:
  "history put drop_msg evs s s' \<Longrightarrow> wf s \<Longrightarrow> distinct (inbox s d) \<Longrightarrow> distinct (inbox s' d)"
proof (induction rule: history.induct)
  case (history_put m d' s s' evs s'')
  then show ?case using put_new[OF history_put.prems(1) history_put.hyps(1)]
    by (cases "d = d'") (auto simp: put_inbox dest: put_wf)
next
  case (history_drop m s s' evs s'')
  then show ?case by (auto simp: drop_inbox dest: drop_wf)
qed

end


subsection \<open>The store of the mediator\<close>

text \<open>The hashes that name messages and DIDs have no colon.\<close>

definition hex_digests :: "('k, 'c, 'w, 'z) med_ext_scheme \<Rightarrow> bool" where
  "hex_digests X \<longleftrightarrow> (\<forall>s. CHR '':'' \<notin> set (digest X s))"

definition msg_id_of :: "stream_id \<times> (string \<times> string) list \<Rightarrow> string" where
  "msg_id_of e = (case map_of (snd e) ''MSG_ID'' of Some k \<Rightarrow> k | None \<Rightarrow> [])"

definition inbox_of :: "keyspace \<Rightarrow> string \<Rightarrow> string list" where
  "inbox_of ks d = map msg_id_of (entries ks (receive_q d))"

text \<open>Every entry of a receive queue belongs to a message whose metadata points back to it.\<close>

definition linked_entry :: "keyspace \<Rightarrow> string \<Rightarrow> stream_id \<times> (string \<times> string) list \<Rightarrow> bool" where
  "linked_entry ks d e \<longleftrightarrow> (let m = msg_id_of e in CHR '':'' \<notin> set m \<and>
     (\<exists>h n frm j f s. ks (meta_key m) = Some (EHash h) \<and> whole_meta h n d (fst e) frm j \<and>
        snd e = receive_fields m n f \<and> ks (msg_key m) = Some (EStr s)))"

definition linked :: "keyspace \<Rightarrow> bool" where
  "linked ks \<longleftrightarrow> (\<forall>d. \<forall>e \<in> set (entries ks (receive_q d)). linked_entry ks d e)"

definition mail_wf :: "('k, 'c, 'w, 'z) med_ext_scheme \<Rightarrow> 'db redis \<Rightarrow> ('db \<Rightarrow> keyspace) \<Rightarrow> 'db \<Rightarrow> bool" where
  "mail_wf X R V db \<longleftrightarrow> redis_laws R V \<and> hex_digests X \<and> mail_inv (V db) \<and> linked (V db)"

text \<open>A new message of a sender, and a message that is deleted.\<close>

definition mail_put ::
  "('k, 'c, 'w, 'z) med_ext_scheme \<Rightarrow> 'db redis \<Rightarrow> ('db \<Rightarrow> keyspace) \<Rightarrow> string \<Rightarrow> string \<Rightarrow> 'db \<Rightarrow> 'db \<Rightarrow> bool" where
  "mail_put X R V m d db db' \<longleftrightarrow> (\<exists>sid msg to frm. msg \<noteq> [] \<and> m = digest X msg \<and> d = digest X to \<and>
     V db (meta_key m) = None \<and> store_message X R sid msg to (Some frm) db = (Ok m, db'))"

definition mail_drop :: "'db redis \<Rightarrow> string \<Rightarrow> 'db \<Rightarrow> 'db \<Rightarrow> bool" where
  "mail_drop R m db db' \<longleftrightarrow> (\<exists>sid did. delete_message R sid did m db = (Ok (), db'))"

lemma fcall_script:
  "fcall R conv err script db = (Ok x, db') \<Longrightarrow> \<exists>rep. script db = (Ok rep, db') \<and> conv (resp2 rep) = Inr x"
  by (auto simp: fcall_def effect_simps result_simps trans[OF eq_commute map_err_Ok_iff]
        dest!: get_async_connection_state)

lemma store_message_script:
  assumes "store_message X R sid msg to (Some frm) db = (Ok key, db')"
  shows "key = digest X msg"
    and "\<exists>rep. store_message_lua R (digest X msg)
       [msg, show_nat (length msg), to, digest X to, frm, digest X frm] db = (Ok rep, db')"
  using assms by (auto simp: store_message_def effect_simps Let_def dest!: fcall_script)

lemma delete_message_script:
  assumes "delete_message R sid did key db = (Ok (), db')"
  shows "\<exists>rep. delete_message_lua R key did db = (Ok rep, db')"
  using assms by (auto simp: delete_message_def effect_simps dest!: fcall_script)

text \<open>Only a message that is there can be deleted.\<close>

lemma deleted_was_there:
  assumes "redis_laws R V" "delete_message_lua R key did db = (Ok rep, db')"
  shows "\<exists>h. V db (meta_key key) = Some (EHash h)"
  using delete_lua_refused[OF assms(1) _ assms(2)] by (auto simp: message_owner_def)

lemma linkedD: "linked ks \<Longrightarrow> e \<in> set (entries ks (receive_q d)) \<Longrightarrow> linked_entry ks d e"
  unfolding linked_def by blast

lemma linked_entry_meta:
  "linked_entry ks d e \<Longrightarrow> \<exists>h n frm j. ks (meta_key (msg_id_of e)) = Some (EHash h) \<and> whole_meta h n d (fst e) frm j"
  unfolding linked_entry_def Let_def by blast

text \<open>An entry stays linked while the message and its metadata are what they were.\<close>

lemma linked_entry_same:
  assumes "linked_entry ks d e" "ks' (meta_key (msg_id_of e)) = ks (meta_key (msg_id_of e))"
    and "CHR '':'' \<notin> set (msg_id_of e) \<Longrightarrow> ks' (msg_key (msg_id_of e)) = ks (msg_key (msg_id_of e))"
  shows "linked_entry ks' d e"
  using assms unfolding linked_entry_def by (auto simp: Let_def)

lemma whole_meta_unique:
  "whole_meta h n d i frm j \<Longrightarrow> whole_meta h n' d' i' frm' j' \<Longrightarrow> d' = d \<and> i' = i"
  using show_id_inject by (auto simp: whole_meta_def)

lemma msg_id_of_receive [simp]: "msg_id_of (i, receive_fields k n f) = k"
  by (simp add: msg_id_of_def receive_fields_def)

lemma inbox_new: "linked ks \<Longrightarrow> ks (meta_key m) = None \<Longrightarrow> m \<notin> set (inbox_of ks d)"
  by (auto simp: inbox_of_def dest!: linkedD linked_entry_meta)

text \<open>Storing a new message, seen from the mailboxes.\<close>

lemma put_views:
  assumes laws: "redis_laws R V" and hex: "hex_digests X" and inv: "mail_inv (V db)" "linked (V db)"
    and put: "mail_put X R V m d db db'"
  shows "inbox_of (V db') d' = (if d' = d then inbox_of (V db) d @ [m] else inbox_of (V db) d')"
    and "mail_inv (V db')" "linked (V db')"
proof -
  from put obtain sid msg to frm where msg: "msg \<noteq> []" and m: "m = digest X msg" and d: "d = digest X to" and
    new: "V db (meta_key m) = None" and s: "store_message X R sid msg to (Some frm) db = (Ok m, db')"
    unfolding mail_put_def by blast
  from store_message_script(2)[OF s] obtain rep where
    lua: "store_message_lua R m [msg, show_nat (length msg), to, d, frm, digest X frm] db = (Ok rep, db')"
    unfolding m d by blast
  have key: "CHR '':'' \<notin> set m" using hex by (simp add: hex_digests_def m)
  show "mail_inv (V db')"
    by (rule store_keeps_inv[OF laws lua key _ inv(1)]) (use msg in simp)
  have "inbox_of (V db') d' = (if d' = d then inbox_of (V db) d @ [m] else inbox_of (V db) d') \<and> linked (V db')"
  proof (cases rule: store_views[OF laws lua key])
    case (1 l es i l' es' j hd hd' hs hs' time hm)
    have er: "entries (V db') (receive_q x) =
        (if x = d then entries (V db) (receive_q d) @ [(i, receive_fields m (length msg) frm)]
         else entries (V db) (receive_q x))" for x
      using 1(1,3) by (simp add: entries_def)
    have w: "whole_meta (stored_meta (length msg) d time i (digest X frm) j hm) (length msg) d i (digest X frm) j"
      by (simp add: whole_meta_def stored_meta_def)
    have "linked_entry (V db') x e" if "e \<in> set (entries (V db') (receive_q x))" for x e
    proof -
      from that consider (old) "e \<in> set (entries (V db) (receive_q x))"
        | (new) "x = d" "e = (i, receive_fields m (length msg) frm)"
        by (auto simp: er split: if_splits)
      then show ?thesis
      proof cases
        case old
        note l = linkedD[OF inv(2) old]
        from linked_entry_meta[OF l] new have "msg_id_of e \<noteq> m" by auto
        then show ?thesis by (intro linked_entry_same[OF l]) (simp_all add: 1(13,14))
      next
        case new
        show ?thesis unfolding new linked_entry_def Let_def
          using key by (simp add: 1(13,14)) (intro exI conjI, rule w, rule refl)
      qed
    qed
    then have "linked (V db')" unfolding linked_def by blast
    then show ?thesis by (simp add: inbox_of_def er)
  qed
  then show "inbox_of (V db') d' = (if d' = d then inbox_of (V db) d @ [m] else inbox_of (V db) d')"
      "linked (V db')" by blast+
qed

text \<open>Deleting a message takes it out of the one mailbox it is in.\<close>

lemma drop_views:
  assumes laws: "redis_laws R V" and inv: "mail_inv (V db)" "linked (V db)" and drop: "mail_drop R m db db'"
  shows "inbox_of (V db') d = filter (\<lambda>x. x \<noteq> m) (inbox_of (V db) d)"
    and "mail_inv (V db')" "linked (V db')"
proof -
  note I = mail_invD[OF inv(1)]
  from drop obtain sid did where "delete_message R sid did m db = (Ok (), db')"
    unfolding mail_drop_def by blast
  from delete_message_script[OF this] obtain rep where lua: "delete_message_lua R m did db = (Ok rep, db')" by blast
  from deleted_was_there[OF laws lua] obtain e where e: "V db (meta_key m) = Some e" by blast
  show "mail_inv (V db')" by (rule delete_keeps_inv[OF laws lua inv(1) e])
  from I(6)[OF e] obtain hm n to i frm j from_did to_did where key: "CHR '':'' \<notin> set m" and
    w: "e = EHash hm" "whole_meta hm n to i frm j" "0 < n" and
    mi: "(i, receive_fields m n from_did) \<in> set (entries (V db) (receive_q to))"
    unfolding meta_points_def by blast
  from I(1)[of to] have sorted: "sorted_wrt (<) (map fst (entries (V db) (receive_q to)))"
    unfolding stream_ok_def by auto
  have at: "fst x = i \<longleftrightarrow> msg_id_of x = m" if "x \<in> set (entries (V db) (receive_q to))" for x
  proof
    assume "fst x = i"
    with that have "(i, snd x) \<in> set (entries (V db) (receive_q to))" by (metis prod.collapse)
    from sorted_ids_unique[OF sorted mi this] show "msg_id_of x = m"
      by (metis msg_id_of_def msg_id_of_receive snd_conv)
  next
    assume "msg_id_of x = m"
    with linked_entry_meta[OF linkedD[OF inv(2) that]] e w(1,2) show "fst x = i" by (auto dest: whole_meta_unique)
  qed
  have other: "msg_id_of x \<noteq> m" if "x \<in> set (entries (V db) (receive_q y))" "y \<noteq> to" for x y
    using linked_entry_meta[OF linkedD[OF inv(2) that(1)]] e w(1,2) that(2) by (auto dest: whole_meta_unique)
  have "inbox_of (V db') d = filter (\<lambda>x. x \<noteq> m) (inbox_of (V db) d) \<and> linked (V db')"
  proof (cases rule: delete_views[OF laws lua e[unfolded w(1)] w(2,3) key])
    case (1 hd hd' hs hs')
    have "entries (V db') (receive_q y) = (if y = to then filter (\<lambda>x. fst x \<noteq> i) (entries (V db) (receive_q to))
        else entries (V db) (receive_q y))" for y
      using I(1)[of to] by (auto simp: entries_def 1(1) stream_ok_def split: option.splits)
    also have "\<dots> y = filter (\<lambda>x. msg_id_of x \<noteq> m) (entries (V db) (receive_q y))" for y
      using at other by (auto intro!: filter_cong filter_True[symmetric])
    finally have er: "entries (V db') (receive_q y) = filter (\<lambda>x. msg_id_of x \<noteq> m) (entries (V db) (receive_q y))" for y .
    have "linked (V db')" unfolding linked_def
      by (auto simp: er 1(9,10) intro!: linked_entry_same[OF linkedD[OF inv(2)]])
    then show ?thesis by (simp add: inbox_of_def er filter_map comp_def)
  qed
  then show "inbox_of (V db') d = filter (\<lambda>x. x \<noteq> m) (inbox_of (V db) d)" "linked (V db')" by blast+
qed

interpretation mail: mailbox "\<lambda>db. inbox_of (V db)" "mail_put X R V" "mail_drop R" "mail_wf X R V" for X R V
proof unfold_locales
  fix s m d s' d'
  assume wf: "mail_wf X R V s"
  note I = wf[unfolded mail_wf_def]
  show "inbox_of (V s') d' = (if d' = d then inbox_of (V s) d @ [m] else inbox_of (V s) d')"
      "mail_wf X R V s'" "m \<notin> set (inbox_of (V s) d')" if "mail_put X R V m d s s'"
    using I put_views[OF _ _ _ _ that] inbox_new that by (auto simp: mail_wf_def mail_put_def)
  show "inbox_of (V s') d' = filter (\<lambda>x. x \<noteq> m) (inbox_of (V s) d')" "mail_wf X R V s'"
    if "mail_drop R m s s'"
    using I drop_views[OF _ _ _ that] by (auto simp: mail_wf_def)
qed

end
