(* ===== verification/ReadProps.thy ===== *)
theory ReadProps
  imports Mailbox
begin

text \<open>
  Reading: what a single message, a page of an inbox and a listing are, in terms of the entries of
  the database, and that reading changes nothing there.
\<close>

subsection \<open>Fields of an element\<close>

lemma got_fold:
  assumes "distinct (map fst al)"
  shows "me_msg (fold got_field al m) = me_msg m"
    and "me_from_address (fold got_field al m) =
      (case map_of al ''FROM'' of Some v \<Rightarrow> Some v | None \<Rightarrow> me_from_address m)"
    and "me_to_address (fold got_field al m) =
      (case map_of al ''TO'' of Some v \<Rightarrow> Some v | None \<Rightarrow> me_to_address m)"
    and "me_size (fold got_field al m) =
      (case map_of al ''BYTES'' of Some v \<Rightarrow> parse_or_zero 64 v | None \<Rightarrow> me_size m)"
    and "me_msg_id (fold got_field al m) =
      (case map_of al ''MSG_ID'' of Some v \<Rightarrow> v | None \<Rightarrow> me_msg_id m)"
  using assms
  by (induction al arbitrary: m) (auto simp: got_field_def map_of_eq_None_iff[symmetric] split: option.splits)

lemma fetched_meta:
  "me_msg_id (fold fetched_field (map (\<lambda>(k, v). (''META_'' @ k, v)) al) m) = me_msg_id m"
  "me_msg (fold fetched_field (map (\<lambda>(k, v). (''META_'' @ k, v)) al) m) = me_msg m"
  by (induction al arbitrary: m) (auto simp: fetched_field_def)

subsection \<open>One message\<close>

text \<open>The statistics are never updated: the transaction is refused as a whole.\<close>

lemma send_stats_refused:
  assumes "redis_laws R V" "update_send_stats R n db = (r, db')"
  shows "V db' = V db \<and> (\<exists>e. r = Err e)"
  using assms(2)[unfolded update_send_stats_def]
proof (cases rule: commit_cases)
  case (failed e)
  then show ?thesis
    using redis_exec_malformed[OF assms(1), of "[[''HINCRBY'', ''GLOBAL'', ''SENT_BYTES'', show_int n],
      [''HINCRBY'', ''SENT_COUNT'', ''1'']]" db]
    by (auto simp: transaction_def malformed_def split: prod.splits sum.splits)
next
  case (committed reps)
  then show ?thesis
    using redis_exec_malformed[OF assms(1), of "[[''HINCRBY'', ''GLOBAL'', ''SENT_BYTES'', show_int n],
      [''HINCRBY'', ''SENT_COUNT'', ''1'']]" db]
    by (auto simp: transaction_def malformed_def split: prod.splits sum.splits)
qed simp


text \<open>What a transaction of a read of both keys of a message gives.\<close>

lemma message_transaction:
  assumes laws: "redis_laws R V"
    and t: "transaction R err [[''GET'', msg_key key], [''HGETALL'', meta_key key]] db = (r, db')"
  shows "V db' = V db \<and> ((\<exists>e. r = Err (err e)) \<or>
    (\<exists>al. distinct (map fst al) \<and> as_hash (V db) (meta_key key) = Some (map_of al) \<and>
      (V db (msg_key key) = None \<and> r = Ok [RNil, RArray (map RBulk (unpair al))] \<or>
       (\<exists>s. V db (msg_key key) = Some (EStr s) \<and> r = Ok [RBulk s, RArray (map RBulk (unpair al))]))))"
proof -
  have s: "list_all sent [[''GET'', msg_key key], [''HGETALL'', meta_key key]]"
    by (auto intro: sent.intros)
  have "V db' = V db" using transaction_some[OF laws s t]
    by (auto simp: run_some_simps get_iff hgetall_iff)
  moreover have "(\<exists>e. r = Err (err e)) \<or> (\<exists>reps. r = Ok reps)" using t
    by (auto simp: transaction_def split: prod.splits sum.splits)
  moreover have "\<exists>al. distinct (map fst al) \<and> as_hash (V db) (meta_key key) = Some (map_of al) \<and>
      (V db (msg_key key) = None \<and> reps = [RNil, RArray (map RBulk (unpair al))] \<or>
       (\<exists>s. V db (msg_key key) = Some (EStr s) \<and> reps = [RBulk s, RArray (map RBulk (unpair al))]))"
    if "r = Ok reps" for reps
    using transaction_Ok[OF laws s t[unfolded that]]
    by (auto simp: run_all_simps get_iff hgetall_iff resp2_hash_reply)
  ultimately show ?thesis by blast
qed

lemma conversionD:
  assumes "conversion_laws R"
  shows "rv_string R (RBulk s) = Inr s" "rv_string R (RStatus s) = Inr s"
    and "rv_strings R (RArray (map RBulk ss)) = Inr ss" "rv_values R (RArray rs) = Inr rs"
  using assms by (auto simp: conversion_laws_def)

text \<open>Every outcome of reading a message. The database is what it was.\<close>

lemma get_message_cases:
  assumes laws: "redis_laws R V" and conv: "conversion_laws R" and g: "get_message R did key db = (r, db')"
  shows "V db' = V db \<and> ((\<exists>e. r = Err (DatabaseError ''NA'' e)) \<or>
    (\<exists>al. distinct (map fst al) \<and> as_hash (V db) (meta_key key) = Some (map_of al) \<and>
      (V db (msg_key key) = None \<and> r = Err (DatabaseError did (''Message not found for ID: '' @ key)) \<or>
       (\<exists>s. V db (msg_key key) = Some (EStr s) \<and>
          r = (let m = got_element key s (unpair al) in
               if owned_by did m then Ok m
               else Err (DatabaseError did (''Message not found for DID: '' @ did)))))))"
proof -
  obtain rc d1 where c: "get_async_connection R db = (rc, d1)" by (cases "get_async_connection R db")
  have d1: "d1 = db" using get_async_connection_state[OF c] .
  show ?thesis
  proof (cases rc)
    case (Err e)
    moreover from c Err have "\<exists>e'. e = DatabaseError ''NA'' e'"
      by (auto simp: get_async_connection_def split: sum.splits)
    ultimately show ?thesis using g c d1 by (auto simp: get_message_def eff_then_app)
  next
    case Panic
    with c show ?thesis by simp
  next
    case (Ok u)
    obtain rt d2 where t: "transaction R (get_error key) [[''GET'', msg_key key], [''HGETALL'', meta_key key]] db = (rt, d2)"
      by (cases "transaction R (get_error key) [[''GET'', msg_key key], [''HGETALL'', meta_key key]] db")
    note T = message_transaction[OF laws t]
    from T consider (failed) e where "V d2 = V db" "rt = Err (get_error key e)"
      | (missing) al where "V d2 = V db" "distinct (map fst al)" "as_hash (V db) (meta_key key) = Some (map_of al)"
          "V db (msg_key key) = None" "rt = Ok [RNil, RArray (map RBulk (unpair al))]"
      | (there) al s where "V d2 = V db" "distinct (map fst al)" "as_hash (V db) (meta_key key) = Some (map_of al)"
          "V db (msg_key key) = Some (EStr s)" "rt = Ok [RBulk s, RArray (map RBulk (unpair al))]"
      by blast
    then show ?thesis
    proof cases
      case failed
      with g c Ok d1 t show ?thesis
        by (auto simp: get_message_def eff_then_app get_error_def)
    next
      case missing
      with g c Ok d1 t show ?thesis
        by (auto simp: get_message_def eff_then_app Let_def conversionD[OF conv])
    next
      case there
      define m where "m = got_element key s (unpair al)"
      obtain ru d3 where u: "update_send_stats R (sint (word_of_nat (me_size m) :: u64)) d2 = (ru, d3)"
        by (cases "update_send_stats R (sint (word_of_nat (me_size m) :: u64)) d2")
      from send_stats_refused[OF laws u] obtain e where "V d3 = V d2" "ru = Err e" by blast
      with there u g c Ok d1 t have "V db' = V db \<and> r = (if owned_by did m then Ok m
               else Err (DatabaseError did (''Message not found for DID: '' @ did)))"
        by (auto simp: get_message_def eff_then_app eff_match_def Let_def conversionD[OF conv]
              m_def[symmetric] split: if_splits)
      with there show ?thesis by (auto simp: m_def)
    qed
  qed
qed

lemma got_element_sel:
  assumes "distinct (map fst al)"
  shows "me_msg (got_element key s (unpair al)) = Some s"
    and "me_from_address (got_element key s (unpair al)) = map_of al ''FROM''"
    and "me_to_address (got_element key s (unpair al)) = map_of al ''TO''"
    and "me_size (got_element key s (unpair al)) =
      (case map_of al ''BYTES'' of Some v \<Rightarrow> parse_or_zero 64 v | None \<Rightarrow> 0)"
    and "me_msg_id (got_element key s (unpair al)) = (case map_of al ''MSG_ID'' of Some v \<Rightarrow> v | None \<Rightarrow> key)"
  by (simp_all add: got_element_def got_fold[OF assms] empty_element_def split: option.splits)

text \<open>The metadata of a message that was stored now, as a client reads it.\<close>

lemma owned_by_owner:
  assumes "distinct (map fst al)" "as_hash ks (meta_key key) = Some (map_of al)" "did \<noteq> []"
  shows "owned_by did (got_element key s (unpair al)) = message_owner ks key did"
  using assms by (auto simp: owned_by_def got_element_sel message_owner_def as_hash_def split: option.splits entry.splits)

subsection \<open>A page of an inbox\<close>

text \<open>What the script gives for one entry of the queue.\<close>

definition fetched_texts ::
  "string \<Rightarrow> string \<Rightarrow> string \<Rightarrow> string \<Rightarrow> (string \<times> string) list \<Rightarrow> string list" where
  "fetched_texts sid key frm s al =
     [''STREAM_ID'', sid, ''MSG_ID'', key, ''FROM_DID'', frm, ''MSG'', s] @
     unpair (map (\<lambda>(k, v). (''META_'' @ k, v)) al)"

definition fetched_as :: "keyspace \<Rightarrow> stream_id \<times> (string \<times> string) list \<Rightarrow> reply \<Rightarrow> bool" where
  "fetched_as ks e r \<longleftrightarrow> (\<exists>sid frm s al. r = RArray (map RBulk (fetched_texts sid (msg_id_of e) frm s al)) \<and>
     ks (msg_key (msg_id_of e)) = Some (EStr s))"

lemma call_get:
  assumes "redis_laws R V" "call R [''GET'', k] db = (Ok r, db')"
  shows "V db' = V db \<and> (V db k = None \<and> r = RNil \<or> (\<exists>s. V db k = Some (EStr s) \<and> r = RBulk s))"
proof -
  have "redis_command [''GET'', k] (V db) r (V db')"
    by (rule call_Ok[OF assms(1) _ assms(2)]) (rule sent.intros, simp)
  then show ?thesis by (auto simp: get_iff)
qed

lemma lua_strings_array: "lua_strings (RArray (map RBulk ss)) = Ok ss"
  by (induction ss) (auto simp: lua_strings_def lua_array_def lua_string_def)

lemma fetched_message_Ok:
  assumes laws: "redis_laws R V" and linked: "linked_entry (V db) d e"
    and f: "fetched_message R (entry_reply e) acc db = (Ok acc', db')"
  shows "V db' = V db \<and> (\<exists>r. acc' = acc @ [r] \<and> fetched_as (V db) e r)"
proof -
  let ?m = "msg_id_of e"
  from linked obtain n frm s where fvs: "snd e = receive_fields ?m n frm" and msg: "V db (msg_key ?m) = Some (EStr s)"
    unfolding linked_entry_def Let_def by blast
  have u: "unpair (snd e) = [''MSG_ID'', ?m, ''BYTES'', show_nat n, ''FROM'', frm]"
    using fvs by (simp add: receive_fields_def)
  have sub: "lua_strings (RArray (map RBulk (unpair (snd e)))) = Ok (unpair (snd e))"
    by (rule lua_strings_array)
  from f obtain rest where rest: "fetched_fields R (unpair (snd e)) db = (Ok rest, db')"
      and acc: "acc' = acc @ [RArray (map RBulk (''STREAM_ID'' # show_id (fst e) # rest))]"
    by (auto simp: fetched_message_def entry_reply_def lua_array_def effect_simps sub)
  from rest obtain r1 r2 al d1 ms where c1: "call R [''GET'', msg_key ?m] db = (Ok r1, d1)"
      and c2: "call R [''HGETALL'', meta_key ?m] d1 = (Ok r2, db')" and al: "lua_map r2 = Ok al"
      and ms: "(case r1 of RNil \<Rightarrow> Ok [] | r \<Rightarrow> and_then (lua_string r) (\<lambda>s. Ok [s])) = Ok ms"
      and out: "rest = [''MSG_ID'', ?m, ''FROM_DID'', frm, ''MSG''] @ ms @ unpair (map (\<lambda>(k, v). (''META_'' @ k, v)) al)"
    by (auto simp: fetched_fields_def u effect_simps lua_index_def)
  from call_get[OF laws c1] msg have r1: "V d1 = V db" "r1 = RBulk s" by auto
  from call_hgetall[OF laws c2] r1 have "V db' = V db" by simp
  moreover have "ms = [s]" using ms r1(2) by (simp add: lua_string_def)
  then have eq: "''STREAM_ID'' # show_id (fst e) # rest = fetched_texts (show_id (fst e)) ?m frm s al"
    by (simp add: out fetched_texts_def)
  have "fetched_as (V db) e (RArray (map RBulk (fetched_texts (show_id (fst e)) ?m frm s al)))"
    unfolding fetched_as_def by (intro exI conjI) (rule refl, rule msg)
  with acc[unfolded eq] calculation show ?thesis by blast
qed

lemma fetched_messages_Ok:
  assumes laws: "redis_laws R V"
  shows "list_all (linked_entry (V db) d) es \<Longrightarrow>
    eff_each (fetched_message R) (map entry_reply es) acc db = (Ok acc', db') \<Longrightarrow>
    V db' = V db \<and> (\<exists>rs. acc' = acc @ rs \<and> list_all2 (fetched_as (V db)) es rs)"
proof (induction es arbitrary: acc db)
  case (Cons e es)
  from Cons.prems(2) obtain acc1 d1 where f: "fetched_message R (entry_reply e) acc db = (Ok acc1, d1)"
      and g: "eff_each (fetched_message R) (map entry_reply es) acc1 d1 = (Ok acc', db')"
    by (auto simp: effect_simps)
  from fetched_message_Ok[OF laws _ f] Cons.prems(1) obtain r where
    r: "V d1 = V db" "acc1 = acc @ [r]" "fetched_as (V db) e r" by auto
  from Cons.IH[OF _ g] Cons.prems(1) r(1) obtain rs where
    "V db' = V db" "acc' = acc1 @ rs" "list_all2 (fetched_as (V db)) es rs" by auto
  with r show ?case by auto
qed (simp add: effect_simps)

text \<open>What the client makes of it: one element for each entry.\<close>

lemma resp2_texts: "resp2 (RArray (map RBulk ss)) = RArray (map RBulk ss)"
  by simp

lemma fetched_element_texts:
  "me_msg_id (fetched_element (fetched_texts sid key frm s al)) = key"
  "me_msg (fetched_element (fetched_texts sid key frm s al)) = Some s"
  by (simp_all add: fetched_element_def fetched_texts_def fetched_field_def[of "(_, _)"] fetched_meta[simplified])

definition element_of :: "keyspace \<Rightarrow> stream_id \<times> (string \<times> string) list \<Rightarrow> message_element \<Rightarrow> bool" where
  "element_of ks e m \<longleftrightarrow> me_msg_id m = msg_id_of e \<and> ks (msg_key (msg_id_of e)) = map_option EStr (me_msg m)"

lemma fetch_item_Ok:
  assumes "conversion_laws R" "fetched_as ks e r" "policy \<noteq> Optimistic"
  shows "\<exists>m. fetch_item R sid did policy (resp2 r) acc db =
     (Ok (acc\<lparr>gm_success := gm_success acc @ [m]\<rparr>), db) \<and> element_of ks e m"
proof -
  from assms(2) obtain i frm s al where r: "r = RArray (map RBulk (fetched_texts i (msg_id_of e) frm s al))"
    and msg: "ks (msg_key (msg_id_of e)) = Some (EStr s)" unfolding fetched_as_def by blast
  have "rv_strings R (resp2 r) = Inr (fetched_texts i (msg_id_of e) frm s al)"
    unfolding r resp2_texts by (rule conversionD[OF assms(1)])
  then show ?thesis using assms(3) msg
    by (intro exI[of _ "fetched_element (fetched_texts i (msg_id_of e) frm s al)"])
       (simp add: fetch_item_def Let_def element_of_def fetched_element_texts)
qed

lemma fetch_items_Ok:
  assumes conv: "conversion_laws R" and "policy \<noteq> Optimistic"
  shows "list_all2 (fetched_as ks) es rs \<Longrightarrow>
    \<exists>ms. eff_each (fetch_item R sid did policy) (map resp2 rs) acc db =
       (Ok (acc\<lparr>gm_success := gm_success acc @ ms\<rparr>), db) \<and> list_all2 (element_of ks) es ms"
proof (induction es rs arbitrary: acc rule: list_all2_induct)
  case (Cons e es r rs)
  from fetch_item_Ok[OF conv Cons.hyps(1) assms(2)] obtain m where
    m: "fetch_item R sid did policy (resp2 r) acc db = (Ok (acc\<lparr>gm_success := gm_success acc @ [m]\<rparr>), db)"
       "element_of ks e m" by blast
  from Cons.IH[of "acc\<lparr>gm_success := gm_success acc @ [m]\<rparr>"] obtain ms where
    "eff_each (fetch_item R sid did policy) (map resp2 rs) (acc\<lparr>gm_success := gm_success acc @ [m]\<rparr>) db =
       (Ok (acc\<lparr>gm_success := gm_success acc @ m # ms\<rparr>), db)" "list_all2 (element_of ks) es ms" by auto
  with m show ?case by (intro exI[of _ "m # ms"]) (simp add: eff_then_def)
qed simp

text \<open>The entries a client asks for: those after the id it has seen last.\<close>

definition page :: "nat \<Rightarrow> stream_id option \<Rightarrow> (stream_id \<times> 'a) list \<Rightarrow> (stream_id \<times> 'a) list" where
  "page n seen es = take n (case seen of None \<Rightarrow> es | Some i \<Rightarrow> filter (\<lambda>e. i < fst e) es)"

definition id_fits :: "stream_id \<Rightarrow> bool" where
  "id_fits i \<longleftrightarrow> sid_ms i < 2 ^ 64 \<and> sid_seq i < 2 ^ 64"

lemma parse_show_id: "id_fits i \<Longrightarrow> parse_id (show_id i) = Some i"
  by (cases i) (simp add: parse_id_def show_id_def id_fits_def split_once_append show_nat_no_dash parse_nat_show)

lemma page_range:
  assumes "case seen of None \<Rightarrow> True | Some i \<Rightarrow> id_fits i"
  shows "\<exists>p. range_start (let s = (case map_option show_id seen of Some s \<Rightarrow> s | None \<Rightarrow> ''-'') in
      if s \<noteq> ''-'' then CHR ''('' # s else ''-'') = Some p \<and>
      (\<forall>n es. take n (filter (\<lambda>e. p (fst e)) es) = page n seen (es :: (stream_id \<times> 'a) list))"
proof (cases seen)
  case None
  then show ?thesis by (simp add: range_start_def page_def)
next
  case (Some i)
  have "show_id i \<noteq> ''-''" by (simp add: show_id_def append_eq_Cons_conv)
  with Some assms show ?thesis by (simp add: range_start_def parse_show_id page_def)
qed

lemma call_xrange:
  assumes "redis_laws R V" "call R [''XRANGE'', k, s, ''+'', ''COUNT'', show_nat n] db = (Ok r, db')"
    and "range_start s = Some p" "0 < n"
  shows "V db' = V db \<and> (\<exists>l es. as_stream (V db) k = Some (l, es) \<and>
     r = RArray (map entry_reply (take n (filter (\<lambda>e. p (fst e)) es))))"
proof -
  have "redis_command [''XRANGE'', k, s, ''+'', ''COUNT'', show_nat n] (V db) r (V db')"
    by (rule call_Ok[OF assms(1) _ assms(2)]) (rule sent.intros, use assms(3,4) in simp_all)
  then show ?thesis using assms(3) by (auto simp: xrange_iff dest!: show_nat_inject)
qed

lemma page_subset: "set (page n seen es) \<subseteq> set es"
  by (auto simp: page_def split: option.splits dest: in_set_takeD)

lemma fetch_script_Ok:
  assumes laws: "redis_laws R V" and linked: "linked (V db)"
    and n: "0 < n" and seen: "case seen of None \<Rightarrow> True | Some i \<Rightarrow> id_fits i"
    and f: "fetch_messages_lua R did (case map_option show_id seen of Some s \<Rightarrow> s | None \<Rightarrow> ''-'') (show_nat n) db =
      (Ok r, db')"
  shows "V db' = V db \<and> (\<exists>rs. r = RArray rs \<and>
     list_all2 (fetched_as (V db)) (page n seen (entries (V db) (receive_q did))) rs)"
proof -
  let ?start = "case map_option show_id seen of Some s \<Rightarrow> s | None \<Rightarrow> ''-''"
  from f obtain r0 d0 xs ms where
    c: "call R [''XRANGE'', receive_q did, if ?start \<noteq> ''-'' then CHR ''('' # ?start else ''-'', ''+'', ''COUNT'', show_nat n] db = (Ok r0, d0)"
    and xs: "lua_array r0 = Ok xs" and e: "eff_each (fetched_message R) xs [] d0 = (Ok ms, db')" and r: "r = RArray ms"
    unfolding fetch_messages_lua_def by (auto simp only: effect_simps result.inject prod.inject eq_commute[of "lua_array _"])
  from page_range[OF seen, unfolded Let_def] obtain p where
    p: "range_start (if ?start \<noteq> ''-'' then CHR ''('' # ?start else ''-'') = Some p"
       "\<And>es. take n (filter (\<lambda>e. p (fst e)) es) = page n seen (es :: (stream_id \<times> (string \<times> string) list) list)"
    by blast
  from call_xrange[OF laws c p(1) n] obtain l es where v: "V d0 = V db"
      "as_stream (V db) (receive_q did) = Some (l, es)" "r0 = RArray (map entry_reply (page n seen es))"
    unfolding p(2) by blast
  with xs have xs: "xs = map entry_reply (page n seen es)" by (simp add: lua_array_def)
  have "list_all (linked_entry (V d0) did) (page n seen es)"
    using linked page_subset[of n seen es] v(1,2) unfolding linked_def by (auto simp: list_all_iff)
  from fetched_messages_Ok[OF laws this e[unfolded xs]] v r show ?thesis by auto
qed

text \<open>What fetching without deleting gives.\<close>

lemma fetched_page:
  assumes "redis_laws R V" "conversion_laws R" "linked (V db)"
    and "0 < n" "case seen of None \<Rightarrow> True | Some i \<Rightarrow> id_fits i" "policy \<noteq> Optimistic"
    and "fetch_messages R sid did \<lparr>fo_limit = n, fo_start_id = map_option show_id seen, fo_delete_policy = policy\<rparr> db =
      (Ok resp, db')"
  shows "V db' = V db \<and> gm_get_errors resp = [] \<and> gm_delete_errors resp = [] \<and>
    list_all2 (element_of (V db)) (page n seen (entries (V db) (receive_q did))) (gm_success resp)"
proof -
  let ?start = "case map_option show_id seen of Some s \<Rightarrow> s | None \<Rightarrow> ''-''"
  from assms(7) obtain results d1 rep where
    s: "fetch_messages_lua R did ?start (show_nat n) db = (Ok rep, d1)" and
    c: "rv_values R (resp2 rep) = Inr results" and
    e: "eff_each (fetch_item R sid did policy) results \<lparr>gm_success = [], gm_get_errors = [], gm_delete_errors = []\<rparr> d1 =
      (Ok resp, db')"
    by (auto simp: fetch_messages_def effect_simps Let_def dest!: fcall_script)
  from fetch_script_Ok[OF assms(1,3,4,5) s] obtain rs where v: "V d1 = V db" "rep = RArray rs"
      "list_all2 (fetched_as (V db)) (page n seen (entries (V db) (receive_q did))) rs" by blast
  have "results = map resp2 rs" using c conversionD(4)[OF assms(2)] by (simp add: v(2))
  with fetch_items_Ok[OF assms(2,6) v(3), of sid did "\<lparr>gm_success = [], gm_get_errors = [], gm_delete_errors = []\<rparr>" d1] e v
  show ?thesis by auto
qed

text \<open>C22: fetching without deleting gives exactly the page of the inbox that follows the last id
  the client has seen, oldest message first, each with the text that is stored, reports no error
  and leaves the database as it is.\<close>

theorem fetch_pages_the_inbox:
  assumes "redis_laws R V" "conversion_laws R" "linked (V db)"
    and "0 < n" "case seen of None \<Rightarrow> True | Some i \<Rightarrow> id_fits i" "policy \<noteq> Optimistic"
    and "fetch_messages R sid did \<lparr>fo_limit = n, fo_start_id = map_option show_id seen, fo_delete_policy = policy\<rparr> db =
      (Ok resp, db')"
  shows "V db' = V db \<and> gm_get_errors resp = [] \<and> gm_delete_errors resp = [] \<and>
    list_all2 (element_of (V db)) (page n seen (entries (V db) (receive_q did))) (gm_success resp)"
  using assms by (rule fetched_page)

text \<open>Page after page, the inbox comes out completely and in order.\<close>

lemma page_next:
  fixes es :: "(stream_id \<times> 'a) list"
  assumes "sorted_wrt (<) (map fst es)" "page n None es \<noteq> []" "length (page n None es) = n"
  shows "page n None es @ page m (Some (fst (last (page n None es)))) es = page (n + m) None es"
proof -
  let ?as = "take n es" and ?bs = "drop n es"
  let ?i = "fst (last ?as)"
  have as: "?as \<noteq> []" using assms(2) by (simp add: page_def)
  then have l: "last ?as \<in> set ?as" by (rule last_in_set)
  have s: "sorted_wrt (\<lambda>x y. fst x < fst y) (?as @ ?bs)" using assms(1) by (simp add: sorted_wrt_map)
  have "\<not> ?i < fst e" if "e \<in> set ?as" for e
  proof -
    from as obtain xs x where x: "?as = xs @ [x]" by (metis append_butlast_last_id)
    with s have "e = x \<or> fst e < fst x" using that by (auto simp: sorted_wrt_append)
    with x show ?thesis by auto
  qed
  moreover have "?i < fst e" if "e \<in> set ?bs" for e
    using s[unfolded sorted_wrt_append] l that by blast
  ultimately have "filter (\<lambda>e. ?i < fst e) (?as @ ?bs) = ?bs"
    by (auto simp: filter_empty_conv simp del: append_take_drop_id)
  then show ?thesis by (simp add: page_def take_add)
qed

end
