(* ===== verification/MailProps.thy ===== *)
theory MailProps
  imports ReadProps
begin

text \<open>
  What the clients can rely on: the counters of a DID tell what is in its queues, messages come
  out of a mailbox in the order in which they went in, a stored message is read back as it was
  sent, and nobody reads a message of others.
\<close>

subsection \<open>Every reachable state\<close>

text \<open>
  The states of the store after a history of calls that were completed: nothing is stored at the
  beginning; then messages of a sender are stored (the mediator names itself as the sender of all
  it stores), messages are deleted, and the rest of the mediator, with the calls that are refused
  before they write, leaves these keys as they are. A script that a command stops midway is not in
  such a history: it leaves what it has written, which are the counters before the entry.
\<close>

definition same_mail :: "keyspace \<Rightarrow> keyspace \<Rightarrow> bool" where
  "same_mail ks ks' \<longleftrightarrow> (\<forall>d. ks' (receive_q d) = ks (receive_q d) \<and> ks' (send_q d) = ks (send_q d) \<and>
     ks' (did_row d) = ks (did_row d) \<and> ks' (meta_key d) = ks (meta_key d))"

inductive mail_reach ::
  "('k, 'c, 'w, 'z) med_ext_scheme \<Rightarrow> 'db redis \<Rightarrow> ('db \<Rightarrow> keyspace) \<Rightarrow> 'db \<Rightarrow> bool"
  for X R V where
  no_mail: "same_mail Map.empty (V db) \<Longrightarrow> mail_reach X R V db"
| mail_stored: "mail_reach X R V db \<Longrightarrow> msg \<noteq> [] \<Longrightarrow>
    store_message X R sid msg to (Some frm) db = (Ok key, db') \<Longrightarrow> mail_reach X R V db'"
| mail_deleted: "mail_reach X R V db \<Longrightarrow> delete_message R sid did key db = (Ok (), db') \<Longrightarrow>
    mail_reach X R V db'"
| mail_untouched: "mail_reach X R V db \<Longrightarrow> same_mail (V db) (V db') \<Longrightarrow> mail_reach X R V db'"

lemma mail_inv_same:
  assumes "same_mail ks ks'" shows "mail_inv ks' = mail_inv ks"
proof -
  have "as_stream ks' (receive_q d) = as_stream ks (receive_q d)" "as_stream ks' (send_q d) = as_stream ks (send_q d)"
      "as_hash ks' (did_row d) = as_hash ks (did_row d)" "ks' (meta_key d) = ks (meta_key d)" for d
    using assms by (simp_all add: same_mail_def as_stream_def as_hash_def)
  then show ?thesis
    by (simp add: mail_inv_def meta_points_def stream_ok_def entries_def)
qed

lemma mail_inv_empty: "mail_inv Map.empty"
  by (simp add: mail_inv_def stream_ok_def entries_def as_stream_def as_hash_def row_counts_def counts_def)

lemma mail_reach_inv: "mail_reach X R V db \<Longrightarrow> redis_laws R V \<Longrightarrow> hex_digests X \<Longrightarrow> mail_inv (V db)"
proof (induction rule: mail_reach.induct)
  case (no_mail db)
  then show ?case using mail_inv_same mail_inv_empty by blast
next
  case (mail_stored db msg sid to frm key db')
  from store_message_script(2)[OF mail_stored.hyps(3)] obtain rep where
    "store_message_lua R (digest X msg) [msg, show_nat (length msg), to, digest X to, frm, digest X frm] db = (Ok rep, db')"
    by blast
  from store_keeps_inv[OF _ this] mail_stored show ?case by (simp add: hex_digests_def)
next
  case (mail_deleted db sid did key db')
  from delete_message_script[OF mail_deleted.hyps(2)] obtain rep where
    d: "delete_message_lua R key did db = (Ok rep, db')" by blast
  from deleted_was_there[OF mail_deleted.prems(1) d] obtain h where "V db (meta_key key) = Some (EHash h)" by blast
  with delete_keeps_inv[OF mail_deleted.prems(1) d] mail_deleted show ?case by blast
next
  case (mail_untouched db db')
  then show ?case using mail_inv_same by blast
qed

text \<open>C16: after every history of completed stores (of messages that are not empty, each with a
  sender) and completed deletions, in any order, the queues are in the order of their ids and the
  counters of a DID are exactly the number and the bytes of the entries of its two queues. Nothing
  is said of the states after a store or a deletion that failed midway.\<close>

theorem counters_tell_the_queues:
  assumes "mail_reach X R V db" "redis_laws R V" "hex_digests X"
  shows "stream_ok (V db) (receive_q d) \<and> stream_ok (V db) (send_q d) \<and>
    (\<exists>h. as_hash (V db) (did_row d) = Some h \<and>
       row_counts h ''RECEIVE_QUEUE'' (entries (V db) (receive_q d)) \<and>
       row_counts h ''SEND_QUEUE'' (entries (V db) (send_q d)))"
  using mail_invD[OF mail_reach_inv[OF assms], of d] by auto

subsection \<open>The mailboxes\<close>

text \<open>C14: the store refines the mailbox: after every history of new messages and deletions, the
  inbox of a client is what replaying the history on a list gives.\<close>

theorem store_refines_mailbox:
  assumes "history (mail_put X R V) (mail_drop R) evs db db'" "mail_wf X R V db"
  shows "inbox_of (V db') d = replay evs d (inbox_of (V db) d) \<and> mail_wf X R V db'"
  using mail.history_replay[OF assms] by simp

text \<open>messages leave the inbox in the order in which they were stored, none twice, and a
  message that was stored and not deleted is there.\<close>

theorem inbox_in_order:
  assumes "history (mail_put X R V) (mail_drop R) evs db db'" "mail_wf X R V db" "inbox_of (V db) d = []"
  shows "subseq (inbox_of (V db') d) (sent_to d evs) \<and> distinct (inbox_of (V db') d) \<and>
    (\<forall>m. Put m d \<in> set evs \<longrightarrow> Drop m \<notin> set evs \<longrightarrow> m \<in> set (inbox_of (V db') d))"
  using mail.history_in_order[OF assms(1,2), of d] mail.history_distinct[OF assms(1,2), of d]
    mail.history_no_loss[OF assms(1,2), of _ d] assms(3) by auto

text \<open>a client that has received a full page and asks for the messages after its last entry gets
  the next ones: the two answers together are the beginning of the inbox, nothing is left out or
  comes twice.\<close>

theorem pages_follow_each_other:
  assumes "redis_laws R V" "conversion_laws R" "linked (V db)" "mail_inv (V db)" "0 < n" "0 < m"
    and "es = entries (V db) (receive_q did)" "n \<le> length es" "i = fst (es ! (n - 1))" "id_fits i"
    and "fetch_messages R sid did \<lparr>fo_limit = n, fo_start_id = None, fo_delete_policy = DoNotDelete\<rparr> db =
      (Ok front, db1)"
    and "fetch_messages R sid did \<lparr>fo_limit = m, fo_start_id = Some (show_id i), fo_delete_policy = DoNotDelete\<rparr> db1 =
      (Ok rest, db2)"
  shows "V db2 = V db \<and> list_all2 (element_of (V db)) (take (n + m) es) (gm_success front @ gm_success rest)"
proof -
  from fetch_pages_the_inbox[OF assms(1-3,5), of None DoNotDelete] assms(7,11)
  have 1: "V db1 = V db" "list_all2 (element_of (V db)) (page n None es) (gm_success front)" by auto
  from fetch_pages_the_inbox[OF assms(1,2), of db1 m "Some i" DoNotDelete] assms(3,6,7,10,12) 1
  have 2: "V db2 = V db" "list_all2 (element_of (V db)) (page m (Some i) es) (gm_success rest)" by auto
  have "sorted_wrt (<) (map fst es)"
    using mail_invD(1)[OF assms(4), of did] assms(7) by (auto simp: stream_ok_def)
  moreover have ne: "take n es \<noteq> []" using assms(5,8) by auto
  moreover have "fst (last (take n es)) = i"
    using assms(5,8,9) by (simp add: last_conv_nth[OF ne] min_absorb2)
  ultimately have "page n None es @ page m (Some i) es = take (n + m) es"
    using page_next[of es n m] assms(8) by (simp add: page_def)
  with 1 2 show ?thesis by (metis list_all2_appendI)
qed

subsection \<open>Single messages\<close>

text \<open>C23: a message that was stored for a receiver is read back by its receiver and by its sender,
  with the text, the size and the two addresses it was stored with, unless the database fails.\<close>

theorem stored_message_reads_back:
  assumes "redis_laws R V" "conversion_laws R" "hex_digests X" "V db (meta_key (digest X msg)) = None"
    and "length msg < 2 ^ 64" "digest X did \<noteq> []" "did \<in> {to, frm}"
    and s: "store_message X R sid msg to (Some frm) db = (Ok key, db')"
    and g: "get_message R (digest X did) key db' = (r, db'')"
  shows "(\<exists>e. r = Err (DatabaseError ''NA'' e)) \<or>
    (\<exists>m. r = Ok m \<and> me_msg_id m = key \<and> me_msg m = Some msg \<and> me_size m = length msg \<and>
       me_to_address m = Some (digest X to) \<and> me_from_address m = Some (digest X frm))"
proof -
  have key: "key = digest X msg" "CHR '':'' \<notin> set key"
    using store_message_script(1)[OF s] assms(3) by (simp_all add: hex_digests_def)
  from store_message_script(2)[OF s] obtain rep where
    lua: "store_message_lua R key [msg, show_nat (length msg), to, digest X to, frm, digest X frm] db = (Ok rep, db')"
    unfolding key(1) by blast
  from store_message_lua_Ok[OF assms(1) lua] obtain time i j hm where
    hm: "as_hash (V db) (meta_key key) = Some hm" and
    v: "V db' (meta_key key) = Some (EHash (stored_meta (length msg) (digest X to) time i (digest X frm) j hm))"
      "V db' (msg_key key) = Some (EStr msg)"
    using msg_key_meta_hash[OF key(2)] by (metis fun_upd_apply keys_distinct keys_distinct_sym keys_inject(2))
  have "hm = Map.empty" using hm assms(4) key(1) by (simp add: as_hash_def)
  then have f: "stored_meta (length msg) (digest X to) time i (digest X frm) j hm ''BYTES'' = Some (show_nat (length msg))"
      "stored_meta (length msg) (digest X to) time i (digest X frm) j hm ''TO'' = Some (digest X to)"
      "stored_meta (length msg) (digest X to) time i (digest X frm) j hm ''FROM'' = Some (digest X frm)"
      "stored_meta (length msg) (digest X to) time i (digest X frm) j hm ''MSG_ID'' = None"
    by (simp_all add: stored_meta_def)
  show ?thesis
  proof (cases "\<exists>e. r = Err (DatabaseError ''NA'' e)")
    case False
    with get_message_cases[OF assms(1,2) g] v obtain al where al: "distinct (map fst al)"
        "map_of al = stored_meta (length msg) (digest X to) time i (digest X frm) j hm"
        and r: "r = (if owned_by (digest X did) (got_element key msg (unpair al)) then Ok (got_element key msg (unpair al))
          else Err (DatabaseError (digest X did) (''Message not found for DID: '' @ digest X did)))"
      by (auto simp: as_hash_def Let_def)
    have "owned_by (digest X did) (got_element key msg (unpair al))"
      using assms(7) by (auto simp: owned_by_def got_element_sel[OF al(1)] al(2) f)
    with r show ?thesis using parse_or_zero_show[OF assms(5)] by (simp add: got_element_sel[OF al(1)] al(2) f)
  qed blast
qed

text \<open>C24: a message is read only by a DID that its metadata name as the receiver or the sender, and
  reading changes nothing.\<close>

theorem only_owners_read:
  assumes "redis_laws R V" "conversion_laws R" "did \<noteq> []"
    and g: "get_message R did key db = (r, db')"
  shows "V db' = V db \<and> (\<forall>m. r = Ok m \<longrightarrow> message_owner (V db) key did)"
proof -
  note c = get_message_cases[OF assms(1,2) g]
  have "message_owner (V db) key did" if "r = Ok m" for m
  proof -
    from c that obtain al s where "distinct (map fst al)" "as_hash (V db) (meta_key key) = Some (map_of al)"
        "owned_by did (got_element key s (unpair al))"
      by (auto simp: Let_def split: if_splits)
    with owned_by_owner[OF this(1,2) assms(3)] show ?thesis by blast
  qed
  with c show ?thesis by blast
qed

subsection \<open>Two flaws\<close>

text \<open>the statistics of sent messages are never updated: the transaction leaves a key out of its
  second command, so the server refuses both.\<close>

theorem sent_messages_are_never_counted:
  assumes "redis_laws R V" "update_send_stats R n db = (r, db')"
  shows "V db' = V db \<and> (\<exists>e. r = Err e)"
  by (rule send_stats_refused[OF assms])

text \<open>C29: a message that is stored twice has two entries in the inbox but one record; deleting it takes
  away the record and the second entry, and the first entry stays for ever, without a message.\<close>

theorem identical_message_leaves_an_entry:
  assumes wf: "mail_wf X R V db" and first: "mail_put X R V m d db db1"
    and again: "store_message X R sid msg to (Some frm) db1 = (Ok m, db2)" "d = digest X to" "msg \<noteq> []"
    and del: "mail_drop R m db2 db3"
  shows "m \<in> set (inbox_of (V db3) d) \<and> V db3 (meta_key m) = None \<and> V db3 (msg_key m) = None"
proof -
  have laws: "redis_laws R V" and hex: "hex_digests X" using wf by (simp_all add: mail_wf_def)
  have wf1: "mail_wf X R V db1" using mail.put_wf[OF wf first] .
  have m: "m = digest X msg" using store_message_script(1)[OF again(1)] .
  have key: "CHR '':'' \<notin> set m" using hex by (simp add: m hex_digests_def)
  from store_message_script(2)[OF again(1)] obtain rep where
    lua: "store_message_lua R m [msg, show_nat (length msg), to, d, frm, digest X frm] db1 = (Ok rep, db2)"
    unfolding m again(2) by blast
  from first have "m \<in> set (inbox_of (V db1) d)" using mail.put_inbox[OF wf first, of d] by simp
  then obtain e where e: "e \<in> set (entries (V db1) (receive_q d))" "msg_id_of e = m" by (auto simp: inbox_of_def)
  from del obtain sid' did where "delete_message R sid' did m db2 = (Ok (), db3)" unfolding mail_drop_def by blast
  from delete_message_script[OF this] obtain rep' where dl: "delete_message_lua R m did db2 = (Ok rep', db3)" by blast
  show ?thesis
  proof (cases rule: store_views[OF laws lua key])
    case (1 l es i l' es' j hd hd' hs hs' time hm)
    have meta: "V db2 (meta_key m) = Some (EHash (stored_meta (length msg) d time i (digest X frm) j hm))"
      using 1(13)[of m] by simp
    have w: "whole_meta (stored_meta (length msg) d time i (digest X frm) j hm) (length msg) d i (digest X frm) j"
      by (simp add: whole_meta_def stored_meta_def)
    have old: "es = entries (V db1) (receive_q d)" using 1(1) by simp
    have "fst e \<noteq> i"
      using e(1) 1(1,2) mail_invD(1)[of "V db1" d] wf1 by (auto simp: mail_wf_def stream_ok_def)
    show ?thesis
    proof (cases rule: delete_views[OF laws dl meta w _ key])
      case (2 hd hd' hs hs')
      have "entries (V db3) (receive_q d) = filter (\<lambda>e. fst e \<noteq> i) (es @ [(i, receive_fields m (length msg) frm)])"
        using 2(1)[of d] 1(3)[of d] by (simp add: entries_def)
      with e \<open>fst e \<noteq> i\<close> old have "m \<in> set (inbox_of (V db3) d)" by (auto simp: inbox_of_def)
      with 2(9)[of m] 2(10)[OF key] show ?thesis by simp
    qed (use again(3) in simp)
  qed
qed

end
