(* ===== verification/StreamProps.thy ===== *)
theory StreamProps
  imports Streaming StoreProps
begin

text \<open>
  Live streaming is safe: cleaning up ends and leaves nothing behind, the rows of the database
  follow the clients of the task, and a message reaches only a websocket of the client it is for.
\<close>

subsection \<open>Cleaning up\<close>

inductive_simps spop_iff: "redis_command (''SPOP'' # args) ks rep ks'"
inductive_simps hdel_iff: "redis_command (''HDEL'' # args) ks rep ks'"
inductive_simps sadd_iff: "redis_command (''SADD'' # args) ks rep ks'"
inductive_simps srem_iff: "redis_command (''SREM'' # args) ks rep ks'"

lemma streaming_keys [simp]: "streaming_sessions u \<noteq> global_streaming" "global_streaming \<noteq> streaming_sessions u"
  by (simp_all add: streaming_sessions_def global_streaming_def)

lemma as_set_put [simp]:
  "as_set (put_set k s ks) k' = (if k' = k then Some s else as_set ks k')"
  "as_set (put_hash k h ks) k' = (if k' = k then as_set (put_hash k h ks) k else as_set ks k')"
  "as_hash (put_hash k h ks) k' = (if k' = k then Some h else as_hash ks k')"
  "as_hash (put_set k s ks) k' = (if k' = k then as_hash (put_set k s ks) k else as_hash ks k')"
  by (simp_all add: as_set_def as_hash_def put_set_def put_hash_def)

text \<open>One pass of the loop.\<close>

lemma clean_one_Ok:
  assumes laws: "redis_laws R V" and key: "key \<noteq> global_streaming"
    and c: "clean_one R key db = (Ok n, db')"
  shows "(n = 0 \<and> V db' = V db \<and> V db key = None) \<or>
    (n = 1 \<and> (\<exists>s x h. as_set (V db) key = Some s \<and> x \<in> s \<and> as_hash (V db) global_streaming = Some h \<and>
       V db' = put_hash global_streaming (h(x := None)) (put_set key (s - {x}) (V db))))"
proof -
  from c obtain r d1 ms where p: "call R [''SPOP'', key, ''1''] db = (Ok r, d1)" and ms: "set_member r = Ok ms"
    and rest: "(if ms = [] then (Ok 0, d1)
       else eff_then (eff_of (lua_string (last ms))) (\<lambda>client.
         eff_then (call R [''HDEL'', global_streaming, client]) (\<lambda>_. eff_of (Ok (length ms)))) d1) = (Ok n, db')"
    by (auto simp: clean_one_def effect_simps split: if_splits)
  have "redis_command [''SPOP'', key, ''1''] (V db) r (V d1)"
    by (rule call_Ok[OF laws _ p]) (rule sent.intros)
  then consider (none) "r = RSet []" "V d1 = V db" "V db key = None"
    | (some) s x where "r = RSet [RBulk x]" "as_set (V db) key = Some s" "x \<in> s" "V d1 = put_set key (s - {x}) (V db)"
    by (auto simp: spop_iff)
  then show ?thesis
  proof cases
    case none
    with ms rest show ?thesis by (auto simp: set_member_def)
  next
    case some
    with ms have "ms = [RBulk x]" by (simp add: set_member_def)
    with rest obtain r2 where h: "call R [''HDEL'', global_streaming, x] d1 = (Ok r2, db')" and n: "n = 1"
      by (auto simp: effect_simps)
    have "redis_command [''HDEL'', global_streaming, x] (V d1) r2 (V db')"
      by (rule call_Ok[OF laws _ h]) (rule sent.intros, simp)
    with some key n show ?thesis by (auto simp: hdel_iff)
  qed
qed

lemma clean_one_fails:
  assumes laws: "redis_laws R V" and c: "clean_one R key db = (Panic, db')"
  shows False
proof -
  have "lua_string r \<noteq> Panic" "set_member r \<noteq> Panic" for r
    by (simp_all add: lua_string_def set_member_def split: reply.split)
  then show False using c by (auto simp: clean_one_def effect_simps split: if_splits)
qed

lemma clean_loop_ends:
  assumes laws: "redis_laws R V" and key: "key \<noteq> global_streaming"
  shows "as_set (V db) key = Some s \<Longrightarrow> finite s \<Longrightarrow> \<exists>r db'. clean_loop R key n db = Some (r, db') \<and>
    (\<forall>rep. r = Ok rep \<longrightarrow> rep = RInt (int (n + card s)) \<and> V db' key = None \<and>
       (\<forall>h. as_hash (V db) global_streaming = Some h \<longrightarrow>
          as_hash (V db') global_streaming = Some (h |` (- s))))"
proof (induction "card s" arbitrary: s n db rule: less_induct)
  case less
  obtain r d1 where c: "clean_one R key db = (r, d1)" by (cases "clean_one R key db")
  show ?case
  proof (cases r)
    case (Err e)
    with c show ?thesis by (simp add: clean_loop.simps)
  next
    case Panic
    with c clean_one_fails[OF laws] show ?thesis by blast
  next
    case (Ok m)
    from clean_one_Ok[OF laws key c[unfolded Ok]] show ?thesis
    proof (elim disjE conjE exE)
      assume m: "m = 0" "V d1 = V db" "V db key = None"
      then have "s = {}" using less.prems(1) by (simp add: as_set_def)
      with m c Ok show ?thesis by (subst clean_loop.simps) (auto simp: restrict_map_def)
    next
      fix s' x h assume m: "m = 1" "as_set (V db) key = Some s'" "x \<in> s'" "as_hash (V db) global_streaming = Some h"
        and v: "V d1 = put_hash global_streaming (h(x := None)) (put_set key (s' - {x}) (V db))"
      have s: "s' = s" using m(2) less.prems(1) by simp
      have l: "clean_loop R key n db = clean_loop R key (n + 1) d1"
        using c Ok m(1) by (subst clean_loop.simps) simp
      have "Suc (card (s - {x})) = card s"
        using m(3) unfolding s by (rule card_Suc_Diff1[OF less.prems(2)])
      then have card: "card (s - {x}) < card s" "card s = Suc (card (s - {x}))" by linarith+
      have "as_set (V d1) key = Some (s - {x})" using key by (simp add: v s)
      from less.hyps[OF card(1) this, of "n + 1"] less.prems(2) obtain r' db' where
        ih: "clean_loop R key (n + 1) d1 = Some (r', db')"
        "\<forall>rep. r' = Ok rep \<longrightarrow> rep = RInt (int (n + 1 + card (s - {x}))) \<and> V db' key = None \<and>
           (\<forall>h. as_hash (V d1) global_streaming = Some h \<longrightarrow>
              as_hash (V db') global_streaming = Some (h |` (- (s - {x}))))" by auto
      have "h(x := None) |` (- (s - {x})) = h |` (- s)"
        using m(3) s by (auto simp: restrict_map_def fun_eq_iff)
      with ih m(4) card(2) show ?thesis by (auto simp: l v)
    qed
  qed
qed

text \<open>C25: cleaning up at the start of a mediator ends on every server, after as many passes as there
  are clients in its set; if it succeeds, the set is gone and none of its clients has a row any
  more, while the rows of all other clients are what they were.\<close>

theorem clean_start_ends:
  assumes "redis_laws R V" and "\<And>s. as_set (V db) (streaming_sessions uuid) = Some s \<Longrightarrow> finite s"
  shows "\<exists>r db'. streaming_clean_start R uuid db = Some (r, db') \<and>
    (r = Ok () \<longrightarrow> V db' (streaming_sessions uuid) = None \<and>
       (\<exists>s. as_set (V db) (streaming_sessions uuid) = Some s \<and>
         (\<forall>h. as_hash (V db) global_streaming = Some h \<longrightarrow>
            as_hash (V db') global_streaming = Some (h |` (- s)))))"
proof -
  let ?key = "streaming_sessions uuid"
  obtain rc d1 where c: "get_async_connection R db = (rc, d1)" by (cases "get_async_connection R db")
  have d1: "d1 = db" using get_async_connection_state[OF c] .
  show ?thesis
  proof (cases "as_set (V db) ?key")
    case (Some s)
    from clean_loop_ends[OF assms(1) _ Some assms(2)[OF Some], of 0] obtain r db' where
      l: "clean_loop R ?key 0 db = Some (r, db')"
      "\<forall>rep. r = Ok rep \<longrightarrow> V db' ?key = None \<and>
         (\<forall>h. as_hash (V db) global_streaming = Some h \<longrightarrow> as_hash (V db') global_streaming = Some (h |` (- s)))"
      by auto
    with c d1 Some show ?thesis
      by (cases rc; cases r) (auto simp: streaming_clean_start_def)
  next
    case None
    have "clean_one R ?key db \<noteq> (Ok n, d)" for n d
      using clean_one_Ok[OF assms(1), of ?key db n d] None by (auto simp: as_set_def)
    moreover obtain r d where o: "clean_one R ?key db = (r, d)" by (cases "clean_one R ?key db")
    ultimately have "\<exists>e. clean_loop R ?key 0 db = Some (Err e, d)"
      using clean_one_fails[OF assms(1)] by (cases r) (auto simp: clean_loop.simps)
    with c d1 show ?thesis by (cases rc) (auto simp: streaming_clean_start_def)
  qed
qed

subsection \<open>The rows follow the clients\<close>

definition row_of :: "keyspace \<Rightarrow> string \<Rightarrow> string option" where
  "row_of ks d = (case as_hash ks global_streaming of Some h \<Rightarrow> h d | None \<Rightarrow> None)"

lemma set_fields_one: "set_fields [(f, v)] h = h(f \<mapsto> v)"
  by (simp add: set_fields_def)

text \<open>What an update of the task does to the rows, when the database carries it out.\<close>

definition row_after :: "string \<Rightarrow> streaming_update \<Rightarrow> (string \<rightharpoonup> string) \<Rightarrow> (string \<rightharpoonup> string)" where
  "row_after uuid u h =
     (case su_state u of
        Register _ \<Rightarrow> h(su_did_hash u \<mapsto> streaming_row uuid False)
      | Start \<Rightarrow> h(su_did_hash u \<mapsto> streaming_row uuid True)
      | Stop \<Rightarrow> h(su_did_hash u \<mapsto> streaming_row uuid False)
      | Deregister \<Rightarrow> h(su_did_hash u := None))"

lemma streaming_sent:
  "sent [''SADD'', k, x]" "sent [''SREM'', k, x]" "sent [''HDEL'', k, x]" "sent [''HSET'', k, x, v]"
  using sent.intros(2)[of _ k x] sent.intros(1)[of "[x, v]"] by simp_all

lemma update_call_Ok:
  assumes laws: "redis_laws R V" and c: "update_call R uuid u db = (Ok x, db')"
    and h: "as_hash (V db) global_streaming = Some h"
  shows "as_hash (V db') global_streaming = Some (row_after uuid u h)"
proof (cases "su_state u")
  case (Register tx)
  have s: "list_all sent [[''SADD'', streaming_sessions uuid, su_did_hash u],
        [''HSET'', global_streaming, su_did_hash u, streaming_row uuid False]]"
    by (simp add: streaming_sent)
  have "commit R (streaming_error ''streaming_register_client'' (su_did_hash u) uuid) [[''SADD'', streaming_sessions uuid, su_did_hash u],
        [''HSET'', global_streaming, su_did_hash u, streaming_row uuid False]] db = (Ok x, db')"
    using c Register by (simp add: update_call_def Let_def streaming_register_client_def)
  from commit_Ok[OF laws s this] obtain reps where
    "run_all [[''SADD'', streaming_sessions uuid, su_did_hash u],
        [''HSET'', global_streaming, su_did_hash u, streaming_row uuid False]] (V db) reps (V db')" by blast
  then obtain s h' where "as_hash ((V db)(streaming_sessions uuid \<mapsto> ESet s)) global_streaming = Some h'"
      and v: "V db' = (V db)(streaming_sessions uuid \<mapsto> ESet s,
        global_streaming \<mapsto> EHash (set_fields (pairs_of [su_did_hash u, streaming_row uuid False]) h'))"
    by (auto simp only: run_all_simps sadd_iff hset_iff list.inject)
  then have "h' = h" using h by simp
  with v Register show ?thesis by (simp add: row_after_def set_fields_one)
next
  case Start
  with c h show ?thesis
    by (auto simp: update_call_def Let_def streaming_start_live_def streaming_set_live_def effect_simps hset_iff
          row_after_def set_fields_def dest!: get_async_connection_state query_Ok[OF laws streaming_sent(4)])
next
  case Stop
  with c h show ?thesis
    by (auto simp: update_call_def Let_def streaming_stop_live_def streaming_set_live_def effect_simps hset_iff
          row_after_def set_fields_def dest!: get_async_connection_state query_Ok[OF laws streaming_sent(4)])
next
  case Deregister
  have s: "list_all sent [[''SREM'', streaming_sessions uuid, su_did_hash u],
        [''HDEL'', global_streaming, su_did_hash u]]"
    by (simp add: streaming_sent)
  have "commit R (streaming_error ''streaming_deregister_client'' (su_did_hash u) uuid) [[''SREM'', streaming_sessions uuid, su_did_hash u],
        [''HDEL'', global_streaming, su_did_hash u]] db = (Ok x, db')"
    using c Deregister by (simp add: update_call_def Let_def streaming_deregister_client_def)
  from commit_Ok[OF laws s this] obtain reps where
    "run_all [[''SREM'', streaming_sessions uuid, su_did_hash u],
        [''HDEL'', global_streaming, su_did_hash u]] (V db) reps (V db')" by blast
  then obtain s h' where "as_hash (put_set (streaming_sessions uuid) s (V db)) global_streaming = Some h'"
      and v: "V db' = put_hash global_streaming (h'(su_did_hash u := None)) (put_set (streaming_sessions uuid) s (V db))"
    by (auto simp only: run_all_simps srem_iff hdel_iff list.inject)
  then have "h' = h" using h by (simp add: as_hash_def put_set_def)
  with v Deregister show ?thesis by (simp add: row_after_def)
qed

text \<open>Whatever the outcome of an update, it leaves the rows of all other clients alone.\<close>

lemma hset_hdel_rows:
  "redis_command [''HSET'', k, f, v] ks rep ks' \<Longrightarrow> as_hash ks k = Some h \<Longrightarrow> as_hash ks' k = Some (h(f \<mapsto> v))"
  "redis_command [''HDEL'', k, f] ks rep ks' \<Longrightarrow> as_hash ks k = Some h \<Longrightarrow> as_hash ks' k = Some (h(f := None))"
  by (auto simp: hset_iff hdel_iff set_fields_one as_hash_def[of "fun_upd ks k e" for e])

lemma sadd_srem_rows:
  "redis_command [''SADD'', k, x] ks rep ks' \<Longrightarrow> k \<noteq> g \<Longrightarrow> as_hash ks' g = as_hash ks g"
  "redis_command [''SREM'', k, x] ks rep ks' \<Longrightarrow> k \<noteq> g \<Longrightarrow> as_hash ks' g = as_hash ks g"
  by (auto simp: sadd_iff srem_iff as_hash_def put_set_def)

lemma streaming_set_live_rows:
  assumes "redis_laws R V" "streaming_set_live R what d uuid live db = (r, db')"
    and "as_hash (V db) global_streaming = Some h"
  shows "V db' = V db \<or> as_hash (V db') global_streaming = Some (h(d \<mapsto> streaming_row uuid live))"
proof -
  obtain rc d1 where c: "get_async_connection R db = (rc, d1)" by (cases "get_async_connection R db")
  have d1: "d1 = db" using get_async_connection_state[OF c] .
  show ?thesis
  proof (cases rc)
    case (Ok u)
    with c d1 assms(2) have "query R (\<lambda>_. Inr ()) (streaming_error what d uuid)
        [''HSET'', global_streaming, d, streaming_row uuid live] db = (r, db')"
      by (simp add: streaming_set_live_def eff_then_app)
    from query_state[OF assms(1) streaming_sent(4) this] assms(3) hset_hdel_rows(1) show ?thesis by blast
  qed (use c d1 assms(2) in \<open>auto simp: streaming_set_live_def eff_then_app\<close>)
qed

lemma update_call_others:
  assumes laws: "redis_laws R V" and c: "update_call R uuid u db = (r, db')"
    and h: "as_hash (V db) global_streaming = Some h"
  shows "\<exists>h'. as_hash (V db') global_streaming = Some h' \<and> (\<forall>d. d \<noteq> su_did_hash u \<longrightarrow> h' d = h d)"
proof (cases "su_state u")
  case (Register tx)
  let ?cs = "[[''SADD'', streaming_sessions uuid, su_did_hash u],
        [''HSET'', global_streaming, su_did_hash u, streaming_row uuid False]]"
  have "commit R (streaming_error ''streaming_register_client'' (su_did_hash u) uuid) ?cs db = (r, db')"
    using c Register by (simp add: update_call_def Let_def streaming_register_client_def)
  then have "V db' = V db \<or> run_some ?cs (V db) (V db')"
    by (rule commit_some[OF laws, rotated]) (simp add: streaming_sent)
  then show ?thesis using h sadd_srem_rows(1)[OF _ streaming_keys(1)] hset_hdel_rows(1)
    by (simp only: run_some_simps) (elim disjE exE conjE; fastforce)
next
  case Deregister
  let ?cs = "[[''SREM'', streaming_sessions uuid, su_did_hash u], [''HDEL'', global_streaming, su_did_hash u]]"
  have "commit R (streaming_error ''streaming_deregister_client'' (su_did_hash u) uuid) ?cs db = (r, db')"
    using c Deregister by (simp add: update_call_def Let_def streaming_deregister_client_def)
  then have "V db' = V db \<or> run_some ?cs (V db) (V db')"
    by (rule commit_some[OF laws, rotated]) (simp add: streaming_sent)
  then show ?thesis using h sadd_srem_rows(2)[OF _ streaming_keys(1)] hset_hdel_rows(2)
    by (simp only: run_some_simps) (elim disjE exE conjE; fastforce)
qed (use c in \<open>force simp: update_call_def Let_def streaming_start_live_def streaming_stop_live_def h
        dest!: streaming_set_live_rows[OF laws _ h]\<close>)+

text \<open>
  The database beside the task, from the clean-up at the start of the mediator on: updates arrive
  in any order, whether the database carries out what they ask for or not, messages are published,
  and others write to the database. The set holds the clients whose row is out of the hands of the
  task: those whose last update the database did not confirm, and those whose row somebody else
  has changed since, as another mediator does to which the client has connected.
\<close>

inductive rows_reach ::
  "('k, 'c, 'w, 'z) med_ext_scheme \<Rightarrow> 'db redis \<Rightarrow> ('db \<Rightarrow> keyspace) \<Rightarrow> string \<Rightarrow> 'db \<Rightarrow> stream_task
     \<Rightarrow> string set \<Rightarrow> bool"
  for X R V uuid where
  rows_start: "streaming_clean_start R uuid db0 = Some (Ok (), db) \<Longrightarrow>
    as_hash (V db) global_streaming \<noteq> None \<Longrightarrow> rows_reach X R V uuid db new_task {}"
| rows_update: "rows_reach X R V uuid db t lost \<Longrightarrow> stream_update R uuid u t db = (Ok t', db') \<Longrightarrow>
    update_call R uuid u db = (Ok x, db1) \<Longrightarrow> rows_reach X R V uuid db' t' (lost - {su_did_hash u})"
| rows_unconfirmed: "rows_reach X R V uuid db t lost \<Longrightarrow> stream_update R uuid u t db = (Ok t', db') \<Longrightarrow>
    update_call R uuid u db = (Err e, db1) \<Longrightarrow> rows_reach X R V uuid db' t' (insert (su_did_hash u) lost)"
| rows_payload: "rows_reach X R V uuid db t lost \<Longrightarrow> stream_payload X R uuid text t db = (Ok t', db') \<Longrightarrow>
    rows_reach X R V uuid db' t' lost"
| rows_elsewhere: "rows_reach X R V uuid db t lost \<Longrightarrow> as_hash (V db') global_streaming \<noteq> None \<Longrightarrow>
    rows_reach X R V uuid db' t (lost \<union> {d. row_of (V db') d \<noteq> row_of (V db) d})"

definition rows_mirror :: "string \<Rightarrow> keyspace \<Rightarrow> stream_task \<Rightarrow> string set \<Rightarrow> bool" where
  "rows_mirror uuid ks t lost \<longleftrightarrow> (\<exists>h. as_hash ks global_streaming = Some h \<and>
     (\<forall>d tx live. d \<notin> lost \<longrightarrow> tk_clients t d = Some (tx, live) \<longrightarrow> h d = Some (streaming_row uuid live)))"

lemma stream_update_Ok:
  "stream_update R uuid u t db = (Ok t', db') \<Longrightarrow> update_call R uuid u db = (r, db1) \<Longrightarrow>
     t' = update_clients u t \<and> db' = db1"
  by (cases r) (auto simp: stream_update_def logged_def eff_match_def effect_simps)

lemma update_clients_other:
  "d \<noteq> su_did_hash u \<Longrightarrow> tk_clients (update_clients u t) d = tk_clients t d"
  by (simp add: update_clients_def Let_def set_active_def split: streaming_update_state.split option.split)

lemma rows_mirror_update:
  assumes laws: "redis_laws R V" and m: "rows_mirror uuid (V db) t lost"
    and step: "stream_update R uuid u t db = (Ok t', db')" and call: "update_call R uuid u db = (r, db1)"
    and lost: "lost - {su_did_hash u} \<subseteq> lost'" "\<forall>x. r = Ok x \<or> su_did_hash u \<in> lost'"
  shows "rows_mirror uuid (V db') t' lost'"
proof -
  note t' = stream_update_Ok[OF step call]
  from m obtain h where h: "as_hash (V db) global_streaming = Some h"
    and c: "\<And>d tx live. d \<notin> lost \<Longrightarrow> tk_clients t d = Some (tx, live) \<Longrightarrow> h d = Some (streaming_row uuid live)"
    unfolding rows_mirror_def by blast
  from update_call_others[OF laws call h] t' obtain h' where
    h': "as_hash (V db') global_streaming = Some h'" "\<And>d. d \<noteq> su_did_hash u \<Longrightarrow> h' d = h d" by auto
  have "h' d = Some (streaming_row uuid live)" if d: "d \<notin> lost'" "tk_clients t' d = Some (tx, live)" for d tx live
  proof (cases "d = su_did_hash u")
    case True
    with d(1) lost(2) obtain x where "r = Ok x" by blast
    with update_call_Ok[OF laws _ h] call t' h'(1) have "h' = row_after uuid u h" by auto
    with d(2) True t' show ?thesis
      by (cases "su_state u")
         (auto simp: update_clients_def Let_def row_after_def set_active_def split: option.splits)
  next
    case False
    with d(1) lost(1) have "d \<notin> lost" by blast
    from c[OF this] h'(2)[OF False] update_clients_other[OF False, of t] d(2) t' show ?thesis by simp
  qed
  with h'(1) show ?thesis unfolding rows_mirror_def by blast
qed

text \<open>A message that finds its client not live writes the row that is there.\<close>

lemma rows_mirror_payload:
  assumes laws: "redis_laws R V" and m: "rows_mirror uuid (V db) t lost"
    and step: "stream_payload X R uuid text t db = (Ok t', db')"
  shows "rows_mirror uuid (V db') t' lost"
proof -
  from m obtain h where h: "as_hash (V db) global_streaming = Some h"
    and c: "\<And>d tx live. d \<notin> lost \<Longrightarrow> tk_clients t d = Some (tx, live) \<Longrightarrow> h d = Some (streaming_row uuid live)"
    unfolding rows_mirror_def by blast
  from step have "db' = db \<and> tk_clients t' = tk_clients t \<or>
      t' = t \<and> (\<exists>d tx r. tk_clients t d = Some (tx, False) \<and> streaming_stop_live R d uuid db = (r, db'))"
    by (auto simp: stream_payload_def logged_def eff_match_def effect_simps split: sum.splits option.splits
          if_splits prod.splits result.splits)
  then show ?thesis
  proof (elim disjE conjE exE)
    fix d tx r assume t': "t' = t" "tk_clients t d = Some (tx, False)" "streaming_stop_live R d uuid db = (r, db')"
    from streaming_set_live_rows[OF laws t'(3)[unfolded streaming_stop_live_def] h] show ?thesis
      using m h c t'(1,2) unfolding rows_mirror_def by (auto; metis)
  qed (use m in \<open>auto simp: rows_mirror_def\<close>)
qed

lemma rows_reach_mirror:
  assumes "rows_reach X R V uuid db t lost" and laws: "redis_laws R V"
  shows "rows_mirror uuid (V db) t lost"
  using assms(1)
proof (induction rule: rows_reach.induct)
  case (rows_start db0 db)
  then show ?case by (auto simp: rows_mirror_def new_task_def)
next
  case (rows_update db t lost u t' db' x db1)
  show ?case by (rule rows_mirror_update[OF laws rows_update.IH rows_update.hyps(2,3)]) auto
next
  case (rows_unconfirmed db t lost u t' db' e db1)
  show ?case by (rule rows_mirror_update[OF laws rows_unconfirmed.IH rows_unconfirmed.hyps(2,3)]) auto
next
  case (rows_payload db t lost body t' db')
  then show ?case using rows_mirror_payload[OF laws] by blast
next
  case (rows_elsewhere db t lost db')
  then show ?case unfolding rows_mirror_def row_of_def by (auto split: option.splits)
qed

text \<open>
  C19: the rows follow the clients. From the clean-up at the start on, in any order of updates,
  confirmed or not, of published messages and of changes made by others, every client of the task
  whose last update the database confirmed, and whose row nobody else has changed since, has a row
  that names this mediator and says whether the client is live; and a client that is deregistered,
  and confirmed so, has no row.
\<close>

theorem rows_follow_clients:
  assumes "rows_reach X R V uuid db t lost" and "redis_laws R V"
  shows "(\<forall>d tx live. d \<notin> lost \<and> tk_clients t d = Some (tx, live) \<longrightarrow>
            row_of (V db) d = Some (streaming_row uuid live)) \<and>
    (\<forall>u x t' db'. su_state u = Deregister \<and> update_call R uuid u db = (Ok x, db') \<and>
            stream_update R uuid u t db = (Ok t', db') \<longrightarrow>
            tk_clients t' (su_did_hash u) = None \<and> row_of (V db') (su_did_hash u) = None)"
proof -
  from rows_reach_mirror[OF assms] obtain h where h: "as_hash (V db) global_streaming = Some h"
    and c: "\<And>d tx live. d \<notin> lost \<Longrightarrow> tk_clients t d = Some (tx, live) \<Longrightarrow> h d = Some (streaming_row uuid live)"
    unfolding rows_mirror_def by blast
  have "tk_clients t' (su_did_hash u) = None \<and> row_of (V db') (su_did_hash u) = None"
    if "su_state u = Deregister" "update_call R uuid u db = (Ok x, db')"
      "stream_update R uuid u t db = (Ok t', db')" for u x t' db'
    using update_call_Ok[OF assms(2) that(2) h] stream_update_Ok[OF that(3,2)] that(1)
    by (simp add: row_of_def row_after_def update_clients_def)
  with h c show ?thesis by (auto simp: row_of_def)
qed

subsection \<open>Websockets and the task\<close>

text \<open>
  The task with its queue of updates and the websockets. A connection has a number, and the hash of
  the DID of its session; the rest are histories: whose each connection was, and which messages
  were published for whom. The steps interleave in any order. A socket closes when its client does,
  or when the task has dropped its channel.
\<close>

record 'db stream_sys =
  sy_db :: 'db
  sy_task :: stream_task
  sy_queue :: "streaming_update list"
  sy_open :: "nat set"
  sy_owner :: "nat \<rightharpoonup> string"
  sy_published :: "(string \<times> string) list"

inductive stream_reach ::
  "('k, 'c, 'w, 'z) med_ext_scheme \<Rightarrow> 'db redis \<Rightarrow> string \<Rightarrow> 'db stream_sys \<Rightarrow> bool"
  for X R uuid where
  sys_start: "stream_reach X R uuid
    \<lparr>sy_db = db, sy_task = new_task, sy_queue = [], sy_open = {}, sy_owner = Map.empty, sy_published = []\<rparr>"
| sys_connect: "stream_reach X R uuid s \<Longrightarrow> sy_owner s c = None \<Longrightarrow>
    stream_reach X R uuid (s\<lparr>sy_queue := sy_queue s @ [\<lparr>su_did_hash = d, su_state = Register c\<rparr>],
      sy_open := insert c (sy_open s), sy_owner := (sy_owner s)(c \<mapsto> d)\<rparr>)"
| sys_close: "stream_reach X R uuid s \<Longrightarrow> c \<in> sy_open s \<Longrightarrow> sy_owner s c = Some d \<Longrightarrow>
    stream_reach X R uuid (s\<lparr>sy_queue := sy_queue s @ [\<lparr>su_did_hash = d, su_state = Deregister\<rparr>],
      sy_open := sy_open s - {c}\<rparr>)"
| sys_request: "stream_reach X R uuid s \<Longrightarrow> st \<in> {Start, Stop} \<Longrightarrow>
    stream_reach X R uuid (s\<lparr>sy_queue := sy_queue s @ [\<lparr>su_did_hash = d, su_state = st\<rparr>]\<rparr>)"
| sys_update: "stream_reach X R uuid s \<Longrightarrow> sy_queue s = u # q \<Longrightarrow>
    stream_update R uuid u (sy_task s) (sy_db s) = (Ok t, db) \<Longrightarrow>
    stream_reach X R uuid (s\<lparr>sy_db := db, sy_task := t, sy_queue := q\<rparr>)"
| sys_payload: "stream_reach X R uuid s \<Longrightarrow> de_pubsub X text = Inr p \<Longrightarrow>
    stream_payload X R uuid text (sy_task s) (sy_db s) = (Ok t, db) \<Longrightarrow>
    stream_reach X R uuid (s\<lparr>sy_db := db, sy_task := t,
      sy_published := sy_published s @ [(ps_did_hash p, ps_message p)]\<rparr>)"
| sys_elsewhere: "stream_reach X R uuid s \<Longrightarrow> stream_reach X R uuid (s\<lparr>sy_db := db\<rparr>)"

definition stream_inv :: "'db stream_sys \<Rightarrow> bool" where
  "stream_inv s \<longleftrightarrow>
     (\<forall>d c live. tk_clients (sy_task s) d = Some (c, live) \<longrightarrow> sy_owner s c = Some d) \<and>
     (\<forall>u \<in> set (sy_queue s). \<forall>c. su_state u = Register c \<longrightarrow> sy_owner s c = Some (su_did_hash u)) \<and>
     (\<forall>(c, m) \<in> set (tk_sent (sy_task s)). \<exists>d. sy_owner s c = Some d \<and> (d, m) \<in> set (sy_published s))"

lemma stream_update_task:
  "stream_update R uuid u t db = (Ok t', db') \<Longrightarrow> t' = update_clients u t"
  by (auto simp: stream_update_def effect_simps)

lemma set_active_sent [simp]: "tk_sent (set_active d b t) = tk_sent t"
  by (simp add: set_active_def split: option.split)

lemma update_clients_sent [simp]: "tk_sent (update_clients u t) = tk_sent t"
  by (simp add: update_clients_def Let_def split: streaming_update_state.split)

lemma update_clients_owner:
  assumes "tk_clients (update_clients u t) d = Some (c, live)"
  shows "(\<exists>live. tk_clients t d = Some (c, live)) \<or> (su_state u = Register c \<and> su_did_hash u = d)"
  using assms by (auto simp: update_clients_def Let_def set_active_def split: streaming_update_state.splits option.splits if_splits)

lemma stream_payload_task:
  assumes "stream_payload X R uuid text t db = (Ok t', db')" "de_pubsub X text = Inr p"
  shows "tk_clients t' = tk_clients t \<and> (tk_sent t' = tk_sent t \<or>
    (\<exists>c live. tk_clients t (ps_did_hash p) = Some (c, live) \<and> tk_sent t' = tk_sent t @ [(c, ps_message p)]))"
  using assms by (auto simp: stream_payload_def effect_simps split: option.splits if_splits)

lemma stream_reach_inv: "stream_reach X R uuid s \<Longrightarrow> stream_inv s"
proof (induction rule: stream_reach.induct)
  case (sys_start db)
  then show ?case by (simp add: stream_inv_def new_task_def)
next
  case (sys_connect s c d)
  then show ?case unfolding stream_inv_def by (fastforce simp: fun_upd_apply)
next
  case (sys_close s c d)
  then show ?case unfolding stream_inv_def by auto
next
  case (sys_request s st d)
  then show ?case unfolding stream_inv_def by auto
next
  case (sys_update s u q t db)
  from stream_update_task[OF sys_update.hyps(3)] sys_update show ?case
    unfolding stream_inv_def by (auto dest!: update_clients_owner)
next
  case (sys_payload s body p t db)
  from stream_payload_task[OF sys_payload.hyps(3,2)] sys_payload.IH show ?case
    unfolding stream_inv_def by (auto; fastforce)
next
  case (sys_elsewhere s db)
  then show ?case unfolding stream_inv_def by simp
qed

text \<open>C18: whatever the order in which clients connect, close, switch live delivery on and off and
  messages are published, a message that the task passes to a websocket was published for the very
  DID of that websocket.\<close>

theorem streams_to_the_right_client:
  assumes "stream_reach X R uuid s" "(c, m) \<in> set (tk_sent (sy_task s))"
  shows "\<exists>d. sy_owner s c = Some d \<and> (d, m) \<in> set (sy_published s)"
  using stream_reach_inv[OF assms(1)] assms(2) unfolding stream_inv_def by auto

text \<open>A channel is open while the task or an update on its way holds it.\<close>

definition socket_held :: "'db stream_sys \<Rightarrow> nat \<Rightarrow> bool" where
  "socket_held s c \<longleftrightarrow> (\<exists>d live. tk_clients (sy_task s) d = Some (c, live)) \<or>
     (\<exists>u \<in> set (sy_queue s). su_state u = Register c)"

text \<open>C28: a second websocket of a DID does not keep its registration: registering it drops the channel
  of the first one, which makes that one close and deregister the DID, and with it the second.\<close>

theorem second_websocket_is_deregistered:
  assumes "stream_reach X R uuid s" "tk_clients (sy_task s) d = Some (c1, live)" "c1 \<noteq> c2"
    and "sy_queue s = [\<lparr>su_did_hash = d, su_state = Register c2\<rparr>]"
    and "stream_update R uuid \<lparr>su_did_hash = d, su_state = Register c2\<rparr> (sy_task s) (sy_db s) = (Ok t1, db1)"
    and "s1 = s\<lparr>sy_db := db1, sy_task := t1, sy_queue := []\<rparr>"
    and "stream_update R uuid \<lparr>su_did_hash = d, su_state = Deregister\<rparr> t1 db2 = (Ok t2, db3)"
  shows "tk_clients t1 d = Some (c2, False) \<and> \<not> socket_held s1 c1 \<and> tk_clients t2 d = None"
proof -
  have t1: "tk_clients t1 = (tk_clients (sy_task s))(d \<mapsto> (c2, False))"
    using stream_update_task[OF assms(5)] by (simp add: update_clients_def)
  have "tk_clients (sy_task s) d' \<noteq> Some (c1, l)" if "d' \<noteq> d" for d' l
  proof
    assume "tk_clients (sy_task s) d' = Some (c1, l)"
    with stream_reach_inv[OF assms(1)] assms(2) have "sy_owner s c1 = Some d'" "sy_owner s c1 = Some d"
      unfolding stream_inv_def by blast+
    with that show False by simp
  qed
  then have "\<not> socket_held s1 c1" using assms(3,6) t1 by (auto simp: socket_held_def)
  moreover have "tk_clients t2 d = None"
    using stream_update_task[OF assms(7)] by (simp add: update_clients_def)
  ultimately show ?thesis by (simp add: t1)
qed

end
