(* ===== verification/PickupProps.thy ===== *)
theory PickupProps
  imports Handlers MailProps StreamProps
begin

text \<open>
  The pickup protocol: the status tells what is in the inbox of the client, a delivery attaches the
  oldest messages of the inbox of its session and no other, and requests that fail the check of the
  protocol end in a panic.
\<close>

subsection \<open>Requests that are refused\<close>

lemma validate_msg_not_Panic: "validate_msg X S session now msg \<noteq> Panic"
  by (auto simp: validate_msg_def Let_def result_simps split: option.splits list.splits)

lemma unwrap_result_simps [simp]: "unwrap_result (Ok x) = Ok x" "unwrap_result (Err e) = Panic"
  by (simp_all add: unwrap_result_def)

lemma refused_request:
  assumes "validate_msg X S session (clock 0) msg = Err e"
  shows "status_request X S session clock uuid msg w = (Panic, w)"
    and "toggle_live_delivery X S session clock uuid msg w = (Panic, w)"
    and "delivery_request X S session clock uuid msg w = (Panic, w)"
    and "messages_received X S session clock uuid msg w = (Panic, w)"
  using assms by (simp_all add: status_request_def toggle_live_delivery_def delivery_request_def
      messages_received_def eff_then_app)

definition pickup_types :: "message_type set" where
  "pickup_types = {MessagePickupStatusRequest, MessagePickupDeliveryRequest, MessagePickupMessagesReceived,
     MessagePickupLiveDeliveryChange}"

text \<open>C27: a pickup request that does not pass the check of the protocol, because it is anonymous, is
  not addressed to the mediator or lacks the header \<open>return_route\<close>, makes the handler panic instead
  of answering with the error that says why.\<close>

theorem refused_pickup_requests_panic:
  assumes "message_type_of (m_type msg) = Ok t" "t \<in> pickup_types" "check_expiry ''-1'' (clock 0) msg = Ok ()"
    and "validate_msg X S session (clock 1) msg = Err e"
  shows "message_process X S session clock uuid msg w = (Panic, w)"
  using assms refused_request[of X S session "\<lambda>i. clock (i + 1)" msg e]
  by (auto simp: message_process_def type_process_def pickup_types_def eff_then_app)

subsection \<open>The status\<close>

inductive_simps hmget_iff: "redis_command (''HMGET'' # args) ks rep ks'"
inductive_simps hexists_iff: "redis_command (''HEXISTS'' # args) ks rep ks'"
inductive_simps xinfo_iff: "redis_command (''XINFO'' # args) ks rep ks'"

lemma call_hmget:
  assumes "redis_laws R V" "call R (''HMGET'' # k # fs) db = (Ok r, db')" "fs \<noteq> []"
  shows "V db' = V db \<and> (\<exists>h. as_hash (V db) k = Some h \<and> r = RArray (map (\<lambda>f. bulk_opt (h f)) fs))"
proof -
  have "redis_command (''HMGET'' # k # fs) (V db) r (V db')"
    by (rule call_Ok[OF assms(1) _ assms(2)]) (rule sent.intros, rule assms(3))
  then show ?thesis by (auto simp: hmget_iff)
qed

lemma call_hexists:
  assumes "redis_laws R V" "call R [''HEXISTS'', k, f] db = (Ok r, db')"
  shows "V db' = V db \<and> (\<exists>h. as_hash (V db) k = Some h \<and> r = RInt (if h f = None then 0 else 1))"
proof -
  have "redis_command [''HEXISTS'', k, f] (V db) r (V db')"
    by (rule call_Ok[OF assms(1) _ assms(2)]) (rule sent.intros, simp)
  then show ?thesis by (auto simp: hexists_iff)
qed

lemma pcall_xinfo:
  assumes "redis_laws R V"
    and "eff_match (call R [''XINFO'', ''STREAM'', k]) (\<lambda>r. eff_of (queue_fields r)) (\<lambda>_. eff_of (Ok [])) db = (Ok q, db')"
  shows "V db' = V db \<and> (q = [] \<or> (\<exists>a b n. q = [(RBulk ''oldest_received'', a), (RBulk ''newest_received'', b),
     (RBulk ''queue_count'', n)]))"
proof -
  have s: "sent [''XINFO'', ''STREAM'', k]" by (rule sent.intros)
  from assms(2) consider (ok) r where "call R [''XINFO'', ''STREAM'', k] db = (Ok r, db')" "queue_fields r = Ok q"
    | (err) e where "call R [''XINFO'', ''STREAM'', k] db = (Err e, db')" "q = []"
    by (auto simp: effect_simps)
  then show ?thesis
  proof cases
    case ok
    from call_Ok[OF assms(1) s ok(1)] ok(2) show ?thesis
      by (auto simp: xinfo_iff queue_fields_def result_simps)
  next
    case err
    with call_Err[OF assms(1) s err(1)] show ?thesis by simp
  qed
qed

lemma tonumber_int_show [simp]: "tonumber_int (show_nat n) = Some (int n)"
proof (cases "show_nat n")
  case Nil
  then show ?thesis by simp
next
  case (Cons c cs)
  with show_nat_no_dash[of n] have "c \<noteq> CHR ''-''" by auto
  then have "tonumber_int (show_nat n) = map_option int (tonumber (show_nat n))"
    by (simp add: tonumber_int_def Cons)
  then show ?thesis by simp
qed

lemma number_field_counts:
  assumes "counts h f (int n)"
  shows "number_field name (bulk_opt (h f)) = [(RBulk name, RInt (int n))] \<or>
    (number_field name (bulk_opt (h f)) = [] \<and> n = 0)"
  using assms by (auto simp: counts_def number_field_def bulk_opt_def)

text \<open>The parts of the table, one after the other.\<close>

lemma status_script_Ok:
  assumes laws: "redis_laws R V" and s: "get_status_reply_lua R key db = (Ok rep, db')"
    and counts: "\<And>h. as_hash (V db) (did_row key) = Some h \<Longrightarrow>
       counts h ''RECEIVE_QUEUE_COUNT'' (int n) \<and> counts h ''RECEIVE_QUEUE_BYTES'' (int b)"
  shows "V db' = V db \<and> (\<exists>cf bf q h. rep = RMap ([(RBulk ''recipient_did'', RBulk key)] @ cf @ bf @ q @
       [(RBulk ''live_delivery'', RBool (h key \<noteq> None))]) \<and>
     (cf = [(RBulk ''message_count'', RInt (int n))] \<or> cf = [] \<and> n = 0) \<and>
     (bf = [(RBulk ''total_bytes'', RInt (int b))] \<or> bf = [] \<and> b = 0) \<and>
     (q = [] \<or> (\<exists>a b n. q = [(RBulk ''oldest_received'', a), (RBulk ''newest_received'', b), (RBulk ''queue_count'', n)])) \<and>
     as_hash (V db) global_streaming = Some h)"
proof -
  from s obtain r d1 cs q d2 l where
    c1: "call R [''HMGET'', did_row key, ''RECEIVE_QUEUE_COUNT'', ''RECEIVE_QUEUE_BYTES''] db = (Ok r, d1)"
    and cs: "Ok cs = lua_array r"
    and c2: "eff_match (call R [''XINFO'', ''STREAM'', receive_q key]) (\<lambda>r. eff_of (queue_fields r))
      (\<lambda>_. eff_of (Ok [])) d1 = (Ok q, d2)"
    and c3: "call R [''HEXISTS'', global_streaming, key] d2 = (Ok l, db')"
    and rep: "rep = status_table key cs q (l \<noteq> RInt 0)"
    unfolding get_status_reply_lua_def eff_then_Ok_iff eff_of_eq by auto
  from call_hmget[OF laws c1] obtain h where v1: "V d1 = V db" and h: "as_hash (V db) (did_row key) = Some h"
    and r: "r = RArray [bulk_opt (h ''RECEIVE_QUEUE_COUNT''), bulk_opt (h ''RECEIVE_QUEUE_BYTES'')]" by auto
  have cs: "cs = [bulk_opt (h ''RECEIVE_QUEUE_COUNT''), bulk_opt (h ''RECEIVE_QUEUE_BYTES'')]"
    using cs by (simp add: r lua_array_def)
  note q = pcall_xinfo[OF laws c2]
  from call_hexists[OF laws c3] q v1 obtain g where v3: "V db' = V db" and g: "as_hash (V db) global_streaming = Some g"
    and l: "l = RInt (if g key = None then 0 else 1)" by auto
  have l': "(l \<noteq> RInt 0) = (g key \<noteq> None)" by (simp add: l)
  from counts[OF h] number_field_counts[of h _ n "''message_count''"] number_field_counts[of h _ b "''total_bytes''"]
  have "number_field ''message_count'' (bulk_opt (h ''RECEIVE_QUEUE_COUNT'')) = [(RBulk ''message_count'', RInt (int n))] \<or>
      number_field ''message_count'' (bulk_opt (h ''RECEIVE_QUEUE_COUNT'')) = [] \<and> n = 0"
    "number_field ''total_bytes'' (bulk_opt (h ''RECEIVE_QUEUE_BYTES'')) = [(RBulk ''total_bytes'', RInt (int b))] \<or>
      number_field ''total_bytes'' (bulk_opt (h ''RECEIVE_QUEUE_BYTES'')) = [] \<and> b = 0" by blast+
  with v3 g q show ?thesis unfolding rep cs l' status_table_def list.case by blast
qed

lemma conversionD_numbers:
  assumes "conversion_laws R"
  shows "n < 2 ^ 32 \<Longrightarrow> rv_u32 R (RInt (int n)) = Inr n" "n < 2 ^ 64 \<Longrightarrow> rv_u64 R (RInt (int n)) = Inr n"
    and "rv_bool R (RInt (if b then 1 else 0)) = Inr b"
  using assms unfolding conversion_laws_def by blast+

lemma status_field_other:
  assumes "conversion_laws R" "k \<in> {''oldest_received'', ''newest_received'', ''queue_count'', ''recipient_did''}"
  shows "sp_message_count (status_field R (RBulk k, v) st) = sp_message_count st"
    and "sp_total_bytes (status_field R (RBulk k, v) st) = sp_total_bytes st"
    and "sp_recipient_did (status_field R (RBulk k, v) st) = sp_recipient_did st"
    and "sp_live_delivery (status_field R (RBulk k, v) st) = sp_live_delivery st"
  using assms(2) by (auto simp: status_field_def conversionD(1)[OF assms(1)])

lemma status_field_read:
  assumes "conversion_laws R"
  shows "n < 2 ^ 32 \<Longrightarrow> status_field R (RBulk ''message_count'', RInt (int n)) st = st\<lparr>sp_message_count := n\<rparr>"
    and "n < 2 ^ 64 \<Longrightarrow> status_field R (RBulk ''total_bytes'', RInt (int n)) st = st\<lparr>sp_total_bytes := n\<rparr>"
    and "status_field R (RBulk ''live_delivery'', RInt (if b then 1 else 0)) st = st\<lparr>sp_live_delivery := b\<rparr>"
  using conversionD_numbers[OF assms]
  by (auto simp: status_field_def conversionD(1)[OF assms])

lemma status_of_table:
  assumes conv: "conversion_laws R" and n: "n < 2 ^ 32" "b < 2 ^ 64"
    and cf: "cf = [(RBulk ''message_count'', RInt (int n))] \<or> cf = [] \<and> n = 0"
    and bf: "bf = [(RBulk ''total_bytes'', RInt (int b))] \<or> bf = [] \<and> b = 0"
    and q: "q = [] \<or> (\<exists>x y z. q = [(RBulk ''oldest_received'', x), (RBulk ''newest_received'', y), (RBulk ''queue_count'', z)])"
    and fvs: "fvs = map (\<lambda>(x, y). (resp2 x, resp2 y)) ([(RBulk ''recipient_did'', RBulk key)] @ cf @ bf @ q @
       [(RBulk ''live_delivery'', RBool live)])"
  shows "sp_message_count (status_of R session (unpair fvs) override now) = n"
    and "sp_total_bytes (status_of R session (unpair fvs) override now) = b"
    and "sp_recipient_did (status_of R session (unpair fvs) override now) = cs_did session"
    and "sp_live_delivery (status_of R session (unpair fvs) override now) =
      (case override of Some x \<Rightarrow> x | None \<Rightarrow> live)"
proof -
  note f = status_field_read[OF conv] status_field_other[OF conv]
  define st0 where "st0 = \<lparr>sp_recipient_did = cs_did session, sp_message_count = 0, sp_longest_waited_seconds = None,
      sp_newest_received_time = None, sp_oldest_received_time = None, sp_total_bytes = 0, sp_live_delivery = False\<rparr>"
  define st1 where "st1 = fold (status_field R) fvs st0"
  have s1: "sp_message_count st1 = n" "sp_total_bytes st1 = b" "sp_recipient_did st1 = cs_did session"
      "sp_live_delivery st1 = live"
    using cf bf q n by (auto simp: st1_def st0_def fvs f)
  have "status_of R session (unpair fvs) override now =
     (let st = (case override of Some b \<Rightarrow> st1\<lparr>sp_live_delivery := b\<rparr> | None \<Rightarrow> st1)
      in case sp_oldest_received_time st of
           Some t \<Rightarrow> st\<lparr>sp_longest_waited_seconds := Some (now - t)\<rparr> | None \<Rightarrow> st)"
    unfolding status_of_def st1_def st0_def Let_def pairs_of_unpair ..
  with s1 show "sp_message_count (status_of R session (unpair fvs) override now) = n"
      "sp_total_bytes (status_of R session (unpair fvs) override now) = b"
      "sp_recipient_did (status_of R session (unpair fvs) override now) = cs_did session"
      "sp_live_delivery (status_of R session (unpair fvs) override now) =
        (case override of Some x \<Rightarrow> x | None \<Rightarrow> live)"
    by (simp_all add: Let_def split: option.splits)
qed

definition status_answer ::
  "'db shared \<Rightarrow> client_session \<Rightarrow> u64 \<Rightarrow> string \<Rightarrow> string \<Rightarrow> bool \<Rightarrow> status_reply \<Rightarrow> process_response" where
  "status_answer S session now uuid thid force st =
     \<lparr>pr_store_message = False, pr_force_live_delivery = force,
      pr_message_response = ResponseMessage (answer_builder S session now
        (with_thid thid (message_build uuid ''https://didcomm.org/messagepickup/3.0/status'' (status_json st))))\<rparr>"

lemma on_db_Ok: "on_db m w = (Ok x, w') \<longleftrightarrow> (\<exists>db. m (w_db w) = (Ok x, db) \<and> w' = w\<lparr>w_db := db\<rparr>)"
  by (auto simp: on_db_def effect_simps)

lemma generate_status_reply_Ok:
  assumes laws: "redis_laws (sh_database S) V" and conv: "conversion_laws (sh_database S)"
    and counts: "\<And>h. as_hash (V (w_db w)) (did_row did) = Some h \<Longrightarrow>
       counts h ''RECEIVE_QUEUE_COUNT'' (int n) \<and> counts h ''RECEIVE_QUEUE_BYTES'' (int b)"
    and n: "n < 2 ^ 32" "b < 2 ^ 64"
    and g: "generate_status_reply S session now uuid did thid force override w = (Ok resp, w')"
  shows "V (w_db w') = V (w_db w) \<and> w_updates w' = w_updates w \<and> (\<exists>st h. resp = Some (status_answer S session now uuid thid force st) \<and>
     sp_message_count st = n \<and> sp_total_bytes st = b \<and> sp_recipient_did st = cs_did session \<and>
     as_hash (V (w_db w)) global_streaming = Some h \<and>
     sp_live_delivery st = (case override of Some x \<Rightarrow> x | None \<Rightarrow> h did \<noteq> None))"
proof -
  let ?R = "sh_database S"
  from g obtain db rep vs where s: "get_status_reply_lua ?R did (w_db w) = (Ok rep, db)"
    and vs: "rv_values ?R (resp2 rep) = Inr vs" and w': "w' = w\<lparr>w_db := db\<rparr>"
    and r: "resp = Some (status_answer S session now uuid thid force (status_of ?R session vs override now))"
    by (auto simp: generate_status_reply_def Let_def effect_simps on_db_Ok status_answer_def dest!: fcall_script)
  from status_script_Ok[OF laws s counts] obtain cf bf q h where v: "V db = V (w_db w)"
    and rep: "rep = RMap ([(RBulk ''recipient_did'', RBulk did)] @ cf @ bf @ q @
       [(RBulk ''live_delivery'', RBool (h did \<noteq> None))])"
    and p: "cf = [(RBulk ''message_count'', RInt (int n))] \<or> cf = [] \<and> n = 0"
      "bf = [(RBulk ''total_bytes'', RInt (int b))] \<or> bf = [] \<and> b = 0"
      "q = [] \<or> (\<exists>x y z. q = [(RBulk ''oldest_received'', x), (RBulk ''newest_received'', y), (RBulk ''queue_count'', z)])"
    and h: "as_hash (V (w_db w)) global_streaming = Some h" by blast
  have "vs = unpair (map (\<lambda>(x, y). (resp2 x, resp2 y)) ([(RBulk ''recipient_did'', RBulk did)] @ cf @ bf @ q @
       [(RBulk ''live_delivery'', RBool (h did \<noteq> None))]))"
    using vs conversionD(4)[OF conv] unfolding rep resp2.simps by simp
  from status_of_table[OF conv n p refl, of session did "h did \<noteq> None" override now, folded this] h v r w'
  show ?thesis by (intro conjI exI) simp_all
qed

text \<open>C21: after every history of completed stores and deletions, the status a client gets tells the
  number and the bytes of the messages in the receive queue of the DID, where these fit the fields
  of the status, and asking changes nothing.\<close>

theorem status_counts_the_inbox:
  assumes "redis_laws (sh_database S) V" "conversion_laws (sh_database S)" "hex_digests X"
    and "mail_reach X (sh_database S) V (w_db w)"
    and "es = entries (V (w_db w)) (receive_q did)"
    and "length es < 2 ^ 32" "sum_list (map entry_bytes es) < 2 ^ 64"
    and "generate_status_reply S session now uuid did thid force override w = (Ok resp, w')"
  shows "V (w_db w') = V (w_db w) \<and> (\<exists>st. resp = Some (status_answer S session now uuid thid force st) \<and>
     sp_message_count st = length es \<and> int (sp_total_bytes st) = sum_list (map entry_bytes es))"
proof -
  have nonneg: "0 \<le> sum_list (map entry_bytes es)" by (rule entry_bytes_nonneg)
  have c: "counts h ''RECEIVE_QUEUE_COUNT'' (int (length es)) \<and>
      counts h ''RECEIVE_QUEUE_BYTES'' (int (nat (sum_list (map entry_bytes es))))"
    if "as_hash (V (w_db w)) (did_row did) = Some h" for h
    using mail_invD(3)[OF mail_reach_inv[OF assms(4,1,3)] that] assms(5) nonneg by (simp add: row_counts_def)
  have "nat (sum_list (map entry_bytes es)) < 2 ^ 64" using assms(7) by simp
  from generate_status_reply_Ok[OF assms(1,2) c assms(6) this assms(8)] nonneg show ?thesis by auto
qed

lemma query_not_Panic [simp]: "query R conv err c db \<noteq> (Panic, db')"
  by (auto simp: query_def result_simps split: prod.splits sum.splits)

text \<open>What the row of a client says, or nothing when the database cannot be read.\<close>

lemma client_live_row:
  assumes laws: "redis_laws R V" and conv: "conversion_laws R" and row: "row_of (V db) did = Some row"
    and live: "streaming_is_client_live R did force db = (r, db')"
  shows "r = Ok None \<or>
    r = Ok (case split_on CHR '':'' row of
              [uuid, l] \<Rightarrow> if l = ''TRUE'' \<or> force then Some uuid else None | _ \<Rightarrow> None)"
proof -
  have s: "sent [''HGET'', global_streaming, did]" by (rule sent.intros) simp
  have "x = Some row"
    if "query R (rv_opt_string R) (\<lambda>e. DatabaseError ''NA'' e) [''HGET'', global_streaming, did] db = (Ok x, d)"
    for x d
    using query_Ok[OF laws s that] row conv by (auto simp: hget_iff row_of_def conversion_laws_def bulk_opt_def)
  with live show ?thesis
    by (fastforce simp: streaming_is_client_live_def effect_simps dest!: get_async_connection_state)
qed

text \<open>a client that is connected but has not switched live delivery on is told that it is live,
  while nothing is streamed to it.\<close>

theorem connected_counts_as_live:
  assumes laws: "redis_laws (sh_database S) V" and conv: "conversion_laws (sh_database S)" and inv: "mail_inv (V (w_db w))"
    and es: "es = entries (V (w_db w)) (receive_q did)" "length es < 2 ^ 32" "0 \<le> sum_list (map entry_bytes es)"
      "sum_list (map entry_bytes es) < 2 ^ 64"
    and row: "row_of (V (w_db w)) did = Some (streaming_row u False)" "CHR '':'' \<notin> set u"
    and g: "generate_status_reply S session now uuid did thid force None w = (Ok resp, w')"
    and live: "streaming_is_client_live (sh_database S) did False (w_db w) = (r, db')"
  shows "r = Ok None \<and>
    (\<exists>st. resp = Some (status_answer S session now uuid thid force st) \<and> sp_live_delivery st)"
proof -
  have c: "counts h ''RECEIVE_QUEUE_COUNT'' (int (length es)) \<and>
      counts h ''RECEIVE_QUEUE_BYTES'' (int (nat (sum_list (map entry_bytes es))))"
    if "as_hash (V (w_db w)) (did_row did) = Some h" for h
    using mail_invD(3)[OF inv that] es by (simp add: row_counts_def)
  have "nat (sum_list (map entry_bytes es)) < 2 ^ 64" using es(4) by simp
  from generate_status_reply_Ok[OF laws conv c es(2) this g] row(1) have
    "\<exists>st. resp = Some (status_answer S session now uuid thid force st) \<and> sp_live_delivery st"
    by (auto simp: row_of_def)
  moreover have "r = Ok None"
  proof -
    have "split_on CHR '':'' (streaming_row u False) = [u, ''FALSE'']"
      using row(2) by (simp add: streaming_row_def split_on_append split_on_absent)
    with client_live_row[OF laws conv row(1) live] show ?thesis by auto
  qed
  ultimately show ?thesis by blast
qed

subsection \<open>Deliveries\<close>

text \<open>An attachment attaches the message an entry of the inbox stands for.\<close>

definition attaches ::
  "('k, 'c, 'w, 'z) med_ext_scheme \<Rightarrow> keyspace \<Rightarrow> stream_id \<times> (string \<times> string) list \<Rightarrow> attachment \<Rightarrow> bool" where
  "attaches X ks e a \<longleftrightarrow> a_id a = Some (msg_id_of e) \<and>
     (\<exists>s. ks (msg_key (msg_id_of e)) = Some (EStr s) \<and>
        a_data a = DataBase64 \<lparr>b64_value = b64_encode X s, b64_jws = None\<rparr>)"

lemma delivery_carries:
  assumes "list_all2 (element_of ks) es ms" "list_all (linked_entry ks d) es"
  shows "list_all2 (attaches X ks) es (delivery_attachments X ms)"
  using assms
proof (induction rule: list_all2_induct)
  case (Cons e es m ms)
  from Cons.prems obtain s where s: "ks (msg_key (msg_id_of e)) = Some (EStr s)"
    by (auto simp: linked_entry_def Let_def)
  with Cons.hyps(1) have "me_msg m = Some s" "me_msg_id m = msg_id_of e"
    by (cases "me_msg m"; auto simp: element_of_def)+
  with Cons s show ?case
    by (simp add: delivery_attachments_def attaches_def attachment_builder_defs)
qed (simp add: delivery_attachments_def)

text \<open>What a delivery attaches.\<close>

lemma delivery_of_inbox:
  assumes "redis_laws (sh_database S) V" "conversion_laws (sh_database S)" "linked (V (w_db w))"
    and d: "delivery_request X S session clock uuid msg w = (Ok (Some p), w')"
    and inbox: "entries (V (w_db w)) (receive_q (digest X (cs_did session))) = es" "es \<noteq> []"
  shows "V (w_db w') = V (w_db w) \<and> (\<exists>n m as. 1 \<le> n \<and> n \<le> 100 \<and> pr_message_response p = ResponseMessage m \<and>
     m_to m = Some [cs_did session] \<and> m_attachments m = Some as \<and> list_all2 (attaches X (V (w_db w))) (take n es) as)"
proof -
  from d obtain did limit messages db where
    b: "parse_and_validate_delivery_request_body X session msg = Ok (did, limit)"
    and f: "fetch_messages (sh_database S) (cs_session_id session) (digest X did)
         (default_fetch_options\<lparr>fo_limit := limit\<rparr>) (w_db w) = (Ok messages, db)"
    and rest: "(if gm_success messages \<noteq> [] then eff_of (Ok (Some
        \<lparr>pr_store_message = False, pr_force_live_delivery = False,
         pr_message_response = ResponseMessage (answer_builder S session (clock 1)
           (with_attachments (delivery_attachments X (gm_success messages))
             (with_thid (thread_of msg) (message_build uuid ''https://didcomm.org/messagepickup/3.0/delivery''
                  (JObject [(''recipient_did'', JString did)])))))\<rparr>))
       else generate_status_reply S session (clock 1) uuid (digest X did) (thread_of msg) False None)
      (w\<lparr>w_db := db\<rparr>) = (Ok (Some p), w')"
    unfolding delivery_request_def by (auto simp only: effect_simps on_db_Ok prod.case eq_commute[of _ "parse_and_validate_delivery_request_body X session msg"])
  from b have did: "did = cs_did session" and n: "1 \<le> limit" "limit \<le> 100"
    by (auto simp: parse_and_validate_delivery_request_body_def result_simps)
  from fetch_pages_the_inbox[OF assms(1-3), of limit None DoNotDelete "cs_session_id session" "digest X did" messages db] f n
  have v: "V db = V (w_db w)" "list_all2 (element_of (V (w_db w))) (take limit es) (gm_success messages)"
    using inbox(1) did by (simp_all add: default_fetch_options_def page_def)
  from v(2) n inbox(2) have ne: "gm_success messages \<noteq> []" by (cases es) (auto simp: take_Cons')
  have l: "list_all (linked_entry (V (w_db w)) (digest X (cs_did session))) (take limit es)"
    using assms(3) inbox(1) unfolding linked_def by (auto simp: list_all_iff dest: in_set_takeD)
  from rest ne have w': "w' = w\<lparr>w_db := db\<rparr>" and p: "pr_message_response p = ResponseMessage (answer_builder S session (clock 1)
           (with_attachments (delivery_attachments X (gm_success messages))
             (with_thid (thread_of msg) (message_build uuid ''https://didcomm.org/messagepickup/3.0/delivery''
                  (JObject [(''recipient_did'', JString did)])))))"
    by (auto simp: effect_simps)
  show ?thesis
    using v(1) w' n p delivery_carries[OF v(2) l, where X = X]
    by (intro conjI exI) (auto simp: answer_builder_def builder_defs)
qed

text \<open>C20: a delivery goes to the client of the session and attaches, oldest first and each once, the
  first messages of that client's own inbox, at most a hundred, with their ids and texts; it is
  answered with a status when the inbox is empty, and deletes nothing.\<close>

theorem delivery_is_the_own_inbox:
  assumes "redis_laws (sh_database S) V" "conversion_laws (sh_database S)" "linked (V (w_db w))"
    and d: "delivery_request X S session clock uuid msg w = (Ok (Some p), w')"
    and inbox: "entries (V (w_db w)) (receive_q (digest X (cs_did session))) = es" "es \<noteq> []"
  shows "V (w_db w') = V (w_db w) \<and> (\<exists>n m as. 1 \<le> n \<and> n \<le> 100 \<and> pr_message_response p = ResponseMessage m \<and>
     m_to m = Some [cs_did session] \<and> m_attachments m = Some as \<and> list_all2 (attaches X (V (w_db w))) (take n es) as)"
  using assms by (rule delivery_of_inbox)

end
