(* ===== verification/ConfigProps.thy ===== *)
theory ConfigProps
  imports Server PickupProps
begin

text \<open>
  What the configuration makes of the file, and how the mediator starts: the limits keep the numbers
  of the file, the loop that waits for the database ends exactly when the database answers, and an id
  of the mediator with a colon switches off live streaming.
\<close>

subsection \<open>Waiting for the database\<close>

text \<open>The state after \<open>n\<close> attempts in a row that failed.\<close>

primrec failing :: "'db redis \<Rightarrow> nat \<Rightarrow> 'db \<Rightarrow> 'db option" where
  "failing R 0 db = Some db"
| "failing R (Suc n) db =
     (case ping_database R db of (Err _, db') \<Rightarrow> failing R n db' | _ \<Rightarrow> None)"

lemma ping_not_Panic [simp]: "ping_database R db \<noteq> (Panic, db')"
  by (auto simp: ping_database_def effect_simps)

lemma connect_loop_step:
  "connect_loop R db = (case ping_database R db of
     (Err _, db') \<Rightarrow> connect_loop R db' | (_, db') \<Rightarrow> Some (Ok (), db'))"
  by (subst connect_loop.simps) (auto split: prod.splits result.splits)

lemma connect_loop_answered:
  assumes "failing R n db = Some db1" "ping_database R db1 = (Ok s, db2)"
  shows "connect_loop R db = Some (Ok (), db2)"
  using assms
proof (induction n arbitrary: db)
  case 0
  then show ?case by (simp add: connect_loop_step)
next
  case (Suc n)
  then obtain e db' where "ping_database R db = (Err e, db')" "failing R n db' = Some db1"
    by (auto split: prod.splits result.splits)
  with Suc show ?case by (subst connect_loop_step) simp
qed

text \<open>What has to be shown of a loop that returned, as its induction rule asks for it.\<close>

definition answered :: "'db redis \<Rightarrow> 'db \<Rightarrow> (unit, mediator_error) result \<times> 'db \<Rightarrow> bool" where
  "answered R db p \<longleftrightarrow> fst p = Ok () \<and>
     (\<exists>n db1 s. failing R n db = Some db1 \<and> ping_database R db1 = (Ok s, snd p))"

lemma answered_now: "ping_database R db = (Ok s, db') \<Longrightarrow> answered R db (Ok (), db')"
  unfolding answered_def by (metis failing.simps(1) fst_conv snd_conv)

lemma answered_later:
  assumes "ping_database R db = (Err e, db')" "answered R db' p"
  shows "answered R db p"
proof -
  obtain n db1 s where "failing R n db' = Some db1" "ping_database R db1 = (Ok s, snd p)" "fst p = Ok ()"
    using assms(2) unfolding answered_def by blast
  moreover from this assms(1) have "failing R (Suc n) db = Some db1" by simp
  ultimately show ?thesis unfolding answered_def by blast
qed

lemma connect_loop_returns:
  assumes "connect_loop R db = Some p"
  shows "answered R db p"
proof (rule connect_loop.raw_induct [where P = answered, OF _ assms])
  fix f and R :: "'a redis" and db p
  assume IH: "\<And>R db p. f R db = Some p \<Longrightarrow> answered (R :: 'a redis) db p"
    and eq: "(case ping_database R db of (Ok _, db') \<Rightarrow> Some (Ok (), db')
      | (Err _, db') \<Rightarrow> f R db' | (Panic, db') \<Rightarrow> Some (Panic, db')) = Some p"
  then show "answered R db p"
    by (cases p) (auto split: prod.splits result.splits intro: answered_now answered_later)
qed

text \<open>C39: The loop that waits for the database at the start returns exactly when some attempt is
  answered: it returns after any number of attempts that failed before the first that did not, and
  never gives up.\<close>

theorem connect_loop_waits:
  "connect_loop R db = Some (r, db2) \<longleftrightarrow>
     r = Ok () \<and> (\<exists>n db1 s. failing R n db = Some db1 \<and> ping_database R db1 = (Ok s, db2))"
  using connect_loop_answered connect_loop_returns[of R db "(r, db2)"] by (auto simp: answered_def)

subsection \<open>Settings\<close>

lemma parse_or_bound: "d < 2 ^ w \<Longrightarrow> parse_or w d s < 2 ^ w"
  by (auto simp: parse_or_def dest: parse_nat_bound split: option.splits)

text \<open>What the steps after the plain settings change.\<close>

lemma cors_step:
  "(case ors of Some origins \<Rightarrow> and_then (parse_cors_allow_origin H origins)
      (\<lambda>os. Ok (k\<lparr>cf_cors_allow_origin := AllowOrigins os\<rparr>)) | None \<Rightarrow> Ok k) = Ok k' \<Longrightarrow>
    \<exists>a. k' = k\<lparr>cf_cors_allow_origin := a\<rparr>"
  by (cases ors; cases k) (auto simp: result_simps)

lemma config_try_from_Ok:
  assumes "config_try_from H raw = Ok c"
  obtains did cors secrets key pub uuid where
    "read_did_config H (raw_mediator_did raw) = Ok did"
    "load_secrets H (raw_mediator_secrets raw) = Ok secrets"
    "config_jwt_secret H (sec_jwt_authorization_secret (raw_security raw)) = Ok key"
    "c = (plain_settings raw did)\<lparr>cf_cors_allow_origin := cors, cf_mediator_secrets := secrets,
          cf_jwt_encoding_key := Some key, cf_jwt_decoding_key := Some pub, cf_streaming_uuid := uuid\<rparr>"
    "cf_streaming_enabled c \<Longrightarrow> get_hostname H (stc_uuid (raw_streaming raw)) = Ok uuid"
proof -
  from assms obtain did c1 secrets key pub where did: "read_did_config H (raw_mediator_did raw) = Ok did"
    and c1: "(case sec_cors_allow_origin (raw_security raw) of
         Some origins \<Rightarrow> and_then (parse_cors_allow_origin H origins) (\<lambda>os.
           Ok ((plain_settings raw did)\<lparr>cf_cors_allow_origin := AllowOrigins os\<rparr>))
       | None \<Rightarrow> Ok (plain_settings raw did)) = Ok c1"
    and l: "load_secrets H (raw_mediator_secrets raw) = Ok secrets"
    and k: "config_jwt_secret H (sec_jwt_authorization_secret (raw_security raw)) = Ok key"
    and c: "(if cf_streaming_enabled (c1\<lparr>cf_mediator_secrets := secrets, cf_jwt_encoding_key := Some key,
            cf_jwt_decoding_key := Some pub\<rparr>)
        then and_then (get_hostname H (stc_uuid (raw_streaming raw))) (\<lambda>uuid.
            Ok (c1\<lparr>cf_mediator_secrets := secrets, cf_jwt_encoding_key := Some key,
            cf_jwt_decoding_key := Some pub, cf_streaming_uuid := uuid\<rparr>))
        else Ok (c1\<lparr>cf_mediator_secrets := secrets, cf_jwt_encoding_key := Some key,
            cf_jwt_decoding_key := Some pub\<rparr>)) = Ok c"
    unfolding config_try_from_def Let_def and_then_Ok_iff by fastforce
  from cors_step[OF c1] obtain cors where c1: "c1 = (plain_settings raw did)\<lparr>cf_cors_allow_origin := cors\<rparr>" ..
  show thesis
  proof (cases "cf_streaming_enabled c")
    case True
    with c c1 obtain uuid where "get_hostname H (stc_uuid (raw_streaming raw)) = Ok uuid"
      "c = c1\<lparr>cf_mediator_secrets := secrets, cf_jwt_encoding_key := Some key,
            cf_jwt_decoding_key := Some pub, cf_streaming_uuid := uuid\<rparr>"
      by (auto simp: result_simps split: if_splits)
    with that[OF did l k] c1 show thesis by simp
  next
    case False
    with c c1 have "c = (plain_settings raw did)\<lparr>cf_cors_allow_origin := cors, cf_mediator_secrets := secrets,
          cf_jwt_encoding_key := Some key, cf_jwt_decoding_key := Some pub,
          cf_streaming_uuid := cf_streaming_uuid (plain_settings raw did)\<rparr>"
      by (auto simp: result_simps plain_settings_def split: if_splits)
    from that[OF did l k this] False show thesis by simp
  qed
qed

text \<open>The number a limit has when its setting is a text: the decimal number in it, or the default.\<close>

definition reads_as :: "nat \<Rightarrow> nat \<Rightarrow> string \<Rightarrow> nat \<Rightarrow> bool" where
  "reads_as w d s n \<longleftrightarrow>
     n < 2 ^ w \<and> (\<forall>k < 2 ^ w. s = show_nat k \<longrightarrow> n = k) \<and> (parse_nat w s = None \<longrightarrow> n = d)"

lemma parse_or_reads: "d < 2 ^ w \<Longrightarrow> reads_as w d s (parse_or w d s)"
  by (auto simp: reads_as_def parse_or_bound) (auto simp: parse_or_def parse_nat_show)

lemma word_reads:
  "reads_as 64 d s (parse_or 64 d s) \<Longrightarrow> reads_as 64 d s (unat (word_of_nat (parse_or 64 d s) :: u64))"
  by (simp add: reads_as_def unat_of_nat)

text \<open>C40: Each limit the handlers work with is the number in the text of its own setting, in its width
  and cut off nowhere, or its default when the text is no such number.\<close>

theorem limits_are_kept:
  assumes "config_try_from H raw = Ok c"
  shows "reads_as 64 1000 (oc_crypto_operations_per_message_limit (raw_other raw))
      (unat (sh_crypto_operations_limit (shared_of c R))) \<and>
    reads_as 64 100 (oc_to_keys_per_recipient_limit (raw_other raw)) (unat (sh_to_keys_limit (shared_of c R))) \<and>
    reads_as 64 100 (oc_to_recipients_limit (raw_other raw)) (sh_to_recipients_limit (shared_of c R)) \<and>
    reads_as 32 100 (dc_max_listed_messages (raw_database raw)) (sh_max_listed_messages (shared_of c R)) \<and>
    reads_as 32 100 (dc_max_deleted_messages (raw_database raw)) (sh_max_deleted_messages (shared_of c R)) \<and>
    reads_as 32 10485760 (sc_ws_size_limit (raw_server raw)) (sh_ws_size_limit (shared_of c R))"
  by (rule_tac config_try_from_Ok[OF assms])
     (simp add: shared_of_def plain_settings_def parse_or_reads word_reads)

subsection \<open>The id of the mediator\<close>

lemma split_on_length: "length (split_on c s) = Suc (count_list s c)"
  by (induction s rule: split_on.induct) (auto split: list.splits)

text \<open>An id of the mediator that has a colon, which the configuration takes from the text as it
  is, switches off live streaming: no client that is registered under it ever counts as live.\<close>

theorem colon_in_uuid_disables_streaming:
  assumes c: "config_try_from H raw = Ok c" "cf_streaming_enabled c"
    and uuid: "stc_uuid (raw_streaming raw) = ''string://'' @ u" "CHR '':'' \<in> set u"
    and laws: "redis_laws R V" and conv: "conversion_laws R"
    and row: "row_of (V db) did = Some (streaming_row (cf_streaming_uuid c) live)"
    and r: "streaming_is_client_live R did force db = (r, db')"
  shows "r = Ok None"
proof -
  have "cf_streaming_uuid c = u"
    using c(2) uuid(1) by (rule_tac config_try_from_Ok[OF c(1)]) (simp add: get_hostname_def)
  moreover have "count_list u CHR '':'' \<noteq> 0" using uuid(2) by (simp add: count_list_0_iff)
  then have "3 \<le> length (split_on CHR '':'' (streaming_row u live))"
    by (simp add: split_on_length streaming_row_def)
  then obtain a b e es where "split_on CHR '':'' (streaming_row u live) = a # b # e # es"
    by (auto simp: numeral_3_eq_3 Suc_le_length_iff)
  ultimately show ?thesis using client_live_row[OF laws conv row r] by auto
qed

end
