(* ===== verification/UnpackProps.thy ===== *)
theory UnpackProps
  imports Unpack
begin

text \<open>
  What holds of \<open>Unpack\<close>: what the metadata of an unpacked message is evidence of. A sender key id
  stands for a decryption with the key its document publishes, a signer key id for a verified
  signature; the loop is bounded by the limit of the options; the places where a received text
  can make the code panic.
\<close>

subsection \<open>Evidence\<close>

text \<open>
  \<open>payload\<close> came out of a JWE under the key agreement of the sender key \<open>kid\<close> publishes and a
  private key of the recipient.
\<close>

definition authcrypted ::
  "('k, 'c, 'w, 'z) env_ext_scheme \<Rightarrow> secrets_resolver \<Rightarrow> string \<Rightarrow> parsed_jwe \<Rightarrow> bytes \<Rightarrow> bool" where
  "authcrypted X SR kid pj payload \<longleftrightarrow>
     ph_alg (pj_protected pj) = Ecdh1puA256kw \<and> pj_apu pj = Some kid \<and>
     (\<exists>fp to_kid tp. published_sender X kid fp \<and> recipient_key X SR to_kid = Ok tp \<and>
        pair_alg tp = pair_alg fp \<and>
        decrypt X CeA256CbcHs512 KdfEcdh1PU (pair_alg fp) (Some (kid, pair_key fp))
          (to_kid, pair_key tp) pj = Ok payload)"

text \<open>The one signature of a JWS is good under the key its document publishes for it.\<close>

definition signed_by ::
  "('k, 'c, 'w, 'z) env_ext_scheme \<Rightarrow> string \<Rightarrow> parsed_jws \<Rightarrow> bytes \<Rightarrow> bool" where
  "signed_by X kid pjs payload \<longleftrightarrow>
     is_did_url kid \<and> b64_decode X (jws_payload (pjs_jws pjs)) = Inr payload \<and>
     (\<exists>doc vm j ka k. did_resolve X (did_of kid) = Inr doc \<and> contains_authentication X doc kid \<and>
        find_vm doc kid = Some vm \<and> get_jwk X vm = Ok (Some j) \<and> as_alg X ka j = Ok k \<and>
        jws_verify X pjs (kid, k) = Ok True)"

text \<open>A text is the message, or a signed envelope around it.\<close>

definition carries :: "('k, 'c, 'w, 'z) env_ext_scheme \<Rightarrow> string \<Rightarrow> message \<Rightarrow> bool" where
  "carries X s m \<longleftrightarrow>
     read_envelope X s = Ok (PeMessage m) \<or>
     (\<exists>pjs kid payload. read_envelope X s = Ok (PeJws pjs) \<and> signed_by X kid pjs payload \<and>
        read_envelope X payload = Ok (PeMessage m))"

lemma carries_message: "read_envelope X s = Ok (PeMessage m) \<Longrightarrow> carries X s m"
  by (simp add: carries_def)

lemma carries_signed:
  "read_envelope X s = Ok (PeJws pjs) \<Longrightarrow> signed_by X kid pjs payload \<Longrightarrow>
     read_envelope X payload = Ok (PeMessage m) \<Longrightarrow> carries X s m"
  by (auto simp: carries_def)

subsection \<open>What the steps leave alone\<close>

definition same_sender :: "'k meta_envelope \<Rightarrow> 'k meta_envelope \<Rightarrow> bool" where
  "same_sender me me' \<longleftrightarrow>
     me_from_kid me' = me_from_kid me \<and> me_from_key me' = me_from_key me \<and>
     me_to_kids_found me' = me_to_kids_found me \<and>
     um_encrypted_from_kid (me_metadata me') = um_encrypted_from_kid (me_metadata me) \<and>
     um_authenticated (me_metadata me') = um_authenticated (me_metadata me) \<and>
     um_sign_from (me_metadata me') = um_sign_from (me_metadata me)"

lemma same_sender_refl [simp]: "same_sender me me"
  by (simp add: same_sender_def)

lemma same_sender_trans: "same_sender a b \<Longrightarrow> same_sender b c \<Longrightarrow> same_sender a c"
  by (simp add: same_sender_def)

lemma same_sender_wf: "same_sender me me' \<Longrightarrow> sender_wf X me' = sender_wf X me"
  by (simp add: same_sender_def sender_wf_def)

lemma upd_metadata_sel [simp]:
  "me_metadata (upd_metadata f me) = f (me_metadata me)"
  "me_from_kid (upd_metadata f me) = me_from_kid me"
  "me_from_key (upd_metadata f me) = me_from_key me"
  "me_to_kids_found (upd_metadata f me) = me_to_kids_found me"
  "me_parsed_envelope (upd_metadata f me) = me_parsed_envelope me"
  by (simp_all add: upd_metadata_def)

lemma anon_decrypt_same:
  "anon_decrypt X SR opts jwe p me kids = Ok (p', me') \<Longrightarrow> same_sender me me'"
proof (induction X SR opts jwe p me kids rule: anon_decrypt.induct)
  case (2 X SR opts jwe payload me to_kid kids)
  from "2.prems" obtain key alg ce ke k q where
    s: "anon_scheme key (ph_enc (pj_protected jwe)) = Some (alg, ce, ke, k)" and
    k: "recipient_key X SR to_kid = Ok key" and
    d: "decrypt X ce KdfEcdhEs ke None (to_kid, k) jwe = Ok q" and
    r: "(if \<not> uo_expect_decrypt_by_all_keys opts
         then Ok (Some q, upd_metadata (\<lambda>md. md\<lparr>um_enc_alg_anon := Some alg\<rparr>) me)
         else anon_decrypt X SR opts jwe (Some q)
                (upd_metadata (\<lambda>md. md\<lparr>um_enc_alg_anon := Some alg\<rparr>) me) kids) = Ok (p', me')"
    by (auto simp: result_simps Let_def)
  have "same_sender me (upd_metadata (\<lambda>md. md\<lparr>um_enc_alg_anon := Some alg\<rparr>) me)"
    by (simp add: same_sender_def)
  moreover have "same_sender (upd_metadata (\<lambda>md. md\<lparr>um_enc_alg_anon := Some alg\<rparr>) me) me'"
    using r "2.IH"[OF s refl refl refl refl] by (auto split: if_splits)
  ultimately show ?case by (rule same_sender_trans)
qed simp

text \<open>An anonymous decryption succeeds only where the envelope names no sender.\<close>

lemma anon_decrypt_no_apu:
  "anon_decrypt X SR opts jwe p me kids = Ok (Some q, me') \<Longrightarrow> p = None \<or> pj_apu jwe = None
     \<Longrightarrow> pj_apu jwe = None"
proof (induction X SR opts jwe p me kids rule: anon_decrypt.induct)
  case (2 X SR opts jwe payload me to_kid kids)
  then show ?case
    by (auto simp: result_simps Let_def dest: decrypt_sender)
qed auto

lemma try_unpack_anoncrypt_SomeE:
  assumes "try_unpack_anoncrypt X SR opts pe me = Ok (Some e, me')"
  obtains jwe payload where "pe = PeJwe jwe" "ph_alg (pj_protected jwe) = EcdhEsA256kw"
    "pj_apu jwe = None" "same_sender me me'" "read_envelope X payload = Ok e"
proof (cases pe)
  case (PeJwe jwe)
  let ?me = "upd_metadata (\<lambda>md. md\<lparr>um_encrypted_to_kids := Some (pj_to_kids jwe),
                        um_encrypted := True, um_anonymous_sender := True\<rparr>) me"
  from assms PeJwe obtain found payload where
    *: "ph_alg (pj_protected jwe) = EcdhEsA256kw"
       "anon_decrypt X SR opts jwe None ?me found = Ok (Some payload, me')"
       "read_envelope X payload = Ok e"
    by (auto simp: try_unpack_anoncrypt_def result_simps Let_def split: if_splits)
  have "same_sender me ?me" by (simp add: same_sender_def)
  then have "same_sender me me'" using anon_decrypt_same[OF *(2)] by (rule same_sender_trans)
  with PeJwe * anon_decrypt_no_apu[OF *(2)] show ?thesis by (auto intro: that)
qed (use assms in \<open>auto simp: try_unpack_anoncrypt_def\<close>)

lemma try_unpack_anoncrypt_None:
  "try_unpack_anoncrypt X SR opts pe me = Ok (None, me') \<Longrightarrow>
     me' = me \<and> (\<forall>jwe. pe = PeJwe jwe \<longrightarrow> ph_alg (pj_protected jwe) \<noteq> EcdhEsA256kw)"
  by (cases pe) (auto simp: try_unpack_anoncrypt_def result_simps Let_def split: if_splits)


text \<open>A JWS that was read has a protected header for each of its signatures.\<close>

fun header_each :: "parsed_envelope \<Rightarrow> bool" where
  "header_each (PeJws pjs) \<longleftrightarrow> length (pjs_protected pjs) = length (jws_signatures (pjs_jws pjs))"
| "header_each _ \<longleftrightarrow> True"

lemma read_envelope_header_each: "read_envelope X s = Ok p \<Longrightarrow> header_each p"
proof -
  assume "read_envelope X s = Ok p"
  then obtain e q where q: "envelope_parse X e = Ok q" "envelope_verify_didcomm X q = Ok p"
    by (auto simp: read_envelope_def result_simps)
  show "header_each p"
  proof (cases e)
    case (EnvJws j)
    with q show ?thesis
      by (auto simp: result_simps jws_parse_length jws_parse_jws)
  qed (use q in \<open>auto simp: result_simps\<close>)
qed

text \<open>
  The invariant of the loop: a sender key id in the state is the one the envelope at hand names;
  nothing has been signed yet.
\<close>

definition loop_wf :: "('k, 'z) key_ext_scheme \<Rightarrow> parsed_envelope \<Rightarrow> 'k meta_envelope \<Rightarrow> bool" where
  "loop_wf X pe me \<longleftrightarrow>
     sender_wf X me \<and> um_sign_from (me_metadata me) = None \<and> header_each pe \<and>
     (me_from_kid me \<noteq> None \<longrightarrow> (\<exists>jwe. pe = PeJwe jwe \<and> pj_apu jwe = me_from_kid me))"

lemma loop_wf_same:
  "loop_wf X pe me \<Longrightarrow> same_sender me me' \<Longrightarrow> me_from_kid me = None \<Longrightarrow> header_each pe' \<Longrightarrow>
     loop_wf X pe' me'"
  using same_sender_wf by (auto simp: loop_wf_def same_sender_def sender_wf_def)

text \<open>One turn of the loop that does not fail.\<close>

lemma unpack_loop_Ok_iff:
  "unpack_loop X SR opts jwe n me = Ok r \<longleftrightarrow>
     \<not> unat (uo_crypto_operations_limit opts) \<le> n + 1 \<and>
     (\<exists>an me1 fw. try_unpack_anoncrypt X SR opts jwe me = Ok (an, me1) \<and>
        (case an of
           Some a \<Rightarrow> if uo_unwrap_re_wrapping_forward opts
                     then try_unwrap_forwarded_message X SR a else Ok None
         | None \<Rightarrow> Ok None) = Ok fw \<and>
        (case fw of
           Some f \<Rightarrow> and_then (read_envelope X f) (\<lambda>jwe'.
             unpack_loop X SR opts jwe' (n + 1)
               (upd_metadata (\<lambda>md. md\<lparr>um_re_wrapped_in_forward := True\<rparr>) me1))
         | None \<Rightarrow> Ok (an, jwe, n + 1, me1)) = Ok r)"
  by (subst unpack_loop.simps) (auto simp: and_then_Ok_iff simp del: One_nat_def)

lemma unpack_loop_wf:
  "unpack_loop X SR opts jwe n me = Ok (anon, jwe', n', me') \<Longrightarrow> loop_wf X jwe me \<Longrightarrow>
     loop_wf X (case anon of Some a \<Rightarrow> a | None \<Rightarrow> jwe') me'"
proof (induction X SR opts jwe n me rule: unpack_loop.induct)
  case (1 X SR opts jwe n me)
  from "1.prems"(1) obtain an me1 fw where
    lim: "\<not> unat (uo_crypto_operations_limit opts) \<le> n + 1" and
    an: "try_unpack_anoncrypt X SR opts jwe me = Ok (an, me1)" and
    fw: "(case an of
            Some a \<Rightarrow> if uo_unwrap_re_wrapping_forward opts
                      then try_unwrap_forwarded_message X SR a else Ok None
          | None \<Rightarrow> Ok None) = Ok fw" and
    rest: "(case fw of
          Some f \<Rightarrow> and_then (read_envelope X f) (\<lambda>jwe'.
            unpack_loop X SR opts jwe' (n + 1)
              (upd_metadata (\<lambda>md. md\<lparr>um_re_wrapped_in_forward := True\<rparr>) me1))
        | None \<Rightarrow> Ok (an, jwe, n + 1, me1)) = Ok (anon, jwe', n', me')"
    by (subst (asm) unpack_loop_Ok_iff) auto
  show ?case
  proof (cases an)
    case None
    with fw rest try_unpack_anoncrypt_None[of X SR opts jwe me me1] an "1.prems"(2)
    show ?thesis by auto
  next
    case (Some a)
    with an obtain pj where pj: "jwe = PeJwe pj" "pj_apu pj = None" "same_sender me me1" "header_each a"
      by (auto elim!: try_unpack_anoncrypt_SomeE dest: read_envelope_header_each)
    then have k: "me_from_kid me = None" using "1.prems"(2) by (auto simp: loop_wf_def)
    note wf = loop_wf_same[OF "1.prems"(2) _ k]
    show ?thesis
    proof (cases fw)
      case None
      with rest Some wf[OF pj(3,4)] show ?thesis by auto
    next
      case (Some f)
      let ?me = "upd_metadata (\<lambda>md. md\<lparr>um_re_wrapped_in_forward := True\<rparr>) me1"
      from Some rest obtain p where p: "read_envelope X f = Ok p" and
        l: "unpack_loop X SR opts p (n + 1) ?me = Ok (anon, jwe', n', me')"
        by (auto simp: result_simps)
      have "same_sender me1 ?me" by (simp add: same_sender_def)
      then have "loop_wf X p ?me" 
        by (rule wf[OF same_sender_trans[OF pj(3)] read_envelope_header_each[OF p]])
      then show ?thesis using "1.IH"[OF lim an refl fw Some p l] by simp
    qed
  qed
qed

text \<open>Every turn has counted one operation, and the last count is below the limit.\<close>

lemma unpack_loop_count:
  "unpack_loop X SR opts jwe n me = Ok (anon, jwe', n', me') \<Longrightarrow>
     n < n' \<and> n' < unat (uo_crypto_operations_limit opts)"
proof (induction X SR opts jwe n me rule: unpack_loop.induct)
  case (1 X SR opts jwe n me)
  from "1.prems" obtain an me1 fw where
    lim: "\<not> unat (uo_crypto_operations_limit opts) \<le> n + 1" and
    an: "try_unpack_anoncrypt X SR opts jwe me = Ok (an, me1)" and
    fw: "(case an of
            Some a \<Rightarrow> if uo_unwrap_re_wrapping_forward opts
                      then try_unwrap_forwarded_message X SR a else Ok None
          | None \<Rightarrow> Ok None) = Ok fw" and
    rest: "(case fw of
          Some f \<Rightarrow> and_then (read_envelope X f) (\<lambda>jwe'.
            unpack_loop X SR opts jwe' (n + 1)
              (upd_metadata (\<lambda>md. md\<lparr>um_re_wrapped_in_forward := True\<rparr>) me1))
        | None \<Rightarrow> Ok (an, jwe, n + 1, me1)) = Ok (anon, jwe', n', me')"
    by (subst (asm) unpack_loop_Ok_iff) auto
  show ?case
  proof (cases fw)
    case None
    with rest lim show ?thesis by auto
  next
    case (Some f)
    with rest obtain p where p: "read_envelope X f = Ok p" and
      l: "unpack_loop X SR opts p (n + 1)
            (upd_metadata (\<lambda>md. md\<lparr>um_re_wrapped_in_forward := True\<rparr>) me1) = Ok (anon, jwe', n', me')"
      by (auto simp: and_then_Ok_iff)
    show ?thesis using "1.IH"[OF lim an refl fw Some p l] by simp
  qed
qed


subsection \<open>Authenticated encryption\<close>

lemma auth_scheme_Ok_iff:
  "auth_scheme fp tp enc = Ok (ke, fk, tk) \<longleftrightarrow>
     enc = A256cbcHs512 \<and> ke \<in> {X25519, P256, K256} \<and> pair_alg fp = ke \<and> pair_alg tp = ke \<and>
     pair_key fp = fk \<and> pair_key tp = tk"
  by (cases fp; cases tp) (auto simp: auth_scheme_def)

lemma auth_decrypt_cons_Ok_iff:
  "auth_decrypt X SR opts jwe n p me (to_kid # kids) = Ok r \<longleftrightarrow>
     \<not> unat (uo_crypto_operations_limit opts) \<le> n + 1 \<and>
     (\<exists>tp fp kid q. recipient_key X SR to_kid = Ok tp \<and> me_from_key me = Some fp \<and>
        me_from_kid me = Some kid \<and> ph_enc (pj_protected jwe) = A256cbcHs512 \<and>
        pair_alg fp \<in> {X25519, P256, K256} \<and> pair_alg tp = pair_alg fp \<and>
        decrypt X CeA256CbcHs512 KdfEcdh1PU (pair_alg fp) (Some (kid, pair_key fp))
          (to_kid, pair_key tp) jwe = Ok q \<and>
        (let me' = upd_metadata (\<lambda>md. md\<lparr>um_enc_alg_auth := Some AuthA256cbcHs512Ecdh1puA256kw\<rparr>) me
         in if \<not> uo_expect_decrypt_by_all_keys opts then r = (Some q, me')
            else auth_decrypt X SR opts jwe (n + 1) (Some q) me' kids = Ok r))"
  by (auto simp: result_simps auth_scheme_Ok_iff Let_def)

lemma auth_decrypt_Ok:
  "auth_decrypt X SR opts jwe n p me kids = Ok (Some q, me') \<Longrightarrow>
     same_sender me me' \<and>
     (p = Some q \<or>
      (\<exists>kid fp to_kid tp. me_from_kid me = Some kid \<and> me_from_key me = Some fp \<and>
         recipient_key X SR to_kid = Ok tp \<and> pair_alg tp = pair_alg fp \<and>
         decrypt X CeA256CbcHs512 KdfEcdh1PU (pair_alg fp) (Some (kid, pair_key fp))
           (to_kid, pair_key tp) jwe = Ok q))"
proof (induction kids arbitrary: n p me)
  case (Cons to_kid kids)
  let ?me = "upd_metadata (\<lambda>md. md\<lparr>um_enc_alg_auth := Some AuthA256cbcHs512Ecdh1puA256kw\<rparr>) me"
  have s: "same_sender me ?me" by (simp add: same_sender_def)
  from Cons.prems obtain tp fp kid q' where
    *: "recipient_key X SR to_kid = Ok tp" "me_from_key me = Some fp" "me_from_kid me = Some kid"
      "pair_alg tp = pair_alg fp"
      "decrypt X CeA256CbcHs512 KdfEcdh1PU (pair_alg fp) (Some (kid, pair_key fp))
          (to_kid, pair_key tp) jwe = Ok q'" and
    r: "if \<not> uo_expect_decrypt_by_all_keys opts then (Some q, me') = (Some q', ?me)
        else auth_decrypt X SR opts jwe (n + 1) (Some q') ?me kids = Ok (Some q, me')"
    unfolding auth_decrypt_cons_Ok_iff Let_def by blast
  show ?case
  proof (cases "uo_expect_decrypt_by_all_keys opts")
    case False
    with * r s show ?thesis by auto
  next
    case True
    with r have "auth_decrypt X SR opts jwe (n + 1) (Some q') ?me kids = Ok (Some q, me')" by simp
    from Cons.IH[OF this] * s show ?thesis using same_sender_trans[OF s] by auto
  qed
qed simp

lemma try_unpack_authcrypt_None:
  "try_unpack_authcrypt X SR opts pe me n = Ok (None, me') \<Longrightarrow>
     me' = me \<and> (\<forall>jwe. pe = PeJwe jwe \<longrightarrow> ph_alg (pj_protected jwe) \<noteq> Ecdh1puA256kw)"
  by (cases pe) (auto simp: try_unpack_authcrypt_def result_simps split: if_splits)

lemma try_unpack_authcrypt_SomeE:
  assumes "try_unpack_authcrypt X SR opts pe me n = Ok (Some e, me')" and "loop_wf X pe me"
  obtains jwe kid payload where "pe = PeJwe jwe" "me_from_kid me' = Some kid"
    "authcrypted X SR kid jwe payload" "sender_wf X me'" "read_envelope X payload = Ok e"
    "um_sign_from (me_metadata me') = um_sign_from (me_metadata me)"
proof -
  from assms(1) obtain jwe me1 payload where
    jwe: "pe = PeJwe jwe" "ph_alg (pj_protected jwe) = Ecdh1puA256kw" and
    me1: "(if pj_apu jwe \<noteq> None \<and> me_from_kid me = None
           then fill_envelope_from X SR jwe me else Ok me) = Ok me1" and
    d: "auth_decrypt X SR opts jwe n None me1 (me_to_kids_found me1) = Ok (Some payload, me')" and
    e: "read_envelope X payload = Ok e"
    by (cases pe) (auto simp: try_unpack_authcrypt_def result_simps split: if_splits)
  have wf: "sender_wf X me1"
    using me1 assms(2) fill_envelope_from_sender(1) by (auto simp: loop_wf_def split: if_splits)
  from auth_decrypt_Ok[OF d] obtain kid fp to_kid tp where
    *: "same_sender me1 me'" "me_from_kid me1 = Some kid" "me_from_key me1 = Some fp"
      "recipient_key X SR to_kid = Ok tp" "pair_alg tp = pair_alg fp"
      "decrypt X CeA256CbcHs512 KdfEcdh1PU (pair_alg fp) (Some (kid, pair_key fp))
           (to_kid, pair_key tp) jwe = Ok payload" by auto
  have "published_sender X kid fp" using wf * by (auto simp: sender_wf_def)
  moreover have "pj_apu jwe = Some kid" using decrypt_sender[OF *(6)] by simp
  ultimately have "authcrypted X SR kid jwe payload"
    using jwe * by (auto simp: authcrypted_def)
  moreover have "sender_wf X me'" using wf by (simp add: same_sender_wf[OF *(1)])
  moreover have "me_from_kid me' = Some kid" using * by (simp add: same_sender_def)
  moreover have "um_sign_from (me_metadata me1) = um_sign_from (me_metadata me)"
    using me1 fill_envelope_from_sign by (auto split: if_splits)
  then have "um_sign_from (me_metadata me') = um_sign_from (me_metadata me)"
    using * by (simp add: same_sender_def)
  ultimately show thesis using jwe e by (auto intro: that)
qed

subsection \<open>Signatures and plaintext\<close>

lemma signer_jwk_Ok_iff:
  "signer_jwk X kid = Ok j \<longleftrightarrow>
     is_did_url kid \<and>
     (\<exists>doc vm. did_resolve X (did_of kid) = Inr doc \<and> contains_authentication X doc kid \<and>
        find_vm doc kid = Some vm \<and> get_jwk X vm = Ok (Some j))"
  by (cases "did_or_url kid") (auto simp: signer_jwk_def result_simps)

lemma check_signature_Ok:
  "check_signature X pjs kid j alg = Ok (sa, v) \<Longrightarrow>
     \<exists>ka k. as_alg X ka j = Ok k \<and> jws_verify X pjs (kid, k) = Ok v"
  by (cases alg) (auto simp: check_signature_def result_simps Let_def)

lemma try_unpack_sign_None:
  "try_unpack_sign X pe me = Ok (None, me') \<Longrightarrow> me' = me \<and> (\<forall>pjs. pe \<noteq> PeJws pjs)"
  by (cases pe) (auto simp: try_unpack_sign_def result_simps Let_def)

lemma try_unpack_sign_SomeE:
  assumes "try_unpack_sign X pe me = Ok (Some e, me')"
  obtains pjs kid payload where "pe = PeJws pjs" "signed_by X kid pjs payload"
    "read_envelope X payload = Ok e" "um_sign_from (me_metadata me') = Some kid"
    "um_signed_message (me_metadata me') = Some (pjs_jws pjs)"
    "length (pjs_protected pjs) = 1" "map sg_kid (take 1 (jws_signatures (pjs_jws pjs))) = [kid]"
    "um_encrypted_from_kid (me_metadata me') = um_encrypted_from_kid (me_metadata me)"
proof (cases pe)
  case (PeJws pjs)
  with assms obtain sig j sa and h :: jws_header and payload where
    "length (pjs_protected pjs) = 1" "take 1 (jws_signatures (pjs_jws pjs)) = [sig]"
    "signer_jwk X (sg_kid sig) = Ok j"
    "check_signature X pjs (sg_kid sig) j (jh_alg h) = Ok (sa, True)"
    "b64_decode X (jws_payload (pjs_jws pjs)) = Inr payload" "read_envelope X payload = Ok e"
    "me' = upd_metadata (note_signature sa (sg_kid sig) (pjs_jws pjs)) me"
    by (auto simp: try_unpack_sign_def result_simps Let_def split: list.splits)
  with PeJws show ?thesis
    by (intro that[of pjs "sg_kid sig" payload])
       (auto simp: signed_by_def note_signature_def signer_jwk_Ok_iff dest: check_signature_Ok)
qed (use assms in \<open>auto simp: try_unpack_sign_def\<close>)

lemma try_unpack_plaintext_Some:
  "try_unpack_plaintext X pe me = Ok (Some m, me') \<Longrightarrow>
     pe = PeMessage m \<and> m_typ m = plaintext_typ \<and> same_sender me me' \<and>
     um_signed_message (me_metadata me') = um_signed_message (me_metadata me) \<and>
     (\<forall>jwt. m_from_prior m = Some jwt \<longrightarrow>
       (\<exists>fp kid. from_prior_unpack X jwt = Ok (fp, kid) \<and>
          um_from_prior (me_metadata me') = Some fp \<and>
          um_from_prior_issuer_kid (me_metadata me') = Some kid))"
  by (cases pe) (auto simp: try_unpack_plaintext_def result_simps same_sender_def split: option.splits)


subsection \<open>The whole of unpacking\<close>

lemma meta_envelope_new_wf:
  assumes "meta_envelope_new X SR s = Ok me"
  shows "\<exists>p. me_parsed_envelope me = Some p \<and> read_envelope X s = Ok p \<and> loop_wf X p me"
proof -
  from assms obtain e p where p: "read_envelope X s = Ok p" and
    f: "meta_envelope_from X SR
          (default_meta_envelope\<lparr>me_envelope := Some e, me_parsed_envelope := Some p\<rparr>) = Ok me"
    by (auto elim: meta_envelope_new_OkE)
  let ?me = "default_meta_envelope\<lparr>me_envelope := Some e, me_parsed_envelope := Some p\<rparr>"
  have wf: "loop_wf X p ?me"
    using read_envelope_header_each[OF p]
    by (simp add: loop_wf_def sender_wf_def default_meta_envelope_def default_metadata_def)
  show ?thesis
  proof (cases p)
    case (PeJwe pj)
    with f have "fill_envelope_from X SR pj ?me = Ok me" by (simp add: meta_envelope_from_def)
    with wf p PeJwe show ?thesis
      using fill_envelope_from_sender[of X SR pj ?me me] fill_envelope_from_sign[of X SR pj ?me me]
        fill_envelope_from_parsed[of X SR pj ?me me]
      by (auto simp: loop_wf_def default_meta_envelope_def split: option.splits)
  qed (use f wf p in \<open>auto simp: meta_envelope_from_def loop_wf_def\<close>)
qed

lemma unpack_OkE:
  assumes "unpack X SR opts me = Ok (m, md)"
  obtains p an p1 n me1 au me2 sg me3 me4 where
    "me_parsed_envelope me = Some p" "unpack_loop X SR opts p 0 me = Ok (an, p1, n, me1)"
    "try_unpack_authcrypt X SR opts (case an of Some a \<Rightarrow> a | None \<Rightarrow> p1) me1 n = Ok (au, me2)"
    "try_unpack_sign X (case au of Some a \<Rightarrow> a | None \<Rightarrow> (case an of Some a \<Rightarrow> a | None \<Rightarrow> p1)) me2 = Ok (sg, me3)"
    "try_unpack_plaintext X (case sg of Some s \<Rightarrow> s
       | None \<Rightarrow> (case au of Some a \<Rightarrow> a | None \<Rightarrow> (case an of Some a \<Rightarrow> a | None \<Rightarrow> p1))) me3 = Ok (Some m, me4)"
    "md = me_metadata me4"
  using assms by (auto simp: unpack_def result_simps Let_def)

lemma unpack_evidence:
  assumes "unpack_string X SR opts s = Ok (m, md)"
  shows "(\<forall>kid. um_encrypted_from_kid md = Some kid \<longrightarrow>
            (\<exists>pj payload. authcrypted X SR kid pj payload \<and> carries X payload m)) \<and>
    (\<forall>kid. um_sign_from md = Some kid \<longrightarrow>
            (\<exists>pjs payload. signed_by X kid pjs payload \<and> um_signed_message md = Some (pjs_jws pjs) \<and>
               length (pjs_protected pjs) = 1 \<and> map sg_kid (jws_signatures (pjs_jws pjs)) = [kid] \<and>
               read_envelope X payload = Ok (PeMessage m))) \<and>
    (um_authenticated md \<longrightarrow> um_encrypted_from_kid md \<noteq> None \<or> um_sign_from md \<noteq> None) \<and>
    m_typ m = plaintext_typ"
proof -
  from assms obtain me where me: "meta_envelope_new X SR s = Ok me" and
    u: "unpack X SR opts me = Ok (m, md)"
    by (auto simp: unpack_string_def result_simps)
  from u obtain p an p1 n me1 au me2 sg me3 me4 where
    p: "me_parsed_envelope me = Some p" and
    l: "unpack_loop X SR opts p 0 me = Ok (an, p1, n, me1)" and
    au: "try_unpack_authcrypt X SR opts (case an of Some a \<Rightarrow> a | None \<Rightarrow> p1) me1 n = Ok (au, me2)" and
    sg: "try_unpack_sign X (case au of Some a \<Rightarrow> a | None \<Rightarrow> (case an of Some a \<Rightarrow> a | None \<Rightarrow> p1)) me2 = Ok (sg, me3)" and
    pt: "try_unpack_plaintext X (case sg of Some s \<Rightarrow> s
       | None \<Rightarrow> (case au of Some a \<Rightarrow> a | None \<Rightarrow> (case an of Some a \<Rightarrow> a | None \<Rightarrow> p1))) me3 = Ok (Some m, me4)" and
    md: "md = me_metadata me4"
    by (rule unpack_OkE)
  define p2 where "p2 = (case an of Some a \<Rightarrow> a | None \<Rightarrow> p1)"
  define p3 where "p3 = (case au of Some a \<Rightarrow> a | None \<Rightarrow> p2)"
  have wf1: "loop_wf X p2 me1"
    using unpack_loop_wf[OF l] meta_envelope_new_wf[OF me] p by (auto simp: p2_def)
  note au = au[folded p2_def]
  note sg = sg[folded p2_def, folded p3_def]
  note pt = pt[folded p2_def, folded p3_def, THEN try_unpack_plaintext_Some]
  have p3: "(\<exists>pjs. p3 = PeJws pjs) \<or> p3 = PeMessage m"
    using sg pt by (cases sg) (auto elim: try_unpack_sign_SomeE)
  have auth: "sender_wf X me2 \<and> header_each p3 \<and> um_sign_from (me_metadata me2) = None \<and>
     (\<forall>kid. me_from_kid me2 = Some kid \<longrightarrow>
        (\<exists>pj payload. authcrypted X SR kid pj payload \<and> read_envelope X payload = Ok p3))"
  proof (cases au)
    case None
    with au have "me2 = me1" and "p3 = p2" by (auto dest: try_unpack_authcrypt_None simp: p3_def)
    with p3 wf1 show ?thesis by (auto simp: loop_wf_def)
  next
    case (Some e)
    from au[unfolded Some] wf1 obtain jwe kid payload where
      "me_from_kid me2 = Some kid" "authcrypted X SR kid jwe payload" "sender_wf X me2"
      "read_envelope X payload = Ok e" "um_sign_from (me_metadata me2) = um_sign_from (me_metadata me1)"
      by (rule try_unpack_authcrypt_SomeE)
    with Some wf1 show ?thesis
      using read_envelope_header_each by (fastforce simp: p3_def loop_wf_def)
  qed
  show ?thesis
  proof (cases sg)
    case None
    with sg have "me3 = me2" by (auto dest: try_unpack_sign_None)
    with pt None have f: "p3 = PeMessage m" "m_typ m = plaintext_typ" "same_sender me2 me4"
      by auto
    have a: "\<exists>pj payload. authcrypted X SR kid pj payload \<and> carries X payload m"
      if "me_from_kid me2 = Some kid" for kid
      using auth that f(1) carries_message by blast
    show ?thesis using auth f a md
      by (auto simp: same_sender_def sender_wf_def)
  next
    case (Some e)
    from sg[unfolded Some] obtain pjs kid payload where
      s: "p3 = PeJws pjs" "signed_by X kid pjs payload" "read_envelope X payload = Ok e"
        "um_sign_from (me_metadata me3) = Some kid"
        "um_signed_message (me_metadata me3) = Some (pjs_jws pjs)"
        "length (pjs_protected pjs) = 1" "map sg_kid (take 1 (jws_signatures (pjs_jws pjs))) = [kid]"
        "um_encrypted_from_kid (me_metadata me3) = um_encrypted_from_kid (me_metadata me2)"
      by (rule try_unpack_sign_SomeE)
    have one: "map sg_kid (jws_signatures (pjs_jws pjs)) = [kid]"
      using auth s by simp
    have c: "read_envelope X q = Ok p3 \<Longrightarrow> carries X q m" for q
      using s(1-3) pt Some carries_signed by simp
    have a: "\<exists>pj payload. authcrypted X SR kid pj payload \<and> carries X payload m"
      if "me_from_kid me2 = Some kid" for kid
      using auth that c by blast
    have f: "e = PeMessage m" "m_typ m = plaintext_typ" "same_sender me3 me4"
        "um_signed_message (me_metadata me4) = um_signed_message (me_metadata me3)"
      using pt Some by auto
    have "um_sign_from md = Some kid" "um_signed_message md = Some (pjs_jws pjs)"
      using f md s by (auto simp: same_sender_def)
    moreover have "read_envelope X payload = Ok (PeMessage m)" using s f by simp
    ultimately have sig: "um_sign_from md = Some k \<Longrightarrow> (\<exists>pjs payload. signed_by X k pjs payload \<and>
        um_signed_message md = Some (pjs_jws pjs) \<and> length (pjs_protected pjs) = 1 \<and>
        map sg_kid (jws_signatures (pjs_jws pjs)) = [k] \<and> read_envelope X payload = Ok (PeMessage m))" for k
      using s(2) s(6) one by (intro exI[of _ pjs] exI[of _ payload]) auto
    have au': "um_authenticated md \<longrightarrow> um_encrypted_from_kid md \<noteq> None \<or> um_sign_from md \<noteq> None"
      and kid': "um_encrypted_from_kid md = Some k \<Longrightarrow> me_from_kid me2 = Some k" for k
      using auth f(3) md s(4,8) by (auto simp: same_sender_def sender_wf_def)
    show ?thesis using a kid' sig au' f(2) by simp
  qed
qed


subsection \<open>Panics\<close>

lemma read_envelope_OkE:
  assumes "read_envelope X s = Ok p"
  obtains e where "envelope_from_str X s = Ok e"
    "and_then (envelope_parse X e) (envelope_verify_didcomm X) = Ok p"
  using assms by (auto simp: read_envelope_def result_simps)

lemma meta_envelope_new_anonymous:
  assumes "read_envelope X s = Ok (PeJwe pj)" and "pj_apu pj = None"
    and "recipients_of_one_did (pj_to_kids pj) = Ok k"
    and "find_secrets SR (pj_to_kids pj) = Ok (k0 # ks)"
  shows "\<exists>me. meta_envelope_new X SR s = Ok me \<and> me_parsed_envelope me = Some (PeJwe pj) \<and>
           me_from_kid me = None \<and> me_from_key me = None \<and> me_to_kids_found me = k0 # ks \<and>
           loop_wf X (PeJwe pj) me"
proof -
  from assms(1) obtain e where e: "envelope_from_str X s = Ok e"
    "and_then (envelope_parse X e) (envelope_verify_didcomm X) = Ok (PeJwe pj)"
    by (rule read_envelope_OkE)
  then obtain me where me: "meta_envelope_new X SR s = Ok me"
    using assms(2-4)
    by (simp add: meta_envelope_new_def meta_envelope_from_def fill_envelope_from_def fill_recipients_def)
  moreover have "me_from_kid me = None" "me_from_key me = None" "me_to_kids_found me = k0 # ks"
    using me e assms(2-4)
    by (auto simp: meta_envelope_new_def meta_envelope_from_def fill_envelope_from_def
          fill_recipients_def default_meta_envelope_def)
  ultimately show ?thesis using meta_envelope_new_wf[OF me] assms(1) by auto
qed

lemma unpack_loop_skip:
  assumes "\<And>me. try_unpack_anoncrypt X SR opts jwe me = Ok (None, me)"
    and "n + 1 < unat (uo_crypto_operations_limit opts)"
  shows "unpack_loop X SR opts jwe n me = Ok (None, jwe, n + 1, me)"
  using assms by (subst unpack_loop.simps) simp

lemma unpack_no_sender_panics:
  assumes "read_envelope X s = Ok (PeJwe pj)" and "ph_alg (pj_protected pj) = Ecdh1puA256kw"
    and "pj_apu pj = None" and "recipients_of_one_did (pj_to_kids pj) = Ok k"
    and "find_secrets SR (pj_to_kids pj) = Ok (k0 # ks)" and "recipient_key X SR k0 = Ok tp"
    and "2 < unat (uo_crypto_operations_limit opts)"
  shows "unpack_string X SR opts s = Panic"
proof -
  obtain me where me: "meta_envelope_new X SR s = Ok me" "me_parsed_envelope me = Some (PeJwe pj)"
    "me_from_key me = None" "me_to_kids_found me = k0 # ks" "me_from_kid me = None"
    using meta_envelope_new_anonymous[OF assms(1,3-5)] by auto
  have l: "unpack_loop X SR opts (PeJwe pj) 0 me = Ok (None, PeJwe pj, 1, me)"
    using unpack_loop_skip[of X SR opts "PeJwe pj" 0 me] assms(2,7)
    by (simp add: try_unpack_anoncrypt_def)
  have "try_unpack_authcrypt X SR opts (PeJwe pj) me 1 = Panic"
    using assms(2,3,6,7) me by (simp add: try_unpack_authcrypt_def)
  with me l show ?thesis by (simp add: unpack_string_def unpack_def)
qed

subsection \<open>What the metadata is evidence of\<close>

text \<open>
  C1: a sender key id in the metadata is authentic. Whenever unpacking succeeds and names a sender
  key, some JWE under ECDH-1PU that names this key as its \<open>apu\<close> was decrypted with the very key
  the sender's DID document publishes for key agreement and a private key of the recipient, and
  the message is what came out of it.
\<close>

theorem unpack_sender_authentic:
  assumes "unpack_string X SR opts s = Ok (m, md)" and "um_encrypted_from_kid md = Some kid"
  shows "\<exists>pj payload. authcrypted X SR kid pj payload \<and> carries X payload m"
  using unpack_evidence[OF assms(1)] assms(2) by blast

text \<open>
  C2: a signer key id in the metadata is authentic. The JWS kept in the metadata has one protected
  header and one signature, made under the key id the metadata names; it verifies under the key
  the signer's DID document publishes for authentication, and its payload is the message.
\<close>

theorem unpack_signer_authentic:
  assumes "unpack_string X SR opts s = Ok (m, md)" and "um_sign_from md = Some kid"
  shows "\<exists>pjs payload. signed_by X kid pjs payload \<and> um_signed_message md = Some (pjs_jws pjs) \<and>
           length (pjs_protected pjs) = 1 \<and> map sg_kid (jws_signatures (pjs_jws pjs)) = [kid] \<and>
           read_envelope X payload = Ok (PeMessage m)"
  using unpack_evidence[OF assms(1)] assms(2) by blast

text \<open>
  a message counts as authenticated only if a sender key or a signer key is named, and every
  unpacked message has the type of a plaintext.
\<close>

theorem unpack_authenticated:
  assumes "unpack_string X SR opts s = Ok (m, md)"
  shows "(um_authenticated md \<longrightarrow> um_encrypted_from_kid md \<noteq> None \<or> um_sign_from md \<noteq> None) \<and>
         m_typ m = plaintext_typ"
  using unpack_evidence[OF assms] by blast

text \<open>
  C9: the loop over anonymous encryption and re-wrapped forwards is bounded by the limit of the
  options: it has counted at least one operation and stays strictly below the limit, so a limit
  of \<open>n\<close> allows \<open>n - 1\<close> turns.
\<close>

theorem unpack_loop_within_limit:
  assumes "unpack_loop X SR opts p 0 me = Ok (an, p', n, me')"
  shows "1 \<le> n \<and> n < unat (uo_crypto_operations_limit opts)"
  using unpack_loop_count[OF assms] by simp

text \<open>
  C10: an authenticated JWE that names no sender makes unpacking panic: \<open>verify_didcomm\<close> lets it
  pass, no sender key is filled in, and the match over the keys unwraps nothing.
\<close>

theorem unpack_without_apu_panics:
  assumes "read_envelope X s = Ok (PeJwe pj)" and "ph_alg (pj_protected pj) = Ecdh1puA256kw"
    and "pj_apu pj = None" and "recipients_of_one_did (pj_to_kids pj) = Ok k"
    and "find_secrets SR (pj_to_kids pj) = Ok (k0 # ks)" and "recipient_key X SR k0 = Ok tp"
    and "2 < unat (uo_crypto_operations_limit opts)"
  shows "unpack_string X SR opts s = Panic"
  by (rule unpack_no_sender_panics[OF assms])

end
