(* ===== verification/RoundTrip.thy ===== *)
theory RoundTrip
  imports PackEncrypted UnpackProps
begin

text \<open>
  Packing and unpacking are inverse: what \<open>pack_encrypted\<close> makes, with or without a sender, with
  or without a signature, with the sender protected or not, \<open>unpack\<close> opens for a holder of one of
  the recipient keys, and the metadata names the sender and the signer; every layer of a forward
  onion gives the mediator the next hop and the text to pass on.
\<close>

subsection \<open>The parties\<close>

text \<open>The wallet \<open>SR\<close> has the private half of the key the document publishes as \<open>kid\<close>.\<close>

definition holds_key ::
  "('k, 'z) key_ext_scheme \<Rightarrow> ('k \<Rightarrow> 'k) \<Rightarrow> secrets_resolver \<Rightarrow> document \<Rightarrow> string \<Rightarrow> bool" where
  "holds_key X pub SR doc kid \<longleftrightarrow>
     (\<exists>kp vm j. recipient_key X SR kid = Ok kp \<and> find_vm doc kid = Some vm \<and>
        get_jwk X vm = Ok (Some j) \<and> as_alg X (pair_alg kp) j = Ok (pub (pair_key kp)))"

text \<open>
  The recipient of an encrypted text: the keys are those of one DID, the wallet finds some, and
  it holds each key it finds.
\<close>

definition recipient_ready ::
  "('k, 'z) key_ext_scheme \<Rightarrow> ('k \<Rightarrow> 'k) \<Rightarrow> secrets_resolver \<Rightarrow> document \<Rightarrow> string list \<Rightarrow> bool" where
  "recipient_ready X pub SR doc kids \<longleftrightarrow>
     (\<exists>k. recipients_of_one_did kids = Ok k) \<and>
     (\<exists>k ks. find_secrets SR kids = Ok (k # ks) \<and> k \<in> set kids \<and> holds_key X pub SR doc k)"

text \<open>The document of the sender publishes the public half of the key the sender encrypts with.\<close>

definition sender_ready ::
  "('k, 'z) key_ext_scheme \<Rightarrow> ('k \<Rightarrow> 'k) \<Rightarrow> secrets_resolver \<Rightarrow> string \<Rightarrow> bool" where
  "sender_ready X pub SR kid \<longleftrightarrow> utf8_valid kid \<and>
     (\<forall>s kp. get_secret SR kid = Ok (Some s) \<longrightarrow> secret_as_key_pair X s = Ok kp \<longrightarrow>
        (\<exists>kp'. published_sender X kid kp' \<and> pair_alg kp' = pair_alg kp \<and>
               pair_key kp' = pub (pair_key kp)))"

lemma recipient_key_mem:
  assumes "vm_keys X alg label vs = Ok keys" and "kid \<in> set (map vm_id vs)"
    and "set vs \<subseteq> {v. find_vm doc (vm_id v) = Some v \<and> vm_alg X v = Ok (Some alg)}"
    and "holds_key X pub SR doc kid"
  shows "\<exists>kp. recipient_key X SR kid = Ok kp \<and> pair_alg kp = alg \<and> (kid, pub (pair_key kp)) \<in> set keys"
proof -
  from assms(2) obtain v where v: "v \<in> set vs" "vm_id v = kid" by auto
  then have f: "find_vm doc kid = Some v" using assms(3) by auto
  from vm_keys_mem[OF assms(1) v(1)] obtain j k where
    j: "get_jwk X v = Ok (Some j)" "as_alg X alg j = Ok k" "(kid, k) \<in> set keys"
    using v(2) by auto
  from assms(4) f j(1) obtain kp where
    "recipient_key X SR kid = Ok kp" "as_alg X (pair_alg kp) j = Ok (pub (pair_key kp))"
    by (auto simp: holds_key_def)
  with j show ?thesis by (auto simp: as_alg_Ok_iff)
qed

lemma anon_scheme_content:
  "agreement_label (pair_alg kp) = Some l \<Longrightarrow>
     anon_scheme kp (snd (anon_content a)) = Some (a, fst (anon_content a), pair_alg kp, pair_key kp)"
  by (cases kp; cases a) auto

subsection \<open>Anonymous encryption\<close>

definition note_anon :: "anon_crypt_alg \<Rightarrow> string list \<Rightarrow> unpack_metadata \<Rightarrow> unpack_metadata" where
  "note_anon a kids md =
     md\<lparr>um_encrypted_to_kids := Some kids, um_encrypted := True, um_anonymous_sender := True,
        um_enc_alg_anon := Some a\<rparr>"

lemma encrypt_anon_unpack:
  assumes laws: "jwe_laws X pub r" and enc: "encrypt_anon X r alg a msg keys = Ok s"
    and lab: "agreement_label alg = Some l"
    and dist: "distinct (map fst keys)" and kids: "map fst keys = kids"
    and one: "recipients_of_one_did kids = Ok k0" and found: "find_secrets SR kids = Ok (k # ks)"
    and key: "recipient_key X SR k = Ok kp" "pair_alg kp = alg" "(k, pub (pair_key kp)) \<in> set keys"
    and msg: "utf8_valid msg" "read_envelope X msg = Ok e"
    and all: "\<not> uo_expect_decrypt_by_all_keys opts"
  shows "\<exists>pj. read_envelope X s = Ok (PeJwe pj) \<and> pj_apu pj = None \<and> pj_to_kids pj = kids \<and>
     ph_alg (pj_protected pj) = EcdhEsA256kw \<and>
     (\<forall>me. try_unpack_anoncrypt X SR opts (PeJwe pj) me = Ok (Some e, upd_metadata (note_anon a kids) me))"
proof -
  obtain ce en where ac: "anon_content a = (ce, en)" by (cases "anon_content a")
  then have enc': "encrypt X r ce KdfEcdhEs alg msg EcdhEsA256kw en None keys = Ok s"
    using enc by (simp add: encrypt_anon_def)
  from encrypt_parse_decrypt[OF laws enc' _ dist key(3)] obtain pj where
    *: "and_then (jwe_from_str X s) (jwe_parse X) = Ok pj" "verify_didcomm X pj = Ok pj"
      "pj_to_kids pj = kids" "pj_apu pj = None" "ph_alg (pj_protected pj) = EcdhEsA256kw"
      "ph_enc (pj_protected pj) = en"
      "decrypt X ce KdfEcdhEs alg None (k, pair_key kp) pj = Ok msg"
    using kids by auto
  from *(1) obtain j where "jwe_from_str X s = Ok j" "jwe_parse X j = Ok pj"
    by (auto simp: result_simps)
  then have "read_envelope X s = Ok (PeJwe pj)" using *(2) by (rule read_envelope_Jwe)
  moreover have "try_unpack_anoncrypt X SR opts (PeJwe pj) me =
      Ok (Some e, upd_metadata (note_anon a kids) me)" for me
  proof -
    have "anon_scheme kp en = Some (a, ce, alg, pair_key kp)"
      using anon_scheme_content[of kp l a] lab key(2) ac by simp
    then show ?thesis
      using * one found key all msg
      by (simp add: try_unpack_anoncrypt_def from_utf8_def upd_metadata_def note_anon_def)
  qed
  ultimately show ?thesis using * by blast
qed

text \<open>Whatever \<open>anoncrypt\<close> makes for a recipient, the recipient opens.\<close>

lemma anoncrypt_unpack:
  assumes laws: "jwe_laws X pub r" and enc: "anoncrypt X r to msg a limit = Ok (s, kids)"
    and doc: "did_resolve X (did_of to) = Inr doc"
    and dist: "distinct (find_key_agreement X doc (snd (did_or_url to)))"
    and ready: "recipient_ready X pub SR doc kids"
    and msg: "utf8_valid msg" "read_envelope X msg = Ok e"
    and all: "\<not> uo_expect_decrypt_by_all_keys opts"
  shows "\<exists>pj. read_envelope X s = Ok (PeJwe pj) \<and> pj_apu pj = None \<and> pj_to_kids pj = kids \<and>
     ph_alg (pj_protected pj) = EcdhEsA256kw \<and>
     (\<forall>me. try_unpack_anoncrypt X SR opts (PeJwe pj) me = Ok (Some e, upd_metadata (note_anon a kids) me))"
proof -
  from enc obtain doc' alg vs label keys where
    e: "did_resolve X (did_of to) = Inr doc'" "agreement_label alg = Some label"
      "set vs \<subseteq> {v. find_vm doc' (vm_id v) = Some v \<and> vm_alg X v = Ok (Some alg)}"
      "map vm_id vs = kids" "vm_keys X alg label vs = Ok keys" "encrypt_anon X r alg a msg keys = Ok s"
      "distinct (find_key_agreement X doc' (snd (did_or_url to))) \<longrightarrow> distinct kids"
    by (rule anoncrypt_OkE)
  then have [simp]: "doc' = doc" using doc by simp
  from ready obtain k0 k ks where
    r: "recipients_of_one_did kids = Ok k0" "find_secrets SR kids = Ok (k # ks)" "k \<in> set kids"
      "holds_key X pub SR doc k"
    by (auto simp: recipient_ready_def)
  have "k \<in> set (map vm_id vs)" "holds_key X pub SR doc' k" using r(3,4) e(4) by auto
  from recipient_key_mem[OF e(5) this(1) e(3) this(2)] obtain kp where
    kp: "recipient_key X SR k = Ok kp" "pair_alg kp = alg" "(k, pub (pair_key kp)) \<in> set keys"
    by blast
  have m: "map fst keys = kids" using vm_keys_ids[OF e(5)] e(4) by simp
  have "distinct kids" using e(7) dist by simp
  with m show ?thesis
    by (intro encrypt_anon_unpack[OF laws e(6,2) _ m r(1,2) kp msg all]) simp
qed


subsection \<open>Authenticated encryption\<close>

definition note_auth :: "string list \<Rightarrow> string \<Rightarrow> unpack_metadata \<Rightarrow> unpack_metadata" where
  "note_auth kids from_kid md =
     md\<lparr>um_authenticated := True, um_encrypted := True, um_encrypted_from_kid := Some from_kid,
        um_encrypted_to_kids := Some kids, um_enc_alg_auth := Some AuthA256cbcHs512Ecdh1puA256kw\<rparr>"

lemma auth_scheme_same:
  "auth_label (pair_alg fp) = Some l \<Longrightarrow> pair_alg tp = pair_alg fp \<Longrightarrow>
     auth_scheme fp tp A256cbcHs512 = Ok (pair_alg fp, pair_key fp, pair_key tp)"
  by (cases fp; cases tp) (auto simp: auth_scheme_def)

text \<open>
  The text \<open>authcrypt\<close> makes, opened from the state a fresh record is filled to, and from any
  state that knows no sender yet.
\<close>

lemma encrypt_auth_unpack:
  assumes laws: "jwe_laws X pub r"
    and enc: "encrypt_auth X r alg a msg (from_kid, sk) keys = Ok s"
    and lab: "auth_label alg = Some l"
    and dist: "distinct (map fst keys)" and kids: "map fst keys = kids"
    and one: "recipients_of_one_did kids = Ok k0" and found: "find_secrets SR kids = Ok (k # ks)"
    and key: "recipient_key X SR k = Ok kp" "pair_alg kp = alg" "(k, pub (pair_key kp)) \<in> set keys"
    and sender: "published_sender X from_kid fp" "pair_alg fp = alg" "pair_key fp = pub sk"
      "utf8_valid from_kid"
    and msg: "utf8_valid msg" "read_envelope X msg = Ok e"
    and opts: "\<not> uo_expect_decrypt_by_all_keys opts" "n + 1 < unat (uo_crypto_operations_limit opts)"
  shows "\<exists>pj. read_envelope X s = Ok (PeJwe pj) \<and> pj_apu pj = Some from_kid \<and> pj_to_kids pj = kids \<and>
     ph_alg (pj_protected pj) = Ecdh1puA256kw \<and>
     (\<forall>me. \<exists>me'. fill_envelope_from X SR pj me = Ok me' \<and> me_from_kid me' = Some from_kid \<and>
        me_metadata me' = (me_metadata me)\<lparr>um_authenticated := True, um_encrypted := True,
          um_encrypted_from_kid := Some from_kid, um_encrypted_to_kids := Some kids\<rparr> \<and>
        me_parsed_envelope me' = me_parsed_envelope me \<and>
        try_unpack_authcrypt X SR opts (PeJwe pj) me' n = Ok (Some e, upd_metadata (note_auth kids from_kid) me')) \<and>
     (\<forall>me. me_from_kid me = None \<longrightarrow>
        (\<exists>me'. try_unpack_authcrypt X SR opts (PeJwe pj) me n = Ok (Some e, me') \<and>
           me_metadata me' = note_auth kids from_kid (me_metadata me)))"
proof -
  have ac: "auth_content a = (CeA256CbcHs512, A256cbcHs512)" by (cases a) simp
  then have enc': "encrypt X r CeA256CbcHs512 KdfEcdh1PU alg msg Ecdh1puA256kw A256cbcHs512
                     (Some (from_kid, sk)) keys = Ok s"
    using enc by (simp add: encrypt_auth_def)
  from encrypt_parse_decrypt[OF laws enc' _ dist key(3)] obtain pj where
    *: "and_then (jwe_from_str X s) (jwe_parse X) = Ok pj" "verify_didcomm X pj = Ok pj"
      "pj_to_kids pj = kids" "pj_apu pj = Some from_kid" "ph_alg (pj_protected pj) = Ecdh1puA256kw"
      "ph_enc (pj_protected pj) = A256cbcHs512"
      "decrypt X CeA256CbcHs512 KdfEcdh1PU alg (Some (from_kid, pub sk)) (k, pair_key kp) pj = Ok msg"
    using kids sender(4) by auto
  from *(1) obtain j where "jwe_from_str X s = Ok j" "jwe_parse X j = Ok pj"
    by (auto simp: result_simps)
  then have rd: "read_envelope X s = Ok (PeJwe pj)" using *(2) by (rule read_envelope_Jwe)
  have sch: "auth_scheme fp kp A256cbcHs512 = Ok (alg, pub sk, pair_key kp)"
    using auth_scheme_same[of fp l kp] lab key(2) sender by simp
  have dec: "try_unpack_authcrypt X SR opts (PeJwe pj) me n =
       Ok (Some e, upd_metadata (\<lambda>md. md\<lparr>um_enc_alg_auth := Some AuthA256cbcHs512Ecdh1puA256kw\<rparr>) me)"
    if "me_from_kid me = Some from_kid" "me_from_key me = Some fp" "me_to_kids_found me = k # ks" for me
    using * key opts msg that sch
    by (simp add: try_unpack_authcrypt_def from_utf8_def)
  obtain doc where doc: "did_resolve X (did_of from_kid) = Inr doc"
    using sender(1) by (auto simp: published_sender_def)
  define fm where "fm = (\<lambda>me :: 'a meta_envelope. me\<lparr>me_from_did := Some (did_of from_kid),
       me_from_ddoc := Some doc, me_from_kid := Some from_kid, me_from_key := Some fp,
       me_to_kid := Some k0, me_to_did := Some (did_of k0), me_to_kids_found := k # ks,
       me_metadata := (me_metadata me)\<lparr>um_authenticated := True, um_encrypted := True,
          um_encrypted_from_kid := Some from_kid, um_encrypted_to_kids := Some kids\<rparr>\<rparr>)"
  have fs: "fill_sender X from_kid me = Ok (me\<lparr>me_from_did := Some (did_of from_kid),
       me_from_ddoc := Some doc, me_from_kid := Some from_kid, me_from_key := Some fp,
       me_metadata := (me_metadata me)\<lparr>um_authenticated := True, um_encrypted := True,
          um_encrypted_from_kid := Some from_kid\<rparr>\<rparr>)" for me
    using sender(1,4) doc unfolding fill_sender_Ok_iff by blast
  have fill: "fill_envelope_from X SR pj me = Ok (fm me)" for me
    using * one found by (simp add: fill_envelope_from_def fs fill_recipients_def fm_def)
  have "try_unpack_authcrypt X SR opts (PeJwe pj) (fm me) n =
      Ok (Some e, upd_metadata (note_auth kids from_kid) (fm me))" for me
    using dec[of "fm me"] by (simp add: fm_def note_auth_def upd_metadata_def)
  moreover have "\<exists>me'. try_unpack_authcrypt X SR opts (PeJwe pj) me n = Ok (Some e, me') \<and>
           me_metadata me' = note_auth kids from_kid (me_metadata me)"
    if "me_from_kid me = None" for me
  proof -
    have "try_unpack_authcrypt X SR opts (PeJwe pj) me n = try_unpack_authcrypt X SR opts (PeJwe pj) (fm me) n"
      using that * fill by (simp add: try_unpack_authcrypt_def) (simp add: fm_def)
    then show ?thesis using dec[of "fm me"] by (simp add: fm_def note_auth_def)
  qed
  ultimately show ?thesis using rd * fill
    by (intro exI[of _ pj]) (auto simp: fm_def intro!: exI[of _ "fm _"])
qed


text \<open>Both encryptions of \<open>authcrypt\<close>.\<close>

lemma authcrypt_unpack:
  assumes laws: "\<And>i. jwe_laws X pub (rs i)"
    and enc: "authcrypt X SR rs to from msg a en protect limit = Ok (s, from_kid, kids)"
    and doc: "did_resolve X (did_of to) = Inr doc"
    and dist: "distinct (find_key_agreement X doc (snd (did_or_url to)))"
    and ready: "recipient_ready X pub SR' doc kids" and sender: "sender_ready X pub SR from_kid"
    and msg: "utf8_valid msg" "read_envelope X msg = Ok e"
  obtains alg l keys sk fp k0 k ks kp s1 where
    "encrypt_auth X (rs 0) alg a msg (from_kid, sk) keys = Ok s1"
    "if protect then encrypt_anon X (rs 1) alg en s1 keys = Ok s else s1 = s"
    "auth_label alg = Some l" "\<exists>l'. agreement_label alg = Some l'"
    "distinct (map fst keys)" "map fst keys = kids"
    "recipients_of_one_did kids = Ok k0" "find_secrets SR' kids = Ok (k # ks)"
    "recipient_key X SR' k = Ok kp" "pair_alg kp = alg" "(k, pub (pair_key kp)) \<in> set keys"
    "published_sender X from_kid fp" "pair_alg fp = alg" "pair_key fp = pub sk" "utf8_valid from_kid"
proof -
  from enc obtain doc' fdoc alg vs label fvm fjwk secret where
    e: "did_resolve X (did_of to) = Inr doc'" "auth_label alg = Some label"
      "get_secret SR from_kid = Ok (Some secret)"
      "set vs \<subseteq> {v. find_vm doc' (vm_id v) = Some v \<and> vm_alg X v = Ok (Some alg)}"
      "map vm_id vs = kids"
      "authcrypt_keys X rs msg a en protect alg label from_kid secret vs = Ok s"
      "distinct (find_key_agreement X doc' (snd (did_or_url to))) \<longrightarrow> distinct kids"
    by (rule authcrypt_OkE)
  then have [simp]: "doc' = doc" using doc by simp
  from e(6) obtain keys sk s1 where
    k: "vm_keys X alg label vs = Ok keys" "secret_as_alg X alg secret = Ok sk"
      "encrypt_auth X (rs 0) alg a msg (from_kid, sk) keys = Ok s1"
      "if protect then encrypt_anon X (rs 1) alg en s1 keys = Ok s else s1 = s"
    by (cases protect) (auto simp: authcrypt_keys_def result_simps)
  from k(2) obtain skp where sk: "secret_as_key_pair X secret = Ok skp" "sk = pair_key skp"
    "secret_key_alg secret = alg"
    by (auto simp: secret_as_alg_Ok_iff)
  have "pair_alg skp = alg"
    using sk secret_pair_alg by (auto simp: secret_as_key_pair_def secret_key_alg_def)
  with sender e(3) sk obtain fp where
    fp: "published_sender X from_kid fp" "pair_alg fp = alg" "pair_key fp = pub sk" "utf8_valid from_kid"
    by (auto simp: sender_ready_def)
  from ready obtain k0 k ks where
    r: "recipients_of_one_did kids = Ok k0" "find_secrets SR' kids = Ok (k # ks)" "k \<in> set kids"
      "holds_key X pub SR' doc k"
    by (auto simp: recipient_ready_def)
  have "k \<in> set (map vm_id vs)" "holds_key X pub SR' doc' k" using r(3,4) e(5) by auto
  from recipient_key_mem[OF k(1) this(1) e(4) this(2)] obtain kp where
    kp: "recipient_key X SR' k = Ok kp" "pair_alg kp = alg" "(k, pub (pair_key kp)) \<in> set keys"
    by blast
  have m: "map fst keys = kids" using vm_keys_ids[OF k(1)] e(5) by simp
  have l: "\<exists>l'. agreement_label alg = Some l'" using e(2) by (cases alg) auto
  have d: "distinct (map fst keys)" using e(7) dist m by simp
  show thesis by (rule that[OF k(3,4) e(2) l d m r(1,2) kp fp])
qed

subsection \<open>Signed and plain texts\<close>

text \<open>
  The inner text of an encrypted message: after it has been read, the last two steps give the
  message, with the metadata changed by \<open>f\<close>; it is not a forward to the recipient itself.
\<close>

definition tail_opens ::
  "('k, 'c, 'w, 'z) env_ext_scheme \<Rightarrow> secrets_resolver \<Rightarrow> parsed_envelope \<Rightarrow> message
     \<Rightarrow> (unpack_metadata \<Rightarrow> unpack_metadata) \<Rightarrow> bool" where
  "tail_opens X SR p m f \<longleftrightarrow>
     (\<forall>pj. p \<noteq> PeJwe pj) \<and> try_unwrap_forwarded_message X SR p = Ok None \<and>
     (\<forall>me. \<exists>sg me1 me2. try_unpack_sign X p me = Ok (sg, me1) \<and>
        try_unpack_plaintext X (case sg of Some s \<Rightarrow> s | None \<Rightarrow> p) me1 = Ok (Some m, me2) \<and>
        me_metadata me2 = f (me_metadata me))"

lemma unpack_from_parts:
  assumes "me_parsed_envelope me = Some p" and "unpack_loop X SR opts p 0 me = Ok (an, p1, n, me1)"
    and "try_unpack_authcrypt X SR opts (case an of Some a \<Rightarrow> a | None \<Rightarrow> p1) me1 n = Ok (au, me2)"
    and "tail_opens X SR (case au of Some a \<Rightarrow> a | None \<Rightarrow> (case an of Some a \<Rightarrow> a | None \<Rightarrow> p1)) m f"
  shows "unpack X SR opts me = Ok (m, f (me_metadata me2))"
proof -
  from assms(4) obtain sg me3 me4 where
    "try_unpack_sign X (case au of Some a \<Rightarrow> a | None \<Rightarrow> (case an of Some a \<Rightarrow> a | None \<Rightarrow> p1)) me2 = Ok (sg, me3)"
    "try_unpack_plaintext X (case sg of Some s \<Rightarrow> s
       | None \<Rightarrow> (case au of Some a \<Rightarrow> a | None \<Rightarrow> (case an of Some a \<Rightarrow> a | None \<Rightarrow> p1))) me3 = Ok (Some m, me4)"
    "me_metadata me4 = f (me_metadata me2)"
    unfolding tail_opens_def by blast
  then show ?thesis using assms(1-3) by (simp add: unpack_def)
qed

text \<open>The text of a message is read back as the message.\<close>

definition message_reads :: "('k, 'c, 'w, 'z) env_ext_scheme \<Rightarrow> message \<Rightarrow> bool" where
  "message_reads X m \<longleftrightarrow>
     (\<forall>s. ser_message X m = Inr s \<longrightarrow> utf8_valid s \<and> read_envelope X s = Ok (PeMessage m))"

text \<open>The texts of the three envelopes are told apart, and they are UTF-8.\<close>

definition envelope_laws :: "('k, 'c, 'w, 'z) env_ext_scheme \<Rightarrow> bool" where
  "envelope_laws X \<longleftrightarrow>
     (\<forall>j s. ser_jwe X j = Inr s \<longrightarrow> utf8_valid s) \<and>
     (\<forall>j s. ser_jws X j = Inr s \<longrightarrow> utf8_valid s \<and> (\<exists>e. de_jwe X s = Inl e))"

lemma tail_opens_plain:
  assumes "m_typ m = plaintext_typ" and "m_from_prior m = None" and "m_type m \<noteq> forward_msg_type"
  shows "tail_opens X SR (PeMessage m) m id"
  using assms
  by (simp add: tail_opens_def try_unwrap_forwarded_message_def try_parse_forward_def
        try_unpack_sign_def try_unpack_plaintext_def validate_def)

definition signer_ready ::
  "('k, 'z) key_ext_scheme \<Rightarrow> ('k \<Rightarrow> 'k) \<Rightarrow> secrets_resolver \<Rightarrow> string \<Rightarrow> bool" where
  "signer_ready X pub SR kid \<longleftrightarrow>
     (\<forall>s kp. get_secret SR kid = Ok (Some s) \<longrightarrow> secret_as_key_pair X s = Ok kp \<longrightarrow>
        (\<exists>j. signer_jwk X kid = Ok j \<and> as_alg X (pair_alg kp) j = Ok (pub (pair_key kp))))"

lemma pack_plaintext_Ok:
  "pack_plaintext X m = Ok s \<Longrightarrow> ser_message X m = Inr s"
  by (auto simp: pack_plaintext_def result_simps)

lemma check_signature_accepts:
  assumes "verify_key_alg alg = Some ka" and "as_alg X ka j = Ok k"
    and "jws_verify X pjs (kid, k) = Ok True"
  shows "\<exists>sa. check_signature X pjs kid j alg = Ok (sa, True)"
  using assms by (cases alg) (auto simp: check_signature_def context_msg_def)

text \<open>A signed message, opened.\<close>

lemma pack_signed_unpack:
  assumes laws: "b64_laws X" "jws_serde_laws X" "signature_laws X pub" "envelope_laws X"
    and m: "message_reads X m" "m_typ m = plaintext_typ" "m_from_prior m = None"
    and pk: "pack_signed X SR m sign_by = Ok (s, kid)" and signer: "signer_ready X pub SR kid"
  shows "\<exists>pjs sa. utf8_valid s \<and> read_envelope X s = Ok (PeJws pjs) \<and>
     tail_opens X SR' (PeJws pjs) m (note_signature sa kid (pjs_jws pjs))"
proof -
  from pk obtain secret kp body alg where
    fs: "get_secret SR kid = Ok (Some secret)" and kp: "secret_as_key_pair X secret = Ok kp" and
    pt: "pack_plaintext X m = Ok body" and alg: "signing_alg kp = Some alg" and
    sg: "sign X body (kid, pair_key kp) alg = Ok s"
    by (auto simp: pack_signed_def result_simps first_secret_Ok_iff split: option.splits)
  have body: "utf8_valid body" "read_envelope X body = Ok (PeMessage m)"
    using m(1) pack_plaintext_Ok[OF pt] by (auto simp: message_reads_def)
  from sign_parse_verify[OF laws(1-3) sg] obtain pjs where
    pjs: "and_then (jws_from_str X s) (jws_parse X) = Ok pjs" "map jh_alg (pjs_protected pjs) = [alg]"
      "map sg_kid (jws_signatures (pjs_jws pjs)) = [kid]"
      "jws_verify X pjs (kid, pub (pair_key kp)) = Ok True"
      "b64_decode X (jws_payload (pjs_jws pjs)) = Inr body"
    by (elim exE conjE) (rule that)
  from sg obtain j where j: "ser_jws X j = Inr s"
    by (auto simp: sign_def Let_def result_simps)
  have s: "utf8_valid s" "\<exists>e. de_jwe X s = Inl e" "de_jws X s = Inr j"
    using laws(2,4) j by (auto simp: envelope_laws_def jws_serde_laws_def)
  have "jws_parse X j = Ok pjs"
    using pjs(1) s(3) by (simp add: jws_from_str_def serde_to_didcomm_def context_msg_def)
  then have rd: "read_envelope X s = Ok (PeJws pjs)"
    using s by (auto simp: read_envelope_def envelope_from_str_def de_envelope_def
        serde_to_didcomm_def context_msg_def)
  from signer fs kp obtain jwk where
    jwk: "signer_jwk X kid = Ok jwk" "as_alg X (pair_alg kp) jwk = Ok (pub (pair_key kp))"
    by (auto simp: signer_ready_def)
  obtain sa where sa: "check_signature X pjs kid jwk alg = Ok (sa, True)"
    using check_signature_accepts[OF verify_key_alg_signing[OF alg] jwk(2) pjs(4)] by blast
  obtain h sig where hs: "pjs_protected pjs = [h]" "jh_alg h = alg"
    "jws_signatures (pjs_jws pjs) = [sig]" "sg_kid sig = kid"
    using pjs(2,3) by auto
  have sign: "try_unpack_sign X (PeJws pjs) me =
      Ok (Some (PeMessage m), upd_metadata (note_signature sa kid (pjs_jws pjs)) me)" for me
    using hs jwk(1) sa pjs(5) body by (simp add: try_unpack_sign_def from_utf8_def with_kind_def)
  have plain: "try_unpack_plaintext X (PeMessage m) me = Ok (Some m, me)" for me
    using m(2,3) by (simp add: try_unpack_plaintext_def validate_def)
  have "tail_opens X SR' (PeJws pjs) m (note_signature sa kid (pjs_jws pjs))"
    by (auto simp: tail_opens_def try_unwrap_forwarded_message_def sign plain)
  with rd s(1) show ?thesis by blast
qed

text \<open>The inner text of \<open>pack_encrypted\<close>, signed or not.\<close>

lemma pack_inner_unpack:
  assumes laws: "b64_laws X" "jws_serde_laws X" "signature_laws X pub" "envelope_laws X"
    and m: "message_reads X m" "m_typ m = plaintext_typ" "m_from_prior m = None"
      "m_type m \<noteq> forward_msg_type"
    and pk: "pack_inner X SR m sign_by = Ok (s, sk)"
    and signer: "\<And>kid. sk = Some kid \<Longrightarrow> signer_ready X pub SR kid"
  shows "\<exists>p f. utf8_valid s \<and> read_envelope X s = Ok p \<and> tail_opens X SR' p m f \<and>
     (\<forall>md. um_encrypted_from_kid (f md) = um_encrypted_from_kid md \<and>
           um_encrypted_to_kids (f md) = um_encrypted_to_kids md \<and>
           um_encrypted (f md) = um_encrypted md \<and>
           um_anonymous_sender (f md) = um_anonymous_sender md \<and>
           um_authenticated (f md) = (um_authenticated md \<or> sk \<noteq> None) \<and>
           um_non_repudiation (f md) = (um_non_repudiation md \<or> sk \<noteq> None) \<and>
           um_sign_from (f md) = (case sk of None \<Rightarrow> um_sign_from md | Some k \<Rightarrow> Some k))"
proof (cases sign_by)
  case None
  with pk have pt: "pack_plaintext X m = Ok s" and sk: "sk = None"
    by (auto simp: pack_inner_def result_simps)
  have "utf8_valid s" "read_envelope X s = Ok (PeMessage m)"
    using m(1) pack_plaintext_Ok[OF pt] by (auto simp: message_reads_def)
  with sk tail_opens_plain[OF m(2-4)] show ?thesis
    by (intro exI[of _ "PeMessage m"] exI[of _ id]) simp
next
  case (Some signer_id)
  with pk obtain kid where ps: "pack_signed X SR m signer_id = Ok (s, kid)" and sk: "sk = Some kid"
    by (auto simp: pack_inner_def result_simps)
  from pack_signed_unpack[OF laws m(1-3) ps signer[OF sk]] obtain pjs sa where
    "utf8_valid s" "read_envelope X s = Ok (PeJws pjs)"
    "tail_opens X SR' (PeJws pjs) m (note_signature sa kid (pjs_jws pjs))" by blast
  with sk show ?thesis
    by (intro exI[of _ "PeJws pjs"] exI[of _ "note_signature sa kid (pjs_jws pjs)"])
       (simp add: note_signature_def)
qed


subsection \<open>Opening the outer envelopes\<close>

lemma meta_envelope_new_Jwe:
  assumes "read_envelope X s = Ok (PeJwe pj)"
  shows "\<exists>e. meta_envelope_new X SR s = fill_envelope_from X SR pj
           (default_meta_envelope\<lparr>me_envelope := Some e, me_parsed_envelope := Some (PeJwe pj)\<rparr>)"
proof -
  from assms obtain e where "envelope_from_str X s = Ok e"
    "and_then (envelope_parse X e) (envelope_verify_didcomm X) = Ok (PeJwe pj)"
    by (rule read_envelope_OkE)
  then show ?thesis by (auto simp: meta_envelope_new_def meta_envelope_from_def)
qed

lemma unpack_loop_once:
  assumes "try_unpack_anoncrypt X SR opts p me = Ok (Some e, me')"
    and "try_unwrap_forwarded_message X SR e = Ok None"
    and "n + 1 < unat (uo_crypto_operations_limit opts)"
  shows "unpack_loop X SR opts p n me = Ok (Some e, p, n + 1, me')"
  using assms by (subst unpack_loop.simps) simp

text \<open>The three forms of the outer envelope: anonymous, authenticated, protected.\<close>

lemma unpack_anon:
  assumes rd: "read_envelope X s = Ok (PeJwe pj)" and apu: "pj_apu pj = None"
    and anon: "\<And>me. try_unpack_anoncrypt X SR opts (PeJwe pj) me = Ok (Some p, upd_metadata (note_anon a (pj_to_kids pj)) me)"
    and ready: "recipients_of_one_did (pj_to_kids pj) = Ok k0" "find_secrets SR (pj_to_kids pj) = Ok (k # ks)"
    and tail: "tail_opens X SR p m f" and lim: "1 < unat (uo_crypto_operations_limit opts)"
  shows "unpack_string X SR opts s = Ok (m, f (note_anon a (pj_to_kids pj) default_metadata))"
proof -
  from meta_envelope_new_anonymous[OF rd apu ready] obtain me where
    me: "meta_envelope_new X SR s = Ok me" "me_parsed_envelope me = Some (PeJwe pj)" by blast
  obtain e where "meta_envelope_new X SR s = fill_envelope_from X SR pj
       (default_meta_envelope\<lparr>me_envelope := Some e, me_parsed_envelope := Some (PeJwe pj)\<rparr>)"
    using meta_envelope_new_Jwe[OF rd] by blast
  with me apu have md: "note_anon a (pj_to_kids pj) (me_metadata me) = note_anon a (pj_to_kids pj) default_metadata"
    by (auto simp: fill_envelope_from_def fill_recipients_Ok_iff default_meta_envelope_def
          note_anon_def)
  have "try_unwrap_forwarded_message X SR p = Ok None" using tail by (simp add: tail_opens_def)
  from unpack_loop_once[OF anon this, of 0] lim have
    l: "unpack_loop X SR opts (PeJwe pj) 0 me = Ok (Some p, PeJwe pj, 1, upd_metadata (note_anon a (pj_to_kids pj)) me)"
    by simp
  have au: "try_unpack_authcrypt X SR opts p me' 1 = Ok (None, me')" for me'
    using tail by (cases p) (auto simp: tail_opens_def try_unpack_authcrypt_def)
  show ?thesis
    using unpack_from_parts[OF me(2) l, of None] au tail me(1) md
    by (simp add: unpack_string_def)
qed

lemma unpack_auth:
  assumes rd: "read_envelope X s = Ok (PeJwe pj)" and alg: "ph_alg (pj_protected pj) = Ecdh1puA256kw"
    and auth: "\<And>me. \<exists>me'. fill_envelope_from X SR pj me = Ok me' \<and>
        me_metadata me' = (me_metadata me)\<lparr>um_authenticated := True, um_encrypted := True,
          um_encrypted_from_kid := Some kid, um_encrypted_to_kids := Some kids\<rparr> \<and>
        me_parsed_envelope me' = me_parsed_envelope me \<and>
        try_unpack_authcrypt X SR opts (PeJwe pj) me' 1 = Ok (Some p, upd_metadata (note_auth kids kid) me')"
    and tail: "tail_opens X SR p m f" and lim: "2 < unat (uo_crypto_operations_limit opts)"
  shows "unpack_string X SR opts s = Ok (m, f (note_auth kids kid default_metadata))"
proof -
  obtain e where e: "meta_envelope_new X SR s = fill_envelope_from X SR pj
       (default_meta_envelope\<lparr>me_envelope := Some e, me_parsed_envelope := Some (PeJwe pj)\<rparr>)"
    using meta_envelope_new_Jwe[OF rd] by blast
  obtain me where me: "meta_envelope_new X SR s = Ok me"
    "me_metadata me = default_metadata\<lparr>um_authenticated := True, um_encrypted := True,
          um_encrypted_from_kid := Some kid, um_encrypted_to_kids := Some kids\<rparr>"
    "me_parsed_envelope me = Some (PeJwe pj)"
    "try_unpack_authcrypt X SR opts (PeJwe pj) me 1 = Ok (Some p, upd_metadata (note_auth kids kid) me)"
    using auth[of "default_meta_envelope\<lparr>me_envelope := Some e, me_parsed_envelope := Some (PeJwe pj)\<rparr>"] e
    by (auto simp: default_meta_envelope_def)
  have l: "unpack_loop X SR opts (PeJwe pj) 0 me = Ok (None, PeJwe pj, 1, me)"
    using unpack_loop_skip[of X SR opts "PeJwe pj" 0 me] alg lim
    by (simp add: try_unpack_anoncrypt_def)
  have "note_auth kids kid (me_metadata me) = note_auth kids kid default_metadata"
    using me(2) by (simp add: note_auth_def)
  with unpack_from_parts[OF me(3) l, of "Some p"] me(1,4) tail show ?thesis
    by (simp add: unpack_string_def)
qed

lemma unpack_protected:
  assumes rd: "read_envelope X s = Ok (PeJwe pj)" and apu: "pj_apu pj = None"
    and anon: "\<And>me. try_unpack_anoncrypt X SR opts (PeJwe pj) me = Ok (Some (PeJwe pj2), upd_metadata (note_anon a (pj_to_kids pj)) me)"
    and ready: "recipients_of_one_did (pj_to_kids pj) = Ok k0" "find_secrets SR (pj_to_kids pj) = Ok (k # ks)"
    and auth: "\<And>me. me_from_kid me = None \<Longrightarrow>
        \<exists>me'. try_unpack_authcrypt X SR opts (PeJwe pj2) me 1 = Ok (Some p, me') \<and>
           me_metadata me' = note_auth (pj_to_kids pj) kid (me_metadata me)"
    and tail: "tail_opens X SR p m f" and lim: "2 < unat (uo_crypto_operations_limit opts)"
  shows "unpack_string X SR opts s =
     Ok (m, f (note_auth (pj_to_kids pj) kid (note_anon a (pj_to_kids pj) default_metadata)))"
proof -
  from meta_envelope_new_anonymous[OF rd apu ready] obtain me where
    me: "meta_envelope_new X SR s = Ok me" "me_parsed_envelope me = Some (PeJwe pj)"
      "me_from_kid me = None" by blast
  obtain e where "meta_envelope_new X SR s = fill_envelope_from X SR pj
       (default_meta_envelope\<lparr>me_envelope := Some e, me_parsed_envelope := Some (PeJwe pj)\<rparr>)"
    using meta_envelope_new_Jwe[OF rd] by blast
  with me apu have md: "note_anon a (pj_to_kids pj) (me_metadata me) = note_anon a (pj_to_kids pj) default_metadata"
    by (auto simp: fill_envelope_from_def fill_recipients_Ok_iff default_meta_envelope_def
          note_anon_def)
  have "try_unwrap_forwarded_message X SR (PeJwe pj2) = Ok None"
    by (simp add: try_unwrap_forwarded_message_def)
  from unpack_loop_once[OF anon this, of 0] lim have
    l: "unpack_loop X SR opts (PeJwe pj) 0 me = Ok (Some (PeJwe pj2), PeJwe pj, 1, upd_metadata (note_anon a (pj_to_kids pj)) me)"
    by simp
  from auth[of "upd_metadata (note_anon a (pj_to_kids pj)) me"] me(3) obtain me' where
    a: "try_unpack_authcrypt X SR opts (PeJwe pj2) (upd_metadata (note_anon a (pj_to_kids pj)) me) 1 = Ok (Some p, me')"
      "me_metadata me' = note_auth (pj_to_kids pj) kid (note_anon a (pj_to_kids pj) (me_metadata me))"
    by auto
  show ?thesis
    using unpack_from_parts[OF me(2) l, of "Some p"] a tail me(1) md
    by (simp add: unpack_string_def)
qed


subsection \<open>The round trip\<close>

definition crypto_laws ::
  "('k, 'c, 'w, 'z) env_ext_scheme \<Rightarrow> ('k \<Rightarrow> 'k) \<Rightarrow> (nat \<Rightarrow> ('k, 'c) draws) \<Rightarrow> bool" where
  "crypto_laws X pub rs \<longleftrightarrow>
     (\<forall>i. jwe_laws X pub (rs i)) \<and> jws_serde_laws X \<and> signature_laws X pub \<and> envelope_laws X"

definition plain_message :: "('k, 'c, 'w, 'z) env_ext_scheme \<Rightarrow> message \<Rightarrow> bool" where
  "plain_message X m \<longleftrightarrow>
     message_reads X m \<and> m_typ m = plaintext_typ \<and> m_from_prior m = None \<and>
     m_type m \<noteq> forward_msg_type"

lemma encrypt_utf8:
  "envelope_laws X \<Longrightarrow> encrypt X r ce d ke p alg enc sender recs = Ok s \<Longrightarrow> utf8_valid s"
  by (erule encrypt_OkE) (auto simp: envelope_laws_def)

text \<open>The metadata the recipient ends with.\<close>

definition tells ::
  "unpack_metadata \<Rightarrow> string option \<Rightarrow> string option \<Rightarrow> string list \<Rightarrow> bool \<Rightarrow> bool" where
  "tells md from_kid sign_kid kids anonymous \<longleftrightarrow>
     um_encrypted md \<and> um_encrypted_from_kid md = from_kid \<and> um_sign_from md = sign_kid \<and>
     um_encrypted_to_kids md = Some kids \<and>
     um_authenticated md = (from_kid \<noteq> None \<or> sign_kid \<noteq> None) \<and>
     um_non_repudiation md = (sign_kid \<noteq> None) \<and> um_anonymous_sender md = anonymous"

lemma pack_outer_anon_unpack:
  assumes laws: "crypto_laws X pub rs" and enc: "anoncrypt X (rs 0) to msg a limit = Ok (s, kids)"
    and doc: "did_resolve X (did_of to) = Inr doc"
    and dist: "distinct (find_key_agreement X doc (snd (did_or_url to)))"
    and ready: "recipient_ready X pub SR doc kids"
    and msg: "utf8_valid msg" "read_envelope X msg = Ok p" and tail: "tail_opens X SR p m f"
    and opts: "\<not> uo_expect_decrypt_by_all_keys opts" "2 < unat (uo_crypto_operations_limit opts)"
  shows "unpack_string X SR opts s = Ok (m, f (note_anon a kids default_metadata))"
proof -
  have "jwe_laws X pub (rs 0)" using laws by (simp add: crypto_laws_def)
  from anoncrypt_unpack[OF this enc doc dist ready msg opts(1)] obtain pj where
    pj: "read_envelope X s = Ok (PeJwe pj)" "pj_apu pj = None" "pj_to_kids pj = kids"
      "\<And>me. try_unpack_anoncrypt X SR opts (PeJwe pj) me = Ok (Some p, upd_metadata (note_anon a kids) me)"
    by blast
  from ready obtain k0 k ks where r: "recipients_of_one_did kids = Ok k0" "find_secrets SR kids = Ok (k # ks)"
    by (auto simp: recipient_ready_def)
  show ?thesis
    using unpack_anon[OF pj(1,2) _ _ _ tail, of opts a k0 k ks] pj(3,4) r opts(2) by simp
qed

lemma pack_outer_auth_unpack:
  assumes laws: "crypto_laws X pub rs"
    and enc: "authcrypt X SR rs to from msg a en protect limit = Ok (s, from_kid, kids)"
    and doc: "did_resolve X (did_of to) = Inr doc"
    and dist: "distinct (find_key_agreement X doc (snd (did_or_url to)))"
    and ready: "recipient_ready X pub SR' doc kids" and sender: "sender_ready X pub SR from_kid"
    and msg: "utf8_valid msg" "read_envelope X msg = Ok p" and tail: "tail_opens X SR' p m f"
    and opts: "\<not> uo_expect_decrypt_by_all_keys opts" "2 < unat (uo_crypto_operations_limit opts)"
  shows "unpack_string X SR' opts s =
     Ok (m, f (note_auth kids from_kid
                 (if protect then note_anon en kids default_metadata else default_metadata)))"
proof -
  have l: "\<And>i. jwe_laws X pub (rs i)" and env: "envelope_laws X"
    using laws by (auto simp: crypto_laws_def)
  obtain alg lb keys sk fp k0 k ks kp s1 where
    e: "encrypt_auth X (rs 0) alg a msg (from_kid, sk) keys = Ok s1"
      "if protect then encrypt_anon X (rs 1) alg en s1 keys = Ok s else s1 = s"
      "auth_label alg = Some lb" "\<exists>l'. agreement_label alg = Some l'"
      "distinct (map fst keys)" "map fst keys = kids" and
    r: "recipients_of_one_did kids = Ok k0" "find_secrets SR' kids = Ok (k # ks)" and
    kp: "recipient_key X SR' k = Ok kp" "pair_alg kp = alg" "(k, pub (pair_key kp)) \<in> set keys" and
    fp: "published_sender X from_kid fp" "pair_alg fp = alg" "pair_key fp = pub sk" "utf8_valid from_kid"
    by (rule authcrypt_unpack[OF l enc doc dist ready sender msg])
  have lim: "1 + 1 < unat (uo_crypto_operations_limit opts)" using opts(2) by simp
  from encrypt_auth_unpack[OF l e(1,3,5,6) r kp fp msg opts(1) lim] obtain pj where
    pj: "read_envelope X s1 = Ok (PeJwe pj)" "pj_to_kids pj = kids" "ph_alg (pj_protected pj) = Ecdh1puA256kw" and
    a1: "\<And>me. \<exists>me'. fill_envelope_from X SR' pj me = Ok me' \<and>
        me_metadata me' = (me_metadata me)\<lparr>um_authenticated := True, um_encrypted := True,
          um_encrypted_from_kid := Some from_kid, um_encrypted_to_kids := Some kids\<rparr> \<and>
        me_parsed_envelope me' = me_parsed_envelope me \<and>
        try_unpack_authcrypt X SR' opts (PeJwe pj) me' 1 = Ok (Some p, upd_metadata (note_auth kids from_kid) me')" and
    a2: "\<And>me. me_from_kid me = None \<Longrightarrow>
        (\<exists>me'. try_unpack_authcrypt X SR' opts (PeJwe pj) me 1 = Ok (Some p, me') \<and>
           me_metadata me' = note_auth kids from_kid (me_metadata me))"
    by blast
  show ?thesis
  proof (cases protect)
    case False
    with e(2) have "read_envelope X s = Ok (PeJwe pj)" using pj(1) by simp
    from unpack_auth[OF this pj(3) a1 tail opts(2)] False show ?thesis by simp
  next
    case True
    with e(2) have en: "encrypt_anon X (rs 1) alg en s1 keys = Ok s" by simp
    have u: "utf8_valid s1"
      using e(1) encrypt_utf8[OF env] by (auto simp: encrypt_auth_def split: prod.splits)
    obtain l' where l': "agreement_label alg = Some l'" using e(4) by blast
    from encrypt_anon_unpack[OF l en l' e(5,6) r kp u pj(1) opts(1)] obtain pj2 where
      p2: "read_envelope X s = Ok (PeJwe pj2)" "pj_apu pj2 = None" "pj_to_kids pj2 = kids"
        "\<And>me. try_unpack_anoncrypt X SR' opts (PeJwe pj2) me = Ok (Some (PeJwe pj), upd_metadata (note_anon en kids) me)"
      by blast
    from unpack_protected[OF p2(1,2), of SR' opts pj en k0 k ks p from_kid m f] p2(3,4) r a2 tail opts(2) True
    show ?thesis by simp
  qed
qed

lemma pack_encrypted_OkE:
  assumes "pack_encrypted X SR rs m to from sign_by opts = Ok (s, meta)"
    and "pm_messaging_service meta = None"
  obtains body where "pack_inner X SR m sign_by = Ok (body, pm_sign_by_kid meta)"
    "pack_outer X SR rs body to from opts = Ok (s, pm_from_kid meta, pm_to_kids meta)"
  using assms by (auto simp: pack_encrypted_def result_simps split: option.splits)

text \<open>An unsigned text without a sender, which needs no key of the one who packs it.\<close>

lemma anonymous_text_opens:
  assumes "crypto_laws X pub rs" and "plain_message X m"
    and "pack_encrypted X SR rs m to None None opts = Ok (s, meta)"
    and "pm_messaging_service meta = None"
    and "did_resolve X (did_of to) = Inr doc"
    and "distinct (find_key_agreement X doc (snd (did_or_url to)))"
    and "recipient_ready X pub SR' doc (pm_to_kids meta)"
    and "\<not> uo_expect_decrypt_by_all_keys uopts" and "2 < unat (uo_crypto_operations_limit uopts)"
  shows "\<exists>md. unpack_string X SR' uopts s = Ok (m, md) \<and> um_encrypted md"
proof -
  from assms(3,4) obtain body where
    inner: "pack_inner X SR m None = Ok (body, pm_sign_by_kid meta)" and
    outer: "pack_outer X SR rs body to None opts = Ok (s, pm_from_kid meta, pm_to_kids meta)"
    by (rule pack_encrypted_OkE)
  have m: "message_reads X m" "m_typ m = plaintext_typ" "m_from_prior m = None"
      "m_type m \<noteq> forward_msg_type"
    using assms(2) by (auto simp: plain_message_def)
  from inner have "ser_message X m = Inr body"
    by (auto simp: pack_inner_def result_simps dest: pack_plaintext_Ok)
  then have b: "utf8_valid body" "read_envelope X body = Ok (PeMessage m)"
    using m(1) by (auto simp: message_reads_def)
  from outer have "anoncrypt X (rs 0) to body (po_enc_alg_anon opts) (po_to_kids_limit opts) =
      Ok (s, pm_to_kids meta)"
    by (auto simp: pack_outer_def result_simps)
  from pack_outer_anon_unpack[OF assms(1) this assms(5-7) b tail_opens_plain[OF m(2-4)] assms(8,9)]
  show ?thesis by (auto simp: note_anon_def)
qed

text \<open>What is packed for a recipient without a mediator in between opens for the recipient.\<close>

lemma packed_opens:
  assumes "crypto_laws X pub rs" and "plain_message X m"
    and "pack_encrypted X SR rs m to from sign_by opts = Ok (s, meta)"
    and "pm_messaging_service meta = None"
    and "did_resolve X (did_of to) = Inr doc"
    and "distinct (find_key_agreement X doc (snd (did_or_url to)))"
    and "recipient_ready X pub SR' doc (pm_to_kids meta)"
    and "\<And>kid. pm_from_kid meta = Some kid \<Longrightarrow> sender_ready X pub SR kid"
    and "\<And>kid. pm_sign_by_kid meta = Some kid \<Longrightarrow> signer_ready X pub SR kid"
    and "\<not> uo_expect_decrypt_by_all_keys uopts" and "2 < unat (uo_crypto_operations_limit uopts)"
  shows "\<exists>md. unpack_string X SR' uopts s = Ok (m, md) \<and>
     tells md (pm_from_kid meta) (pm_sign_by_kid meta) (pm_to_kids meta)
       (from = None \<or> po_protect_sender opts)"
proof -
  from assms(3,4) obtain body where
    inner: "pack_inner X SR m sign_by = Ok (body, pm_sign_by_kid meta)" and
    outer: "pack_outer X SR rs body to from opts = Ok (s, pm_from_kid meta, pm_to_kids meta)"
    by (rule pack_encrypted_OkE)
  have laws: "b64_laws X" "jws_serde_laws X" "signature_laws X pub" "envelope_laws X"
    using assms(1) by (auto simp: crypto_laws_def jwe_laws_def)
  have m: "message_reads X m" "m_typ m = plaintext_typ" "m_from_prior m = None"
      "m_type m \<noteq> forward_msg_type"
    using assms(2) by (auto simp: plain_message_def)
  from pack_inner_unpack[OF laws m inner assms(9), of SR'] obtain p f where
    b: "utf8_valid body" "read_envelope X body = Ok p" and t: "tail_opens X SR' p m f" and
    f: "\<And>md. um_encrypted_from_kid (f md) = um_encrypted_from_kid md \<and>
           um_encrypted_to_kids (f md) = um_encrypted_to_kids md \<and>
           um_encrypted (f md) = um_encrypted md \<and>
           um_anonymous_sender (f md) = um_anonymous_sender md \<and>
           um_authenticated (f md) = (um_authenticated md \<or> pm_sign_by_kid meta \<noteq> None) \<and>
           um_non_repudiation (f md) = (um_non_repudiation md \<or> pm_sign_by_kid meta \<noteq> None) \<and>
           um_sign_from (f md) = (case pm_sign_by_kid meta of None \<Rightarrow> um_sign_from md | Some k \<Rightarrow> Some k)"
    by blast
  note opts = assms(10,11)
  show ?thesis
  proof (cases "from")
    case None
    with outer have "anoncrypt X (rs 0) to body (po_enc_alg_anon opts) (po_to_kids_limit opts) =
        Ok (s, pm_to_kids meta)" and fk: "pm_from_kid meta = None"
      by (auto simp: pack_outer_def result_simps)
    from pack_outer_anon_unpack[OF assms(1) this(1) assms(5-7) b t opts] None fk f
    show ?thesis
      by (auto simp: tells_def note_anon_def default_metadata_def split: option.splits)
  next
    case (Some fr)
    with outer obtain kid where "authcrypt X SR rs to fr body (po_enc_alg_auth opts)
        (po_enc_alg_anon opts) (po_protect_sender opts) (po_to_kids_limit opts) =
        Ok (s, kid, pm_to_kids meta)" and fk: "pm_from_kid meta = Some kid"
      by (auto simp: pack_outer_def result_simps)
    from pack_outer_auth_unpack[OF assms(1) this(1) assms(5-7) assms(8)[OF fk] b t opts] Some fk f
    show ?thesis
      by (auto simp: tells_def note_anon_def note_auth_def default_metadata_def split: option.splits)
  qed
qed

text \<open>
  C3: whatever \<open>pack_encrypted\<close> makes for a recipient without a mediator in between, \<open>unpack\<close>
  opens for the recipient: it gives back the message, and the metadata names the key of the
  sender, the key of the signer and the keys of the recipient, and says truly whether the message
  was authenticated, signed, and anonymous or protected.
\<close>

theorem pack_unpack:
  assumes "crypto_laws X pub rs" and "plain_message X m"
    and "pack_encrypted X SR rs m to from sign_by opts = Ok (s, meta)"
    and "pm_messaging_service meta = None"
    and "did_resolve X (did_of to) = Inr doc"
    and "distinct (find_key_agreement X doc (snd (did_or_url to)))"
    and "recipient_ready X pub SR' doc (pm_to_kids meta)"
    and "\<And>kid. pm_from_kid meta = Some kid \<Longrightarrow> sender_ready X pub SR kid"
    and "\<And>kid. pm_sign_by_kid meta = Some kid \<Longrightarrow> signer_ready X pub SR kid"
    and "\<not> uo_expect_decrypt_by_all_keys uopts" and "2 < unat (uo_crypto_operations_limit uopts)"
  shows "\<exists>md. unpack_string X SR' uopts s = Ok (m, md) \<and>
     tells md (pm_from_kid meta) (pm_sign_by_kid meta) (pm_to_kids meta)
       (from = None \<or> po_protect_sender opts)"
  using assms by (rule packed_opens)

text \<open>A plaintext message opens as what it is, unless it is a forward for a key of the wallet.\<close>

lemma plain_text_opens:
  assumes "read_envelope X s = Ok (PeMessage m)" "m_typ m = plaintext_typ" "m_from_prior m = None"
    and "\<And>p. try_parse_forward m = Some p \<Longrightarrow> has_key_agreement_secret X SR (pf_next p) = Ok False"
    and "1 < unat (uo_crypto_operations_limit opts)"
  shows "unpack_string X SR opts s = Ok (m, default_metadata)"
proof -
  obtain e where e: "envelope_from_str X s = Ok e" "and_then (envelope_parse X e) (envelope_verify_didcomm X) = Ok (PeMessage m)"
    using assms(1) by (auto simp: read_envelope_def result_simps)
  have l: "unpack_loop X SR opts (PeMessage m) 0 me = Ok (None, PeMessage m, 0 + 1, me)" for me
    by (rule unpack_loop_skip) (use assms(5) in \<open>simp_all add: try_unpack_anoncrypt_def\<close>)
  have "tail_opens X SR (PeMessage m) m id"
    using assms(2-4) by (auto simp: tail_opens_def try_unwrap_forwarded_message_def try_unpack_sign_def
          try_unpack_plaintext_def validate_def split: option.split)
  then have "unpack X SR opts me = Ok (m, me_metadata me)" if "me_parsed_envelope me = Some (PeMessage m)" for me
    using unpack_from_parts[OF that l, of None me m id] by (simp add: try_unpack_authcrypt_def)
  then show ?thesis using e
    by (simp add: unpack_string_def meta_envelope_new_def meta_envelope_from_def default_meta_envelope_def)
qed

subsection \<open>The sender and the \<open>from\<close> header\<close>

text \<open>
  C8: the \<open>from\<close> header of the message is not checked against the key the envelope was encrypted
  with: whatever \<open>from\<close> the message carries, an authenticated envelope around its text that any
  party makes with its own key is unpacked, and counts as authenticated.
\<close>

theorem unpack_ignores_from:
  assumes "crypto_laws X pub rs" and "plain_message X m" and "ser_message X m = Inr body"
    and "encrypt_auth X (rs 0) alg a body (kid, sk) [(to_kid, pub (pair_key kp))] = Ok s"
    and "auth_label alg = Some l" and "pair_alg kp = alg"
    and "is_did_url to_kid" and "find_secrets SR [to_kid] = Ok [to_kid]"
    and "recipient_key X SR to_kid = Ok kp"
    and "published_sender X kid fp" and "pair_alg fp = alg" and "pair_key fp = pub sk"
    and "utf8_valid kid"
    and "\<not> uo_expect_decrypt_by_all_keys opts" and "2 < unat (uo_crypto_operations_limit opts)"
  shows "\<exists>md. unpack_string X SR opts s = Ok (m, md) \<and> um_authenticated md \<and>
           um_encrypted_from_kid md = Some kid"
proof -
  have l: "jwe_laws X pub (rs 0)" using assms(1) by (simp add: crypto_laws_def)
  have b: "utf8_valid body" "read_envelope X body = Ok (PeMessage m)"
    using assms(2,3) by (auto simp: plain_message_def message_reads_def)
  have t: "tail_opens X SR (PeMessage m) m id"
    using assms(2) by (intro tail_opens_plain) (auto simp: plain_message_def)
  have one: "recipients_of_one_did [to_kid] = Ok to_kid"
    using assms(7) by (simp add: recipients_of_one_did_Ok_iff)
  have lim: "1 + 1 < unat (uo_crypto_operations_limit opts)" using assms(15) by simp
  from encrypt_auth_unpack[OF l assms(4,5) _ _ one assms(8,9,6) _ assms(10-13) b assms(14) lim] obtain pj where
    pj: "read_envelope X s = Ok (PeJwe pj)" "ph_alg (pj_protected pj) = Ecdh1puA256kw" and
    a: "\<And>me. \<exists>me'. fill_envelope_from X SR pj me = Ok me' \<and>
        me_metadata me' = (me_metadata me)\<lparr>um_authenticated := True, um_encrypted := True,
          um_encrypted_from_kid := Some kid, um_encrypted_to_kids := Some [to_kid]\<rparr> \<and>
        me_parsed_envelope me' = me_parsed_envelope me \<and>
        try_unpack_authcrypt X SR opts (PeJwe pj) me' 1 = Ok (Some (PeMessage m), upd_metadata (note_auth [to_kid] kid) me')"
    by fastforce
  from unpack_auth[OF pj(1,2) a t assms(15)] show ?thesis by (auto simp: note_auth_def)
qed

end
