(* ===== verification/Onion.thy ===== *)
theory Onion
  imports RoundTrip
begin

text \<open>
  What holds of \<open>Routing\<close>: the service chain of a recipient is at most one mediator long and
  starts at a transport address; a forward message gives back its next hop and its content; the
  onion of forwards passes through its mediators, each of which can open the layer made for it
  and reads there where to send what.
\<close>

subsection \<open>Services\<close>

lemma find_SomeD: "find P xs = Some x \<Longrightarrow> x \<in> set xs \<and> P x"
  by (induction xs) (auto split: if_splits)

text \<open>
  a service the check accepts has an endpoint given as a map that speaks \<open>didcomm/v2\<close>, or does
  not say what it speaks, and the service returned is read from that map.
\<close>

theorem check_service_Some:
  "check_service s = Ok so \<Longrightarrow>
     \<exists>ds eps ms. so = Some (service_id s, ds) \<and> service_endpoint s = Some eps \<and>
       EndpointMap ms \<in> set eps \<and> accepts_v2 (EndpointMap ms) \<and> service_from_value ms = Some ds"
proof -
  assume *: "check_service s = Ok so"
  then obtain eps where eps: "service_endpoint s = Some eps"
    by (auto simp: check_service_def result_simps Let_def split: option.splits)
  with * obtain ep where ep: "find accepts_v2 eps = Some ep"
    by (auto simp: check_service_def result_simps Let_def split: option.splits)
  with * eps show ?thesis using find_SomeD[OF ep]
    by (cases ep) (auto simp: check_service_def result_simps Let_def simp del: accepts_v2.simps)
qed

text \<open>
  the type of a service plays no part in the check as long as it has one: a service of any
  other type with such an endpoint is taken for a DIDComm messaging service.
\<close>

theorem check_service_any_type:
  assumes "service_types s = t # ts" and "service_endpoint s = Some eps"
    and "find accepts_v2 eps = Some (EndpointMap ms)" and "service_from_value ms = Some ds"
  shows "check_service s = Ok (Some (service_id s, ds))"
  using assms by (simp add: check_service_def check_service_type_def Let_def)

text \<open>
  C30: a chain of services that resolving a recipient returns is, unless it is empty, the service
  found in its own document, whose endpoint is then no DID, or that service behind the one of a
  single mediator, the DID of its endpoint, whose own endpoint is no DID. So no mediator of a
  mediator is in a chain, and every chain starts at an address to send to.
\<close>

theorem services_chain_bounded:
  assumes "resolve_services_chain X to wanted = Ok cs" and "cs \<noteq> []"
  shows "\<exists>doc s. did_resolve X to = Inr doc \<and> find_did_comm_service X doc wanted = Ok (Some s) \<and>
    (cs = [s] \<and> \<not> is_did (ds_uri (snd s)) \<or>
     (\<exists>mediator_doc m. is_did (ds_uri (snd s)) \<and> did_resolve X (ds_uri (snd s)) = Inr mediator_doc \<and>
        find_did_comm_service X mediator_doc None = Ok (Some m) \<and>
        cs = [m, s] \<and> \<not> is_did (ds_uri (snd m))))"
proof -
  from assms obtain doc s where d: "did_resolve X to = Inr doc" "find_did_comm_service X doc wanted = Ok (Some s)"
    and f: "follow_services X to [s] (ds_uri (snd s)) = Ok cs"
    by (auto simp: resolve_services_chain_def result_simps split: option.splits sum.splits)
  have "cs = [s] \<and> \<not> is_did (ds_uri (snd s)) \<or>
     (\<exists>mediator_doc m. is_did (ds_uri (snd s)) \<and> did_resolve X (ds_uri (snd s)) = Inr mediator_doc \<and>
        find_did_comm_service X mediator_doc None = Ok (Some m) \<and>
        cs = [m, s] \<and> \<not> is_did (ds_uri (snd m)))"
  proof (cases "is_did (ds_uri (snd s))")
    case True
    from f[unfolded follow_services.simps[of X to "[s]"]] True obtain doc m where
      m: "did_resolve X (ds_uri (snd s)) = Inr doc" "find_did_comm_service X doc None = Ok (Some m)"
        "follow_services X to [m, s] (ds_uri (snd m)) = Ok cs"
      by (auto simp: result_simps split: sum.splits)
    from m(3)[unfolded follow_services.simps[of X to "[m, s]"]] have "\<not> is_did (ds_uri (snd m)) \<and> cs = [m, s]"
      by (auto split: if_splits)
    with True m show ?thesis by blast
  next
    case False
    with f show ?thesis by (subst (asm) follow_services.simps) auto
  qed
  with d show ?thesis by blast
qed

subsection \<open>Forward messages\<close>

lemma fold_with_header:
  "fold (\<lambda>(n, v). with_header n v) hs b = b\<lparr>mb_extra_headers := fold (\<lambda>(n, v) m. m(n \<mapsto> v)) hs (mb_extra_headers b)\<rparr>"
proof (induction hs arbitrary: b)
  case (Cons h hs)
  then show ?case by (cases h) (simp add: with_header_def)
qed simp

lemma build_forward_message_Ok:
  assumes "build_forward_message X uuid msg nxt headers = Ok fm"
  shows "\<exists>v. de_value X msg = Inr v \<and> m_type fm = forward_msg_type \<and> m_typ fm = plaintext_typ \<and>
     m_from_prior fm = None \<and> m_to fm = Some [nxt] \<and> m_from fm = None \<and>
     try_parse_forward fm = Some \<lparr>pf_msg = fm, pf_next = nxt, pf_forwarded_msg = v\<rparr>"
proof -
  from assms obtain v where "de_value X msg = Inr v" and
    fm: "fm = message_finalize (with_to nxt (with_attachment (attachment_finalize (attachment_json v))
      (let b = message_build uuid forward_msg_type (JObject [(''next'', JString nxt)]) in
       case headers of None \<Rightarrow> b | Some hs \<Rightarrow> fold (\<lambda>(name, value). with_header name value) hs b)))"
    by (auto simp: build_forward_message_def Let_def result_simps)
  then show ?thesis
    by (cases headers)
       (simp_all add: fold_with_header builder_defs attachment_builder_defs try_parse_forward_def)
qed

text \<open>
  The JSON value of an envelope text prints to a text that is the same envelope.
\<close>

definition value_laws :: "('k, 'c, 'w, 'z) env_ext_scheme \<Rightarrow> bool" where
  "value_laws X \<longleftrightarrow>
     (\<forall>s v. de_value X s = Inr v \<longrightarrow>
        (\<exists>t. ser_value X v = Inr t \<and> envelope_from_str X t = envelope_from_str X s))"

lemma unpack_string_cong:
  "envelope_from_str X t = envelope_from_str X s \<Longrightarrow> unpack_string X SR opts t = unpack_string X SR opts s"
  by (simp add: unpack_string_def meta_envelope_new_def)

text \<open>A mediator that has the keys of the hop, and not those of the next one.\<close>

definition mediator_ready ::
  "('k, 'c, 'w, 'z) env_ext_scheme \<Rightarrow> ('k \<Rightarrow> 'k) \<Rightarrow> secrets_resolver \<Rightarrow> string \<times> string \<Rightarrow> bool" where
  "mediator_ready X pub SR hop \<longleftrightarrow>
     has_key_agreement_secret X SR (snd hop) = Ok False \<and>
     (\<exists>doc. did_resolve X (did_of (fst hop)) = Inr doc \<and>
        distinct (find_key_agreement X doc (snd (did_or_url (fst hop)))) \<and>
        (\<forall>kids. kids \<noteq> [] \<longrightarrow> set kids \<subseteq> set (find_key_agreement X doc (snd (did_or_url (fst hop)))) \<longrightarrow>
           recipient_ready X pub SR doc kids))"

text \<open>One mediator: open the text, read the forward, print what is to be passed on.\<close>

definition passes_on ::
  "('k, 'c, 'w, 'z) env_ext_scheme \<Rightarrow> secrets_resolver \<Rightarrow> unpack_options \<Rightarrow> string \<Rightarrow> string \<Rightarrow> string \<Rightarrow> bool" where
  "passes_on X SR opts s nxt t \<longleftrightarrow>
     (\<exists>fm md p. unpack_string X SR opts s = Ok (fm, md) \<and> try_parse_forward fm = Some p \<and>
        pf_next p = nxt \<and> um_encrypted md \<and> ser_value X (pf_forwarded_msg p) = Inr t)"

text \<open>The text on its way through the mediators \<open>W hop\<close> of a list of hops.\<close>

inductive forwards ::
  "('k, 'c, 'w, 'z) env_ext_scheme \<Rightarrow> (string \<Rightarrow> secrets_resolver) \<Rightarrow> unpack_options
     \<Rightarrow> string \<Rightarrow> (string \<times> string) list \<Rightarrow> string \<Rightarrow> bool"
  for X W opts where
  arrived: "forwards X W opts s [] s"
| hop: "passes_on X (W h) opts s nxt s' \<Longrightarrow> forwards X W opts s' hops t \<Longrightarrow>
        forwards X W opts s ((h, nxt) # hops) t"

inductive_cases forwards_ConsE: "forwards X W opts s ((h, nxt) # hops) t"
inductive_cases forwards_NilE: "forwards X W opts s [] t"

lemma forwards_snoc:
  "forwards X W opts s hops t \<Longrightarrow> passes_on X (W h) opts t nxt u \<Longrightarrow>
     forwards X W opts s (hops @ [(h, nxt)]) u"
  by (induction rule: forwards.induct) (auto intro: forwards.intros)

lemma layer_opens:
  assumes laws: "crypto_laws X pub rs" and reads: "\<And>fm. m_type fm = forward_msg_type \<Longrightarrow> message_reads X fm"
    and fw: "forward_message X uuid msg nxt headers = Ok body"
    and enc: "anoncrypt X (rs 0) h body a limit = Ok (s, kids)"
    and med: "mediator_ready X pub SR (h, nxt)"
    and opts: "\<not> uo_expect_decrypt_by_all_keys opts" "2 < unat (uo_crypto_operations_limit opts)"
  shows "\<exists>fm. build_forward_message X uuid msg nxt headers = Ok fm \<and>
     unpack_string X SR opts s = Ok (fm, note_anon a kids default_metadata)"
proof -
  from fw obtain fm where fm: "build_forward_message X uuid msg nxt headers = Ok fm" "ser_message X fm = Inr body"
    by (auto simp: forward_message_def result_simps)
  from build_forward_message_Ok[OF fm(1)] obtain v where
    v: "de_value X msg = Inr v" "m_type fm = forward_msg_type" "m_typ fm = plaintext_typ"
      "m_from_prior fm = None"
      "try_parse_forward fm = Some \<lparr>pf_msg = fm, pf_next = nxt, pf_forwarded_msg = v\<rparr>" by blast
  have body: "utf8_valid body" "read_envelope X body = Ok (PeMessage fm)"
    using reads[OF v(2)] fm(2) by (auto simp: message_reads_def)
  from med obtain doc where
    doc: "did_resolve X (did_of h) = Inr doc" "distinct (find_key_agreement X doc (snd (did_or_url h)))" and
    rdy: "\<And>kids. kids \<noteq> [] \<Longrightarrow> set kids \<subseteq> set (find_key_agreement X doc (snd (did_or_url h))) \<Longrightarrow>
           recipient_ready X pub SR doc kids" and
    no: "has_key_agreement_secret X SR nxt = Ok False"
    by (auto simp: mediator_ready_def)
  have "kids \<noteq> []" "set kids \<subseteq> set (find_key_agreement X doc (snd (did_or_url h)))"
    using enc doc(1) by (auto elim!: anoncrypt_OkE)
  then have ready: "recipient_ready X pub SR doc kids" by (rule rdy)
  have tail: "tail_opens X SR (PeMessage fm) fm id"
    using v no by (simp add: tail_opens_def try_unwrap_forwarded_message_def try_unpack_sign_def
          try_unpack_plaintext_def validate_def)
  have "unpack_string X SR opts s = Ok (fm, note_anon a kids default_metadata)"
    using pack_outer_anon_unpack[OF laws enc doc ready body tail opts] by simp
  with fm(1) show ?thesis by blast
qed

lemma layer_passes_on:
  assumes laws: "crypto_laws X pub rs" "value_laws X" and reads: "\<And>fm. m_type fm = forward_msg_type \<Longrightarrow> message_reads X fm"
    and fw: "forward_message X uuid msg nxt headers = Ok body"
    and enc: "anoncrypt X (rs 0) h body a limit = Ok (s, kids)"
    and med: "mediator_ready X pub SR (h, nxt)"
    and opts: "\<not> uo_expect_decrypt_by_all_keys opts" "2 < unat (uo_crypto_operations_limit opts)"
  shows "\<exists>t. passes_on X SR opts s nxt t \<and> envelope_from_str X t = envelope_from_str X msg"
proof -
  from layer_opens[OF laws(1) reads fw enc med opts] obtain fm where
    fm: "build_forward_message X uuid msg nxt headers = Ok fm"
      "unpack_string X SR opts s = Ok (fm, note_anon a kids default_metadata)" by blast
  from build_forward_message_Ok[OF fm(1)] obtain v where
    v: "de_value X msg = Inr v" "try_parse_forward fm = Some \<lparr>pf_msg = fm, pf_next = nxt, pf_forwarded_msg = v\<rparr>"
    by blast
  from laws(2) v(1) obtain t where
    "ser_value X v = Inr t" "envelope_from_str X t = envelope_from_str X msg"
    by (auto simp: value_laws_def)
  with fm(2) v(2) show ?thesis by (auto simp: passes_on_def note_anon_def)
qed

lemma crypto_laws_shift: "crypto_laws X pub rs \<Longrightarrow> crypto_laws X pub (\<lambda>i. rs (Suc i))"
  by (simp add: crypto_laws_def)

text \<open>The layers, the innermost wrapped first, are opened in the opposite order.\<close>

lemma layers_deliver:
  assumes "crypto_laws X pub rs" and "value_laws X"
    and "\<And>fm. m_type fm = forward_msg_type \<Longrightarrow> message_reads X fm"
    and "wrap_layers X rs headers a limit msg hops = Ok s"
    and "\<And>h nxt. (h, nxt) \<in> set hops \<Longrightarrow> mediator_ready X pub (W h) (h, nxt)"
    and "\<not> uo_expect_decrypt_by_all_keys opts" and "2 < unat (uo_crypto_operations_limit opts)"
  shows "\<exists>t. forwards X W opts s (rev hops) t \<and> envelope_from_str X t = envelope_from_str X msg"
  using assms(1,4,5)
proof (induction hops arbitrary: rs msg)
  case Nil
  then show ?case by (auto intro: forwards.arrived)
next
  case (Cons hop hops)
  obtain h nxt where hop: "hop = (h, nxt)" by (cases hop)
  with Cons.prems(2) obtain body layer kids where
    fw: "forward_message X (draw_uuid (rs 0)) msg nxt headers = Ok body" and
    enc: "anoncrypt X (rs 0) h body a limit = Ok (layer, kids)" and
    rest: "wrap_layers X (\<lambda>i. rs (Suc i)) headers a limit layer hops = Ok s"
    by (auto simp: result_simps)
  have med: "mediator_ready X pub (W h) (h, nxt)" using Cons.prems(3)[of h nxt] hop by simp
  from layer_passes_on[OF Cons.prems(1) assms(2,3) fw enc med assms(6,7)] obtain t where
    t: "passes_on X (W h) opts layer nxt t" "envelope_from_str X t = envelope_from_str X msg" by blast
  from Cons.IH[OF crypto_laws_shift[OF Cons.prems(1)] rest] Cons.prems(3) obtain t0 where
    t0: "forwards X W opts s (rev hops) t0" "envelope_from_str X t0 = envelope_from_str X layer"
    by auto
  have "passes_on X (W h) opts t0 nxt t"
    using t(1) unpack_string_cong[OF t0(2)] by (simp add: passes_on_def)
  from forwards_snoc[OF t0(1) this] t(2) hop show ?case by auto
qed
text \<open>
  The hops of a list of routing keys, in the order in which the text passes them: each key passes
  on to the next one, the last to the recipient.
\<close>

definition route :: "string list \<Rightarrow> string \<Rightarrow> (string \<times> string) list" where
  "route routing_keys to = zip routing_keys (tl routing_keys @ [to])"

lemma wrap_in_forward_route:
  assumes "wrap_in_forward X rs msg headers to routing_keys a limit = Ok s"
  shows "routing_keys \<noteq> [] \<and> wrap_layers X rs headers a limit msg (rev (route routing_keys to)) = Ok s"
proof (cases routing_keys)
  case (Cons k ks)
  with assms zip_rev[of routing_keys "ks @ [to]"] show ?thesis
    by (simp add: wrap_in_forward_def route_def)
qed (use assms in \<open>simp add: wrap_in_forward_def\<close>)

text \<open>
  C4: the forward onion reaches its recipient. What \<open>wrap_in_forward\<close> makes for a list of routing
  keys goes to the first of them: every mediator of the list, in its order, opens the layer made
  for it and reads there the next routing key, the last one the recipient, and the text to pass on
  to it, and what the last mediator passes on is the envelope that was wrapped.
\<close>

theorem onion_delivers:
  assumes "crypto_laws X pub rs" and "value_laws X"
    and "\<And>fm. m_type fm = forward_msg_type \<Longrightarrow> message_reads X fm"
    and "wrap_in_forward X rs msg headers to routing_keys a limit = Ok s"
    and "\<And>h nxt. (h, nxt) \<in> set (zip routing_keys (tl routing_keys @ [to])) \<Longrightarrow>
           mediator_ready X pub (W h) (h, nxt)"
    and "\<not> uo_expect_decrypt_by_all_keys opts" and "2 < unat (uo_crypto_operations_limit opts)"
  shows "\<exists>t. forwards X W opts s (zip routing_keys (tl routing_keys @ [to])) t \<and>
           envelope_from_str X t = envelope_from_str X msg"
proof -
  have "wrap_layers X rs headers a limit msg (rev (route routing_keys to)) = Ok s"
    using wrap_in_forward_route[OF assms(4)] by blast
  from layers_deliver[OF assms(1-3) this, of W opts] assms(5-7) show ?thesis
    by (simp add: route_def)
qed

end
