(* ===== verification/Sample.thy ===== *)
theory Sample
  imports Onion
begin

text \<open>
  A small library that keeps the laws: every operation of the record of library calls given by a
  concrete function, with two parties and a mediator. It shows that the hypotheses of the round
  trips hold together, and the instances of the theorems run on it. A key is the bit that says
  whether it is private, with a name; texts are lists of fields in hexadecimal letters.
\<close>

subsection \<open>A code for lists of texts\<close>

definition hex_char :: "char \<Rightarrow> string" where
  "hex_char c = (let n = of_char c :: nat in [char_of (97 + n div 16), char_of (97 + n mod 16)])"

definition hex :: "string \<Rightarrow> string" where
  "hex s = concat (map hex_char s)"

definition unhex_char :: "char \<Rightarrow> char \<Rightarrow> char" where
  "unhex_char a b = char_of (16 * (of_char a - 97) + (of_char b - 97) :: nat)"

fun unhex :: "string \<Rightarrow> string" where
  "unhex (a # b # s) = unhex_char a b # unhex s"
| "unhex _ = []"

lemma unhex_hex_char:
  "unhex_char (char_of (97 + of_char c div 16 :: nat)) (char_of (97 + of_char c mod 16 :: nat)) = c"
proof -
  have "of_char c < (256 :: nat)" by simp
  then have "of_char c div 16 < (16 :: nat)" "of_char c mod 16 < (16 :: nat)" by linarith+
  then show ?thesis by (simp add: unhex_char_def)
qed

lemma unhex_hex [simp]: "unhex (hex s) = s"
  by (induction s) (simp_all add: hex_def hex_char_def Let_def unhex_hex_char)

lemma hex_letter: "x \<in> set (hex s) \<Longrightarrow> 97 \<le> (of_char x :: nat) \<and> of_char x \<le> (112 :: nat)"
proof (induction s)
  case (Cons c s)
  have "of_char c < (256 :: nat)" by simp
  then have "of_char c div 16 < (16 :: nat)" "of_char c mod 16 < (16 :: nat)" by linarith+
  with Cons show ?case by (auto simp: hex_def hex_char_def Let_def)
qed (simp add: hex_def)

definition fields :: "string list \<Rightarrow> string" where
  "fields xs = concat (map (\<lambda>x. hex x @ ''|'') xs)"

text \<open>The parts, without the empty one after the last bar.\<close>

definition unfields :: "string \<Rightarrow> string list" where
  "unfields s = map unhex (butlast (split_on CHR ''|'' s))"

lemma unfields_fields [simp]: "unfields (fields xs) = xs"
proof -
  have h: "CHR ''|'' \<notin> set (hex x)" for x
  proof
    assume "CHR ''|'' \<in> set (hex x)"
    from hex_letter[OF this] show False by simp
  qed
  have "split_on CHR ''|'' (fields xs) = map hex xs @ [[]]" for xs
    by (induction xs) (simp_all add: fields_def split_on_append h)
  then show ?thesis by (simp add: unfields_def comp_def)
qed

lemma fields_utf8 [simp]: "utf8_valid (fields xs)"
proof (rule utf8_valid_ascii)
  fix c assume "c \<in> set (fields xs)"
  then show "of_char c < (128 :: nat)"
    by (auto simp: fields_def dest!: hex_letter split: if_splits)
qed

subsection \<open>Keys and documents\<close>

type_synonym sample_key = "bool \<times> string"

definition public_half :: "sample_key \<Rightarrow> sample_key" where
  "public_half k = (False, snd k)"

text \<open>The text of a JWK: its members' strings. Four members are a private key.\<close>

fun json_text :: "json \<Rightarrow> string" where
  "json_text (JString s) = s"
| "json_text (JObject ms) = fields (map (\<lambda>(k, v). case v of JString s \<Rightarrow> s | _ \<Rightarrow> []) ms)"
| "json_text _ = []"

definition read_jwk :: "string \<Rightarrow> string + sample_key" where
  "read_jwk s =
     (case unfields s of
        [_, _, x] \<Rightarrow> Inr (False, x)
      | [_, _, x, _] \<Rightarrow> Inr (True, x)
      | _ \<Rightarrow> Inl ''no key'')"

definition sample_jwk :: "json \<Rightarrow> serde_error + jwk" where
  "sample_jwk v =
     (case (json_get v ''crv'', json_get v ''x'') of
        (Some (JString crv), Some (JString x)) \<Rightarrow> Inr \<lparr>jwk_params_of = ParamsOKP crv x\<rparr>
      | _ \<Rightarrow> Inl (SerdeError CatData ''no jwk''))"

text \<open>A party \<open>d\<close> with an X25519 key \<open>#e\<close> to agree on and an Ed25519 key \<open>#s\<close> to sign with.\<close>

definition okp_vm :: "string \<Rightarrow> string \<Rightarrow> vm" where
  "okp_vm kid crv =
     \<lparr>vm_id = kid, vm_type = ''JsonWebKey2020'',
      vm_properties = [(''publicKeyJwk'', JObject [(''crv'', JString crv), (''x'', JString kid)])]\<rparr>"

definition okp_secret :: "string \<Rightarrow> string \<Rightarrow> secret" where
  "okp_secret kid crv =
     \<lparr>secret_id = kid, secret_type_of = JsonWebKey2020,
      secret_material_of = MatJWK (JObject [(''kty'', JString ''OKP''), (''crv'', JString crv),
        (''x'', JString kid), (''d'', JString [])])\<rparr>"

definition party_doc :: "string \<Rightarrow> document" where
  "party_doc d =
     \<lparr>doc_id = d, verification_method = [okp_vm (d @ ''#e'') ''X25519'', okp_vm (d @ ''#s'') ''Ed25519''],
      authentication_refs = [d @ ''#s''], key_agreement_refs = [d @ ''#e''], doc_services = []\<rparr>"

definition party_wallet :: "string \<Rightarrow> secrets_resolver" where
  "party_wallet d = known_secrets [okp_secret (d @ ''#e'') ''X25519'', okp_secret (d @ ''#s'') ''Ed25519'']"

subsection \<open>Envelopes and messages\<close>

fun opt_text :: "string option \<Rightarrow> string" where
  "opt_text None = []"
| "opt_text (Some s) = CHR ''S'' # s"

fun text_opt :: "string \<Rightarrow> string option" where
  "text_opt [] = None"
| "text_opt (_ # s) = Some s"

fun jwe_alg_text :: "jwe_algorithm \<Rightarrow> string" where
  "jwe_alg_text Ecdh1puA256kw = ''1''"
| "jwe_alg_text EcdhEsA256kw = ''2''"
| "jwe_alg_text (OtherAlgorithm s) = CHR ''3'' # s"

definition text_jwe_alg :: "string \<Rightarrow> jwe_algorithm" where
  "text_jwe_alg s = (if s = ''1'' then Ecdh1puA256kw else if s = ''2'' then EcdhEsA256kw
                     else OtherAlgorithm (tl s))"

fun enc_text :: "enc_algorithm \<Rightarrow> string" where
  "enc_text A256cbcHs512 = ''1''"
| "enc_text Xc20P = ''2''"
| "enc_text A256Gcm = ''3''"
| "enc_text (OtherEnc s) = CHR ''4'' # s"

definition text_enc :: "string \<Rightarrow> enc_algorithm" where
  "text_enc s = (if s = ''1'' then A256cbcHs512 else if s = ''2'' then Xc20P
                 else if s = ''3'' then A256Gcm else OtherEnc (tl s))"

fun jws_alg_text :: "jws_algorithm \<Rightarrow> string" where
  "jws_alg_text EdDSA = ''1''"
| "jws_alg_text Es256 = ''2''"
| "jws_alg_text Es256K = ''3''"
| "jws_alg_text (OtherJwsAlgorithm s) = CHR ''4'' # s"

definition text_jws_alg :: "string \<Rightarrow> jws_algorithm" where
  "text_jws_alg s = (if s = ''1'' then EdDSA else if s = ''2'' then Es256
                     else if s = ''3'' then Es256K else OtherJwsAlgorithm (tl s))"

lemma text_opt_inverse [simp]: "text_opt (opt_text x) = x"
  by (cases x) auto

lemma text_jwe_alg_inverse [simp]: "text_jwe_alg (jwe_alg_text a) = a"
  by (cases a) (auto simp: text_jwe_alg_def)

lemma text_enc_inverse [simp]: "text_enc (enc_text a) = a"
  by (cases a) (auto simp: text_enc_def)

lemma text_jws_alg_inverse [simp]: "text_jws_alg (jws_alg_text a) = a"
  by (cases a) (auto simp: text_jws_alg_def)

definition no_text :: "serde_error" where
  "no_text = SerdeError CatSyntax ''not that text''"

definition write_header :: "protected_header \<Rightarrow> serde_error + string" where
  "write_header h =
     (case ph_epk h of
        JString epk \<Rightarrow> Inr (fields [opt_text (ph_typ h), jwe_alg_text (ph_alg h), enc_text (ph_enc h),
          opt_text (ph_skid h), opt_text (ph_apu h), ph_apv h, epk])
      | _ \<Rightarrow> Inl no_text)"

definition read_header :: "bytes \<Rightarrow> serde_error + protected_header" where
  "read_header s =
     (case unfields s of
        [typ, alg, enc, skid, apu, apv, epk] \<Rightarrow>
          Inr \<lparr>ph_typ = text_opt typ, ph_alg = text_jwe_alg alg, ph_enc = text_enc enc,
               ph_skid = text_opt skid, ph_apu = text_opt apu, ph_apv = apv, ph_epk = JString epk\<rparr>
      | _ \<Rightarrow> Inl no_text)"

definition write_jwe :: "jwe \<Rightarrow> serde_error + string" where
  "write_jwe j = Inr (fields [''jwe'', jwe_protected j,
     fields (map (\<lambda>r. fields [rec_kid r, rec_encrypted_key r]) (jwe_recipients j)),
     jwe_iv j, jwe_ciphertext j, jwe_tag j])"

definition read_recipient :: "string \<Rightarrow> recipient" where
  "read_recipient s = (case unfields s of
     [k, e] \<Rightarrow> \<lparr>rec_kid = k, rec_encrypted_key = e\<rparr> | _ \<Rightarrow> \<lparr>rec_kid = [], rec_encrypted_key = []\<rparr>)"

definition read_jwe :: "string \<Rightarrow> serde_error + jwe" where
  "read_jwe s =
     (case unfields s of
        [tag, p, rs, iv, ct, t] \<Rightarrow>
          if tag = ''jwe'' then Inr \<lparr>jwe_protected = p, jwe_recipients = map read_recipient (unfields rs),
            jwe_iv = iv, jwe_ciphertext = ct, jwe_tag = t\<rparr> else Inl no_text
      | _ \<Rightarrow> Inl no_text)"

definition write_jws :: "jws \<Rightarrow> serde_error + string" where
  "write_jws j = Inr (fields [''jws'',
     fields (map (\<lambda>s. fields [sg_kid s, sg_protected s, sg_signature s]) (jws_signatures j)),
     jws_payload j])"

definition read_signature :: "string \<Rightarrow> signature" where
  "read_signature s = (case unfields s of
     [k, p, g] \<Rightarrow> \<lparr>sg_kid = k, sg_protected = p, sg_signature = g\<rparr>
   | _ \<Rightarrow> \<lparr>sg_kid = [], sg_protected = [], sg_signature = []\<rparr>)"

definition read_jws :: "string \<Rightarrow> serde_error + jws" where
  "read_jws s =
     (case unfields s of
        [tag, ss, p] \<Rightarrow> if tag = ''jws''
          then Inr \<lparr>jws_signatures = map read_signature (unfields ss), jws_payload = p\<rparr> else Inl no_text
      | _ \<Rightarrow> Inl no_text)"

text \<open>
  Three kinds of messages: a bare one of a type and a sender, a forward of a text to a next hop, and
  the ones of a given table, which are written as their places in it.
\<close>

definition bare :: "string \<Rightarrow> string \<Rightarrow> string option \<Rightarrow> message" where
  "bare i t f = message_finalize ((message_build i t JNull)\<lparr>mb_from := f\<rparr>)"

definition forward_of :: "string \<Rightarrow> string \<Rightarrow> string \<Rightarrow> message" where
  "forward_of i nxt v = message_finalize (with_to nxt (with_attachment
     (attachment_finalize (attachment_json (JString v)))
     (message_build i forward_msg_type (JObject [(''next'', JString nxt)]))))"

definition write_message :: "message list \<Rightarrow> message \<Rightarrow> serde_error + string" where
  "write_message tbl m =
     (if m = bare (m_id m) (m_type m) (m_from m)
      then Inr (fields [''bare'', m_id m, m_type m, opt_text (m_from m), [], [], []])
      else
        case try_parse_forward m of
          Some p \<Rightarrow>
            (case pf_forwarded_msg p of
               JString v \<Rightarrow> if m = forward_of (m_id m) (pf_next p) v
                 then Inr (fields [''forward'', m_id m, pf_next p, v]) else Inl no_text
             | _ \<Rightarrow> Inl no_text)
        | None \<Rightarrow>
            if m \<in> set tbl
            then Inr (fields [''known'', replicate (length (takeWhile (\<lambda>x. x \<noteq> m) tbl)) CHR ''i''])
            else Inl no_text)"

definition read_message :: "message list \<Rightarrow> string \<Rightarrow> serde_error + message" where
  "read_message tbl s =
     (case unfields s of
        [_, i, t, f, _, _, _] \<Rightarrow> Inr (bare i t (text_opt f))
      | [_, i, nxt, v] \<Rightarrow> Inr (forward_of i nxt v)
      | [_, n] \<Rightarrow> Inr (tbl ! length n)
      | _ \<Rightarrow> Inl no_text)"

subsection \<open>The library\<close>

definition after_mark :: "bytes \<Rightarrow> string + bytes" where
  "after_mark b = (case b of c # r \<Rightarrow> if c = CHR ''!'' then Inr r else Inl ''no mark'' | [] \<Rightarrow> Inl ''no mark'')"

definition read_compact :: "bytes \<Rightarrow> serde_error + compact_header" where
  "read_compact s = (case unfields s of
     [t, a, k] \<Rightarrow> Inr \<lparr>ch_typ = t, ch_alg = text_jws_alg a, ch_kid = k\<rparr> | _ \<Rightarrow> Inl no_text)"

definition read_jws_header :: "bytes \<Rightarrow> serde_error + jws_header" where
  "read_jws_header s = (case unfields s of
     [t, a] \<Rightarrow> Inr \<lparr>jh_typ = t, jh_alg = text_jws_alg a\<rparr> | _ \<Rightarrow> Inl no_text)"

definition sample_doc :: "string \<Rightarrow> string + document" where
  "sample_doc d = (if is_did d then Inr (party_doc d) else Inl ''not a did'')"

definition sample_with :: "message list \<Rightarrow> 'z \<Rightarrow> (sample_key, string, string, 'z) env_ext_scheme" where
  "sample_with tbl z = \<lparr>
     read_varint = (\<lambda>_. Inl ''no varint''), write_varint = (\<lambda>_. Inl ''no varint''),
     b64_encode = hex, b64_decode = (\<lambda>s. Inr (unhex s)), bs58_decode = (\<lambda>_. Inl (Bs58Other [])),
     ser_value = (\<lambda>v. Inr (json_text v)), de_value = (\<lambda>s. Inr (JString s)),
     multibase_decode = (\<lambda>_. Inl ''no multibase''), multi_encoded_new = (\<lambda>_. Inl ''no multicodec''),
     jwk_from_multicodec = (\<lambda>_. Inl ''no multicodec''), jwk_from_value = sample_jwk,
     from_jwk = (\<lambda>_. read_jwk), to_jwk_public = (\<lambda>k. Inr (fields [[], [], snd k])),
     from_secret_bytes = (\<lambda>_ b. Inr (True, b)), public_bytes = snd, secret_bytes = (\<lambda>k. Some (snd k)),
     did_resolve = sample_doc, resolve_ref = (\<lambda>_ r. r),
     contains_key_agreement = (\<lambda>doc k. k \<in> set (key_agreement_refs doc)),
     contains_authentication = (\<lambda>doc k. k \<in> set (authentication_refs doc)),
     find_key_agreement = (\<lambda>doc k. case k of None \<Rightarrow> key_agreement_refs doc
        | Some k \<Rightarrow> filter (\<lambda>r. r = k) (key_agreement_refs doc)),
     get_verification_method = find_vm,
     doc_service = (\<lambda>doc i. find (\<lambda>s. service_id s = i) (doc_services doc)),
     sha256 = id, ser_jwe_header = write_header, de_jwe_header = read_header,
     ser_jwe = write_jwe, de_jwe = read_jwe,
     derive_es = (\<lambda>_ e r _ _ _ _. Inr (fields [snd e, snd r])),
     derive_1pu = (\<lambda>_ e s r _ _ _ _ _. Inr (fields [snd e, snd s, snd r])),
     cek_length = (\<lambda>c. Inr (length c)), cek_write = Inr, cek_from_bytes = (\<lambda>_. Inr),
     ce_encrypt = (\<lambda>_ c p _ _. Inr (CHR ''!'' # p, Suc (length p))), ce_decrypt = (\<lambda>_ _ b _ _. after_mark b),
     kw_encrypt = (\<lambda>_. Inr), kw_decrypt = (\<lambda>_. Inr),
     ser_jws_header = (\<lambda>h. Inr (fields [jh_typ h, jws_alg_text (jh_alg h)])), de_jws_header = read_jws_header,
     ser_compact_header = (\<lambda>h. Inr (fields [ch_typ h, jws_alg_text (ch_alg h), ch_kid h])),
     de_compact_header = read_compact, ser_jws = write_jws, de_jws = read_jws,
     create_signature = (\<lambda>k _ _. Inr (snd k)), verify_signature = (\<lambda>k _ g _. Inr (g = snd k)),
     ser_from_prior = (\<lambda>fp. if fp = from_prior_build (fp_iss fp) (fp_sub fp)
        then Inr (fields [fp_iss fp, fp_sub fp]) else Inl no_text),
     de_from_prior = (\<lambda>s. case unfields s of [i, u] \<Rightarrow> Inr (from_prior_build i u) | _ \<Rightarrow> Inl no_text),
     ser_message = write_message tbl,
     de_message = read_message tbl, untagged_error = (\<lambda>_. no_text), \<dots> = z\<rparr>"

text \<open>The library of the packing and unpacking, without the functions the mediator adds.\<close>

abbreviation sample :: "(sample_key, string, string) env_ext" where
  "sample \<equiv> sample_with [] ()"

definition sample_draws :: "nat \<Rightarrow> (sample_key, string) draws" where
  "sample_draws i = \<lparr>draw_cek = (\<lambda>_. Inr ''cek''), draw_epk = (\<lambda>_. Inr (True, ''epk'')),
     draw_nonce = (\<lambda>_. ''iv''), draw_uuid = ''uuid''\<rparr>"

subsection \<open>The laws\<close>

lemma hex_no_dot: "CHR ''='' \<notin> set (hex s)" "CHR ''.'' \<notin> set (hex s)"
  using hex_letter[of "CHR ''=''" s] hex_letter[of "CHR ''.''" s] by auto

lemma sample_b64: "b64_laws (sample_with tbl z)"
  using hex_no_dot by (simp add: b64_laws_def sample_with_def)

lemma read_write_header: "write_header h = Inr s \<Longrightarrow> read_header s = Inr h"
  by (cases h; cases "ph_epk h") (auto simp: write_header_def read_header_def)

lemma read_write_jwe: "write_jwe j = Inr s \<Longrightarrow> read_jwe s = Inr j"
  by (cases j) (auto simp: write_jwe_def read_jwe_def read_recipient_def comp_def intro!: map_idI)

lemma read_write_jws: "write_jws j = Inr s \<Longrightarrow> read_jws s = Inr j"
  by (cases j) (auto simp: write_jws_def read_jws_def read_signature_def comp_def intro!: map_idI)

lemma sample_serde: "jwe_serde_laws (sample_with tbl z)"
  using read_write_header read_write_jwe by (auto simp: jwe_serde_laws_def sample_with_def)

lemma sample_askar: "askar_laws (sample_with tbl z) public_half"
  by (auto simp: askar_laws_def sample_with_def public_half_def after_mark_def)

lemma sample_jwk_pub:
  "to_jwk_public_value (sample_with tbl z) k = Ok v \<Longrightarrow> from_jwk_value (sample_with tbl z) ke v = Ok (public_half k)"
  by (auto simp: to_jwk_public_value_def from_jwk_value_def result_simps sample_with_def read_jwk_def
        public_half_def with_kind_def with_message_def)

lemma sample_draws_laws: "draws_laws (sample_with tbl z) public_half (sample_draws i)"
  using sample_jwk_pub by (auto simp: draws_laws_def) (auto simp: sample_with_def)

lemma sample_jws: "jws_serde_laws (sample_with tbl z)"
  using read_write_jws
  by (auto simp: jws_serde_laws_def sample_with_def read_compact_def read_jws_header_def)

lemma sample_signatures: "signature_laws (sample_with tbl z) public_half"
  by (simp add: signature_laws_def sample_with_def public_half_def)

lemma sample_envelope: "envelope_laws (sample_with tbl z)"
  by (auto simp: envelope_laws_def sample_with_def write_jwe_def write_jws_def read_jwe_def)

lemma sample_crypto: "crypto_laws (sample_with tbl z) public_half sample_draws"
  by (simp add: crypto_laws_def jwe_laws_def sample_b64 sample_serde sample_askar sample_draws_laws
        sample_jws sample_signatures sample_envelope)

lemma index_of_member: "m \<in> set tbl \<Longrightarrow> tbl ! length (takeWhile (\<lambda>x. x \<noteq> m) tbl) = m"
  by (induction tbl) auto

lemma write_message_cases:
  "write_message tbl m = Inr s \<Longrightarrow>
     (s = fields [''bare'', m_id m, m_type m, opt_text (m_from m), [], [], []] \<and>
        m = bare (m_id m) (m_type m) (m_from m)) \<or>
     (\<exists>nxt v. s = fields [''forward'', m_id m, nxt, v] \<and> m = forward_of (m_id m) nxt v) \<or>
     (\<exists>n. s = fields [''known'', replicate n CHR ''i''] \<and> m = tbl ! n)"
  using index_of_member[of m tbl]
  by (auto simp: write_message_def split: if_splits option.splits json.splits)

lemma sample_message_reads: "message_reads (sample_with tbl z) m"
  unfolding message_reads_def
proof (intro allI impI)
  fix s assume "ser_message (sample_with tbl z) m = Inr s"
  then have "write_message tbl m = Inr s" by (simp add: sample_with_def)
  then have "utf8_valid s \<and> read_jwe s = Inl no_text \<and> read_jws s = Inl no_text \<and> read_message tbl s = Inr m"
    using write_message_cases[of tbl m s]
    by (auto simp: read_jwe_def read_jws_def read_message_def)
  then show "utf8_valid s \<and> read_envelope (sample_with tbl z) s = Ok (PeMessage m)"
    by (simp add: read_envelope_def envelope_from_str_def de_envelope_def sample_with_def
          serde_to_didcomm_def context_msg_def)
qed

lemma sample_values: "value_laws (sample_with tbl z)"
  by (simp add: value_laws_def sample_with_def)

subsection \<open>The parties of the samples\<close>

definition alice :: string where
  "alice = ''did:ex:a''"

definition bob :: string where
  "bob = ''did:ex:b''"

definition carol :: string where
  "carol = ''did:ex:c''"


lemma parties [simp]:
  "is_did alice" "is_did bob" "is_did carol" "did_or_url alice = (alice, None)"
  "did_or_url bob = (bob, None)" "did_or_url carol = (carol, None)"
  "did_or_url (alice @ CHR ''#'' # f) = (alice, Some (alice @ CHR ''#'' # f))"
  "did_or_url (bob @ CHR ''#'' # f) = (bob, Some (bob @ CHR ''#'' # f))"
  "did_or_url (carol @ CHR ''#'' # f) = (carol, Some (carol @ CHR ''#'' # f))"
  by (simp_all add: alice_def bob_def carol_def is_did_def did_or_url_def)

lemma sample_encrypt:
  assumes "d = KdfEcdh1PU \<Longrightarrow> sender \<noteq> None"
  shows "\<exists>s. encrypt (sample_with tbl z) (sample_draws i) ce d ke p alg enc sender recs = Ok s"
proof -
  have "\<exists>w. derive_key (sample_with tbl z) d ke e (map_option snd sender) k al apu apv tag False = Ok w"
    for e :: sample_key and k al apu apv tag
    using assms by (cases d; cases sender) (auto simp: derive_key_def sample_with_def with_message_def)
  then have "\<exists>r. encrypt_key (sample_with tbl z) d ke e c sender alg apv tag r' = Ok r"
    for e c apv tag r'
    by (cases r'; simp only: encrypt_key_Ok_iff)
       (fastforce simp: wrap_key_def sample_with_def with_message_def)
  then have "\<exists>rs. collect (encrypt_key (sample_with tbl z) d ke e c sender alg apv tag) recs = Ok rs"
    for e c apv tag
  proof (induction recs)
    case (Cons r rs)
    from Cons.prems[of e c apv tag r] Cons.IH[OF Cons.prems] show ?case by auto
  qed simp
  then obtain rs where "collect (encrypt_key (sample_with tbl z) d ke (True, ''epk'') ''cek'' sender alg
      (kids_digest (sample_with tbl z) (map fst recs)) []) recs = Ok rs" by blast
  then show ?thesis
    by (simp add: encrypt_def sample_draws_def Let_def)
       (simp add: sample_with_def to_jwk_public_value_def with_message_def with_kind_def write_header_def
          split_at_def write_jwe_def)
qed

lemma sample_vm [simp]:
  "find_vm (party_doc d) (d @ ''#e'') = Some (okp_vm (d @ ''#e'') ''X25519'')"
  "find_vm (party_doc d) (d @ ''#s'') = Some (okp_vm (d @ ''#s'') ''Ed25519'')"
  by (simp_all add: find_vm_def party_doc_def okp_vm_def)

lemma sample_get_jwk [simp]:
  "get_jwk (sample_with tbl z) (okp_vm kid crv) = Ok (Some \<lparr>jwk_params_of = ParamsOKP crv kid\<rparr>)"
  by (simp add: get_jwk_def okp_vm_def sample_with_def sample_jwk_def)

lemma sample_as_key_pair [simp]:
  "as_key_pair (sample_with tbl z) \<lparr>jwk_params_of = ParamsOKP ''X25519'' kid\<rparr> = Ok (KpX25519 (False, kid))"
  "as_key_pair (sample_with tbl z) \<lparr>jwk_params_of = ParamsOKP ''Ed25519'' kid\<rparr> = Ok (KpEd25519 (False, kid))"
  by (simp_all add: as_key_pair_def parse_pair_def from_jwk_value_def sample_with_def read_jwk_def
      with_kind_def with_message_def rekind_def)

lemma sample_as_alg [simp]:
  "as_alg (sample_with tbl z) X25519 \<lparr>jwk_params_of = ParamsOKP ''X25519'' kid\<rparr> = Ok (False, kid)"
  "as_alg (sample_with tbl z) Ed25519 \<lparr>jwk_params_of = ParamsOKP ''Ed25519'' kid\<rparr> = Ok (False, kid)"
  by (simp_all add: as_alg_def key_alg_def)

lemma sample_secret [simp]:
  "secret_as_key_pair (sample_with tbl z) (okp_secret kid ''X25519'') = Ok (KpX25519 (True, kid))"
  "secret_as_key_pair (sample_with tbl z) (okp_secret kid ''Ed25519'') = Ok (KpEd25519 (True, kid))"
  by (simp_all add: secret_as_key_pair_def okp_secret_def jwk_value_alg_def json_index_def parse_pair_def
      from_jwk_value_def sample_with_def read_jwk_def with_kind_def with_message_def rekind_def)

lemma sample_wallet [simp]:
  "get_secret (party_wallet d) (d @ ''#e'') = Ok (Some (okp_secret (d @ ''#e'') ''X25519''))"
  "get_secret (party_wallet d) (d @ ''#s'') = Ok (Some (okp_secret (d @ ''#s'') ''Ed25519''))"
  "find_secrets (party_wallet d) [d @ ''#e''] = Ok [d @ ''#e'']"
  "find_secrets (party_wallet d) [d @ ''#s''] = Ok [d @ ''#s'']"
  by (simp_all add: party_wallet_def known_secrets_def known_get_def known_find_def okp_secret_def)

lemma sample_docs [simp]:
  "is_did d \<Longrightarrow> did_resolve (sample_with tbl z) d = Inr (party_doc d)"
  "find_key_agreement (sample_with tbl z) (party_doc d) None = [d @ ''#e'']"
  "doc_refs (sample_with tbl z) (party_doc d) (authentication_refs (party_doc d)) = [d @ ''#s'']"
  "doc_refs (sample_with tbl z) (party_doc d) (key_agreement_refs (party_doc d)) = [d @ ''#e'']"
  "contains_authentication (sample_with tbl z) (party_doc d) (d @ ''#s'')"
  "contains_key_agreement (sample_with tbl z) (party_doc d) (d @ ''#e'')"
  "get_verification_method (sample_with tbl z) = find_vm"
  by (simp_all add: sample_with_def sample_doc_def party_doc_def doc_refs_def)

text \<open>A party can receive what is encrypted to its key, and send and sign with its keys.\<close>

lemma sample_recipient:
  assumes "d \<in> {alice, bob, carol}"
  shows "recipient_ready (sample_with tbl z) public_half (party_wallet d) (party_doc d) [d @ ''#e'']"
  using assms
  by (auto simp: recipient_ready_def recipients_of_one_did_Ok_iff holds_key_def recipient_key_def
        public_half_def)

lemma sample_kid_utf8:
  "d \<in> {alice, bob, carol} \<Longrightarrow> utf8_valid (d @ ''#e'')"
  by (auto simp: alice_def bob_def carol_def utf8_valid_def)

lemma sample_published: "d \<in> {alice, bob, carol} \<Longrightarrow> published_sender (sample_with tbl z) (d @ ''#e'') (KpX25519 (False, d @ ''#e''))"
  by (auto simp: published_sender_def)

lemma sample_sender:
  assumes "d \<in> {alice, bob, carol}"
  shows "sender_ready (sample_with tbl z) public_half (party_wallet d) (d @ ''#e'')"
  unfolding sender_ready_def
  using sample_kid_utf8[OF assms] sample_published[OF assms]
  by (intro conjI allI impI exI[of _ "KpX25519 (False, d @ ''#e'')"]) (auto simp: public_half_def)

lemma sample_signer:
  assumes "d \<in> {alice, bob, carol}"
  shows "signer_ready (sample_with tbl z) public_half (party_wallet d) (d @ ''#s'')"
  using assms by (auto simp: signer_ready_def signer_jwk_Ok_iff public_half_def)

subsection \<open>A message from Alice to Bob\<close>

definition sample_options :: "bool \<Rightarrow> pack_encrypted_options" where
  "sample_options protect = default_pack_options\<lparr>po_forward := False, po_protect_sender := protect\<rparr>"

lemma sample_vm_keys [simp]:
  "vm_keys (sample_with tbl z) X25519 l [okp_vm kid ''X25519''] = Ok [(kid, (False, kid))]"
  by (simp add: vm_keys_def okp_vm_def) (simp flip: okp_vm_def)

lemma sample_vm_alg [simp]: "vm_alg (sample_with tbl z) (okp_vm kid ''X25519'') = Ok (Some X25519)"
  by (simp add: vm_alg_def key_alg_def)

lemma sample_vm_id [simp]: "vm_id (okp_vm kid crv) = kid"
  by (simp add: okp_vm_def)

lemma sample_encrypt_anon: "\<exists>s. encrypt_anon (sample_with tbl z) (sample_draws i) ke a p keys = Ok s"
  using sample_encrypt[of KdfEcdhEs None] by (cases a) (simp_all add: encrypt_anon_def)

lemma sample_encrypt_auth: "\<exists>s. encrypt_auth (sample_with tbl z) (sample_draws i) ke a p sender keys = Ok s"
  using sample_encrypt[of KdfEcdh1PU "Some sender"] by (cases a) (simp add: encrypt_auth_def)

lemma sample_secret_alg [simp]: "secret_as_alg (sample_with tbl z) X25519 (okp_secret kid ''X25519'') = Ok (True, kid)"
  by (simp add: secret_as_alg_def) (simp add: secret_key_alg_def okp_secret_def jwk_value_alg_def json_index_def)

lemma sample_authcrypt:
  assumes "to \<in> {alice, bob, carol}" "from \<in> {alice, bob, carol}"
  shows "\<exists>s. authcrypt (sample_with tbl z) (party_wallet from) sample_draws to from msg ea en protect 100 =
           Ok (s, from @ ''#e'', [to @ ''#e''])"
proof -
  obtain s1 where s1: "encrypt_auth (sample_with tbl z) (sample_draws 0) X25519 ea msg
      (from @ ''#e'', (True, from @ ''#e'')) [(to @ ''#e'', (False, to @ ''#e''))] = Ok s1"
    using sample_encrypt_auth[where tbl = tbl and z = z] by blast
  obtain s2 where s2: "encrypt_anon (sample_with tbl z) (sample_draws 1) X25519 en s1
      [(to @ ''#e'', (False, to @ ''#e''))] = Ok s2"
    using sample_encrypt_anon[where tbl = tbl and z = z] by blast
  have k: "authcrypt_keys (sample_with tbl z) sample_draws msg ea en protect X25519 ''x25519'' (from @ ''#e'')
      (okp_secret (from @ ''#e'') ''X25519'') [okp_vm (to @ ''#e'') ''X25519''] = Ok (if protect then s2 else s1)"
    using s1 s2 by (simp add: authcrypt_keys_def context_msg_def)
  have p: "did_or_url to = (to, None)" "did_or_url from = (from, None)" "is_did to" "is_did from"
    using assms by auto
  show ?thesis
    by (simp add: authcrypt_def p find_vms_def vms_of_alg_def key_alg_def context_msg_def)
       (simp add: k)
qed

definition ping_message :: message where
  "ping_message = bare ''1'' ''ping'' None"

lemma sample_plain: "plain_message (sample_with tbl z) ping_message"
  using sample_message_reads
  by (simp add: plain_message_def ping_message_def bare_def builder_defs plaintext_typ_def forward_msg_type_def)

lemma sample_pack_signed:
  "\<exists>s. pack_signed (sample_with tbl z) (party_wallet alice) ping_message alice = Ok (s, alice @ ''#s'')"
proof -
  have p: "\<exists>b. pack_plaintext (sample_with tbl z) ping_message = Ok b"
    by (simp add: pack_plaintext_def ping_message_def bare_def builder_defs validate_pack_plaintext_def
          sample_with_def write_message_def with_kind_def)
  have s: "\<exists>t. sign (sample_with tbl z) b (k, key) EdDSA = Ok t" for b k key
    by (simp add: sign_def sample_with_def with_kind_def with_message_def Let_def write_jws_def)
  have f: "first_secret (party_wallet alice) [alice @ ''#s''] a b e e' = Ok (alice @ ''#s'', okp_secret (alice @ ''#s'') ''Ed25519'')"
    for a b e e' by (simp add: first_secret_Ok_iff)
  from p obtain b where b: "pack_plaintext (sample_with tbl z) ping_message = Ok b" by blast
  from s obtain t where t: "sign (sample_with tbl z) b (alice @ ''#s'', (True, alice @ ''#s'')) EdDSA = Ok t" by blast
  show ?thesis
    by (simp add: pack_signed_def f b context_msg_def t)
qed

lemma sample_pack:
  "\<exists>s meta. pack_encrypted (sample_with tbl z) (party_wallet alice) sample_draws ping_message bob (Some alice)
       (Some alice) (sample_options True) = Ok (s, meta) \<and>
     meta = \<lparr>pm_messaging_service = None, pm_from_kid = Some (alice @ ''#e''),
       pm_sign_by_kid = Some (alice @ ''#s''), pm_to_kids = [bob @ ''#e'']\<rparr>"
proof -
  obtain b where b: "pack_signed (sample_with tbl z) (party_wallet alice) ping_message alice = Ok (b, alice @ ''#s'')"
    using sample_pack_signed[where tbl = tbl and z = z] by blast
  obtain s where s: "authcrypt (sample_with tbl z) (party_wallet alice) sample_draws bob alice b
      AuthA256cbcHs512Ecdh1puA256kw AnonXc20pEcdhEsA256kw True 100 = Ok (s, alice @ ''#e'', [bob @ ''#e''])"
    using sample_authcrypt[of bob alice, where tbl = tbl and z = z] by blast
  have v: "validate_pack_encrypted ping_message bob (Some alice) (Some alice) = Ok ()"
    by (simp add: validate_pack_encrypted_def ping_message_def bare_def builder_defs)
  show ?thesis
    by (simp add: pack_encrypted_def v pack_inner_def b context_msg_def pack_outer_def sample_options_def
          default_pack_options_def s wrap_in_forward_if_needed_def)
qed

lemma pack_unpack_witness:
  "\<exists>s md. unpack_string sample (party_wallet bob) default_unpack_options s = Ok (ping_message, md) \<and>
     tells md (Some (alice @ ''#e'')) (Some (alice @ ''#s'')) [bob @ ''#e''] True"
proof -
  obtain s meta where pk: "pack_encrypted sample (party_wallet alice) sample_draws ping_message bob
      (Some alice) (Some alice) (sample_options True) = Ok (s, meta)" and
    meta: "meta = \<lparr>pm_messaging_service = None, pm_from_kid = Some (alice @ ''#e''),
       pm_sign_by_kid = Some (alice @ ''#s''), pm_to_kids = [bob @ ''#e'']\<rparr>"
    using sample_pack[where tbl = "[]" and z = "()"] by blast
  have "\<exists>md. unpack_string sample (party_wallet bob) default_unpack_options s = Ok (ping_message, md) \<and>
     tells md (pm_from_kid meta) (pm_sign_by_kid meta) (pm_to_kids meta)
       (Some alice = None \<or> po_protect_sender (sample_options True))"
    by (rule pack_unpack[OF sample_crypto sample_plain pk, where doc = "party_doc bob"])
       (use meta sample_recipient[of bob] sample_sender[of alice] sample_signer[of alice] in
         \<open>simp_all add: default_unpack_options_def\<close>)
  with meta show ?thesis by (auto simp: sample_options_def)
qed

subsection \<open>The way through a mediator\<close>

lemma sample_forward:
  "\<exists>b. forward_message (sample_with tbl z) u msg nxt None = Ok b"
proof -
  have "build_forward_message (sample_with tbl z) u msg nxt None = Ok (forward_of u nxt msg)"
    by (simp add: build_forward_message_def forward_of_def sample_with_def with_kind_def)
  moreover have "forward_of u nxt msg \<noteq> bare i t f" for i t f
    by (simp add: forward_of_def bare_def builder_defs)
  moreover have "try_parse_forward (forward_of u nxt msg) =
      Some \<lparr>pf_msg = forward_of u nxt msg, pf_next = nxt, pf_forwarded_msg = JString msg\<rparr>"
    by (simp add: forward_of_def builder_defs attachment_builder_defs try_parse_forward_def)
  moreover have "m_id (forward_of u nxt msg) = u"
    by (simp add: forward_of_def builder_defs)
  ultimately show ?thesis
    by (simp add: forward_message_def sample_with_def write_message_def with_kind_def)
qed

lemma sample_anoncrypt:
  assumes "to \<in> {alice, bob, carol}"
  shows "\<exists>s. anoncrypt (sample_with tbl z) (sample_draws i) to msg a 100 = Ok (s, [to @ ''#e''])"
proof -
  obtain s where s: "encrypt_anon (sample_with tbl z) (sample_draws i) X25519 a msg [(to @ ''#e'', (False, to @ ''#e''))] = Ok s"
    using sample_encrypt_anon[where tbl = tbl and z = z] by blast
  have p: "did_or_url to = (to, None)" "is_did to" using assms by auto
  show ?thesis
    by (simp add: anoncrypt_def p find_vms_def vms_of_alg_def context_msg_def s)
qed

lemma sample_wrap:
  assumes "fst ` set hops \<subseteq> {alice, bob, carol}"
  shows "\<exists>s. wrap_layers (sample_with tbl z) (\<lambda>i. sample_draws (k + i)) None a 100 msg hops = Ok s"
  using assms
proof (induction hops arbitrary: msg k)
  case (Cons hop hops)
  obtain h nxt where hop: "hop = (h, nxt)" by (cases hop)
  obtain b where b: "forward_message (sample_with tbl z) (draw_uuid (sample_draws k)) msg nxt None = Ok b"
    using sample_forward[where tbl = tbl and z = z] by blast
  have "h \<in> {alice, bob, carol}" using Cons.prems hop by auto
  from sample_anoncrypt[OF this, where tbl = tbl and z = z] obtain l where
    l: "anoncrypt (sample_with tbl z) (sample_draws k) h b a 100 = Ok (l, [h @ ''#e''])" by blast
  from Cons.IH[of "Suc k" l] Cons.prems hop b l show ?case by simp
qed simp

lemma sample_filter_kids:
  "set kids \<subseteq> {k} \<Longrightarrow> kids \<noteq> [] \<Longrightarrow> \<exists>ks. kids = k # ks \<and> set ks \<subseteq> {k}"
  by (cases kids) auto

lemma sample_mediator:
  assumes "h \<in> {alice, bob, carol}" "nxt \<in> {alice, bob, carol}" "h \<noteq> nxt"
  shows "mediator_ready (sample_with tbl z) public_half (party_wallet h) (h, nxt)"
proof -
  have h: "did_or_url h = (h, None)" "is_did h" and n: "did_or_url nxt = (nxt, None)" "is_did nxt"
    using assms by auto
  have u: "did_or_url (h @ ''#e'') = (h, Some (h @ ''#e''))" using assms by auto
  have "recipient_ready (sample_with tbl z) public_half (party_wallet h) (party_doc h) kids"
    if k: "kids \<noteq> []" "set kids \<subseteq> {h @ ''#e''}" for kids
  proof -
    obtain ks where ks: "kids = (h @ ''#e'') # ks" "set ks \<subseteq> {h @ ''#e''}"
      using sample_filter_kids[OF k(2,1)] by blast
    then have "find_secrets (party_wallet h) kids = Ok ((h @ ''#e'') # filter (\<lambda>k. k = h @ ''#e'' \<or> k = h @ ''#s'') ks)"
      by (simp add: party_wallet_def known_secrets_def known_find_def okp_secret_def eq_commute[of "h @ _"])
    moreover have "recipients_of_one_did kids = Ok (h @ ''#e'')"
      using ks u by (auto simp: recipients_of_one_did_Ok_iff)
    moreover have "holds_key (sample_with tbl z) public_half (party_wallet h) (party_doc h) (h @ ''#e'')"
      by (simp add: holds_key_def recipient_key_def public_half_def)
    ultimately show ?thesis using ks(1) by (auto simp: recipient_ready_def)
  qed
  moreover have "has_key_agreement_secret (sample_with tbl z) (party_wallet h) nxt = Ok False"
    using assms n
    by (simp add: has_key_agreement_secret_def)
       (simp add: party_wallet_def known_secrets_def known_find_def okp_secret_def)
  ultimately show ?thesis using h by (simp add: mediator_ready_def)
qed

text \<open>A text for Bob under the routing keys of Alice and Carol.\<close>

lemma onion_delivers_witness:
  "\<exists>s t. wrap_in_forward sample sample_draws ''letter'' None bob [alice, carol] AnonXc20pEcdhEsA256kw 100 = Ok s \<and>
     forwards sample party_wallet default_unpack_options s [(alice, carol), (carol, bob)] t \<and>
     envelope_from_str sample t = envelope_from_str sample ''letter''"
proof -
  obtain s where s: "wrap_in_forward sample sample_draws ''letter'' None bob [alice, carol] AnonXc20pEcdhEsA256kw 100 = Ok s"
    using sample_wrap[where tbl = "[]" and z = "()" and k = 0 and hops = "[(carol, bob), (alice, carol)]"]
    by (auto simp: wrap_in_forward_def)
  have "\<exists>t. forwards sample party_wallet default_unpack_options s (zip [alice, carol] (tl [alice, carol] @ [bob])) t \<and>
     envelope_from_str sample t = envelope_from_str sample ''letter''"
    by (rule onion_delivers[OF sample_crypto sample_values sample_message_reads s])
       (use sample_mediator[of carol bob] sample_mediator[of alice carol] in
         \<open>auto simp: default_unpack_options_def alice_def bob_def carol_def\<close>)
  with s show ?thesis by auto
qed

subsection \<open>Further instances\<close>

lemma sample_opened:
  "\<exists>s md. unpack_string sample (party_wallet bob) default_unpack_options s = Ok (ping_message, md) \<and>
     um_encrypted_from_kid md = Some (alice @ ''#e'') \<and> um_sign_from md = Some (alice @ ''#s'') \<and>
     um_authenticated md"
proof -
  have laws: "b64_laws sample" "jws_serde_laws sample" "signature_laws sample public_half" "envelope_laws sample"
    by (simp_all add: sample_b64 sample_jws sample_signatures sample_envelope)
  have m: "message_reads sample ping_message" "m_typ ping_message = plaintext_typ" "m_from_prior ping_message = None"
    using sample_plain[where tbl = "[]" and z = "()"] by (auto simp: plain_message_def)
  obtain b where b: "pack_signed sample (party_wallet alice) ping_message alice = Ok (b, alice @ ''#s'')"
    using sample_pack_signed[where tbl = "[]" and z = "()"] by blast
  obtain pjs sa where p: "utf8_valid b" "read_envelope sample b = Ok (PeJws pjs)"
    "tail_opens sample (party_wallet bob) (PeJws pjs) ping_message (note_signature sa (alice @ ''#s'') (pjs_jws pjs))"
    using pack_signed_unpack[OF laws m b, where SR' = "party_wallet bob"]
      sample_signer[where d = alice and tbl = "[]" and z = "()"] by auto
  obtain s where s: "authcrypt sample (party_wallet alice) sample_draws bob alice b
      AuthA256cbcHs512Ecdh1puA256kw AnonXc20pEcdhEsA256kw False 100 = Ok (s, alice @ ''#e'', [bob @ ''#e''])"
    using sample_authcrypt[of bob alice, where tbl = "[]" and z = "()"] by blast
  have "unpack_string sample (party_wallet bob) default_unpack_options s = Ok (ping_message,
      note_signature sa (alice @ ''#s'') (pjs_jws pjs) (note_auth [bob @ ''#e''] (alice @ ''#e'')
        (if False then note_anon AnonXc20pEcdhEsA256kw [bob @ ''#e''] default_metadata else default_metadata)))"
    by (rule pack_outer_auth_unpack[OF sample_crypto s _ _ _ _ p, where doc = "party_doc bob"])
       (use sample_recipient[where d = bob and tbl = "[]" and z = "()"]
          sample_sender[where d = alice and tbl = "[]" and z = "()"] in
        \<open>simp_all add: default_unpack_options_def\<close>)
  then show ?thesis
    by (intro exI conjI) (assumption, simp_all add: note_signature_def note_auth_def)
qed

lemma unpack_sender_authentic_witness:
  "\<exists>pj payload. authcrypted sample (party_wallet bob) (alice @ ''#e'') pj payload \<and>
     carries sample payload ping_message"
  using sample_opened unpack_sender_authentic by blast

lemma unpack_signer_authentic_witness:
  "\<exists>pjs payload. signed_by sample (alice @ ''#s'') pjs payload \<and>
     length (pjs_protected pjs) = 1 \<and> map sg_kid (jws_signatures (pjs_jws pjs)) = [alice @ ''#s''] \<and>
     read_envelope sample payload = Ok (PeMessage ping_message)"
proof -
  obtain s md where "unpack_string sample (party_wallet bob) default_unpack_options s = Ok (ping_message, md)"
      "um_sign_from md = Some (alice @ ''#s'')"
    using sample_opened by (elim exE conjE) (rule that)
  from unpack_signer_authentic[OF this] show ?thesis
    by (elim exE conjE) (intro exI conjI)
qed

lemma unpack_authenticated_witness:
  "\<exists>s md. unpack_string sample (party_wallet bob) default_unpack_options s = Ok (ping_message, md) \<and>
     (um_encrypted_from_kid md \<noteq> None \<or> um_sign_from md \<noteq> None) \<and> m_typ ping_message = plaintext_typ"
  using sample_opened unpack_authenticated by blast

lemma unpack_loop_within_limit_witness:
  "\<exists>n. unpack_loop sample (party_wallet bob) default_unpack_options (PeMessage ping_message) 0
         default_meta_envelope = Ok (None, PeMessage ping_message, n, default_meta_envelope) \<and>
       1 \<le> n \<and> n < unat (uo_crypto_operations_limit default_unpack_options)"
proof -
  have "unpack_loop sample (party_wallet bob) default_unpack_options (PeMessage ping_message) 0
      default_meta_envelope = Ok (None, PeMessage ping_message, 0 + 1, default_meta_envelope)"
    by (rule unpack_loop_skip) (simp_all add: try_unpack_anoncrypt_def default_unpack_options_def)
  from this unpack_loop_within_limit[OF this] show ?thesis by blast
qed

definition senderless :: jwe where
  "senderless = \<lparr>jwe_protected = hex (fields [[], ''1'', ''1'', [], [], hex (bob @ ''#e''), []]),
     jwe_recipients = [\<lparr>rec_kid = bob @ ''#e'', rec_encrypted_key = []\<rparr>],
     jwe_iv = [], jwe_ciphertext = [], jwe_tag = []\<rparr>"

definition senderless_parsed :: parsed_jwe where
  "senderless_parsed =
     \<lparr>pj_jwe = senderless, pj_protected = \<lparr>ph_typ = None, ph_alg = Ecdh1puA256kw,
      ph_enc = A256cbcHs512, ph_skid = None, ph_apu = None, ph_apv = hex (bob @ ''#e''), ph_epk = JString []\<rparr>,
      pj_apu = None, pj_apv = bob @ ''#e'', pj_to_kids = [bob @ ''#e'']\<rparr>"

lemma senderless_reads: "\<exists>s. read_envelope sample s = Ok (PeJwe senderless_parsed)"
proof -
  obtain s where s: "write_jwe senderless = Inr s" by (simp add: write_jwe_def)
  have f: "filter (\<lambda>c. c \<noteq> CHR ''='') (hex x) = hex x" for x
    using hex_no_dot(1)[of x] by (auto simp: filter_id_conv)
  have "jwe_from_str sample s = Ok senderless"
    using read_write_jwe[OF s] by (simp add: jwe_from_str_def sample_with_def serde_to_didcomm_def context_msg_def)
  moreover have "jwe_parse sample senderless = Ok senderless_parsed"
    by (simp add: senderless_parsed_def jwe_parse_def senderless_def f sample_with_def with_kind_def
          serde_to_didcomm_def context_msg_def read_header_def text_jwe_alg_def text_enc_def transpose_opt_def)
  moreover have "verify_didcomm sample senderless_parsed = Ok senderless_parsed"
    by (simp add: senderless_parsed_def verify_didcomm_def kids_digest_def senderless_def sample_with_def
          transpose_opt_def)
  ultimately have "read_envelope sample s = Ok (PeJwe senderless_parsed)" by (rule read_envelope_Jwe)
  then show ?thesis ..
qed

text \<open>What the two lemmas on unpacking without a sender ask for.\<close>

lemma senderless_simps [simp]:
  "ph_alg (pj_protected senderless_parsed) = Ecdh1puA256kw" "pj_apu senderless_parsed = None"
  "recipients_of_one_did (pj_to_kids senderless_parsed) = Ok (bob @ ''#e'')"
  "find_secrets (party_wallet bob) (pj_to_kids senderless_parsed) = Ok [bob @ ''#e'']"
  "recipient_key sample (party_wallet bob) (bob @ ''#e'') = Ok (KpX25519 (True, bob @ ''#e''))"
  by (simp_all add: senderless_parsed_def recipients_of_one_did_Ok_iff recipient_key_def)

lemma unpack_without_apu_panics_witness:
  "\<exists>s. unpack_string sample (party_wallet bob) default_unpack_options s = Panic"
proof -
  obtain s where "read_envelope sample s = Ok (PeJwe senderless_parsed)" using senderless_reads ..
  from unpack_without_apu_panics[OF this, of "bob @ ''#e''" "party_wallet bob" "bob @ ''#e''" "[]"
      "KpX25519 (True, bob @ ''#e'')" default_unpack_options]
  show ?thesis by (auto simp: default_unpack_options_def)
qed

definition forged :: message where
  "forged = bare ''1'' ''ping'' (Some carol)"

lemma unpack_ignores_from_witness:
  "\<exists>s md. unpack_string sample (party_wallet bob) default_unpack_options s = Ok (forged, md) \<and>
     um_authenticated md \<and> um_encrypted_from_kid md = Some (alice @ ''#e'') \<and> m_from forged = Some carol"
proof -
  have p: "plain_message sample forged"
    using sample_message_reads
    by (simp add: plain_message_def forged_def bare_def builder_defs plaintext_typ_def forward_msg_type_def)
  obtain body where b: "ser_message sample forged = Inr body"
    by (simp add: sample_with_def write_message_def forged_def bare_def builder_defs)
  obtain s where s: "encrypt_auth sample (sample_draws 0) X25519 AuthA256cbcHs512Ecdh1puA256kw body
      (alice @ ''#e'', (True, alice @ ''#e'')) [(bob @ ''#e'', public_half (pair_key (KpX25519 (True, bob @ ''#e''))))] = Ok s"
    using sample_encrypt_auth[where tbl = "[]" and z = "()"] by blast
  have "\<exists>md. unpack_string sample (party_wallet bob) default_unpack_options s = Ok (forged, md) \<and>
      um_authenticated md \<and> um_encrypted_from_kid md = Some (alice @ ''#e'')"
    by (rule unpack_ignores_from[OF sample_crypto p b s,
          where l = "''x25519''" and fp = "KpX25519 (False, alice @ ''#e'')"])
       (use sample_published[of alice] sample_kid_utf8[of alice] in
         \<open>simp_all add: recipient_key_def public_half_def default_unpack_options_def\<close>)
  then show ?thesis by (auto simp: forged_def bare_def builder_defs)
qed

lemma sample_from_prior_laws: "from_prior_serde_laws (sample_with tbl z)"
  by (auto simp: from_prior_serde_laws_def sample_with_def split: if_splits)

lemma from_prior_pack_unpack_witness:
  "\<exists>jwt. from_prior_pack sample (party_wallet alice) (from_prior_build alice bob) None = Ok (jwt, alice @ ''#s'') \<and>
     from_prior_unpack sample jwt = Ok (from_prior_build alice bob, alice @ ''#s'')"
proof -
  have f: "first_secret (party_wallet alice) [alice @ ''#s''] a b e e' = Ok (alice @ ''#s'', okp_secret (alice @ ''#s'') ''Ed25519'')"
    for a b e e' by (simp add: first_secret_Ok_iff)
  have s: "\<exists>t. sign_compact sample b (k, key) ty EdDSA = Ok t" for b k key ty
    by (simp add: sign_compact_def sample_with_def with_kind_def with_message_def Let_def)
  obtain b where b: "ser_from_prior sample (from_prior_build alice bob) = Inr b"
    by (simp add: sample_with_def from_prior_build_def)
  from s obtain t where t: "sign_compact sample b (alice @ ''#s'', (True, alice @ ''#s'')) jwt_typ EdDSA = Ok t" by blast
  have v: "validate_pack (from_prior_build alice bob) None = Ok ()"
    by (simp add: validate_pack_Ok_iff from_prior_build_def) (simp add: alice_def bob_def)
  have i: "fp_iss (from_prior_build alice bob) = alice" by (simp add: from_prior_build_def)
  have pk: "from_prior_pack sample (party_wallet alice) (from_prior_build alice bob) None = Ok (t, alice @ ''#s'')"
    by (simp add: from_prior_pack_def v b with_kind_def i f context_msg_def t)
  have "from_prior_unpack sample t = Ok (from_prior_build alice bob, alice @ ''#s'')"
    by (rule from_prior_pack_unpack[OF sample_b64 sample_jws sample_signatures sample_from_prior_laws pk])
       (auto simp: from_prior_build_def publishes_def public_half_def)
  with pk show ?thesis by blast
qed

definition other_service :: service where
  "other_service = \<lparr>service_id = ''#site'', service_types = [''LinkedDomains''],
     service_endpoint = Some [EndpointMap [(''uri'', JString ''https://a.example'')]]\<rparr>"

lemma check_service_any_type_witness:
  "check_service other_service = Ok (Some (''#site'',
     \<lparr>ds_uri = ''https://a.example'', ds_accept = None, ds_routing_keys = []\<rparr>))"
  using check_service_any_type[of other_service "''LinkedDomains''" "[]"
      "[EndpointMap [(''uri'', JString ''https://a.example'')]]" "[(''uri'', JString ''https://a.example'')]"]
  by (simp add: other_service_def service_from_value_def optional_strings_def)

lemma check_service_Some_witness:
  "\<exists>ms. accepts_v2 (EndpointMap ms) \<and> service_from_value ms =
     Some \<lparr>ds_uri = ''https://a.example'', ds_accept = None, ds_routing_keys = []\<rparr>"
proof -
  have "check_service other_service = Ok (Some (''#site'',
     \<lparr>ds_uri = ''https://a.example'', ds_accept = None, ds_routing_keys = []\<rparr>))"
    by (simp add: check_service_def check_service_type_def other_service_def service_from_value_def
          optional_strings_def)
  from check_service_Some[OF this] show ?thesis by auto
qed

text \<open>Bob's service names Carol's DID as its endpoint, and Carol's an address.\<close>

definition mediated_service :: service where
  "mediated_service = \<lparr>service_id = ''#inbox'', service_types = [''DIDCommMessaging''],
     service_endpoint = Some [EndpointMap [(''uri'', JString carol)]]\<rparr>"

definition served :: "(sample_key, string, string) env_ext" where
  "served = sample\<lparr>did_resolve := (\<lambda>d. Inr ((party_doc d)\<lparr>doc_services :=
     [if d = bob then mediated_service else other_service]\<rparr>))\<rparr>"

lemma services_chain_bounded_witness:
  "\<exists>m s. resolve_services_chain served bob None = Ok [m, s] \<and> ds_uri (snd s) = carol \<and>
     \<not> is_did (ds_uri (snd m))"
proof -
  let ?m = "(''#site'', \<lparr>ds_uri = ''https://a.example'', ds_accept = None, ds_routing_keys = []\<rparr>)"
  let ?s = "(''#inbox'', \<lparr>ds_uri = carol, ds_accept = None, ds_routing_keys = []\<rparr>)"
  have c: "check_service other_service = Ok (Some ?m)" "check_service mediated_service = Ok (Some ?s)"
    by (simp_all add: check_service_def check_service_type_def other_service_def mediated_service_def
          service_from_value_def optional_strings_def)
  have "\<not> is_did ''https://a.example''" "is_did carol" "carol \<noteq> bob"
    by (simp_all add: is_did_def carol_def bob_def)
  then have r: "resolve_services_chain served bob None = Ok [?m, ?s]"
    using c by (simp add: resolve_services_chain_def served_def find_did_comm_service_def follow_services.simps)
  from services_chain_bounded[OF r] show ?thesis using r by auto
qed

end
