(* ===== verification/Authenticate.thy ===== *)
theory Authenticate
  imports MediatorState
begin

text \<open>
  Authentication with the mediator (\<open>handlers/authenticate.rs\<close>) and the session a request gets
  from its token (\<open>common/jwt_auth.rs\<close>). A client asks for a challenge, which creates a session
  row for the DID it names; it answers with a packed message, on which the row is renamed to a new
  id and two tokens are issued. Random strings come from the generator \<open>rng\<close>, and \<open>clock i\<close> is the
  \<open>i\<close>th reading of the system time.
\<close>

record auth_challenge =
  ac_challenge :: string
  ac_session_id :: string

record auth_response =
  ar_access_token :: string
  ar_refresh_token :: string

subsection \<open>The challenge\<close>

definition challenge_session :: "(nat \<Rightarrow> char) \<Rightarrow> string \<Rightarrow> session" where
  "challenge_session rng did =
     \<lparr>ses_id = create_random_string rng 0 12, ses_challenge = create_random_string rng 12 32,
      ses_state = ChallengeSent, ses_did = did\<rparr>"

definition authentication_challenge ::
  "'db shared \<Rightarrow> (nat \<Rightarrow> char) \<Rightarrow> string
     \<Rightarrow> ('db, nat \<times> auth_challenge success_response, mediator_error) effect" where
  "authentication_challenge S rng did =
     (let s = challenge_session rng did in
      eff_then (create_session (sh_database S) s) (\<lambda>_.
      eff_of (Ok (success (ses_id s)
        \<lparr>ac_challenge = ses_challenge s, ac_session_id = ses_id s\<rparr>))))"

subsection \<open>The answer\<close>

text \<open>
  \<open>serde_json::from_value\<close> for the two strings of the body: an object with both members, or an
  array of the two.
\<close>

definition challenge_from_value :: "json \<Rightarrow> auth_challenge option" where
  "challenge_from_value v =
     (case v of
        JObject ms \<Rightarrow>
          (case (map_of ms ''challenge'', map_of ms ''session_id'') of
             (Some (JString c), Some (JString s)) \<Rightarrow> Some \<lparr>ac_challenge = c, ac_session_id = s\<rparr>
           | _ \<Rightarrow> None)
      | JArray [JString c, JString s] \<Rightarrow> Some \<lparr>ac_challenge = c, ac_session_id = s\<rparr>
      | _ \<Rightarrow> None)"

text \<open>From the posted body to the message and the challenge in it.\<close>

definition open_authentication ::
  "('k, 'c, 'w, 'z) med_ext_scheme \<Rightarrow> 'db shared \<Rightarrow> u64 \<Rightarrow> inbound_message
     \<Rightarrow> (message \<times> auth_challenge, mediator_error) result" where
  "open_authentication X S now body =
     and_then (case ser_inbound X body of Inl _ \<Rightarrow> Panic | Inr s \<Rightarrow> Ok s) (\<lambda>s.
     and_then (open_inbound X (sh_mediator_secrets S) ''UNKNOWN'' default_unpack_options s)
       (\<lambda>(msg, _).
     and_then (message_type_of (m_type msg)) (\<lambda>t.
     and_then (ensure (t = AffinidiAuthenticate)
                 (SessionError ''UNKNOWN''
                    ''Only accepts Affinidi Authentication protocol messages'')) (\<lambda>_.
     and_then (check_expiry ''-1'' now msg) (\<lambda>_.
     and_then (ok_or (SessionError ''UNKNOWN''
                  ((''Couldn'' @ [CHR 0x27] @ ''t parse body into ChallengeBody. Reason: '') @
                   value_error X ''AuthenticationChallenge'' (m_body msg)))
                 (challenge_from_value (m_body msg))) (\<lambda>challenge.
     Ok (msg, challenge)))))))"

definition check_session ::
  "message \<Rightarrow> auth_challenge \<Rightarrow> session \<Rightarrow> (unit, mediator_error) result" where
  "check_session msg challenge s =
     and_then (case m_from msg of
                 Some from_did \<Rightarrow>
                   ensure (from_did = ses_did s)
                     (SessionError (ac_session_id challenge)
                        (''DID ('' @ from_did @
                         '') from authorization message does not match DID from session''))
               | None \<Rightarrow> Ok ()) (\<lambda>_.
     ensure (ses_state s = ChallengeSent)
       (SessionError (ses_id s) ''Session is in an invalid state for authentication''))"

definition access_claims :: "u64 \<Rightarrow> session \<Rightarrow> session_claims" where
  "access_claims now s =
     \<lparr>sc_aud = ''ATM'', sc_sub = ses_did s, sc_session_id = ses_id s, sc_exp = now + 900\<rparr>"

definition refresh_claims :: "u64 \<Rightarrow> session \<Rightarrow> session_claims" where
  "refresh_claims now s =
     (access_claims now s)\<lparr>sc_exp := sc_exp (access_claims now s) + 85500\<rparr>"

definition issue_tokens ::
  "('k, 'c, 'w, 'z) med_ext_scheme \<Rightarrow> 'db shared \<Rightarrow> u64 \<Rightarrow> session
     \<Rightarrow> (auth_response, mediator_error) result" where
  "issue_tokens X S now s =
     and_then (ok_or (InternalError ''NA'' ''JWT Encoding Key not found'') (sh_jwt_encoding_key S))
       (\<lambda>key.
     and_then (map_err (\<lambda>e. InternalError ''UNKNOWN''
                          ((''Couldn'' @ [CHR 0x27] @ ''t encode access token. Reason: '') @ e))
                 (of_sum (jwt_encode X key (access_claims now s)))) (\<lambda>access.
     and_then (map_err (\<lambda>e. InternalError ''UNKNOWN''
                          ((''Couldn'' @ [CHR 0x27] @ ''t encode refresh token. Reason: '') @ e))
                 (of_sum (jwt_encode X key (refresh_claims now s)))) (\<lambda>refresh.
     Ok \<lparr>ar_access_token = access, ar_refresh_token = refresh\<rparr>)))"

text \<open>
  The handler up to its last step: the id of the session that is answered, the session under its
  new id, and the tokens. The database is only read so far.
\<close>

definition authentication_check ::
  "('k, 'c, 'w, 'z) med_ext_scheme \<Rightarrow> 'db shared \<Rightarrow> (nat \<Rightarrow> char) \<Rightarrow> (nat \<Rightarrow> u64) \<Rightarrow> inbound_message
     \<Rightarrow> ('db, string \<times> session \<times> auth_response, mediator_error) effect" where
  "authentication_check X S rng clock body =
     eff_then (eff_of (open_authentication X S (clock 0) body)) (\<lambda>(msg, challenge).
     eff_then (get_session (sh_database S) (ac_session_id challenge)) (\<lambda>s.
     eff_then (eff_of (check_session msg challenge s)) (\<lambda>_.
     let old_sid = ses_id s; s' = s\<lparr>ses_id := create_random_string rng 0 12\<rparr> in
     eff_then (eff_of (issue_tokens X S (clock 1) s')) (\<lambda>tokens.
     eff_of (Ok (old_sid, s', tokens))))))"

definition authentication_response ::
  "('k, 'c, 'w, 'z) med_ext_scheme \<Rightarrow> 'db shared \<Rightarrow> (nat \<Rightarrow> char) \<Rightarrow> (nat \<Rightarrow> u64) \<Rightarrow> inbound_message
     \<Rightarrow> ('db, nat \<times> auth_response success_response, mediator_error) effect" where
  "authentication_response X S rng clock body =
     eff_then (authentication_check X S rng clock body) (\<lambda>(old_sid, s, tokens).
     eff_then (update_session_authenticated (sh_database S) old_sid (ses_id s)) (\<lambda>_.
     eff_of (Ok (success (ses_id s) tokens))))"

subsection \<open>The session of a request\<close>

text \<open>A request: whether it has a remote address, and its bearer token.\<close>

record request_parts =
  rp_has_address :: bool
  rp_bearer :: "string option"

definition session_from_request ::
  "('k, 'c, 'w, 'z) med_ext_scheme \<Rightarrow> 'db shared \<Rightarrow> u64 \<Rightarrow> request_parts
     \<Rightarrow> (client_session, auth_error) result" where
  "session_from_request X S now parts =
     and_then (ensure (rp_has_address parts) MissingCredentials) (\<lambda>_.
     and_then (ok_or MissingCredentials (rp_bearer parts)) (\<lambda>token.
     and_then (ok_or MissingCredentials (sh_jwt_decoding_key S)) (\<lambda>key.
     and_then (map_err (\<lambda>_. InvalidToken) (of_sum (jwt_decode X key now token))) (\<lambda>claims.
     Ok \<lparr>cs_session_id = sc_session_id claims, cs_authenticated = True, cs_challenge_sent = None,
         cs_did = sc_sub claims, cs_did_hash = digest X (sc_sub claims)\<rparr>))))"

text \<open>A key pair of the token library: tokens made with it are read until they expire.\<close>

definition jwt_laws :: "('k, 'c, 'w, 'z) med_ext_scheme \<Rightarrow> bytes \<Rightarrow> bytes \<Rightarrow> bool" where
  "jwt_laws X enc dec \<longleftrightarrow>
     (\<forall>c t now. jwt_encode X enc c = Inr t \<longrightarrow> sc_aud c = ''ATM'' \<longrightarrow> now \<le> sc_exp c \<longrightarrow>
        jwt_decode X dec now t = Inr c)"

end
