(* ===== verification/AuthProps.thy ===== *)
theory AuthProps
  imports Authenticate RoundTrip
begin

text \<open>
  What authentication with the mediator guarantees and what it does not: an accepted answer
  consumed a row that was waiting for one, every row is consumed at most once however the requests
  of all clients interleave, the tokens give the session of the DID of the row, and no step asks
  for a proof that the client holds a key of that DID.
\<close>

subsection \<open>One request\<close>

lemma authentication_check_OkE:
  assumes "authentication_check X S rng clock body db = (Ok (old, s', tokens), db1)"
  obtains msg ch s where "open_authentication X S (clock 0) body = Ok (msg, ch)"
    "get_session (sh_database S) (ac_session_id ch) db = (Ok s, db1)"
    "check_session msg ch s = Ok ()" "old = ses_id s"
    "s' = s\<lparr>ses_id := create_random_string rng 0 12\<rparr>"
    "issue_tokens X S (clock 1) s' = Ok tokens"
  using assms by (auto simp: authentication_check_def effect_simps Let_def)

lemma session_of_hash_OkD:
  "session_of_hash sid h = Ok s \<Longrightarrow>
     ses_id s = sid \<and> h ''did'' = Some (ses_did s) \<and> h ''challenge'' = Some (ses_challenge s) \<and>
     (ses_state s = ChallengeSent \<longrightarrow> h ''state'' = Some ''ChallengeSent'')"
proof -
  have st: "state_from_str v = Ok ChallengeSent \<Longrightarrow> v = ''ChallengeSent''" for v
    by (simp add: state_from_str_def split: if_splits)
  assume "session_of_hash sid h = Ok s"
  then show ?thesis
    unfolding session_of_hash_def and_then_Ok_iff ok_or_Ok_iff by (elim exE conjE) (auto dest: st)
qed

lemma get_session_id:
  "redis_laws R V \<Longrightarrow> conversion_laws R \<Longrightarrow> get_session R sid db = (Ok s, db') \<Longrightarrow> ses_id s = sid"
  using get_session_Ok[of R V sid db s db'] session_of_hash_OkD[of sid _ s] by auto

lemma authentication_check_state:
  assumes "redis_laws (sh_database S) V"
    and "authentication_check X S rng clock body db = (r, db1)"
  shows "V db1 = V db"
proof -
  have "keeps (\<lambda>d. V d = V db) (authentication_check X S rng clock body)"
    unfolding authentication_check_def Let_def
    by (intro keeps_then keeps_of keeps_case_prod keeps_get_session assms(1))
  from keepsD[OF this assms(2)] show ?thesis by simp
qed

text \<open>The row a session waits for its answer in.\<close>

definition awaits_answer :: "keyspace \<Rightarrow> string \<Rightarrow> string \<Rightarrow> bool" where
  "awaits_answer ks sid did \<longleftrightarrow>
     (\<exists>h. ks (session_key sid) = Some (EHash h) \<and> h ''state'' = Some ''ChallengeSent'' \<and>
          h ''did'' = Some did)"

definition is_authenticated :: "keyspace \<Rightarrow> string \<Rightarrow> string \<Rightarrow> bool" where
  "is_authenticated ks sid did \<longleftrightarrow>
     (\<exists>h. ks (session_key sid) = Some (EHash h) \<and> h ''state'' = Some ''Authenticated'' \<and>
          h ''did'' = Some did)"

text \<open>
  C11: an accepted answer is the answer to a challenge. The message was of the authentication
  protocol and not expired, it named a session whose row waited for the answer, and if it had a
  \<open>from\<close> header that was the DID of the row. The row is gone afterwards, and under the id that the
  response carries there is an authenticated row of the same DID.
\<close>

theorem authentication_sound:
  assumes "redis_laws (sh_database S) V" and "conversion_laws (sh_database S)"
    and "authentication_response X S rng clock body db = (Ok (code, rsp), db')"
    and "\<And>msg ch. open_authentication X S (clock 0) body = Ok (msg, ch) \<Longrightarrow>
           ac_session_id ch \<noteq> create_random_string rng 0 12"
  shows "\<exists>msg ch did. open_authentication X S (clock 0) body = Ok (msg, ch) \<and>
     m_type msg = ''https://affinidi.com/atm/1.0/authenticate'' \<and>
     (\<forall>e. m_expires_time msg = Some e \<longrightarrow> clock 0 < e) \<and>
     (\<forall>f. m_from msg = Some f \<longrightarrow> f = did) \<and>
     awaits_answer (V db) (ac_session_id ch) did \<and>
     V db' (session_key (ac_session_id ch)) = None \<and>
     is_authenticated (V db') (sr_session_id rsp) did"
proof -
  from assms(3) obtain old s' tokens db1 where
    c: "authentication_check X S rng clock body db = (Ok (old, s', tokens), db1)" and
    u: "update_session_authenticated (sh_database S) old (ses_id s') db1 = (Ok (), db')" and
    r: "(code, rsp) = success (ses_id s') tokens"
    by (auto simp: authentication_response_def effect_simps)
  from c obtain msg ch s where
    o: "open_authentication X S (clock 0) body = Ok (msg, ch)" and
    g: "get_session (sh_database S) (ac_session_id ch) db = (Ok s, db1)" and
    k: "check_session msg ch s = Ok ()" and ids: "old = ses_id s"
      "s' = s\<lparr>ses_id := create_random_string rng 0 12\<rparr>"
    by (rule authentication_check_OkE)
  from get_session_Ok[OF assms(1,2) g] obtain h where
    h: "V db (session_key (ac_session_id ch)) = Some (EHash h)"
      "session_of_hash (ac_session_id ch) h = Ok s" by blast
  note f = session_of_hash_OkD[OF h(2)]
  from k have st: "ses_state s = ChallengeSent" "\<forall>f. m_from msg = Some f \<longrightarrow> f = ses_did s"
    by (auto simp: check_session_def result_simps split: option.splits)
  have v: "V db1 = V db" using get_session_state[OF assms(1) g] .
  have fresh: "old \<noteq> ses_id s'" using assms(4)[OF o] ids f by simp
  from update_session_Ok[OF assms(1) u fresh] v h(1) ids f have
    gone: "V db' (session_key (ac_session_id ch)) = None" and
    new: "V db' (session_key (ses_id s')) = Some (EHash (h(''state'' \<mapsto> ''Authenticated'')))"
    by auto
  have "awaits_answer (V db) (ac_session_id ch) (ses_did s)"
    using h(1) f st(1) by (simp add: awaits_answer_def)
  moreover have "is_authenticated (V db') (sr_session_id rsp) (ses_did s)"
    using new f r by (auto simp: is_authenticated_def success_def)
  moreover have "m_type msg = ''https://affinidi.com/atm/1.0/authenticate'' \<and>
      (\<forall>e. m_expires_time msg = Some e \<longrightarrow> clock 0 < e)"
    using o by (auto simp: open_authentication_def result_simps message_type_of_def split: if_splits)
  ultimately show ?thesis using o st(2) gone by blast
qed

text \<open>
  An answer that opens as an authentication message for a session whose row waits for it, from the
  DID of the row if from anybody, is accepted.
\<close>

lemma answer_accepted:
  assumes "unpack_string X (sh_mediator_secrets S) default_unpack_options posted = Ok (m, md)"
    and "m_type m = ''https://affinidi.com/atm/1.0/authenticate''"
    and "m_body m = JObject [(''challenge'', JString any), (''session_id'', JString sid)]"
    and "m_from m = None \<or> m_from m = Some (ses_did s)"
    and "check_expiry ''-1'' (clock 0) m = Ok ()"
    and "ser_inbound X body = Inr posted"
    and "get_session (sh_database S) sid db = (Ok s, db1)" and "ses_state s = ChallengeSent"
    and "ses_id s = sid"
    and "issue_tokens X S (clock 1) (s\<lparr>ses_id := create_random_string rng 0 12\<rparr>) = Ok tokens"
    and "update_session_authenticated (sh_database S) sid (create_random_string rng 0 12) db1 =
           (Ok (), db2)"
  shows "authentication_response X S rng clock body db =
     (Ok (success (create_random_string rng 0 12) tokens), db2)"
proof -
  have "open_inbound X (sh_mediator_secrets S) ''UNKNOWN'' default_unpack_options posted = Ok (m, md)"
    using assms(1) by (simp add: open_inbound_Ok_iff)
  moreover have "message_type_of (m_type m) = Ok AffinidiAuthenticate"
    using assms(2) by (simp add: message_type_of_def)
  moreover have "challenge_from_value (m_body m) = Some \<lparr>ac_challenge = any, ac_session_id = sid\<rparr>"
    using assms(3) by (simp add: challenge_from_value_def)
  ultimately have "open_authentication X S (clock 0) body = Ok (m, \<lparr>ac_challenge = any, ac_session_id = sid\<rparr>)"
    using assms(5,6) by (simp add: open_authentication_def)
  moreover have "check_session m \<lparr>ac_challenge = any, ac_session_id = sid\<rparr> s = Ok ()"
    using assms(4,8) by (auto simp: check_session_def)
  ultimately show ?thesis
    using assms(7-11)
    by (simp add: authentication_response_def authentication_check_def eff_then_run Let_def)
qed

text \<open>
  C12: nothing in the answer proves that the client is the DID it authenticates as. Whoever knows
  the id of a session (the challenge request gives it to anybody, for any DID) packs a message
  without sender and signature, with any challenge string and with the DID of the session or
  nothing as its \<open>from\<close> header; the wallet \<open>SR\<close> it is packed with may be empty. The mediator
  answers with tokens for the DID of the session.
\<close>

theorem anyone_authenticates:
  assumes "crypto_laws X pub rs" and "plain_message X m"
    and "m_type m = ''https://affinidi.com/atm/1.0/authenticate''"
    and "m_body m = JObject [(''challenge'', JString any), (''session_id'', JString sid)]"
    and "m_from m = None \<or> m_from m = Some (ses_did s)" and "m_expires_time m = None"
    and "pack_encrypted X SR rs m (sh_mediator_did S) None None opts = Ok (txt, meta)"
    and "pm_messaging_service meta = None"
    and "did_resolve X (did_of (sh_mediator_did S)) = Inr doc"
    and "distinct (find_key_agreement X doc (snd (did_or_url (sh_mediator_did S))))"
    and "recipient_ready X pub (sh_mediator_secrets S) doc (pm_to_kids meta)"
    and "ser_inbound X body = Inr posted"
    and "envelope_from_str X posted = envelope_from_str X txt"
    and "get_session (sh_database S) sid db = (Ok s, db1)" and "ses_state s = ChallengeSent"
    and "ses_id s = sid"
    and "issue_tokens X S (clock 1) (s\<lparr>ses_id := create_random_string rng 0 12\<rparr>) = Ok tokens"
    and "update_session_authenticated (sh_database S) sid (create_random_string rng 0 12) db1 =
           (Ok (), db2)"
  shows "authentication_response X S rng clock body db =
     (Ok (success (create_random_string rng 0 12) tokens), db2)"
proof -
  have opts: "\<not> uo_expect_decrypt_by_all_keys default_unpack_options"
      "2 < unat (uo_crypto_operations_limit default_unpack_options)"
    by (simp_all add: default_unpack_options_def)
  from anonymous_text_opens[OF assms(1,2,7-11) opts] obtain md where
    "unpack_string X (sh_mediator_secrets S) default_unpack_options txt = Ok (m, md)" by blast
  then have "unpack_string X (sh_mediator_secrets S) default_unpack_options posted = Ok (m, md)"
    using assms(13) by (simp add: unpack_string_def meta_envelope_new_def)
  moreover have "check_expiry ''-1'' (clock 0) m = Ok ()" using assms(6) by (simp add: check_expiry_def)
  ultimately show ?thesis
    using answer_accepted[where clock = clock and rng = rng and s = s, OF _ assms(3-5) _ assms(12,14-18)] by blast
qed

text \<open>
  both tokens of a response give the session of the DID they were issued for, under the new
  session id, until they expire: the access token for 15 minutes, the refresh token, which differs
  in its expiry only and is accepted wherever an access token is, for a day. The database is not
  asked whether the session still exists.
\<close>

theorem issued_tokens_are_sessions:
  assumes "issue_tokens X S now s = Ok tokens"
    and "sh_jwt_encoding_key S = Some enc" and "sh_jwt_decoding_key S = Some dec"
    and "jwt_laws X enc dec"
    and "t = ar_access_token tokens \<and> later \<le> now + 900 \<or>
         t = ar_refresh_token tokens \<and> later \<le> now + 86400"
  shows "session_from_request X S later \<lparr>rp_has_address = True, rp_bearer = Some t\<rparr> =
     Ok \<lparr>cs_session_id = ses_id s, cs_authenticated = True, cs_challenge_sent = None,
         cs_did = ses_did s, cs_did_hash = digest X (ses_did s)\<rparr>"
proof -
  from assms(1,2) have a: "jwt_encode X enc (access_claims now s) = Inr (ar_access_token tokens)" and
    r: "jwt_encode X enc (refresh_claims now s) = Inr (ar_refresh_token tokens)"
    by (auto simp: issue_tokens_def result_simps)
  have e: "sc_exp (refresh_claims now s) = now + 86400" "sc_aud (refresh_claims now s) = ''ATM''"
      "sc_exp (access_claims now s) = now + 900" "sc_aud (access_claims now s) = ''ATM''"
    by (simp_all add: refresh_claims_def access_claims_def)
  from assms(5) show ?thesis
  proof
    assume "t = ar_access_token tokens \<and> later \<le> now + 900"
    then have "jwt_decode X dec later t = Inr (access_claims now s)"
      using assms(4) a e by (simp add: jwt_laws_def)
    then show ?thesis using assms(3) by (simp add: session_from_request_def access_claims_def)
  next
    assume "t = ar_refresh_token tokens \<and> later \<le> now + 86400"
    then have "jwt_decode X dec later t = Inr (refresh_claims now s)"
      using assms(4) r e by (simp add: jwt_laws_def)
    then show ?thesis
      using assms(3) by (simp add: session_from_request_def access_claims_def refresh_claims_def)
  qed
qed

end
