(* ===== verification/AuthRace.thy ===== *)
theory AuthRace
  imports AuthProps
begin

text \<open>
  Authentication requests of many clients at once. A handler gives way between its read of the
  session row and the renaming of it, so a run of the server is an interleaving of the two halves
  of \<open>authentication_response\<close> of different requests, of challenges, of expiring rows and of the
  other handlers, which touch no session row. The generator never draws an id it has drawn before.
\<close>

record 'db auth_run =
  run_db :: 'db
  run_challenges :: "string set"
  run_drawn :: "string set"
  run_pending :: "(string \<times> string) list"
  run_granted :: "string list"

inductive auth_reach ::
  "('k, 'c, 'w, 'z) med_ext_scheme \<Rightarrow> 'db shared \<Rightarrow> ('db \<Rightarrow> keyspace) \<Rightarrow> 'db auth_run \<Rightarrow> bool"
  for X :: "('k, 'c, 'w, 'z) med_ext_scheme" and S :: "'db shared" and V :: "'db \<Rightarrow> keyspace" where
  start: "(\<And>sid. V db (session_key sid) = None) \<Longrightarrow>
    auth_reach X S V \<lparr>run_db = db, run_challenges = {}, run_drawn = {}, run_pending = [],
                      run_granted = []\<rparr>"
| challenge: "auth_reach X S V r \<Longrightarrow>
    authentication_challenge S rng did (run_db r) = (res, db') \<Longrightarrow>
    sid = create_random_string rng 0 12 \<Longrightarrow> sid \<notin> run_challenges r \<union> run_drawn r \<Longrightarrow>
    auth_reach X S V (r\<lparr>run_db := db', run_challenges := insert sid (run_challenges r)\<rparr>)"
| check: "auth_reach X S V r \<Longrightarrow>
    authentication_check X S rng clock body (run_db r) = (Ok (old, s, tokens), db') \<Longrightarrow>
    ses_id s \<notin> run_challenges r \<union> run_drawn r \<Longrightarrow>
    auth_reach X S V (r\<lparr>run_db := db', run_drawn := insert (ses_id s) (run_drawn r),
                        run_pending := (old, ses_id s) # run_pending r\<rparr>)"
| check_fails: "auth_reach X S V r \<Longrightarrow>
    authentication_check X S rng clock body (run_db r) = (res, db') \<Longrightarrow> (\<And>x. res \<noteq> Ok x) \<Longrightarrow>
    auth_reach X S V (r\<lparr>run_db := db'\<rparr>)"
| grant: "auth_reach X S V r \<Longrightarrow> (old, new) \<in> set (run_pending r) \<Longrightarrow>
    update_session_authenticated (sh_database S) old new (run_db r) = (Ok (), db') \<Longrightarrow>
    auth_reach X S V (r\<lparr>run_db := db', run_pending := remove1 (old, new) (run_pending r),
                        run_granted := old # run_granted r\<rparr>)"
| grant_fails: "auth_reach X S V r \<Longrightarrow> (old, new) \<in> set (run_pending r) \<Longrightarrow>
    update_session_authenticated (sh_database S) old new (run_db r) = (Err e, db') \<Longrightarrow>
    auth_reach X S V (r\<lparr>run_db := db', run_pending := remove1 (old, new) (run_pending r)\<rparr>)"
| expire: "auth_reach X S V r \<Longrightarrow> (\<And>k. V db' k = V (run_db r) k \<or> V db' k = None) \<Longrightarrow>
    auth_reach X S V (r\<lparr>run_db := db'\<rparr>)"
| elsewhere: "auth_reach X S V r \<Longrightarrow>
    (\<And>sid. V db' (session_key sid) = V (run_db r) (session_key sid)) \<Longrightarrow>
    auth_reach X S V (r\<lparr>run_db := db'\<rparr>)"

text \<open>
  Ids of challenges and ids drawn for answers are different; an answer is pending, and a row waits
  for an answer, under the id of a challenge only; what has been granted is granted once, and its
  row is gone.
\<close>

definition waits :: "keyspace \<Rightarrow> string \<Rightarrow> bool" where
  "waits ks sid \<longleftrightarrow>
     (\<exists>h. ks (session_key sid) = Some (EHash h) \<and> h ''state'' = Some ''ChallengeSent'')"

definition auth_inv :: "('db \<Rightarrow> keyspace) \<Rightarrow> 'db auth_run \<Rightarrow> bool" where
  "auth_inv V r \<longleftrightarrow>
     run_challenges r \<inter> run_drawn r = {} \<and>
     (\<forall>(old, new) \<in> set (run_pending r). old \<in> run_challenges r \<and> new \<in> run_drawn r) \<and>
     (\<forall>sid. waits (V (run_db r)) sid \<longrightarrow> sid \<in> run_challenges r) \<and>
     distinct (run_granted r) \<and>
     (\<forall>old \<in> set (run_granted r).
        old \<in> run_challenges r \<and> V (run_db r) (session_key old) = None)"

lemma waits_cong: "ks (session_key sid) = ks' (session_key sid) \<Longrightarrow> waits ks sid = waits ks' sid"
  by (simp add: waits_def)

lemma authentication_check_waits:
  assumes "redis_laws (sh_database S) V" "conversion_laws (sh_database S)"
    and "authentication_check X S rng clock body db = (Ok (old, s, tokens), db')"
  shows "waits (V db) old"
proof -
  from assms(3) obtain msg ch s0 where
    g: "get_session (sh_database S) (ac_session_id ch) db = (Ok s0, db')" and
    k: "check_session msg ch s0 = Ok ()" and old: "old = ses_id s0"
    by (rule authentication_check_OkE)
  from get_session_Ok[OF assms(1,2) g] obtain h where
    h: "V db (session_key (ac_session_id ch)) = Some (EHash h)"
      "session_of_hash (ac_session_id ch) h = Ok s0" by blast
  have "ses_state s0 = ChallengeSent" using k by (auto simp: check_session_def result_simps)
  with session_of_hash_OkD[OF h(2)] h(1) old show ?thesis by (auto simp: waits_def)
qed

lemma inv_same_rows:
  assumes "auth_inv V r" and "\<And>sid. V db' (session_key sid) = V (run_db r) (session_key sid)"
  shows "auth_inv V (r\<lparr>run_db := db'\<rparr>)"
  using assms(1) unfolding auth_inv_def by (simp add: assms(2) waits_def)

lemma inv_challenge:
  assumes "redis_laws (sh_database S) V" and inv: "auth_inv V r"
    and c: "authentication_challenge S rng did (run_db r) = (res, db')"
    and sid: "sid = create_random_string rng 0 12" "sid \<notin> run_challenges r \<union> run_drawn r"
  shows "auth_inv V (r\<lparr>run_db := db', run_challenges := insert sid (run_challenges r)\<rparr>)"
proof -
  from c obtain u where "create_session (sh_database S) (challenge_session rng did) (run_db r) = (u, db')"
    by (auto simp: authentication_challenge_def Let_def eff_then_def eff_of_def
        split: prod.splits result.splits)
  from create_session_frame[OF assms(1) this] sid(1)
  have f: "V db' (session_key x) = V (run_db r) (session_key x)" if "x \<noteq> sid" for x
    using that by (simp add: challenge_session_def)
  have w: "waits (V db') x \<Longrightarrow> x = sid \<or> waits (V (run_db r)) x" for x
    using f[of x] waits_cong by blast
  have g: "V db' (session_key o1) = None" if "o1 \<in> set (run_granted r)" for o1
  proof -
    from that inv have "o1 \<in> run_challenges r" "V (run_db r) (session_key o1) = None"
      by (auto simp: auth_inv_def)
    with f[of o1] sid(2) show ?thesis by auto
  qed
  show ?thesis
    using inv sid(2) unfolding auth_inv_def by (auto dest!: w simp: g)
qed

lemma inv_grant:
  assumes "redis_laws (sh_database S) V" and inv: "auth_inv V r"
    and p: "(old, new) \<in> set (run_pending r)"
    and u: "update_session_authenticated (sh_database S) old new (run_db r) = (res, db')"
  shows "auth_inv V (r\<lparr>run_db := db', run_pending := remove1 (old, new) (run_pending r)\<rparr>)"
proof -
  from inv p have ids: "old \<in> run_challenges r" "new \<in> run_drawn r" "old \<noteq> new"
    by (auto simp: auth_inv_def)
  have f: "V db' (session_key x) = V (run_db r) (session_key x)" if "x \<noteq> old" "x \<noteq> new" for x
    using update_session_frame[OF assms(1) u, of "session_key x"] that by simp
  have n: "new \<notin> run_challenges r" using inv ids(2) by (auto simp: auth_inv_def)
  from update_session_any[OF assms(1) u ids(3)]
  have o: "V db' (session_key old) = V (run_db r) (session_key old) \<or> V db' (session_key old) = None"
    and h: "V db' = V (run_db r) \<or> (\<not> waits (V db') old \<and> \<not> waits (V db') new)"
    by (auto simp: waits_def)
  have w: "waits (V (run_db r)) x" if "waits (V db') x" for x
    using that h f[of x] waits_cong[of "V db'" x "V (run_db r)"] by (cases "x = old \<or> x = new") auto
  have g: "V db' (session_key o1) = None" if "o1 \<in> set (run_granted r)" for o1
  proof -
    from that inv have "o1 \<in> run_challenges r" "V (run_db r) (session_key o1) = None"
      by (auto simp: auth_inv_def)
    with f[of o1] n o show ?thesis by (cases "o1 = old") auto
  qed
  show ?thesis
    using inv set_remove1_subset[of "(old, new)" "run_pending r"]
    unfolding auth_inv_def by (auto dest!: w simp: g)
qed

lemma auth_reach_inv:
  assumes "redis_laws (sh_database S) V" "conversion_laws (sh_database S)" "auth_reach X S V r"
  shows "auth_inv V r"
  using assms(3)
proof (induction rule: auth_reach.induct)
  case (start db)
  then show ?case by (simp add: auth_inv_def waits_def)
next
  case (challenge r rng did res db' sid)
  show ?case by (rule inv_challenge[OF assms(1) challenge.IH challenge.hyps(2-4)])
next
  case (check r rng clock body old s tokens db')
  have v: "V db' = V (run_db r)" by (rule authentication_check_state[OF assms(1) check.hyps(2)])
  have "old \<in> run_challenges r"
    using authentication_check_waits[OF assms(1,2) check.hyps(2)] check.IH
    by (auto simp: auth_inv_def)
  with check.IH check.hyps(3) v show ?case by (auto simp: auth_inv_def)
next
  case (check_fails r rng clock body res db')
  show ?case
    by (rule inv_same_rows[OF check_fails.IH])
       (simp add: authentication_check_state[OF assms(1) check_fails.hyps(2)])
next
  case (grant r old new db')
  have ids: "old \<in> run_challenges r" "new \<in> run_drawn r" "old \<noteq> new"
    using grant.IH grant.hyps(2) by (auto simp: auth_inv_def)
  from update_session_Ok[OF assms(1) grant.hyps(3) ids(3)]
  have "V db' (session_key old) = None" "V (run_db r) (session_key old) \<noteq> None" by auto
  with inv_grant[OF assms(1) grant.IH grant.hyps(2,3)] grant.IH ids(1)
  show ?case by (auto simp: auth_inv_def)
next
  case (grant_fails r old new e db')
  show ?case by (rule inv_grant[OF assms(1) grant_fails.IH grant_fails.hyps(2,3)])
next
  case (expire r db')
  have "waits (V db') sid \<Longrightarrow> waits (V (run_db r)) sid" for sid
    using expire.hyps(2)[of "session_key sid"] by (auto simp: waits_def)
  with expire.IH expire.hyps(2) show ?case by (auto simp: auth_inv_def) (metis option.distinct(1))+
next
  case (elsewhere r db')
  show ?case by (rule inv_same_rows[OF elsewhere.IH elsewhere.hyps(2)])
qed

text \<open>
  C13: however the requests of all clients interleave, an answer to a challenge is accepted at most
  once: no session id is granted twice, and once it has been granted its row is gone, so that
  later answers that name it are refused.
\<close>

theorem answers_are_granted_once:
  assumes "redis_laws (sh_database S) V" and "conversion_laws (sh_database S)"
    and "auth_reach X S V r"
  shows "distinct (run_granted r) \<and>
     (\<forall>old \<in> set (run_granted r). V (run_db r) (session_key old) = None)"
  using auth_reach_inv[OF assms] by (simp add: auth_inv_def)

end
