(* ===== verification/MemRedis.thy ===== *)
theory MemRedis
  imports Redis "HOL-Library.AList"
begin

text \<open>
  A server that keeps its entries in an association list in memory, on which the witnesses run
  the mediator: it carries out the commands the mediator sends and refuses all others, never fails
  otherwise, and drops a transaction that it cannot carry out. It keeps the laws of a server.
\<close>

datatype mem_entry =
    MStr string
  | MHash "(string \<times> string) list"
  | MSet "string list"
  | MList "string list"
  | MStream stream_id "(stream_id \<times> (string \<times> string) list) list"

primrec entry_of :: "mem_entry \<Rightarrow> entry" where
  "entry_of (MStr s) = EStr s"
| "entry_of (MHash h) = EHash (map_of h)"
| "entry_of (MSet s) = ESet (set s)"
| "entry_of (MList l) = EList l"
| "entry_of (MStream l es) = EStream l es"

type_synonym mem_db = "(string \<times> mem_entry) list"

definition mem_view :: "mem_db \<Rightarrow> keyspace" where
  "mem_view db = (\<lambda>k. map_option entry_of (map_of db k))"

definition mem_hash :: "mem_db \<Rightarrow> string \<Rightarrow> (string \<times> string) list option" where
  "mem_hash db k = (case map_of db k of None \<Rightarrow> Some [] | Some (MHash h) \<Rightarrow> Some h | _ \<Rightarrow> None)"

definition mem_stream ::
  "mem_db \<Rightarrow> string \<Rightarrow> (stream_id \<times> (stream_id \<times> (string \<times> string) list) list) option" where
  "mem_stream db k = (case map_of db k of
     None \<Rightarrow> Some (StreamId 0 0, []) | Some (MStream l es) \<Rightarrow> Some (l, es) | _ \<Rightarrow> None)"

definition mem_list :: "mem_db \<Rightarrow> string \<Rightarrow> string list option" where
  "mem_list db k = (case map_of db k of None \<Rightarrow> Some [] | Some (MList l) \<Rightarrow> Some l | _ \<Rightarrow> None)"

definition mem_set :: "mem_db \<Rightarrow> string \<Rightarrow> string list option" where
  "mem_set db k = (case map_of db k of None \<Rightarrow> Some [] | Some (MSet l) \<Rightarrow> Some l | _ \<Rightarrow> None)"

definition mem_put_set :: "string \<Rightarrow> string list \<Rightarrow> mem_db \<Rightarrow> mem_db" where
  "mem_put_set k s db = (if s = [] then AList.delete k db else AList.update k (MSet s) db)"

definition read_int :: "string \<Rightarrow> int option" where
  "read_int s = (case s of
     c # cs \<Rightarrow> if c = CHR ''-'' then map_option (\<lambda>n. - int n) (parse_digits 0 cs)
               else map_option int (parse_digits 0 s)
   | [] \<Rightarrow> None)"

definition mem_set_fields :: "(string \<times> string) list \<Rightarrow> (string \<times> string) list \<Rightarrow> (string \<times> string) list" where
  "mem_set_fields fvs h = fold (\<lambda>(f, v) h. AList.update f v h) fvs h"

definition mem_hash_command :: "string \<Rightarrow> string \<Rightarrow> string list \<Rightarrow> mem_db \<Rightarrow> (reply \<times> mem_db) option" where
  "mem_hash_command cmd k args db =
     (case mem_hash db k of
        None \<Rightarrow> None
      | Some h \<Rightarrow>
          if cmd = ''HSET'' then Some (RInt 0, AList.update k (MHash (mem_set_fields (pairs_of args) h)) db)
          else if cmd = ''HMSET''
          then Some (RStatus ''OK'', AList.update k (MHash (mem_set_fields (pairs_of args) h)) db)
          else if cmd = ''HGETALL'' \<and> args = [] then Some (hash_reply (AList.clearjunk h), db)
          else if cmd = ''HMGET'' then Some (RArray (map (\<lambda>f. bulk_opt (map_of h f)) args), db)
          else case args of
            [f] \<Rightarrow>
              if cmd = ''HGET'' then Some (bulk_opt (map_of h f), db)
              else if cmd = ''HEXISTS'' then Some (RInt (if map_of h f = None then 0 else 1), db)
              else if cmd = ''HDEL''
              then let h' = AList.delete f h in
                   Some (RInt 0, if h' = [] then AList.delete k db else AList.update k (MHash h') db)
              else None
          | [f, n] \<Rightarrow>
              if cmd = ''HINCRBY''
              then (case (case map_of h f of None \<Rightarrow> Some 0 | Some s \<Rightarrow>
                            (case read_int s of Some i \<Rightarrow> if show_int i = s then Some i else None
                                              | None \<Rightarrow> None), read_int n) of
                      (Some i, Some d) \<Rightarrow>
                        Some (RInt (i + d), AList.update k (MHash (AList.update f (show_int (i + d)) h)) db)
                    | _ \<Rightarrow> None)
              else None
          | _ \<Rightarrow> None)"

definition mem_stream_command :: "string \<Rightarrow> string \<Rightarrow> string list \<Rightarrow> mem_db \<Rightarrow> (reply \<times> mem_db) option" where
  "mem_stream_command cmd k args db =
     (case mem_stream db k of
        None \<Rightarrow> None
      | Some (l, es) \<Rightarrow>
          if cmd = ''XADD''
          then (case args of
                  i # fvs \<Rightarrow>
                    (case parse_digits 0 (takeWhile (\<lambda>c. c \<noteq> CHR ''-'') i) of
                       Some ms \<Rightarrow>
                         (case next_id ms l of
                            Some j \<Rightarrow> Some (RBulk (show_id j),
                                        AList.update k (MStream j (es @ [(j, pairs_of fvs)])) db)
                          | None \<Rightarrow> None)
                     | None \<Rightarrow> None)
                | [] \<Rightarrow> None)
          else if cmd = ''XDEL''
          then (case args of
                  [i] \<Rightarrow> Some (RInt 0, if map_of db k = None then db
                           else AList.update k (MStream l (filter (\<lambda>e. show_id (fst e) \<noteq> i) es)) db)
                | _ \<Rightarrow> None)
          else if cmd = ''XRANGE''
          then (case args of
                  [s, e, c, n] \<Rightarrow>
                    (case (range_start s, parse_digits 0 n) of
                       (Some p, Some m) \<Rightarrow>
                         Some (RArray (map entry_reply (take m (filter (\<lambda>e. p (fst e)) es))), db)
                     | _ \<Rightarrow> None)
                | _ \<Rightarrow> None)
          else None)"

definition mem_set_command :: "string \<Rightarrow> string \<Rightarrow> string list \<Rightarrow> mem_db \<Rightarrow> (reply \<times> mem_db) option" where
  "mem_set_command cmd k args db =
     (case mem_set db k of
        None \<Rightarrow> None
      | Some s \<Rightarrow>
          if cmd = ''SADD''
          then (case args of [x] \<Rightarrow> Some (RInt 0, AList.update k (MSet (x # s)) db) | _ \<Rightarrow> None)
          else if cmd = ''SREM''
          then (case args of [x] \<Rightarrow> Some (RInt 0, mem_put_set k (removeAll x s) db) | _ \<Rightarrow> None)
          else if cmd = ''SPOP''
          then (case s of
                  [] \<Rightarrow> if map_of db k = None then Some (RSet [], db) else None
                | x # _ \<Rightarrow> Some (RSet [RBulk x], mem_put_set k (removeAll x s) db))
          else None)"

definition mem_key_command :: "string \<Rightarrow> string \<Rightarrow> string list \<Rightarrow> mem_db \<Rightarrow> (reply \<times> mem_db) option" where
  "mem_key_command cmd k args db =
     (if cmd = ''RENAME''
      then (case (args, map_of db k) of
              ([b], Some e) \<Rightarrow> Some (RStatus ''OK'', AList.update b e (AList.delete k db)) | _ \<Rightarrow> None)
      else if cmd = ''EXPIRE'' then Some (RInt 1, db)
      else if cmd = ''SET''
      then (case args of [v] \<Rightarrow> Some (RStatus ''OK'', AList.update k (MStr v) db) | _ \<Rightarrow> None)
      else if cmd = ''GET''
      then (case map_of db k of
              None \<Rightarrow> Some (RNil, db) | Some (MStr v) \<Rightarrow> Some (RBulk v, db) | _ \<Rightarrow> None)
      else if cmd = ''DEL'' then Some (RInt 0, AList.delete k db)
      else if cmd = ''RPUSH''
      then (case (args, mem_list db k) of
              ([v], Some l) \<Rightarrow> Some (RInt (int (length l) + 1), AList.update k (MList (l @ [v])) db)
            | _ \<Rightarrow> None)
      else if cmd = ''PUBLISH'' then Some (RInt 0, db)
      else None)"

definition mem_xinfo :: "string list \<Rightarrow> mem_db \<Rightarrow> (reply \<times> mem_db) option" where
  "mem_xinfo args db =
     (case args of
        [w, k] \<Rightarrow>
          (case map_of db k of
             Some (MStream l es) \<Rightarrow>
               Some (RMap [(RBulk ''length'', RInt (int (length es))),
                 (RBulk ''first-entry'', if es = [] then RNil else entry_reply (hd es)),
                 (RBulk ''last-entry'', if es = [] then RNil else entry_reply (last es))], db)
           | _ \<Rightarrow> None)
      | _ \<Rightarrow> None)"

text \<open>The clock of the server stands at one second.\<close>

definition mem_step :: "string list \<Rightarrow> mem_db \<Rightarrow> (reply \<times> mem_db) option" where
  "mem_step c db =
     (case c of
        [] \<Rightarrow> None
      | cmd # args \<Rightarrow>
          if cmd = ''TIME'' then Some (RArray [RBulk (show_nat 1), RBulk (show_nat 0)], db)
          else if cmd = ''XINFO'' then mem_xinfo args db
          else case args of
            [] \<Rightarrow> None
          | k # args \<Rightarrow>
              if cmd \<in> {''HSET'', ''HMSET'', ''HGETALL'', ''HMGET'', ''HGET'', ''HEXISTS'', ''HDEL'', ''HINCRBY''}
              then mem_hash_command cmd k args db
              else if cmd \<in> {''XADD'', ''XDEL'', ''XRANGE''} then mem_stream_command cmd k args db
              else if cmd \<in> {''SADD'', ''SREM'', ''SPOP''} then mem_set_command cmd k args db
              else mem_key_command cmd k args db)"

subsection \<open>The laws\<close>

lemma mem_view_update [simp]: "mem_view (AList.update k e db) = (mem_view db)(k \<mapsto> entry_of e)"
  by (auto simp: mem_view_def AList.update_conv' fun_eq_iff)

lemma mem_view_delete [simp]: "mem_view (AList.delete k db) = (mem_view db)(k := None)"
  by (auto simp: mem_view_def AList.delete_conv' fun_eq_iff)

lemma mem_hash_as [simp]: "mem_hash db k = Some h \<Longrightarrow> as_hash (mem_view db) k = Some (map_of h)"
  by (auto simp: mem_hash_def as_hash_def mem_view_def split: option.splits mem_entry.splits)

lemma mem_stream_as [simp]: "mem_stream db k = Some x \<Longrightarrow> as_stream (mem_view db) k = Some x"
  by (auto simp: mem_stream_def as_stream_def mem_view_def split: option.splits mem_entry.splits)

lemma mem_list_as [simp]: "mem_list db k = Some x \<Longrightarrow> as_list (mem_view db) k = Some x"
  by (auto simp: mem_list_def as_list_def mem_view_def split: option.splits mem_entry.splits)

lemma mem_set_as [simp]: "mem_set db k = Some x \<Longrightarrow> as_set (mem_view db) k = Some (set x)"
  by (auto simp: mem_set_def as_set_def mem_view_def split: option.splits mem_entry.splits)

lemma mem_put_set_view: "mem_view (mem_put_set k s db) = put_set k (set s) (mem_view db)"
  by (auto simp: mem_put_set_def put_set_def)

lemma map_of_mem_set_fields [simp]: "map_of (mem_set_fields fvs h) = set_fields fvs (map_of h)"
  by (induction fvs arbitrary: h) (auto simp: mem_set_fields_def set_fields_def AList.update_conv')

lemma map_of_alist_update [simp]: "map_of (AList.update k v al) = (map_of al)(k \<mapsto> v)"
  by (simp add: AList.update_conv')

lemma map_of_alist_delete [simp]: "map_of (AList.delete k al) = (map_of al)(k := None)"
  by (simp add: AList.delete_conv')

lemma read_int_show [simp]: "read_int (show_int d) = Some d"
proof (cases "d < 0")
  case True
  then show ?thesis by (simp add: read_int_def show_int_def parse_digits_show)
next
  case False
  obtain c cs where s: "show_nat (nat d) = c # cs" by (cases "show_nat (nat d)") auto
  have "c \<noteq> CHR ''-''" using show_nat_no_dash[of "nat d"] s by auto
  with False s parse_digits_show[of "nat d"] show ?thesis
    by (simp add: read_int_def show_int_def)
qed

lemma mem_hash_command_ok:
  assumes "mem_hash_command cmd k args db = Some (rep, db')"
    and "cmd = ''HINCRBY'' \<Longrightarrow> \<exists>f d. args = [f, show_int d]"
  shows "redis_command (cmd # k # args) (mem_view db) rep (mem_view db')"
proof -
  from assms(1) obtain h where h: "mem_hash db k = Some h"
    by (auto simp: mem_hash_command_def split: option.splits)
  have all: "redis_command [''HGETALL'', k] (mem_view db) (hash_reply (AList.clearjunk h)) (mem_view db)"
    by (rule hgetall[OF mem_hash_as[OF h]]) (simp_all add: map_of_clearjunk distinct_clearjunk)
  have incr: "redis_command [''HINCRBY'', k, f, show_int d] (mem_view db) (RInt (i + d))
      (mem_view (AList.update k (MHash (AList.update f (show_int (i + d)) h)) db))"
    if "map_of h f = Some (show_int i) \<or> (map_of h f = None \<and> i = 0)" for f d i
    using hincrby[OF mem_hash_as[OF h] that] by simp
  have del: "redis_command [''HDEL'', k, f] (mem_view db) (RInt 0)
      (mem_view (if AList.delete f h = [] then AList.delete k db
                 else AList.update k (MHash (AList.delete f h)) db))" for f
  proof -
    have "(map_of h)(f := None) = Map.empty \<longleftrightarrow> AList.delete f h = []"
      by (metis map_of_alist_delete map_of_eq_empty_iff)
    then show ?thesis using hdel[OF mem_hash_as[OF h], of f 0]
      by (cases "AList.delete f h = []") (auto simp: put_hash_def)
  qed
  consider "cmd = ''HSET''" | "cmd = ''HMSET''" | "cmd = ''HGETALL'' \<and> args = []" | "cmd = ''HMGET''"
    | f where "args = [f]" "cmd \<in> {''HGET'', ''HEXISTS'', ''HDEL''}"
    | f n where "args = [f, n]" "cmd = ''HINCRBY''"
    using assms(1) h
    by (auto simp: mem_hash_command_def split: if_split_asm list.split_asm)
  then show ?thesis
  proof cases
    case 1
    with assms(1) h show ?thesis
      by (auto simp: mem_hash_command_def intro!: hset)
  next
    case 2
    with assms(1) h show ?thesis
      by (auto simp: mem_hash_command_def intro!: hmset)
  next
    case 3
    with assms(1) h all show ?thesis by (auto simp: mem_hash_command_def)
  next
    case 4
    with assms(1) h show ?thesis by (auto simp: mem_hash_command_def intro!: hmget)
  next
    case 5
    with assms(1) h del show ?thesis
      using hget[OF mem_hash_as[OF h]] hexists[OF mem_hash_as[OF h]]
      by (auto simp: mem_hash_command_def Let_def)
  next
    case 6
    with assms obtain d where d: "n = show_int d" by auto
    from 6 assms(1) h d show ?thesis
      by (auto simp: mem_hash_command_def split: option.splits if_splits
               intro!: incr incr[where i = 0, simplified])
  qed
qed

lemma takeWhile_show [simp]: "takeWhile (\<lambda>c. c \<noteq> CHR ''-'') (show_nat n @ CHR ''-'' # s) = show_nat n"
  using show_nat_no_dash[of n] by (auto simp: takeWhile_append)

lemma show_id_eq_iff [simp]: "show_id i = show_id j \<longleftrightarrow> i = j"
  using show_id_inject by blast

lemma mem_xadd_ok:
  assumes "mem_stream_command ''XADD'' k ((show_nat ms @ ''-*'') # fvs) db = Some (rep, db')"
  shows "redis_command (''XADD'' # k # (show_nat ms @ ''-*'') # fvs) (mem_view db) rep (mem_view db')"
proof -
  from assms obtain l es i where s: "mem_stream db k = Some (l, es)" "next_id ms l = Some i"
      "rep = RBulk (show_id i)" "db' = AList.update k (MStream i (es @ [(i, pairs_of fvs)])) db"
    by (auto simp: mem_stream_command_def parse_digits_show split: option.splits)
  from xadd[OF mem_stream_as[OF s(1)] s(2), of fvs] s(3,4) show ?thesis by simp
qed

lemma mem_xdel_ok:
  assumes "mem_stream_command ''XDEL'' k [show_id i] db = Some (rep, db')"
  shows "redis_command [''XDEL'', k, show_id i] (mem_view db) rep (mem_view db')"
proof -
  from assms obtain l es where s: "mem_stream db k = Some (l, es)"
    by (auto simp: mem_stream_command_def split: option.splits)
  show ?thesis
  proof (cases "map_of db k")
    case None
    with assms s show ?thesis
      by (auto simp: mem_stream_command_def mem_view_def intro!: xdel_none)
  next
    case (Some e)
    then have "mem_view db k = Some (EStream l es)"
      using s by (auto simp: mem_stream_def mem_view_def split: mem_entry.splits)
    with assms s Some show ?thesis by (auto simp: mem_stream_command_def intro!: xdel)
  qed
qed

lemma mem_xrange_ok:
  assumes "mem_stream_command ''XRANGE'' k [s, ''+'', ''COUNT'', show_nat n] db = Some (rep, db')"
  shows "redis_command [''XRANGE'', k, s, ''+'', ''COUNT'', show_nat n] (mem_view db) rep (mem_view db')"
  using assms
  by (auto simp: mem_stream_command_def parse_digits_show split: option.splits intro!: xrange)

lemma mem_sadd_ok:
  "mem_set_command ''SADD'' k [x] db = Some (rep, db') \<Longrightarrow>
     redis_command [''SADD'', k, x] (mem_view db) rep (mem_view db')"
  by (auto simp: mem_set_command_def split: option.splits intro!: sadd dest!: mem_set_as)

lemma mem_srem_ok:
  assumes "mem_set_command ''SREM'' k [x] db = Some (rep, db')"
  shows "redis_command [''SREM'', k, x] (mem_view db) rep (mem_view db')"
proof -
  from assms obtain s where s: "mem_set db k = Some s" "rep = RInt 0"
      "db' = mem_put_set k (removeAll x s) db"
    by (auto simp: mem_set_command_def split: option.splits)
  from srem[OF mem_set_as[OF s(1)], of x 0] s(2,3) show ?thesis by (simp add: mem_put_set_view)
qed

lemma mem_spop_ok:
  assumes "mem_set_command ''SPOP'' k [''1''] db = Some (rep, db')"
  shows "redis_command [''SPOP'', k, ''1''] (mem_view db) rep (mem_view db')"
proof -
  from assms obtain s where s: "mem_set db k = Some s"
    by (auto simp: mem_set_command_def split: option.splits)
  show ?thesis
  proof (cases s)
    case Nil
    with assms s show ?thesis
      by (auto simp: mem_set_command_def mem_view_def split: if_splits intro!: spop_none)
  next
    case (Cons x xs)
    from spop[OF mem_set_as[OF s], of x] assms s Cons show ?thesis
      by (auto simp: mem_set_command_def mem_put_set_view)
  qed
qed

lemma mem_key_command_ok:
  assumes "mem_key_command cmd k args db = Some (rep, db')"
    and "cmd = ''EXPIRE'' \<Longrightarrow> \<exists>n. args = [show_nat n]"
    and "cmd \<in> {''GET'', ''DEL''} \<Longrightarrow> args = []" and "cmd = ''PUBLISH'' \<Longrightarrow> \<exists>m. args = [m]"
  shows "redis_command (cmd # k # args) (mem_view db) rep (mem_view db')"
proof -
  consider "cmd = ''RENAME''" | n where "cmd = ''EXPIRE''" "args = [show_nat n]" | "cmd = ''SET''"
    | "cmd = ''GET''" "args = []" | "cmd = ''DEL''" "args = []" | "cmd = ''RPUSH''"
    | m where "cmd = ''PUBLISH''" "args = [m]"
    using assms by (auto simp: mem_key_command_def split: if_split_asm)
  then show ?thesis
  proof cases
    case 1
    with assms(1) obtain b e where e: "args = [b]" "map_of db k = Some e" "rep = RStatus ''OK''"
        "db' = AList.update b e (AList.delete k db)"
      by (auto simp: mem_key_command_def split: list.splits option.splits)
    have "mem_view db k = Some (entry_of e)" using e(2) by (simp add: mem_view_def)
    from rename[where ks = "mem_view db" and b = b, OF this] e 1 show ?thesis by simp
  next
    case 2
    with assms(1) show ?thesis by (auto simp: mem_key_command_def intro!: expire)
  next
    case 3
    with assms(1) show ?thesis by (auto simp: mem_key_command_def split: list.splits intro!: set)
  next
    case 4
    with assms(1) show ?thesis
      by (auto simp: mem_key_command_def mem_view_def split: option.splits mem_entry.splits
               intro!: get get_none)
  next
    case 5
    with assms(1) show ?thesis by (auto simp: mem_key_command_def intro!: del)
  next
    case 6
    with assms(1) show ?thesis
      by (auto simp: mem_key_command_def split: list.splits option.splits intro!: rpush)
  next
    case 7
    with assms(1) show ?thesis by (auto simp: mem_key_command_def intro!: publish)
  qed
qed

lemma mem_step_ok:
  assumes "sent c" and "mem_step c db = Some (rep, db')"
  shows "redis_command c (mem_view db) rep (mem_view db')"
  using assms(1)
proof cases
  case (1 fvs cmd k)
  with assms(2) show ?thesis by (auto simp: mem_step_def intro!: mem_hash_command_ok)
next
  case (2 cmd k x)
  with assms(2) show ?thesis
    by (auto simp: mem_step_def intro: mem_hash_command_ok mem_key_command_ok mem_sadd_ok mem_srem_ok)
next
  case (3 cmd k)
  with assms(2) show ?thesis
    by (auto simp: mem_step_def intro: mem_hash_command_ok mem_key_command_ok)
next
  case (4 fs k)
  with assms(2) show ?thesis by (auto simp: mem_step_def intro!: mem_hash_command_ok)
next
  case (5 k f d)
  with assms(2) show ?thesis by (auto simp: mem_step_def intro!: mem_hash_command_ok)
next
  case (6 s k)
  with assms(2) show ?thesis by (auto simp: mem_step_def intro!: mem_key_command_ok)
next
  case (7 fvs k ms)
  with assms(2) show ?thesis by (auto simp: mem_step_def intro!: mem_xadd_ok)
next
  case (8 k i)
  with assms(2) show ?thesis by (auto simp: mem_step_def intro!: mem_xdel_ok)
next
  case (9 s n k)
  with assms(2) show ?thesis by (auto simp: mem_step_def intro!: mem_xrange_ok)
next
  case (10 k)
  with assms(2) show ?thesis by (auto simp: mem_step_def intro!: mem_spop_ok)
next
  case (11 k)
  with assms(2) show ?thesis
    by (auto simp: mem_step_def mem_xinfo_def mem_view_def intro!: xinfo
        split: option.splits mem_entry.splits)
next
  case 12
  with assms(2) show ?thesis by (auto simp: mem_step_def intro!: time)
qed

fun mem_run :: "string list list \<Rightarrow> mem_db \<Rightarrow> (reply list \<times> mem_db) option" where
  "mem_run [] db = Some ([], db)"
| "mem_run (c # cs) db =
     (case mem_step c db of
        None \<Rightarrow> None
      | Some (rep, db') \<Rightarrow>
          (case mem_run cs db' of None \<Rightarrow> None | Some (reps, db'') \<Rightarrow> Some (resp2 rep # reps, db'')))"

lemma mem_run_malformed: "list_ex malformed cs \<Longrightarrow> mem_run cs db = None"
proof (induction cs arbitrary: db)
  case (Cons c cs)
  show ?case
  proof (cases "malformed c")
    case True
    then obtain args where c: "c = ''HINCRBY'' # args" "length args \<noteq> 3"
      by (cases c) (auto simp: malformed_def)
    have "mem_hash_command ''HINCRBY'' k as db = None" if "length as \<noteq> 2" for k as
      using that by (auto simp: mem_hash_command_def split: option.split list.split)
    with c have "mem_step c db = None"
      by (cases args) (simp_all add: mem_step_def)
    then show ?thesis by simp
  next
    case False
    with Cons show ?thesis by (auto split: option.splits)
  qed
qed simp

lemma mem_run_ok:
  "list_all sent cs \<Longrightarrow> mem_run cs db = Some (reps, db') \<Longrightarrow> run_all cs (mem_view db) reps (mem_view db')"
  by (induction cs arbitrary: db reps)
     (auto intro!: run_all_Nil run_all_Cons[OF mem_step_ok] split: option.splits)

fun bulk_text :: "reply \<Rightarrow> string" where
  "bulk_text (RBulk s) = s"
| "bulk_text (RStatus s) = s"
| "bulk_text (RInt i) = show_int i"
| "bulk_text _ = []"

definition reply_texts :: "reply \<Rightarrow> string + string list" where
  "reply_texts r = (case r of RArray rs \<Rightarrow> Inr (map bulk_text rs) | _ \<Rightarrow> Inl ''not an array'')"

definition reply_nat :: "reply \<Rightarrow> string + nat" where
  "reply_nat r = (case r of RInt i \<Rightarrow> Inr (nat i) | _ \<Rightarrow> Inl ''not a number'')"

definition mem_redis :: "mem_db redis" where
  "mem_redis =
     \<lparr>pool_get = (\<lambda>db. Inr ()),
      r_cmd = (\<lambda>c db. case mem_step c db of
        None \<Rightarrow> (Inl ''refused'', db) | Some (rep, db') \<Rightarrow> (Inr (resp2 rep), db')),
      r_exec = (\<lambda>cs db. case mem_run cs db of
        None \<Rightarrow> (Inl ''refused'', db) | Some (reps, db') \<Rightarrow> (Inr reps, db')),
      r_call = (\<lambda>c db. case mem_step c db of
        None \<Rightarrow> (Inl ''refused'', db) | Some (rep, db') \<Rightarrow> (Inr rep, db')),
      fcall_error = (\<lambda>e. e),
      debug_reply = (\<lambda>_. []),
      rv_unit = (\<lambda>r. Inr ()),
      rv_string = (\<lambda>r. Inr (bulk_text r)),
      rv_opt_string = (\<lambda>r. case r of RNil \<Rightarrow> Inr None | _ \<Rightarrow> Inr (Some (bulk_text r))),
      rv_strings = reply_texts,
      rv_hash = (\<lambda>r. case reply_texts r of Inl e \<Rightarrow> Inl e | Inr ss \<Rightarrow> Inr (map_of (pairs_of ss))),
      rv_values = (\<lambda>r. case r of RArray rs \<Rightarrow> Inr rs | _ \<Rightarrow> Inl ''not an array''),
      rv_bool = (\<lambda>r. Inr (r = RInt 1)),
      rv_u32 = reply_nat,
      rv_u64 = reply_nat,
      rv_i64 = (\<lambda>r. case r of RInt i \<Rightarrow> Inr i | _ \<Rightarrow> Inl ''not a number'')\<rparr>"

lemma mem_redis_laws: "redis_laws mem_redis mem_view"
  unfolding redis_laws_def mem_redis_def
  by (auto intro: mem_step_ok mem_run_ok simp: mem_run_malformed split: option.splits)

lemma mem_conversion_laws: "conversion_laws mem_redis"
proof -
  have "map (bulk_text \<circ> RBulk) ss = ss" for ss by (simp add: comp_def)
  then show ?thesis
    by (simp add: conversion_laws_def mem_redis_def reply_texts_def reply_nat_def)
qed

subsection \<open>Running it\<close>

text \<open>The commands one by one, for running the mediator on a database that is given.\<close>

lemma mem_steps:
  "mem_step (''HSET'' # k # fvs) db = map_option (\<lambda>h.
     (RInt 0, AList.update k (MHash (mem_set_fields (pairs_of fvs) h)) db)) (mem_hash db k)"
  "mem_step (''HMSET'' # k # fvs) db = map_option (\<lambda>h.
     (RStatus ''OK'', AList.update k (MHash (mem_set_fields (pairs_of fvs) h)) db)) (mem_hash db k)"
  "mem_step [''HGETALL'', k] db = map_option (\<lambda>h. (hash_reply (AList.clearjunk h), db)) (mem_hash db k)"
  "mem_step [''HGET'', k, f] db = map_option (\<lambda>h. (bulk_opt (map_of h f), db)) (mem_hash db k)"
  "mem_step (''HMGET'' # k # fs) db =
     map_option (\<lambda>h. (RArray (map (\<lambda>f. bulk_opt (map_of h f)) fs), db)) (mem_hash db k)"
  "mem_step [''HEXISTS'', k, f] db =
     map_option (\<lambda>h. (RInt (if map_of h f = None then 0 else 1), db)) (mem_hash db k)"
  "mem_step [''HDEL'', k, f] db = map_option (\<lambda>h.
     (RInt 0, if AList.delete f h = [] then AList.delete k db
              else AList.update k (MHash (AList.delete f h)) db)) (mem_hash db k)"
  "mem_step [''RENAME'', k, b] db =
     map_option (\<lambda>e. (RStatus ''OK'', AList.update b e (AList.delete k db))) (map_of db k)"
  "mem_step [''EXPIRE'', k, n] db = Some (RInt 1, db)"
  "mem_step [''SET'', k, v] db = Some (RStatus ''OK'', AList.update k (MStr v) db)"
  "mem_step [''DEL'', k] db = Some (RInt 0, AList.delete k db)"
  "mem_step [''TIME''] db = Some (RArray [RBulk (show_nat 1), RBulk (show_nat 0)], db)"
  by (auto simp: mem_step_def mem_hash_command_def mem_key_command_def Let_def split: option.splits)

text \<open>A number that is added to: the counter is absent or a decimal number.\<close>

lemma mem_incr:
  assumes "mem_hash db k = Some h"
  shows "map_of h f = None \<Longrightarrow> mem_step [''HINCRBY'', k, f, show_int d] db =
      Some (RInt d, AList.update k (MHash (AList.update f (show_int d) h)) db)"
    and "map_of h f = Some (show_int i) \<Longrightarrow> mem_step [''HINCRBY'', k, f, show_int d] db =
      Some (RInt (i + d), AList.update k (MHash (AList.update f (show_int (i + d)) h)) db)"
  using assms by (auto simp: mem_step_def mem_hash_command_def)

lemma mem_incr_one:
  "mem_hash db k = Some h \<Longrightarrow> map_of h f = None \<Longrightarrow> mem_step [''HINCRBY'', k, f, ''1''] db =
     Some (RInt 1, AList.update k (MHash (AList.update f ''1'' h)) db)"
  using mem_incr(1)[of db k h f 1] by (simp add: show_int_def show_nat.simps)

lemma mem_commit:
  "commit mem_redis err cs db =
     (case mem_run cs db of None \<Rightarrow> (Err (err ''refused''), db) | Some (reps, db') \<Rightarrow> (Ok (), db'))"
  by (simp add: commit_def get_async_connection_def transaction_def mem_redis_def eff_then_def
      split: option.splits prod.splits)

lemma mem_query:
  "query mem_redis conv err c db =
     (case mem_step c db of None \<Rightarrow> (Err (err ''refused''), db)
      | Some (rep, db') \<Rightarrow> (map_err err (of_sum (conv (resp2 rep))), db'))"
  by (simp add: query_def mem_redis_def split: option.splits prod.splits)

lemma mem_call:
  "call mem_redis c db =
     (case mem_step c db of None \<Rightarrow> (Err ''refused'', db) | Some (rep, db') \<Rightarrow> (Ok rep, db'))"
  by (simp add: call_def mem_redis_def split: option.splits prod.splits)

lemma mem_connection [simp]: "get_async_connection mem_redis db = (Ok (), db)"
  by (simp add: get_async_connection_def mem_redis_def)

lemma mem_conversions [simp]:
  "rv_unit mem_redis rep = Inr ()" "rv_string mem_redis rep = Inr (bulk_text rep)"
  "rv_strings mem_redis = reply_texts"
  "rv_hash mem_redis (RArray rs) = Inr (map_of (pairs_of (map bulk_text rs)))"
  by (simp_all add: mem_redis_def reply_texts_def)

lemmas mem_eval =
  mem_steps mem_incr_one mem_hash_def mem_set_fields_def mem_commit mem_query mem_call eff_then_app
  resp2_hash_reply

end
