(* ===== verification/SampleMediator.thy ===== *)
theory SampleMediator
  imports Sample AuthRace MemRedis
begin

text \<open>
  A mediator for the instances of its theorems: Carol's keys, the library of \<open>Sample\<close> with tokens
  and texts for the functions the mediator adds, and the server in memory.
\<close>

subsection \<open>The mediator of the samples\<close>

definition write_claims :: "bytes \<Rightarrow> session_claims \<Rightarrow> string" where
  "write_claims key c = Sample.fields [key, sc_aud c, sc_sub c, sc_session_id c, show_nat (unat (sc_exp c))]"

definition read_claims :: "bytes \<Rightarrow> u64 \<Rightarrow> string \<Rightarrow> string + session_claims" where
  "read_claims key now t =
     (case unfields t of
        [k, aud, sub, sid, e] \<Rightarrow>
          (case parse_digits 0 e of
             Some n \<Rightarrow>
               if k = key \<and> aud = ''ATM'' \<and> now \<le> word_of_nat n
               then Inr \<lparr>sc_aud = aud, sc_sub = sub, sc_session_id = sid, sc_exp = word_of_nat n\<rparr>
               else Inl ''no token''
           | None \<Rightarrow> Inl ''no token'')
      | _ \<Rightarrow> Inl ''no token'')"

definition jwe_of_inbound :: "inbound_message \<Rightarrow> jwe" where
  "jwe_of_inbound b =
     \<lparr>jwe_protected = im_protected b, jwe_recipients = im_recipients b, jwe_iv = im_iv b,
      jwe_ciphertext = im_ciphertext b, jwe_tag = im_tag b\<rparr>"

definition inbound_of_jwe :: "jwe \<Rightarrow> inbound_message" where
  "inbound_of_jwe j =
     \<lparr>im_protected = jwe_protected j, im_recipients = jwe_recipients j, im_iv = jwe_iv j,
      im_ciphertext = jwe_ciphertext j, im_tag = jwe_tag j\<rparr>"

definition write_inbound :: "inbound_message \<Rightarrow> string + string" where
  "write_inbound b = (case write_jwe (jwe_of_inbound b) of Inr s \<Rightarrow> Inr s | Inl _ \<Rightarrow> Inl ''no text'')"

definition write_pubsub :: "pubsub_record \<Rightarrow> string + string" where
  "write_pubsub r = Inr (Sample.fields [ps_did_hash r, ps_message r, if ps_force_delivery r then ''T'' else ''F''])"

definition read_pubsub :: "string \<Rightarrow> string + pubsub_record" where
  "read_pubsub s =
     (case unfields s of
        [d, m, f] \<Rightarrow> Inr \<lparr>ps_did_hash = d, ps_message = m, ps_force_delivery = f = ''T''\<rparr>
      | _ \<Rightarrow> Inl ''no record'')"

definition sample_part :: "unit med_ext_ext" where
  "sample_part =
     \<lparr>digest = hex, jwt_encode = (\<lambda>key c. Inr (write_claims key c)), jwt_decode = read_claims,
      ser_inbound = write_inbound, ser_pubsub = write_pubsub, de_pubsub = read_pubsub,
      value_error = (\<lambda>_ _. ''another value''), debug_message = m_id, regex_is_match = (\<lambda>_ _. True)\<rparr>"

definition sample_med :: "message list \<Rightarrow> (sample_key, string, string) med_ext" where
  "sample_med tbl = sample_with tbl sample_part"

lemma sample_med_sel [simp]:
  "digest (sample_med tbl) = hex" "jwt_encode (sample_med tbl) = (\<lambda>key c. Inr (write_claims key c))"
  "jwt_decode (sample_med tbl) = read_claims" "ser_inbound (sample_med tbl) = write_inbound"
  "ser_pubsub (sample_med tbl) = write_pubsub" "de_pubsub (sample_med tbl) = read_pubsub"
  by (simp_all add: sample_med_def sample_part_def sample_with_def)

definition sample_shared :: "mem_db shared" where
  "sample_shared =
     \<lparr>sh_mediator_did = carol, sh_mediator_secrets = party_wallet carol,
      sh_crypto_operations_limit = 1000, sh_to_recipients_limit = 100, sh_to_keys_limit = 100,
      sh_max_listed_messages = 100, sh_max_deleted_messages = 100, sh_ws_size_limit = 1000,
      sh_jwt_encoding_key = Some ''key'', sh_jwt_decoding_key = Some ''key'',
      sh_has_streaming_task = True, sh_database = mem_redis\<rparr>"

lemma sample_shared_sel [simp]:
  "sh_mediator_did sample_shared = carol" "sh_mediator_secrets sample_shared = party_wallet carol"
  "sh_jwt_encoding_key sample_shared = Some ''key''"
  "sh_jwt_decoding_key sample_shared = Some ''key''" "sh_database sample_shared = mem_redis"
  by (simp_all add: sample_shared_def)

lemma sample_med_crypto: "crypto_laws (sample_med tbl) public_half sample_draws"
  by (simp add: sample_med_def sample_crypto)

lemma sample_med_reads: "message_reads (sample_med tbl) m"
  by (simp add: sample_med_def sample_message_reads)

lemma sample_jwt: "jwt_laws (sample_med tbl) k k"
  by (auto simp: jwt_laws_def write_claims_def read_claims_def parse_digits_show)

subsection \<open>Texts nobody signs\<close>

lemma sample_table_text: "m \<in> set tbl \<Longrightarrow> try_parse_forward m = None \<Longrightarrow> \<exists>s. write_message tbl m = Inr s"
  by (simp add: write_message_def)

lemma sample_anon_jwe:
  assumes "to \<in> {alice, bob, carol}"
  shows "\<exists>s j. anoncrypt (sample_with tbl z) (sample_draws 0) to body AnonXc20pEcdhEsA256kw 100 =
     Ok (s, [to @ ''#e'']) \<and> read_jwe s = Inr j"
proof -
  obtain s where s: "encrypt_anon (sample_with tbl z) (sample_draws 0) X25519 AnonXc20pEcdhEsA256kw body
      [(to @ ''#e'', (False, to @ ''#e''))] = Ok s"
    using sample_encrypt_anon[where tbl = tbl and z = z] by blast
  have p: "did_or_url to = (to, None)" "is_did to" using assms by auto
  have "anoncrypt (sample_with tbl z) (sample_draws 0) to body AnonXc20pEcdhEsA256kw 100 = Ok (s, [to @ ''#e''])"
    by (simp add: anoncrypt_def p find_vms_def vms_of_alg_def context_msg_def s)
  moreover from s obtain j where "ser_jwe (sample_with tbl z) j = Inr s"
    by (auto simp: encrypt_anon_def elim!: encrypt_OkE split: prod.splits)
  ultimately show ?thesis using read_write_jwe by (auto simp: sample_with_def)
qed

lemma sample_pack_anon:
  assumes "to \<in> {alice, bob, carol}" "m \<in> set tbl" "try_parse_forward m = None"
    and "m_to m = None" "m_from_prior m = None"
  shows "\<exists>s meta j. pack_encrypted (sample_med tbl) SR sample_draws m to None None (sample_options False) =
     Ok (s, meta) \<and> pm_messaging_service meta = None \<and> pm_to_kids meta = [to @ ''#e''] \<and> read_jwe s = Inr j"
proof -
  obtain body where b: "write_message tbl m = Inr body" using sample_table_text[OF assms(2,3)] by blast
  then have "pack_plaintext (sample_med tbl) m = Ok body" using assms(5)
    by (simp add: pack_plaintext_def validate_pack_plaintext_def sample_med_def sample_with_def with_kind_def)
  moreover obtain s j where "anoncrypt (sample_med tbl) (sample_draws 0) to body AnonXc20pEcdhEsA256kw 100 =
     Ok (s, [to @ ''#e''])" "read_jwe s = Inr j"
    using sample_anon_jwe[OF assms(1), where tbl = tbl and z = sample_part] unfolding sample_med_def by blast
  moreover have "is_did to" using assms(1) by auto
  ultimately show ?thesis using assms(4)
    by (simp add: pack_encrypted_def validate_pack_encrypted_def pack_inner_def context_msg_def pack_outer_def
          sample_options_def default_pack_options_def wrap_in_forward_if_needed_def)
qed

subsection \<open>Authentication\<close>

definition rng_a :: "nat \<Rightarrow> char" where
  "rng_a = (\<lambda>_. CHR ''a'')"

definition rng_b :: "nat \<Rightarrow> char" where
  "rng_b = (\<lambda>_. CHR ''b'')"

lemma sample_random [simp]:
  "create_random_string rng_a i n = replicate n CHR ''a''"
  "create_random_string rng_b i n = replicate n CHR ''b''"
  by (simp_all add: create_random_string_def rng_a_def rng_b_def map_replicate_const)

definition sid_a :: string where
  "sid_a = replicate 12 CHR ''a''"

definition sid_b :: string where
  "sid_b = replicate 12 CHR ''b''"

text \<open>The database after a challenge for Bob, and after the answer to it.\<close>

definition db_challenged :: mem_db where
  "db_challenged =
     [(session_key sid_a, MHash [(''challenge'', replicate 32 CHR ''a''),
        (''state'', ''ChallengeSent''), (''did'', bob)]),
      (''GLOBAL'', MHash [(''SESSIONS_CREATED'', ''1'')])]"

definition db_answered :: mem_db where
  "db_answered =
     [(''GLOBAL'', MHash [(''SESSIONS_CREATED'', ''1''), (''SESSIONS_SUCCESS'', ''1'')]),
      (session_key sid_b, MHash [(''challenge'', replicate 32 CHR ''a''),
        (''state'', ''Authenticated''), (''did'', bob)])]"

lemma sample_challenge:
  "create_session mem_redis (challenge_session rng_a bob) [] = (Ok (), db_challenged)"
  by (simp add: create_session_def Let_def challenge_session_def mem_eval db_challenged_def sid_a_def)

lemma sample_session:
  "get_session mem_redis sid_a db_challenged =
     (Ok (challenge_session rng_a bob), db_challenged)"
  by (simp add: get_session_def mem_eval db_challenged_def session_of_hash_def state_from_str_def
        challenge_session_def sid_a_def)

lemma sample_update:
  "update_session_authenticated mem_redis sid_a sid_b db_challenged = (Ok (), db_answered)"
  by (simp add: update_session_authenticated_def Let_def mem_eval db_challenged_def db_answered_def sid_a_def sid_b_def)

definition auth_message :: message where
  "auth_message = message_finalize (message_build ''1'' ''https://affinidi.com/atm/1.0/authenticate''
     (JObject [(''challenge'', JString ''no matter''), (''session_id'', JString sid_a)]))"

lemma auth_message_sel [simp]:
  "m_type auth_message = ''https://affinidi.com/atm/1.0/authenticate''"
  "m_body auth_message = JObject [(''challenge'', JString ''no matter''), (''session_id'', JString sid_a)]"
  "m_from auth_message = None" "m_to auth_message = None" "m_from_prior auth_message = None"
  "m_expires_time auth_message = None" "m_typ auth_message = plaintext_typ"
  "try_parse_forward auth_message = None"
  by (simp_all add: auth_message_def builder_defs plaintext_typ_def try_parse_forward_def forward_msg_type_def)

abbreviation auth_lib :: "(sample_key, string, string) med_ext" where
  "auth_lib \<equiv> sample_med [auth_message]"

text \<open>A posted JWE reads as the JWE it was made of.\<close>

lemma sample_inbound:
  assumes "read_jwe s = Inr j"
  shows "\<exists>posted. write_inbound (inbound_of_jwe j) = Inr posted \<and>
     envelope_from_str (sample_med tbl) posted = envelope_from_str (sample_med tbl) s"
proof -
  have j: "jwe_of_inbound (inbound_of_jwe j) = j"
    by (simp add: jwe_of_inbound_def inbound_of_jwe_def)
  obtain p where p: "write_jwe j = Inr p" by (simp add: write_jwe_def)
  with read_write_jwe[OF p] assms j show ?thesis
    by (intro exI[of _ p])
       (simp add: write_inbound_def envelope_from_str_def de_envelope_def sample_med_def sample_with_def)
qed

lemma sample_posted:
  "\<exists>s meta body posted. pack_encrypted auth_lib (known_secrets []) sample_draws auth_message carol None None
       (sample_options False) = Ok (s, meta) \<and>
     pm_messaging_service meta = None \<and> pm_to_kids meta = [carol @ ''#e''] \<and>
     ser_inbound auth_lib body = Inr posted \<and>
     envelope_from_str auth_lib posted = envelope_from_str auth_lib s"
  using sample_pack_anon[of carol auth_message "[auth_message]" "known_secrets []"] sample_inbound
  by fastforce

lemma auth_lib_plain: "plain_message auth_lib auth_message"
  by (simp add: plain_message_def sample_med_reads forward_msg_type_def)

lemma auth_lib_docs [simp]:
  "did_resolve auth_lib carol = Inr (party_doc carol)"
  "find_key_agreement auth_lib (party_doc carol) None = [carol @ ''#e'']"
  by (simp_all add: sample_med_def)

lemma auth_lib_recipient:
  "recipient_ready auth_lib public_half (party_wallet carol) (party_doc carol) [carol @ ''#e'']"
  using sample_recipient[of carol] by (simp add: sample_med_def)

definition bob_tokens :: "u64 \<Rightarrow> auth_response" where
  "bob_tokens now =
     \<lparr>ar_access_token = write_claims ''key'' (access_claims now ((challenge_session rng_a bob)\<lparr>ses_id := sid_b\<rparr>)),
      ar_refresh_token = write_claims ''key'' (refresh_claims now ((challenge_session rng_a bob)\<lparr>ses_id := sid_b\<rparr>))\<rparr>"

lemma sample_tokens:
  "issue_tokens auth_lib sample_shared now ((challenge_session rng_a bob)\<lparr>ses_id := sid_b\<rparr>) = Ok (bob_tokens now)"
  by (simp add: issue_tokens_def bob_tokens_def)

lemma sample_open:
  "\<exists>body. open_authentication auth_lib sample_shared now body =
     Ok (auth_message, \<lparr>ac_challenge = ''no matter'', ac_session_id = sid_a\<rparr>)"
proof -
  obtain s meta body posted where p: "pack_encrypted auth_lib (known_secrets []) sample_draws auth_message carol
       None None (sample_options False) = Ok (s, meta)" "pm_messaging_service meta = None"
      "pm_to_kids meta = [carol @ ''#e'']" "ser_inbound auth_lib body = Inr posted"
      "envelope_from_str auth_lib posted = envelope_from_str auth_lib s"
    using sample_posted by blast
  from anonymous_text_opens[OF sample_med_crypto auth_lib_plain p(1,2), of "party_doc carol" "party_wallet carol"
      default_unpack_options] auth_lib_recipient p(3)
  obtain md where "unpack_string auth_lib (party_wallet carol) default_unpack_options s = Ok (auth_message, md)"
    by (auto simp: default_unpack_options_def)
  then have "unpack_string auth_lib (party_wallet carol) default_unpack_options posted = Ok (auth_message, md)"
    using p(5) by (simp add: unpack_string_def meta_envelope_new_def)
  then have "open_inbound auth_lib (party_wallet carol) ''UNKNOWN'' default_unpack_options posted = Ok (auth_message, md)"
    by (simp add: open_inbound_Ok_iff)
  with p(4) have "open_authentication auth_lib sample_shared now body =
     Ok (auth_message, \<lparr>ac_challenge = ''no matter'', ac_session_id = sid_a\<rparr>)"
    by (simp add: open_authentication_def message_type_of_def check_expiry_def challenge_from_value_def del: sample_med_sel)
  then show ?thesis by (rule exI[of _ body])
qed

lemma sample_answer:
  "\<exists>body. open_authentication auth_lib sample_shared (clock 0) body =
       Ok (auth_message, \<lparr>ac_challenge = ''no matter'', ac_session_id = sid_a\<rparr>) \<and>
     authentication_check auth_lib sample_shared rng_b clock body db_challenged =
       (Ok (sid_a, (challenge_session rng_a bob)\<lparr>ses_id := sid_b\<rparr>, bob_tokens (clock 1)), db_challenged) \<and>
     authentication_response auth_lib sample_shared rng_b clock body db_challenged =
       (Ok (success sid_b (bob_tokens (clock 1))), db_answered)"
proof -
  obtain body where b: "open_authentication auth_lib sample_shared (clock 0) body =
       Ok (auth_message, \<lparr>ac_challenge = ''no matter'', ac_session_id = sid_a\<rparr>)"
    using sample_open by blast
  have s: "ses_id (challenge_session rng_a bob) = sid_a" "ses_state (challenge_session rng_a bob) = ChallengeSent"
    by (simp_all add: challenge_session_def sid_a_def)
  have "create_random_string rng_b 0 12 = sid_b" by (simp add: sid_b_def)
  then have c: "authentication_check auth_lib sample_shared rng_b clock body db_challenged =
       (Ok (sid_a, (challenge_session rng_a bob)\<lparr>ses_id := sid_b\<rparr>, bob_tokens (clock 1)), db_challenged)"
    using b s sample_session sample_tokens
    by (simp add: authentication_check_def eff_then_app check_session_def Let_def)
  then have "authentication_response auth_lib sample_shared rng_b clock body db_challenged =
       (Ok (success sid_b (bob_tokens (clock 1))), db_answered)"
    using sample_update by (simp add: authentication_response_def eff_then_app)
  with b c show ?thesis by blast
qed


lemma session_read_back_witness:
  "get_session mem_redis sid_a db_challenged = (Ok (challenge_session rng_a bob), db_challenged)"
proof -
  have r: "r_cmd mem_redis [''HGETALL'', session_key sid_a] db_challenged =
      (Inr (RArray (map RBulk (unpair [(''challenge'', replicate 32 CHR ''a''),
        (''state'', ''ChallengeSent''), (''did'', bob)]))), db_challenged)"
    by (simp add: mem_redis_def mem_steps mem_hash_def db_challenged_def resp2_hash_reply)
  have s: "ses_id (challenge_session rng_a bob) = sid_a"
      "ses_state (challenge_session rng_a bob) = ChallengeSent"
    by (simp_all add: challenge_session_def sid_a_def)
  show ?thesis
    using session_read_back[OF mem_redis_laws mem_conversion_laws sample_challenge _ r[folded s(1)]] s
    by (simp add: mem_redis_def)
qed

lemma authentication_sound_witness:
  "\<exists>body code rsp db'. authentication_response auth_lib sample_shared rng_b (\<lambda>_. 0) body db_challenged =
       (Ok (code, rsp), db') \<and> awaits_answer (mem_view db_challenged) sid_a bob \<and>
     is_authenticated (mem_view db') (sr_session_id rsp) bob"
proof -
  obtain body where b: "open_authentication auth_lib sample_shared 0 body =
      Ok (auth_message, \<lparr>ac_challenge = ''no matter'', ac_session_id = sid_a\<rparr>)"
    and a: "authentication_response auth_lib sample_shared rng_b (\<lambda>_. 0) body db_challenged =
       (Ok (success sid_b (bob_tokens 0)), db_answered)"
    using sample_answer[of "\<lambda>_. 0"] by blast
  obtain code rsp where c: "success sid_b (bob_tokens 0) = (code, rsp)"
    by (cases "success sid_b (bob_tokens 0)")
  have "\<exists>msg ch did. open_authentication auth_lib sample_shared 0 body = Ok (msg, ch) \<and>
      awaits_answer (mem_view db_challenged) (ac_session_id ch) did \<and>
      is_authenticated (mem_view db_answered) (sr_session_id rsp) did"
    using authentication_sound[of sample_shared mem_view auth_lib rng_b "\<lambda>_. 0" body db_challenged code rsp db_answered]
      mem_redis_laws mem_conversion_laws a b c
    by (auto simp: sid_a_def)
  then obtain did where "awaits_answer (mem_view db_challenged) sid_a did"
      "is_authenticated (mem_view db_answered) (sr_session_id rsp) did"
    using b by auto
  moreover from this(1) have "did = bob"
    by (simp add: awaits_answer_def mem_view_def db_challenged_def)
  ultimately show ?thesis using a c by auto
qed

lemma anyone_authenticates_witness:
  "\<exists>body. authentication_response auth_lib sample_shared rng_b (\<lambda>_. 0) body db_challenged =
     (Ok (success sid_b (bob_tokens 0)), db_answered)"
proof -
  obtain s meta body posted where p: "pack_encrypted auth_lib (known_secrets []) sample_draws auth_message carol
       None None (sample_options False) = Ok (s, meta)" "pm_messaging_service meta = None"
      "pm_to_kids meta = [carol @ ''#e'']" "ser_inbound auth_lib body = Inr posted"
      "envelope_from_str auth_lib posted = envelope_from_str auth_lib s"
    using sample_posted by blast
  have ids: "ses_id (challenge_session rng_a bob) = sid_a" "create_random_string rng_b 0 12 = sid_b"
      "ses_state (challenge_session rng_a bob) = ChallengeSent"
    by (simp_all add: sid_a_def sid_b_def challenge_session_def)
  have "authentication_response auth_lib sample_shared rng_b (\<lambda>_. 0) body db_challenged =
     (Ok (success (create_random_string rng_b 0 12) (bob_tokens 0)), db_answered)"
    by (rule anyone_authenticates[OF sample_med_crypto auth_lib_plain auth_message_sel(1,2) _ _ p(1)[folded sample_shared_sel(1)] p(2) _ _ _ p(4,5), where
          doc = "party_doc carol" and s = "challenge_session rng_a bob"])
       (use p ids auth_lib_recipient sample_session sample_update sample_tokens in
         \<open>simp_all del: sample_med_sel sample_random\<close>)
  with ids show ?thesis by auto
qed

lemma issued_tokens_are_sessions_witness:
  "session_from_request auth_lib sample_shared 86400
       \<lparr>rp_has_address = True, rp_bearer = Some (ar_refresh_token (bob_tokens 0))\<rparr> =
     Ok \<lparr>cs_session_id = sid_b, cs_authenticated = True, cs_challenge_sent = None, cs_did = bob,
         cs_did_hash = hex bob\<rparr>"
  using issued_tokens_are_sessions[OF sample_tokens, where now = 0 and enc = "''key''" and dec = "''key''" and
      t = "ar_refresh_token (bob_tokens 0)" and later = 86400] sample_jwt
  by (simp add: challenge_session_def)

lemma answers_are_granted_once_witness:
  "\<exists>r. auth_reach auth_lib sample_shared mem_view r \<and> run_granted r = [sid_a] \<and>
     mem_view (run_db r) (session_key sid_a) = None"
proof -
  let ?r0 = "\<lparr>run_db = [], run_challenges = {}, run_drawn = {}, run_pending = [], run_granted = []\<rparr> :: mem_db auth_run"
  let ?r1 = "?r0\<lparr>run_db := db_challenged, run_challenges := insert sid_a {}\<rparr>"
  let ?r2 = "?r1\<lparr>run_drawn := insert sid_b {}, run_pending := [(sid_a, sid_b)]\<rparr>"
  let ?r3 = "?r2\<lparr>run_db := db_answered, run_pending := [], run_granted := [sid_a]\<rparr>"
  have ids: "ses_id (challenge_session rng_a bob) = sid_a" "create_random_string rng_a 0 12 = sid_a"
      "sid_b \<noteq> sid_a"
    by (simp_all add: sid_a_def sid_b_def challenge_session_def)
  obtain body where a: "authentication_check auth_lib sample_shared rng_b (\<lambda>_. 0) body db_challenged =
       (Ok (sid_a, (challenge_session rng_a bob)\<lparr>ses_id := sid_b\<rparr>, bob_tokens 0), db_challenged)"
    using sample_answer[of "\<lambda>_. 0"] by blast
  have c: "\<exists>res. authentication_challenge sample_shared rng_a bob [] = (res, db_challenged)"
    using sample_challenge ids(1) by (simp add: authentication_challenge_def eff_then_app Let_def)
  have r0: "auth_reach auth_lib sample_shared mem_view ?r0"
    by (rule start) (simp add: mem_view_def)
  have r1: "auth_reach auth_lib sample_shared mem_view ?r1"
    using challenge[OF r0, of rng_a bob _ db_challenged sid_a] c ids by auto
  have r2: "auth_reach auth_lib sample_shared mem_view ?r2"
    using check[OF r1, of rng_b "\<lambda>_. 0" body sid_a _ "bob_tokens 0" db_challenged] a ids by simp
  have r3: "auth_reach auth_lib sample_shared mem_view ?r3"
    using grant[OF r2, of sid_a sid_b db_answered] sample_update by simp
  from answers_are_granted_once[OF _ _ r3] mem_redis_laws mem_conversion_laws r3 show ?thesis
    by (intro exI[of _ ?r3]) simp
qed

end
