(* ===== verification/SampleStore.thy ===== *)
theory SampleStore
  imports SampleMediator MailProps "HOL-Library.Code_Target_Nat"
begin

text \<open>
  Two messages of one client to another, stored in the server in memory: what the theorems about
  the stored messages say there.
\<close>

subsection \<open>The database after one message, and after two\<close>

lemma hex_no_colon: "CHR '':'' \<notin> set (hex s)"
  using hex_letter[of "CHR '':''" s] by auto

lemma sample_hex_digests: "hex_digests (sample_med tbl)"
  by (simp add: hex_digests_def hex_no_colon)

definition db_one :: mem_db where
  "db_one =
     [(''MSG:gn'', MStr ''m''),
      (''GLOBAL'', MHash [(''RECEIVED_BYTES'', ''1''), (''RECEIVED_COUNT'', ''1'')]),
      (''MSG_EXPIRY'', MList [''gn:10'']),
      (''DID:gc'', MHash [(''RECEIVE_QUEUE_BYTES'', ''1''), (''RECEIVE_QUEUE_COUNT'', ''1'')]),
      (''RECEIVE_Q:gc'', MStream (StreamId 10 0)
         [(StreamId 10 0, [(''MSG_ID'', ''gn''), (''BYTES'', ''1''), (''FROM'', ''a'')])]),
      (''DID:gb'', MHash [(''SEND_QUEUE_BYTES'', ''1''), (''SEND_QUEUE_COUNT'', ''1'')]),
      (''SEND_Q:gb'', MStream (StreamId 10 0)
         [(StreamId 10 0, [(''MSG_ID'', ''gn''), (''BYTES'', ''1''), (''TO'', ''b'')])]),
      (''MSG:META:gn'', MHash
         [(''BYTES'', ''1''), (''TO'', ''gc''), (''TIMESTAMP'', ''10''), (''RECEIVE_ID'', ''10-0''),
          (''FROM'', ''gb''), (''SEND_ID'', ''10-0'')])]"

definition db_two :: mem_db where
  "db_two = snd (store_message_lua mem_redis ''go'' [''n'', ''1'', ''b'', ''gc'', ''a'', ''gb''] db_one)"

lemma sample_hex [simp]: "hex ''a'' = ''gb''" "hex ''b'' = ''gc''" "hex ''m'' = ''gn''" "hex ''n'' = ''go''"
  by code_simp+

lemma sample_scripts:
  "store_message_lua mem_redis ''gn'' [''m'', ''1'', ''b'', ''gc'', ''a'', ''gb''] [] = (Ok (RStatus ''OK''), db_one)"
  "store_message_lua mem_redis ''go'' [''n'', ''1'', ''b'', ''gc'', ''a'', ''gb''] db_one = (Ok (RStatus ''OK''), db_two)"
  "fst (delete_message_lua mem_redis ''gn'' ''gc'' db_one) = Ok (RStatus ''OK'')"
  by code_simp+

lemma show_one: "show_nat (Suc 0) = ''1''"
  by (simp add: show_nat.simps)

lemma sample_stores:
  "store_message (sample_med tbl) mem_redis sid ''m'' ''b'' (Some ''a'') [] = (Ok ''gn'', db_one)"
  "store_message (sample_med tbl) mem_redis sid ''n'' ''b'' (Some ''a'') db_one = (Ok ''go'', db_two)"
  by (simp_all add: store_message_def fcall_def eff_then_app eff_map_err_def sample_scripts show_one Let_def)


text \<open>The database is one the theorems are about.\<close>

lemma sample_start: "mail_wf (sample_med tbl) mem_redis mem_view []"
  by (simp add: mail_wf_def mem_redis_laws sample_hex_digests mem_view_def mail_inv_empty linked_def entries_def
        as_stream_def)

lemma sample_put_one: "mail_put (sample_med tbl) mem_redis mem_view ''gn'' ''gc'' [] db_one"
  unfolding mail_put_def
  by (rule exI[of _ "''S''"], rule exI[of _ "''m''"], rule exI[of _ "''b''"], rule exI[of _ "''a''"])
     (simp add: sample_stores mem_view_def)

lemma sample_new_two: "mem_view db_one (meta_key ''go'') = None"
  by (simp add: mem_view_def db_one_def meta_key_def)

lemma sample_put_two: "mail_put (sample_med tbl) mem_redis mem_view ''go'' ''gc'' db_one db_two"
  unfolding mail_put_def
  by (rule exI[of _ "''S''"], rule exI[of _ "''n''"], rule exI[of _ "''b''"], rule exI[of _ "''a''"])
     (simp add: sample_stores sample_new_two)

lemma sample_history:
  "history (mail_put (sample_med tbl) mem_redis mem_view) (mail_drop mem_redis)
     [Put ''gn'' ''gc'', Put ''go'' ''gc''] [] db_two"
  using sample_put_one sample_put_two by (blast intro: history.intros)

lemma sample_wf: "mail_wf (sample_med tbl) mem_redis mem_view db_one" "mail_wf (sample_med tbl) mem_redis mem_view db_two"
  using mail.put_wf[OF sample_start sample_put_one] mail.put_wf[OF _ sample_put_two] by blast+

lemma sample_empty_inbox: "inbox_of (mem_view []) d = []"
  by (simp add: inbox_of_def entries_def as_stream_def mem_view_def)

subsection \<open>Instances\<close>

lemma sample_reached:
  "mail_reach (sample_med tbl) mem_redis mem_view db_one" "mail_reach (sample_med tbl) mem_redis mem_view db_two"
proof -
  have "mail_reach (sample_med tbl) mem_redis mem_view ([] :: mem_db)"
    by (rule no_mail) (simp add: same_mail_def mem_view_def)
  from mail_stored[OF this _ sample_stores(1)] show one: "mail_reach (sample_med tbl) mem_redis mem_view db_one" by simp
  from mail_stored[OF one _ sample_stores(2)] show "mail_reach (sample_med tbl) mem_redis mem_view db_two" by simp
qed

lemma counters_tell_the_queues_witness:
  "row_counts [''RECEIVE_QUEUE_BYTES'' \<mapsto> ''1'', ''RECEIVE_QUEUE_COUNT'' \<mapsto> ''1''] ''RECEIVE_QUEUE''
     (entries (mem_view db_one) (receive_q ''gc''))"
proof -
  from counters_tell_the_queues[OF sample_reached(1) mem_redis_laws sample_hex_digests, of "''gc''"]
  show ?thesis by (auto simp: as_hash_def mem_view_def db_one_def did_row_def fun_upd_twist)
qed

lemma store_refines_mailbox_witness: "inbox_of (mem_view db_two) ''gc'' = [''gn'', ''go'']"
  using store_refines_mailbox[OF sample_history sample_start, of "''gc''"] by (simp add: sample_empty_inbox)

lemma inbox_in_order_witness: "''gn'' \<in> set (inbox_of (mem_view db_two) ''gc'')"
  using inbox_in_order[OF sample_history sample_start sample_empty_inbox, of "''gc''"] by simp

lemma delete_only_by_owner_witness:
  "\<exists>e. fst (delete_message mem_redis ''S'' ''gd'' ''gn'' db_one) = Err e"
proof -
  have "\<not> message_owner (mem_view db_one) ''gn'' ''gd''"
    by (simp add: message_owner_def mem_view_def db_one_def meta_key_def)
  then show ?thesis
    using delete_only_by_owner[OF mem_redis_laws] by (metis prod.collapse)
qed


text \<open>Reading, by its scripts and transactions.\<close>

definition sample_page :: "nat \<Rightarrow> stream_id option \<Rightarrow> fetch_options" where
  "sample_page n seen = \<lparr>fo_limit = n, fo_start_id = map_option show_id seen, fo_delete_policy = DoNotDelete\<rparr>"

lemma sample_fetches:
  assumes "fetch_messages_lua mem_redis did (case map_option show_id seen of Some s \<Rightarrow> s | None \<Rightarrow> ''-'') (show_nat n) db =
      (Ok r, db)" "linked (mem_view db)" "0 < n" "case seen of None \<Rightarrow> True | Some i \<Rightarrow> id_fits i"
  shows "\<exists>resp. fetch_messages mem_redis sid did (sample_page n seen) db = (Ok resp, db)"
proof -
  from fetch_script_Ok[OF mem_redis_laws assms(2-4,1)] obtain rs where
    r: "r = RArray rs" "list_all2 (fetched_as (mem_view db)) (page n seen (entries (mem_view db) (receive_q did))) rs"
    by blast
  from fetch_items_Ok[OF mem_conversion_laws _ r(2), of DoNotDelete sid did
      "\<lparr>gm_success = [], gm_get_errors = [], gm_delete_errors = []\<rparr>" db] show ?thesis
    using assms(1) by (auto simp: fetch_messages_def fcall_def eff_then_app eff_map_err_def r(1)
        sample_page_def conversionD(4)[OF mem_conversion_laws] Let_def)
qed

lemma sample_linked: "linked (mem_view db_one)" "linked (mem_view db_two)" "mail_inv (mem_view db_two)"
  using sample_wf by (simp_all add: mail_wf_def)

lemma ran:
  "snd p = d \<Longrightarrow> (case fst p of Ok r \<Rightarrow> True | _ \<Rightarrow> False) \<Longrightarrow> \<exists>r. p = (Ok r, d)"
  by (cases p) (auto split: result.splits)

lemma sample_fetch_scripts:
  "\<exists>r. fetch_messages_lua mem_redis ''gc'' ''-'' ''1'' db_two = (Ok r, db_two)"
  "\<exists>r. fetch_messages_lua mem_redis ''gc'' ''10-0'' ''1'' db_two = (Ok r, db_two)"
  by (rule ran; code_simp)+

lemma sample_entries:
  "map fst (entries (mem_view db_two) (receive_q ''gc'')) = [StreamId 10 0, StreamId 10 1]"
proof -
  have "mem_stream db_two ''RECEIVE_Q:gc'' = Some (StreamId 10 1,
      [(StreamId 10 0, [(''MSG_ID'', ''gn''), (''BYTES'', ''1''), (''FROM'', ''a'')]),
       (StreamId 10 1, [(''MSG_ID'', ''go''), (''BYTES'', ''1''), (''FROM'', ''a'')])])"
    by code_simp
  from mem_stream_as[OF this] show ?thesis by (simp add: receive_q_def)
qed

lemma sample_show_id: "show_id (StreamId 10 0) = ''10-0''" "id_fits (StreamId 10 0)"
  by (simp_all add: show_id_def show_nat.simps id_fits_def)

lemma sample_fetch:
  "\<exists>resp. fetch_messages mem_redis sid ''gc'' (sample_page 1 None) db_two = (Ok resp, db_two)"
  "\<exists>resp. fetch_messages mem_redis sid ''gc'' (sample_page 1 (Some (StreamId 10 0))) db_two = (Ok resp, db_two)"
  using sample_fetch_scripts sample_linked(2)
  by (auto intro!: sample_fetches simp: sample_show_id show_one)

lemma fetch_pages_the_inbox_witness:
  "\<exists>resp. fetch_messages mem_redis ''S'' ''gc'' (sample_page 1 None) db_two = (Ok resp, db_two) \<and>
     length (gm_success resp) = 1"
proof -
  obtain resp where r: "fetch_messages mem_redis ''S'' ''gc'' (sample_page 1 None) db_two = (Ok resp, db_two)"
    using sample_fetch(1) by blast
  from fetch_pages_the_inbox[OF mem_redis_laws mem_conversion_laws sample_linked(2) _ _ _ r[unfolded sample_page_def]]
  have "list_all2 (element_of (mem_view db_two)) (page 1 None (entries (mem_view db_two) (receive_q ''gc''))) (gm_success resp)"
    by simp
  moreover have "length (entries (mem_view db_two) (receive_q ''gc'')) = 2"
    using arg_cong[OF sample_entries, of length] by simp
  ultimately have "length (gm_success resp) = 1" by (auto simp: page_def dest: list_all2_lengthD)
  with r show ?thesis by blast
qed

lemma pages_follow_each_other_witness:
  "\<exists>front rest. fetch_messages mem_redis ''S'' ''gc'' (sample_page 1 None) db_two = (Ok front, db_two) \<and>
     fetch_messages mem_redis ''S'' ''gc'' (sample_page 1 (Some (StreamId 10 0))) db_two = (Ok rest, db_two) \<and>
     length (gm_success front @ gm_success rest) = 2"
proof -
  let ?es = "entries (mem_view db_two) (receive_q ''gc'')"
  obtain front rest where f: "fetch_messages mem_redis ''S'' ''gc'' (sample_page 1 None) db_two = (Ok front, db_two)"
      and r: "fetch_messages mem_redis ''S'' ''gc'' (sample_page 1 (Some (StreamId 10 0))) db_two = (Ok rest, db_two)"
    using sample_fetch by blast
  have l: "length ?es = 2" using arg_cong[OF sample_entries, of length] by simp
  have i: "StreamId 10 0 = fst (?es ! (1 - 1))"
    using arg_cong[OF sample_entries, of "\<lambda>xs. xs ! 0"] l by simp
  from pages_follow_each_other[OF mem_redis_laws mem_conversion_laws sample_linked(2,3) _ _ refl _ i sample_show_id(2),
      of 1 "''S''" front db_two rest db_two] f r l
  have "list_all2 (element_of (mem_view db_two)) (take (1 + 1) ?es) (gm_success front @ gm_success rest)"
    by (simp add: sample_page_def)
  then have "length (gm_success front @ gm_success rest) = 2"
    using l by (auto dest!: list_all2_lengthD)
  with f r show ?thesis by blast
qed

lemma sample_get:
  "\<exists>m. get_message mem_redis ''gc'' ''gn'' db_one = (Ok m, db_one)"
  by (rule ran; code_simp)

lemma stored_message_reads_back_witness:
  "\<exists>m. get_message mem_redis ''gc'' ''gn'' db_one = (Ok m, db_one) \<and> me_msg m = Some ''m'' \<and>
     me_from_address m = Some ''gb''"
proof -
  obtain m where m: "get_message mem_redis ''gc'' ''gn'' db_one = (Ok m, db_one)" using sample_get by blast
  have "mem_view [] (meta_key (digest (sample_med []) ''m'')) = None" by (simp add: mem_view_def)
  from stored_message_reads_back[OF mem_redis_laws mem_conversion_laws sample_hex_digests this _ _ _
      sample_stores(1), of "''b''" "Ok m" db_one] m
  show ?thesis by simp
qed

lemma only_owners_read_witness:
  "message_owner (mem_view db_one) ''gn'' ''gc'' \<and> \<not> message_owner (mem_view db_one) ''gn'' ''gd''"
proof -
  obtain m where m: "get_message mem_redis ''gc'' ''gn'' db_one = (Ok m, db_one)" using sample_get by blast
  have "\<not> message_owner (mem_view db_one) ''gn'' ''gd''"
    by (simp add: message_owner_def mem_view_def db_one_def meta_key_def)
  with only_owners_read[OF mem_redis_laws mem_conversion_laws _ m] show ?thesis by simp
qed

end
