(* ===== verification/InboundProps.thy ===== *)
theory InboundProps
  imports PickupProps
begin

text \<open>
  The mediator as a whole: what becomes of a forwarded message and of a ping, how much a fetch
  returns, and what a websocket tells the streaming task.
\<close>

subsection \<open>Pings without an answer\<close>

text \<open>a trust ping that asks for no response is an internal error of the mediator, although it has
  been received; nothing is stored or sent.\<close>

theorem quiet_ping_is_an_error:
  assumes "open_inbound X (sh_mediator_secrets S) (cs_session_id session) (inbound_options S) text = Ok (msg, md)"
    and "m_type msg = ''https://didcomm.org/trust-ping/2.0/ping''" "ping_body (m_body msg) = Some False"
    and "m_to msg = Some (to # ts)" "\<And>i e. m_expires_time msg = Some e \<Longrightarrow> clock i < e"
  shows "handle_inbound X S session clock uuid rs text w =
    (Err (InternalError (cs_session_id session) ''Expected a message to return, but got None''), w)"
proof -
  have e: "check_expiry sid (clock i) msg = Ok ()" for sid i
    by (auto simp: check_expiry_def assms(5) not_le split: option.splits)
  then have p: "ping_process session (clock 1) uuid msg = Ok None"
    using assms(3,4) by (simp add: ping_process_def)
  then have "message_process X S session clock uuid msg w = (Ok None, w)"
    using assms(2) e by (simp add: message_process_def message_type_of_def type_process_def eff_then_app)
  then show ?thesis using assms(1) by (simp add: handle_inbound_def eff_then_app)
qed

subsection \<open>Forwarding\<close>

lemma reads_publish: "reads [''PUBLISH'', c, m]"
proof -
  have "sent [''PUBLISH'', c, m]" by (rule sent.intros(2)) simp
  then show ?thesis by (auto simp: reads_def elim: redis_command.cases)
qed

lemma live_stream_keeps:
  assumes "redis_laws R V"
  shows "keeps (\<lambda>db. V db = ks) (try_live_stream X R d p force)"
  unfolding try_live_stream_def live_stream_def logged_def streaming_is_client_live_def streaming_publish_message_def
  by (intro keeps_intros assms reads_publish reads_commands) (auto intro!: keeps_intros assms reads_publish split: option.split)

lemma keepsI: "keeps P m \<Longrightarrow> P s \<Longrightarrow> P (snd (m s))"
  by (simp add: keeps_def)

text \<open>What handling a forward comes down to: the text of the message that is forwarded goes to its
  next receiver.\<close>

lemma handle_forward:
  assumes "open_inbound X (sh_mediator_secrets S) (cs_session_id session) (inbound_options S) text = Ok (msg, md)"
    and "try_parse_forward msg = Some p" "ser_value X (pf_forwarded_msg p) = Inr s"
    and "handle_inbound X S session clock uuid rs text w = (Ok resp, w')"
  shows "\<exists>db1 l db'. try_live_stream X (sh_database S) (digest X (pf_next p)) s True (w_db w) = (Ok (), db1) \<and>
    store_for X S session (pf_next p, s) no_inbound_messages db1 = (Ok l, db') \<and> resp = Stored l \<and>
    w' = w\<lparr>w_db := db'\<rparr>"
proof -
  have t: "message_type_of (m_type msg) = Ok ForwardRequest"
    using assms(2) by (auto simp: message_type_of_def try_parse_forward_Some_iff forward_msg_type_def)
  from assms(1,4) obtain r w1 where r: "message_process X S session clock uuid msg w = (Ok r, w1)"
    by (auto simp: handle_inbound_def effect_simps)
  with t assms(2,3) have pr: "r = Some \<lparr>pr_store_message = True, pr_force_live_delivery = True,
      pr_message_response = PackedMessage (pf_next p) s\<rparr>" "w1 = w"
    by (auto simp: message_process_def effect_simps type_process_def routing_process_def result_simps
        trans[OF eq_commute and_then_Ok_iff])
  from assms(1,4) r pr have "deliver X S session True True [(pf_next p, s)] (w_db w) = (Ok resp, w_db w') \<and>
      w' = w\<lparr>w_db := w_db w'\<rparr>"
    by (auto simp: handle_inbound_def effect_simps pack_response_def on_db_Ok)
  then show ?thesis by (auto simp: deliver_def effect_simps)
qed

text \<open>What a forward that is accepted leaves in the database.\<close>

lemma forward_stored:
  assumes wf: "mail_wf X (sh_database S) V (w_db w)"
    and "open_inbound X (sh_mediator_secrets S) (cs_session_id session) (inbound_options S) text = Ok (msg, md)"
    and "try_parse_forward msg = Some p" "ser_value X (pf_forwarded_msg p) = Inr s" "s \<noteq> []"
    and new: "V (w_db w) (meta_key (digest X s)) = None"
    and h: "handle_inbound X S session clock uuid rs text w = (Ok (Stored l), w')" and ok: "il_errors l = []"
  shows "il_messages l = [(pf_next p, digest X s)] \<and> V (w_db w') (msg_key (digest X s)) = Some (EStr s) \<and>
    (\<forall>d. inbox_of (V (w_db w')) d =
       (if d = digest X (pf_next p) then inbox_of (V (w_db w)) d @ [digest X s] else inbox_of (V (w_db w)) d)) \<and>
    mail_wf X (sh_database S) V (w_db w')"
proof -
  let ?R = "sh_database S"
  have laws: "redis_laws ?R V" using wf by (simp add: mail_wf_def)
  from handle_forward[OF assms(2-4) h] obtain db1 db' where
    l: "try_live_stream X ?R (digest X (pf_next p)) s True (w_db w) = (Ok (), db1)"
    and st: "store_for X S session (pf_next p, s) no_inbound_messages db1 = (Ok l, db')" and w': "w' = w\<lparr>w_db := db'\<rparr>"
    by auto
  have v1: "V db1 = V (w_db w)"
    using keepsD[OF live_stream_keeps[OF laws] l refl] .
  from st ok obtain key where sm: "store_message X ?R (cs_session_id session) s (pf_next p) (Some (sh_mediator_did S)) db1 = (Ok key, db')"
    and m: "il_messages l = [(pf_next p, key)]"
    by (auto simp: store_for_def effect_simps no_inbound_messages_def)
  note key = store_message_script(1)[OF sm]
  have put: "mail_put X ?R V (digest X s) (digest X (pf_next p)) db1 db'"
    unfolding mail_put_def using assms(5) new v1 sm key by metis
  have wf1: "mail_wf X ?R V db1" using wf v1 by (simp add: mail_wf_def)
  from store_message_script(2)[OF sm] wf obtain rep where
    lua: "store_message_lua ?R (digest X s) [s, show_nat (length s), pf_next p, digest X (pf_next p),
       sh_mediator_did S, digest X (sh_mediator_did S)] db1 = (Ok rep, db')" by blast
  have c: "CHR '':'' \<notin> set (digest X s)" using wf by (simp add: mail_wf_def hex_digests_def)
  have "V db' (msg_key (digest X s)) = Some (EStr s)"
    by (cases rule: store_views[OF laws lua c]) (simp add: c)
  with mail.put_inbox[OF wf1 put] mail.put_wf[OF wf1 put] m key v1 w' show ?thesis by simp
qed

text \<open>C17: a forward message is stored for its next receiver: if the store accepts it, exactly the text
  that was forwarded is at the end of the inbox of that DID, all other inboxes are as they were, and
  the answer names the receiver and the id of the message.\<close>

theorem forward_reaches_the_mailbox:
  assumes wf: "mail_wf X (sh_database S) V (w_db w)"
    and "open_inbound X (sh_mediator_secrets S) (cs_session_id session) (inbound_options S) text = Ok (msg, md)"
    and "try_parse_forward msg = Some p" "ser_value X (pf_forwarded_msg p) = Inr s" "s \<noteq> []"
    and new: "V (w_db w) (meta_key (digest X s)) = None"
    and h: "handle_inbound X S session clock uuid rs text w = (Ok (Stored l), w')" and ok: "il_errors l = []"
  shows "il_messages l = [(pf_next p, digest X s)] \<and> V (w_db w') (msg_key (digest X s)) = Some (EStr s) \<and>
    (\<forall>d. inbox_of (V (w_db w')) d =
       (if d = digest X (pf_next p) then inbox_of (V (w_db w)) d @ [digest X s] else inbox_of (V (w_db w)) d))"
  using forward_stored[OF assms] by simp

subsection \<open>Bounds of a fetch\<close>

lemma fetched_message_length:
  "fetched_message R e acc db = (Ok acc', db') \<Longrightarrow> length acc' = Suc (length acc)"
proof -
  assume f: "fetched_message R e acc db = (Ok acc', db')"
  then obtain parts where p: "lua_array e = Ok parts"
    by (cases "lua_array e") (auto simp: fetched_message_def eff_then_app)
  consider (two) x y where "parts = [x, y]" | (other) "\<nexists>x y. parts = [x, y]" by blast
  then show ?thesis
  proof cases
    case two
    with f p show ?thesis by (auto simp: fetched_message_def effect_simps)
  next
    case other
    with f p show ?thesis
      by (cases parts; cases "tl parts"; cases "tl (tl parts)") (auto simp: fetched_message_def)
  qed
qed

lemma fetch_item_length:
  "fetch_item R sid did policy e acc db = (Ok acc', db') \<Longrightarrow>
     length (gm_success acc') + length (gm_get_errors acc') = Suc (length (gm_success acc) + length (gm_get_errors acc))"
  by (auto simp: fetch_item_def effect_simps Let_def split: sum.splits if_splits)

lemma each_length:
  assumes "\<And>x acc db acc' db'. f x acc db = (Ok acc', db') \<Longrightarrow> size_of acc' = Suc (size_of acc)"
  shows "eff_each f xs acc db = (Ok acc', db') \<Longrightarrow> size_of acc' = size_of acc + length xs"
  by (induction xs arbitrary: acc db) (auto simp: effect_simps dest!: assms)

text \<open>an answer to a fetch has at most as many entries as the client asked for, a hundred at
  most, whatever is in the database, under every delete policy.\<close>

theorem fetch_is_bounded:
  assumes laws: "redis_laws (sh_database S) V" and conv: "conversion_laws (sh_database S)"
    and start: "range_start (case fo_start_id body of Some s \<Rightarrow> CHR ''('' # s | None \<Rightarrow> ''-'') \<noteq> None"
      "fo_start_id body \<noteq> Some ''-''"
    and h: "inbox_fetch_handler X S session body db = (Ok (code, resp), db')"
  shows "code = 200 \<and> (\<exists>r. sr_data resp = Some r \<and>
    length (gm_success r) + length (gm_get_errors r) \<le> fo_limit body \<and> fo_limit body \<le> 100)"
proof -
  let ?R = "sh_database S"
  let ?start = "case fo_start_id body of Some s \<Rightarrow> s | None \<Rightarrow> ''-''"
  from h obtain r where n: "0 < fo_limit body" "fo_limit body \<le> 100"
    and f: "fetch_messages ?R (cs_session_id session) (cs_did_hash session) body db = (Ok r, db')"
    and resp: "code = 200" "sr_data resp = Some r"
    by (auto simp: inbox_fetch_handler_def effect_simps success_def ensure_def split: if_splits)
  from f obtain results d1 rep where
    s: "fetch_messages_lua ?R (cs_did_hash session) ?start (show_nat (fo_limit body)) db = (Ok rep, d1)" and
    c: "rv_values ?R (resp2 rep) = Inr results" and
    e: "eff_each (fetch_item ?R (cs_session_id session) (cs_did_hash session) (fo_delete_policy body)) results
      \<lparr>gm_success = [], gm_get_errors = [], gm_delete_errors = []\<rparr> d1 = (Ok r, db')"
    by (auto simp: fetch_messages_def effect_simps Let_def dest!: fcall_script)
  from s obtain r0 d0 xs ms where
    q: "call ?R [''XRANGE'', receive_q (cs_did_hash session), if ?start \<noteq> ''-'' then CHR ''('' # ?start else ''-'',
       ''+'', ''COUNT'', show_nat (fo_limit body)] db = (Ok r0, d0)"
    and xs: "lua_array r0 = Ok xs" and m: "eff_each (fetched_message ?R) xs [] d0 = (Ok ms, d1)" and rep: "rep = RArray ms"
    unfolding fetch_messages_lua_def
    by (auto simp only: effect_simps result.inject prod.inject eq_commute[of "lua_array _"])
  have "\<exists>p. range_start (if ?start \<noteq> ''-'' then CHR ''('' # ?start else ''-'') = Some p"
    using start by (cases "fo_start_id body") auto
  then obtain p where "range_start (if ?start \<noteq> ''-'' then CHR ''('' # ?start else ''-'') = Some p" by blast
  from call_xrange[OF laws q this n(1)] xs have "length xs \<le> fo_limit body"
    by (auto simp: lua_array_def)
  moreover have "length ms = length xs"
    using each_length[where f = "fetched_message ?R" and size_of = length, OF fetched_message_length m] by simp
  moreover have "length results = length ms" using c conversionD(4)[OF conv] by (auto simp: rep)
  moreover have "length (gm_success r) + length (gm_get_errors r) = length results"
    using each_length[where size_of = "\<lambda>a. length (gm_success a) + length (gm_get_errors a)", OF _ e] fetch_item_length
    by fastforce
  ultimately show ?thesis using resp n by simp
qed

subsection \<open>What a websocket tells the streaming task\<close>

text \<open>The queue of updates has grown only by requests of one DID to start and to stop.\<close>

definition switches :: "string \<Rightarrow> streaming_update list \<Rightarrow> bool" where
  "switches d us \<longleftrightarrow> list_all (\<lambda>u. su_did_hash u = d \<and> su_state u \<in> {Start, Stop}) us"

definition grown :: "streaming_update list \<Rightarrow> string \<Rightarrow> 'db world \<Rightarrow> bool" where
  "grown us d w \<longleftrightarrow> (\<exists>more. w_updates w = Some (us @ more) \<and> switches d more)"

lemma keeps_on_db: "keeps (grown us d) (on_db m)"
  by (auto simp: keeps_def on_db_def eff_on_def grown_def split: prod.split)

lemma keeps_send: "st \<in> {Start, Stop} \<Longrightarrow> keeps (grown us d) (send_update \<lparr>su_did_hash = d, su_state = st\<rparr>)"
  by (fastforce simp: keeps_def send_update_def grown_def switches_def split: option.split)

lemma keeps_unwrap: "keeps P m \<Longrightarrow> keeps P (eff_unwrap m)"
  by (auto simp: keeps_def eff_unwrap_def split: prod.split)

lemmas keeps_world = keeps_of keeps_then keeps_match keeps_case_prod keeps_map_err keeps_on_db keeps_send keeps_unwrap

lemma keeps_status_reply: "keeps (grown us d) (generate_status_reply S session now uuid did thid force override)"
  unfolding generate_status_reply_def Let_def by (intro keeps_world)

lemma keeps_process: "keeps (grown us (cs_did_hash session)) (message_process X S session clock uuid msg)"
proof -
  have "keeps (grown us (cs_did_hash session)) (type_process X S session c uuid t msg)" for c t
    unfolding type_process_def status_request_def delivery_request_def messages_received_def toggle_live_delivery_def
    by (cases t) (auto intro!: keeps_world keeps_status_reply split: if_splits)
  then show ?thesis unfolding message_process_def by (intro keeps_world)
qed

lemma keeps_inbound: "keeps (grown us (cs_did_hash session)) (handle_inbound X S session clock uuid rs text)"
  unfolding handle_inbound_def
  by (intro keeps_world keeps_process) (auto intro!: keeps_world split: option.split)

lemma keeps_ws_loop: "keeps (grown us (cs_did_hash session)) (ws_loop X S session rnd evs i out)"
proof (induction evs arbitrary: i out)
  case (Cons ev evs)
  have "keeps P (Pair r)" for P :: "'a world \<Rightarrow> bool" and r by (simp add: keeps_def)
  with Cons show ?case by (cases ev) (auto intro!: keeps_world keeps_inbound)
qed (simp add: keeps_of)

text \<open>C26: from its opening to its closing, a websocket registers its DID with the streaming task once,
  before everything else, and takes the registration back once, after everything else; in between it
  only switches live delivery of its own DID.\<close>

theorem socket_registers_and_deregisters:
  assumes "sh_has_streaming_task S" "w_updates w = Some us"
    and "handle_socket X S session tx rnd evs w = (Ok (WsClosed, out), w')"
  shows "\<exists>more. w_updates w' = Some (us @ [\<lparr>su_did_hash = cs_did_hash session, su_state = Register tx\<rparr>] @ more @
      [\<lparr>su_did_hash = cs_did_hash session, su_state = Deregister\<rparr>]) \<and> switches (cs_did_hash session) more"
proof -
  let ?d = "cs_did_hash session"
  let ?us = "us @ [\<lparr>su_did_hash = ?d, su_state = Register tx\<rparr>]"
  let ?w1 = "w\<lparr>w_updates := Some ?us\<rparr>"
  have s: "send_update \<lparr>su_did_hash = ?d, su_state = Register tx\<rparr> w = (Ok (), ?w1)"
    using assms(2) by (simp add: send_update_def)
  from assms(1,3) s obtain u2 w2 status o2 w3 where c: "ws_count S ''WEBSOCKET_OPEN'' ?w1 = (Ok u2, w2)"
    and l: "ws_loop X S session rnd evs 0 [] w2 = (Ok (status, o2), w3)"
    and rest: "(if status = WsOpen then eff_of (Ok (WsOpen, o2)) else
          eff_then (if sh_has_streaming_task S
                    then eff_match (send_update \<lparr>su_did_hash = ?d, su_state = Deregister\<rparr>)
                           (\<lambda>_. eff_of (Ok ())) (\<lambda>_. eff_of (Ok ()))
                    else eff_of (Ok ())) (\<lambda>_.
          eff_then (ws_count S ''WEBSOCKET_CLOSE'') (\<lambda>_. eff_of (Ok (WsClosed, o2))))) w3 = (Ok (WsClosed, out), w')"
    by (auto simp: handle_socket_def effect_simps)
  have k: "keeps (grown ?us ?d) (ws_count S n)" for n unfolding ws_count_def by (rule keeps_on_db)
  have "grown ?us ?d ?w1" by (simp add: grown_def switches_def)
  then have "grown ?us ?d w2" by (rule keepsD[OF k c])
  then have "grown ?us ?d w3" by (rule keepsD[OF keeps_ws_loop l])
  then obtain more where m: "w_updates w3 = Some (?us @ more)" "switches ?d more" unfolding grown_def by blast
  have closed: "status \<noteq> WsOpen" using rest by (cases status) auto
  let ?w4 = "w3\<lparr>w_updates := Some (?us @ more @ [\<lparr>su_did_hash = ?d, su_state = Deregister\<rparr>])\<rparr>"
  from rest closed m(1) assms(1) have "\<exists>u. ws_count S ''WEBSOCKET_CLOSE'' ?w4 = (Ok u, w')"
    by (auto simp: effect_simps send_update_def)
  then have "w_updates w' = w_updates ?w4" by (auto simp: ws_count_def on_db_Ok)
  with m show ?thesis by auto
qed

end
