(* ===== verification/SampleServe.thy ===== *)
theory SampleServe
  imports SampleStore InboundProps
begin

text \<open>
  Instances of the theorems about live streaming, message pickup and the messages that come in:
  the mediator of the samples with the server in memory, on which the two messages of \<open>SampleStore\<close>
  wait for \<open>b\<close>.
\<close>

subsection \<open>Storing again, and statistics\<close>

definition db_again :: mem_db where
  "db_again = snd (store_message_lua mem_redis ''gn'' [''m'', ''1'', ''b'', ''gc'', ''a'', ''gb''] db_one)"

definition db_removed :: mem_db where
  "db_removed = snd (delete_message_lua mem_redis ''gn'' ''gc'' db_again)"

lemma again_scripts:
  "store_message_lua mem_redis ''gn'' [''m'', ''1'', ''b'', ''gc'', ''a'', ''gb''] db_one = (Ok (RStatus ''OK''), db_again)"
  "delete_message_lua mem_redis ''gn'' ''gc'' db_again = (Ok (RStatus ''OK''), db_removed)"
  by code_simp+

lemma identical_message_leaves_an_entry_witness:
  "''gn'' \<in> set (inbox_of (mem_view db_removed) ''gc'') \<and> mem_view db_removed (msg_key ''gn'') = None"
proof -
  have "store_message (sample_med []) mem_redis ''S'' ''m'' ''b'' (Some ''a'') db_one = (Ok ''gn'', db_again)"
    by (simp add: store_message_def fcall_def eff_then_app eff_map_err_def again_scripts show_one Let_def)
  moreover have "delete_message mem_redis ''S'' ''gc'' ''gn'' db_again = (Ok (), db_removed)"
    by (simp add: delete_message_def fcall_def eff_then_app eff_map_err_def again_scripts)
  then have "mail_drop mem_redis ''gn'' db_again db_removed" unfolding mail_drop_def by blast
  ultimately show ?thesis
    using identical_message_leaves_an_entry[OF sample_start[of "[]"] sample_put_one[of "[]"],
        where sid = "''S''" and msg = "''m''" and to = "''b''" and frm = "''a''"]
    by simp
qed

lemma sent_messages_are_never_counted_witness:
  "\<exists>e db'. update_send_stats mem_redis 5 db_one = (Err e, db') \<and> mem_view db' = mem_view db_one"
proof -
  obtain r db' where "update_send_stats mem_redis 5 db_one = (r, db')"
    by (cases "update_send_stats mem_redis 5 db_one")
  with sent_messages_are_never_counted[OF mem_redis_laws this] show ?thesis by auto
qed

subsection \<open>Live streaming\<close>

definition db_sessions :: mem_db where
  "db_sessions =
     [(''STREAMING_SESSIONS:u'', MSet [''c'', ''d'']),
      (''GLOBAL_STREAMING'', MHash [(''c'', ''u:TRUE''), (''d'', ''u:FALSE''), (''x'', ''v:TRUE'')])]"

lemma clean_start_ends_witness:
  "\<exists>r db'. streaming_clean_start mem_redis ''u'' db_sessions = Some (r, db')"
proof -
  have "finite s" if "as_set (mem_view db_sessions) (streaming_sessions ''u'') = Some s" for s
    using that by (auto simp: as_set_def mem_view_def db_sessions_def streaming_sessions_def)
  from clean_start_ends[OF mem_redis_laws, of db_sessions "''u''"] this show ?thesis by blast
qed

definition sample_update :: "streaming_update_state \<Rightarrow> streaming_update" where
  "sample_update st = \<lparr>su_did_hash = ''c'', su_state = st\<rparr>"

text \<open>The client registers its socket, asks for live delivery, and gets a published message.\<close>

definition task_one :: stream_task where
  "task_one = \<lparr>tk_clients = [''c'' \<mapsto> (0, False)], tk_sent = []\<rparr>"

definition task_live :: stream_task where
  "task_live = \<lparr>tk_clients = [''c'' \<mapsto> (0, True)], tk_sent = []\<rparr>"

definition db_registered :: mem_db where
  "db_registered = snd (update_call mem_redis ''u'' (sample_update (Register 0)) [])"

definition db_live :: mem_db where
  "db_live = snd (update_call mem_redis ''u'' (sample_update Start) db_registered)"

lemma sample_calls:
  "update_call mem_redis ''u'' (sample_update (Register 0)) [] = (Ok (), db_registered)"
  "update_call mem_redis ''u'' (sample_update Start) db_registered = (Ok (), db_live)"
  by code_simp+

lemma sample_task_steps:
  "stream_update mem_redis ''u'' (sample_update (Register 0)) new_task [] = (Ok task_one, db_registered)"
  "stream_update mem_redis ''u'' (sample_update Start) task_one db_registered = (Ok task_live, db_live)"
  using sample_calls
  by (auto simp: stream_update_def logged_def eff_then_app eff_match_def update_clients_def sample_update_def
        new_task_def task_one_def task_live_def set_active_def Let_def)

definition published :: string where
  "published = Sample.fields [''c'', ''hello'', ''F'']"

definition task_sent :: stream_task where
  "task_sent = \<lparr>tk_clients = [''c'' \<mapsto> (0, True)], tk_sent = [(0, ''hello'')]\<rparr>"

lemma sample_payload:
  "de_pubsub (sample_med tbl) published = Inr \<lparr>ps_did_hash = ''c'', ps_message = ''hello'', ps_force_delivery = False\<rparr>"
  "stream_payload (sample_med tbl) mem_redis ''u'' published task_live db = (Ok task_sent, db)"
  by (simp_all add: published_def read_pubsub_def stream_payload_def task_live_def task_sent_def)

text \<open>A clean start, the client registers, and a message for it finds it not live.\<close>

lemma sample_clean_start: "streaming_clean_start mem_redis ''u'' ([] :: mem_db) = Some (Ok (), [])"
proof -
  have "clean_one mem_redis (streaming_sessions ''u'') ([] :: mem_db) = (Ok 0, [])" by code_simp
  then have "clean_loop mem_redis (streaming_sessions ''u'') 0 ([] :: mem_db) = Some (Ok (RInt 0), [])"
    by (simp add: clean_loop.simps)
  moreover have "get_async_connection mem_redis ([] :: mem_db) = (Ok (), [])" by code_simp
  moreover have "rv_i64 mem_redis (resp2 (RInt 0)) = Inr (0 :: int)" by code_simp
  ultimately show ?thesis by (simp add: streaming_clean_start_def)
qed

definition db_not_live :: mem_db where
  "db_not_live = snd (streaming_stop_live mem_redis ''c'' ''u'' db_registered)"

lemma sample_unwanted:
  "stream_payload (sample_med tbl) mem_redis ''u'' published task_one db_registered = (Ok task_one, db_not_live)"
proof -
  have "streaming_stop_live mem_redis ''c'' ''u'' db_registered = (Ok (), db_not_live)" by code_simp
  then show ?thesis
    by (simp add: stream_payload_def published_def read_pubsub_def task_one_def logged_def eff_match_def eff_then_app)
qed

lemma rows_follow_clients_witness:
  "\<exists>db. rows_reach (sample_med []) mem_redis mem_view ''u'' db task_one {} \<and>
     row_of (mem_view db) ''c'' = Some (streaming_row ''u'' False)"
proof -
  have "rows_reach (sample_med []) mem_redis mem_view ''u'' [] new_task {}"
    by (rule rows_start[OF sample_clean_start]) (simp add: as_hash_def mem_view_def)
  from rows_payload[OF rows_update[OF this sample_task_steps(1) sample_calls(1)] sample_unwanted]
  have r: "rows_reach (sample_med []) mem_redis mem_view ''u'' db_not_live task_one {}" by simp
  from rows_follow_clients[OF this mem_redis_laws] have
    "\<forall>d tx live. d \<notin> {} \<and> tk_clients task_one d = Some (tx, live) \<longrightarrow>
       row_of (mem_view db_not_live) d = Some (streaming_row ''u'' live)" by blast
  then have "row_of (mem_view db_not_live) ''c'' = Some (streaming_row ''u'' False)"
    by (simp add: task_one_def)
  with r show ?thesis by blast
qed

abbreviation sample_reach :: "mem_db stream_sys \<Rightarrow> bool" where
  "sample_reach \<equiv> stream_reach (sample_med []) mem_redis ''u''"

lemma sample_connected:
  "sample_reach \<lparr>sy_db = db_registered, sy_task = task_one, sy_queue = [], sy_open = {0},
     sy_owner = [0 \<mapsto> ''c''], sy_published = []\<rparr>"
  using sys_update[OF sys_connect[OF sys_start[where db = "[]"], where c = 0 and d = "''c''"], of "sample_update (Register 0)" "[]"]
    sample_task_steps(1)
  by (simp add: sample_update_def)

lemma sample_streamed:
  "sample_reach \<lparr>sy_db = db_live, sy_task = task_sent, sy_queue = [], sy_open = {0},
     sy_owner = [0 \<mapsto> ''c''], sy_published = [(''c'', ''hello'')]\<rparr>"
  using sys_payload[OF sys_update[OF sys_request[OF sample_connected, where st = Start and d = "''c''"], of "sample_update Start" "[]"]
      sample_payload(1)] sample_task_steps(2) sample_payload(2)[of "[]" db_live]
  by (simp add: sample_update_def)

lemma streams_to_the_right_client_witness:
  "\<exists>s d. sample_reach s \<and> (0, ''hello'') \<in> set (tk_sent (sy_task s)) \<and> sy_owner s 0 = Some d \<and>
     (d, ''hello'') \<in> set (sy_published s)"
  using sample_streamed streams_to_the_right_client[OF sample_streamed, of 0 "''hello''"]
  by (fastforce simp: task_sent_def)

definition task_two :: stream_task where
  "task_two = \<lparr>tk_clients = [''c'' \<mapsto> (1, False)], tk_sent = []\<rparr>"

definition db_second :: mem_db where
  "db_second = snd (update_call mem_redis ''u'' (sample_update (Register 1)) db_registered)"

definition db_gone :: mem_db where
  "db_gone = snd (update_call mem_redis ''u'' (sample_update Deregister) db_second)"

lemma sample_second:
  "stream_update mem_redis ''u'' (sample_update (Register 1)) task_one db_registered = (Ok task_two, db_second)"
  "stream_update mem_redis ''u'' (sample_update Deregister) task_two db_second = (Ok new_task, db_gone)"
proof -
  have "update_call mem_redis ''u'' (sample_update (Register 1)) db_registered = (Ok (), db_second)"
      "update_call mem_redis ''u'' (sample_update Deregister) db_second = (Ok (), db_gone)"
    by code_simp+
  then show "stream_update mem_redis ''u'' (sample_update (Register 1)) task_one db_registered = (Ok task_two, db_second)"
      "stream_update mem_redis ''u'' (sample_update Deregister) task_two db_second = (Ok new_task, db_gone)"
    by (auto simp: stream_update_def logged_def eff_then_app eff_match_def update_clients_def sample_update_def
          new_task_def task_one_def task_two_def Let_def)
qed

lemma second_websocket_is_deregistered_witness:
  "\<exists>t1 t2 db1 db2. tk_clients task_one ''c'' = Some (0, False) \<and>
     stream_update mem_redis ''u'' (sample_update (Register 1)) task_one db_registered = (Ok t1, db1) \<and>
     stream_update mem_redis ''u'' (sample_update Deregister) t1 db1 = (Ok t2, db2) \<and>
     tk_clients t1 ''c'' = Some (1, False) \<and> tk_clients t2 ''c'' = None"
proof -
  let ?s = "\<lparr>sy_db = db_registered, sy_task = task_one, sy_queue = [\<lparr>su_did_hash = ''c'', su_state = Register 1\<rparr>],
     sy_open = {1, 0}, sy_owner = [0 \<mapsto> ''c'', 1 \<mapsto> ''c''], sy_published = []\<rparr>"
  have "sample_reach ?s" using sys_connect[OF sample_connected, where c = 1 and d = "''c''"] by simp
  from second_websocket_is_deregistered[OF this, of "''c''" 0 False 1 task_two db_second _ db_second new_task db_gone]
  have "tk_clients task_two ''c'' = Some (1, False) \<and> tk_clients new_task ''c'' = None"
    using sample_second by (simp add: task_one_def sample_update_def)
  with sample_second show ?thesis
    by (intro exI[of _ task_two] exI[of _ new_task] exI[of _ db_second] exI[of _ db_gone]) (simp add: task_one_def)
qed

subsection \<open>Message pickup\<close>

definition sample_client :: client_session where
  "sample_client = \<lparr>cs_session_id = ''S'', cs_authenticated = True, cs_challenge_sent = None, cs_did = ''b'',
     cs_did_hash = ''gc''\<rparr>"

definition pickup_request :: "string \<Rightarrow> json \<Rightarrow> message" where
  "pickup_request what body = message_finalize (with_header ''return_route'' (JString ''all'')
     (with_from ''b'' (with_to carol (message_build ''1'' (''https://didcomm.org/messagepickup/3.0/'' @ what) body))))"

definition still :: "nat \<Rightarrow> u64" where
  "still = (\<lambda>_. 100)"

definition sample_world :: "mem_db \<Rightarrow> mem_db world" where
  "sample_world db = \<lparr>w_db = db, w_updates = Some []\<rparr>"

lemma refused_pickup_requests_panic_witness:
  "\<exists>msg. message_process (sample_med []) sample_shared sample_client still ''1'' msg (sample_world db_two) =
     (Panic, sample_world db_two)"
proof -
  let ?m = "message_finalize (message_build ''1'' ''https://didcomm.org/messagepickup/3.0/status-request'' (JObject []))"
  have "message_process (sample_med []) sample_shared sample_client still ''1'' ?m (sample_world db_two) =
      (Panic, sample_world db_two)"
    by (rule refused_pickup_requests_panic[where t = MessagePickupStatusRequest])
       (simp_all add: builder_defs message_type_of_def pickup_types_def check_expiry_def validate_msg_def Let_def)
  then show ?thesis by blast
qed

lemma tonumber_one: "tonumber ''1'' = Some 1"
  by code_simp

lemma sample_counted: "length (entries (mem_view db_two) (receive_q ''gc'')) = 2"
    "sum_list (map entry_bytes (entries (mem_view db_two) (receive_q ''gc''))) = 2"
proof -
  have "mem_stream db_two ''RECEIVE_Q:gc'' = Some (StreamId 10 1,
      [(StreamId 10 0, [(''MSG_ID'', ''gn''), (''BYTES'', ''1''), (''FROM'', ''a'')]),
       (StreamId 10 1, [(''MSG_ID'', ''go''), (''BYTES'', ''1''), (''FROM'', ''a'')])])"
    by code_simp
  from mem_stream_as[OF this] show "length (entries (mem_view db_two) (receive_q ''gc'')) = 2"
      "sum_list (map entry_bytes (entries (mem_view db_two) (receive_q ''gc''))) = 2"
    by (simp_all add: receive_q_def entry_bytes_def tonumber_one)
qed

lemma sample_mail_inv: "mail_inv (mem_view db_two)"
  using sample_wf(2)[of "[]"] by (simp add: mail_wf_def)

lemma sample_status_run:
  "fst (get_status_reply_lua mem_redis ''gc'' db_two) = Ok (status_table ''gc'' [RBulk ''2'', RBulk ''2'']
     [(RBulk ''oldest_received'', RBulk ''10-0''), (RBulk ''newest_received'', RBulk ''10-1''), (RBulk ''queue_count'', RInt 2)] False) \<and>
   snd (get_status_reply_lua mem_redis ''gc'' db_two) = db_two"
  by code_simp

lemma ran_ok: "(case fst p of Ok r \<Rightarrow> True | _ \<Rightarrow> False) \<Longrightarrow> \<exists>r d. p = (Ok r, d)"
  by (cases p) (auto split: result.splits)

lemma sample_status:
  "\<exists>resp w'. generate_status_reply sample_shared sample_client 100 ''1'' ''gc'' ''t'' False None (sample_world db_two) =
     (Ok resp, w')"
  by (rule ran_ok, code_simp)

lemma status_counts_the_inbox_witness:
  "\<exists>st w'. generate_status_reply sample_shared sample_client 100 ''1'' ''gc'' ''t'' False None (sample_world db_two) =
       (Ok (Some (status_answer sample_shared sample_client 100 ''1'' ''t'' False st)), w') \<and>
     sp_message_count st = 2 \<and> sp_total_bytes st = 2"
proof -
  obtain resp w' where g: "generate_status_reply sample_shared sample_client 100 ''1'' ''gc'' ''t'' False None
      (sample_world db_two) = (Ok resp, w')" using sample_status by blast
  have "redis_laws (sh_database sample_shared) mem_view" "conversion_laws (sh_database sample_shared)"
      "mail_reach (sample_med []) (sh_database sample_shared) mem_view (w_db (sample_world db_two))"
    by (simp_all add: mem_redis_laws mem_conversion_laws sample_reached(2) sample_world_def)
  from status_counts_the_inbox[OF this(1,2) sample_hex_digests this(3) _ _ _ g] sample_counted g show ?thesis
    by (fastforce simp: sample_world_def)
qed

text \<open>The client has a websocket, but has not asked for live delivery.\<close>

definition db_on :: mem_db where
  "db_on = AList.update ''GLOBAL_STREAMING'' (MHash [(''gc'', ''u:FALSE'')]) db_two"

lemma sample_on: "mail_inv (mem_view db_on)" "entries (mem_view db_on) (receive_q ''gc'') = entries (mem_view db_two) (receive_q ''gc'')"
    "row_of (mem_view db_on) ''gc'' = Some (streaming_row ''u'' False)"
proof -
  have "same_mail (mem_view db_two) (mem_view db_on)"
    by (simp add: same_mail_def db_on_def receive_q_def send_q_def did_row_def meta_key_def)
  with mail_inv_same sample_mail_inv show "mail_inv (mem_view db_on)" by blast
  show "entries (mem_view db_on) (receive_q ''gc'') = entries (mem_view db_two) (receive_q ''gc'')"
    by (simp add: db_on_def receive_q_def entries_def as_stream_def)
  show "row_of (mem_view db_on) ''gc'' = Some (streaming_row ''u'' False)"
    by (simp add: row_of_def as_hash_def db_on_def global_streaming_def streaming_row_def)
qed

lemma sample_status_on:
  "\<exists>resp w'. generate_status_reply sample_shared sample_client 100 ''1'' ''gc'' ''t'' False None (sample_world db_on) =
     (Ok resp, w')"
  by (rule ran_ok, code_simp)

lemma connected_counts_as_live_witness:
  "\<exists>st w' db'. generate_status_reply sample_shared sample_client 100 ''1'' ''gc'' ''t'' False None (sample_world db_on) =
       (Ok (Some (status_answer sample_shared sample_client 100 ''1'' ''t'' False st)), w') \<and> sp_live_delivery st \<and>
     streaming_is_client_live mem_redis ''gc'' False db_on = (Ok None, db')"
proof -
  obtain resp w' where g: "generate_status_reply sample_shared sample_client 100 ''1'' ''gc'' ''t'' False None
      (sample_world db_on) = (Ok resp, w')" using sample_status_on by blast
  obtain r db' where l: "streaming_is_client_live (sh_database sample_shared) ''gc'' False (w_db (sample_world db_on)) = (r, db')"
    by (metis prod.exhaust)
  have w: "redis_laws (sh_database sample_shared) mem_view" "conversion_laws (sh_database sample_shared)"
      "mail_inv (mem_view (w_db (sample_world db_on)))"
      "row_of (mem_view (w_db (sample_world db_on))) ''gc'' = Some (streaming_row ''u'' False)"
    by (simp_all add: mem_redis_laws mem_conversion_laws sample_on sample_world_def)
  from connected_counts_as_live[OF w(1-3) refl _ _ _ w(4) _ g l] sample_counted sample_on(2) g l show ?thesis
    by (fastforce simp: sample_world_def)
qed

lemma sample_fetched:
  "\<exists>r db'. fetch_messages mem_redis ''S'' ''gc'' (default_fetch_options\<lparr>fo_limit := 1\<rparr>) db_two = (Ok r, db') \<and>
     gm_success r \<noteq> []"
proof -
  have "case fst (fetch_messages mem_redis ''S'' ''gc'' (default_fetch_options\<lparr>fo_limit := 1\<rparr>) db_two) of
     Ok r \<Rightarrow> gm_success r \<noteq> [] | _ \<Rightarrow> False"
    by code_simp
  then show ?thesis
    by (cases "fetch_messages mem_redis ''S'' ''gc'' (default_fetch_options\<lparr>fo_limit := 1\<rparr>) db_two")
       (auto split: result.splits)
qed

abbreviation delivery_message :: message where
  "delivery_message \<equiv>
     pickup_request ''delivery-request'' (JObject [(''recipient_did'', JString ''b''), (''limit'', JNumber (PosInt 1))])"

lemma sample_delivery:
  "\<exists>p w'. delivery_request (sample_med []) sample_shared sample_client still ''1'' delivery_message (sample_world db_two) =
     (Ok (Some p), w')"
proof -
  obtain r db' where "fetch_messages mem_redis ''S'' ''gc'' (default_fetch_options\<lparr>fo_limit := 1\<rparr>) db_two = (Ok r, db')"
      "gm_success r \<noteq> []" using sample_fetched by blast
  moreover have "validate_msg (sample_med []) sample_shared sample_client (still 0) delivery_message = Ok ()"
    by (simp add: validate_msg_def pickup_request_def builder_defs check_expiry_def Let_def)
  moreover have "parse_and_validate_delivery_request_body (sample_med []) sample_client delivery_message = Ok (''b'', 1)"
    by (simp add: parse_and_validate_delivery_request_body_def pickup_request_def builder_defs
          delivery_request_body_def sample_client_def)
  ultimately show ?thesis
    by (simp add: delivery_request_def eff_then_app unwrap_result_def on_db_def eff_on_def sample_world_def
          sample_client_def)
qed

lemma delivery_is_the_own_inbox_witness:
  "\<exists>p w' m a as. delivery_request (sample_med []) sample_shared sample_client still ''1'' delivery_message
       (sample_world db_two) = (Ok (Some p), w') \<and> pr_message_response p = ResponseMessage m \<and>
     m_to m = Some [''b''] \<and> m_attachments m = Some (a # as) \<and>
     attaches (sample_med []) (mem_view db_two) (hd (entries (mem_view db_two) (receive_q ''gc''))) a"
proof -
  obtain p w' where d: "delivery_request (sample_med []) sample_shared sample_client still ''1'' delivery_message
      (sample_world db_two) = (Ok (Some p), w')" using sample_delivery by blast
  let ?es = "entries (mem_view db_two) (receive_q ''gc'')"
  have w: "redis_laws (sh_database sample_shared) mem_view" "conversion_laws (sh_database sample_shared)"
      "linked (mem_view (w_db (sample_world db_two)))"
      "entries (mem_view (w_db (sample_world db_two))) (receive_q (digest (sample_med []) (cs_did sample_client))) = ?es"
    by (simp_all add: mem_redis_laws mem_conversion_laws sample_linked sample_world_def sample_client_def)
  obtain e es where es: "?es = e # es" using sample_counted(1) by (cases ?es) auto
  have "?es \<noteq> []" using es by simp
  from delivery_is_the_own_inbox[OF w(1-3) d w(4) this] obtain n m as where
    m: "1 \<le> n" "pr_message_response p = ResponseMessage m" "m_to m = Some [cs_did sample_client]" "m_attachments m = Some as"
      "list_all2 (attaches (sample_med []) (mem_view (w_db (sample_world db_two)))) (take n ?es) as"
    by blast
  from m(1,5) es obtain a as' where "as = a # as'" "attaches (sample_med []) (mem_view db_two) e a"
    by (cases n) (auto simp: list_all2_Cons1 sample_world_def)
  with d m es show ?thesis by (fastforce simp: sample_client_def)
qed

subsection \<open>The handlers\<close>

lemma fetch_is_bounded_witness:
  "\<exists>r code resp db'. inbox_fetch_handler (sample_med []) sample_shared sample_client (sample_page 1 None) db_two =
      (Ok (code, resp), db') \<and> sr_data resp = Some r \<and> length (gm_success r) \<le> 1"
proof -
  obtain r where r: "fetch_messages mem_redis ''S'' ''gc'' (sample_page 1 None) db_two = (Ok r, db_two)"
    using sample_fetch(1) by blast
  obtain code resp where s: "success ''S'' r = (code, resp)" by (cases "success ''S'' r")
  have f: "fo_limit (sample_page n None) = n" "fo_start_id (sample_page n None) = None" for n
    by (simp_all add: sample_page_def)
  from r s have h: "inbox_fetch_handler (sample_med []) sample_shared sample_client (sample_page 1 None) db_two =
      (Ok (code, resp), db_two)"
    by (simp add: inbox_fetch_handler_def eff_then_app f sample_client_def)
  have "redis_laws (sh_database sample_shared) mem_view" "conversion_laws (sh_database sample_shared)"
    by (simp_all add: mem_redis_laws mem_conversion_laws)
  from fetch_is_bounded[OF this _ _ h] h f show ?thesis by (fastforce simp: range_start_def)
qed

definition sample_source :: "nat \<Rightarrow> (sample_key, string) source" where
  "sample_source = (\<lambda>_. \<lparr>src_clock = still, src_uuid = ''1'', src_draws = (\<lambda>_. sample_draws)\<rparr>)"

definition db_opened :: mem_db where
  "db_opened = snd (increment_websocket mem_redis ''WEBSOCKET_OPEN'' db_two)"

definition db_closed :: mem_db where
  "db_closed = snd (increment_websocket mem_redis ''WEBSOCKET_CLOSE'' db_opened)"

lemma sample_counts:
  "increment_websocket mem_redis ''WEBSOCKET_OPEN'' db_two = (Ok (), db_opened)"
  "increment_websocket mem_redis ''WEBSOCKET_CLOSE'' db_opened = (Ok (), db_closed)"
  by code_simp+

lemma sample_socket:
  "handle_socket (sample_med []) sample_shared sample_client 0 sample_source [WsPush ''hello'', WsEnd] (sample_world db_two) =
     (Ok (WsClosed, [''hello'']), \<lparr>w_db = db_closed,
        w_updates = Some [\<lparr>su_did_hash = ''gc'', su_state = Register 0\<rparr>, \<lparr>su_did_hash = ''gc'', su_state = Deregister\<rparr>]\<rparr>)"
  by (simp add: handle_socket_def eff_match_def eff_then_app send_update_def sample_shared_def sample_world_def
        sample_client_def ws_count_def on_db_def eff_on_def logged_def sample_counts)

lemma socket_registers_and_deregisters_witness:
  "\<exists>w'. handle_socket (sample_med []) sample_shared sample_client 0 sample_source [WsPush ''hello'', WsEnd]
         (sample_world db_two) = (Ok (WsClosed, [''hello'']), w') \<and>
     (\<exists>more. w_updates w' = Some ([\<lparr>su_did_hash = ''gc'', su_state = Register 0\<rparr>] @ more @
        [\<lparr>su_did_hash = ''gc'', su_state = Deregister\<rparr>]) \<and> switches ''gc'' more)"
proof -
  have "sh_has_streaming_task sample_shared" "w_updates (sample_world db_two) = Some []"
    by (simp_all add: sample_shared_def sample_world_def)
  from socket_registers_and_deregisters[OF this sample_socket] sample_socket show ?thesis
    by (simp add: sample_client_def)
qed

subsection \<open>Messages that come in\<close>

lemma sample_plaintext_opens:
  assumes "write_message tbl m = Inr s" "m_typ m = plaintext_typ" "m_from_prior m = None"
    and "\<And>p. try_parse_forward m = Some p \<Longrightarrow> has_key_agreement_secret (sample_med tbl) SR (pf_next p) = Ok False"
    and "1 < unat (uo_crypto_operations_limit opts)"
  shows "unpack_string (sample_med tbl) SR opts s = Ok (m, default_metadata)"
proof -
  have "read_envelope (sample_med tbl) s = Ok (PeMessage m)"
    using sample_med_reads[of tbl m] assms(1)
    by (simp add: message_reads_def sample_med_def sample_with_def)
  then show ?thesis by (rule plain_text_opens) (use assms(2-5) in simp_all)
qed

lemma sample_limit: "1 < unat (uo_crypto_operations_limit (inbound_options sample_shared))"
  by (simp add: inbound_options_def sample_shared_def)

definition quiet_message :: message where
  "quiet_message = message_finalize (with_to carol (message_build ''1'' ''https://didcomm.org/trust-ping/2.0/ping''
     (JObject [(''response_requested'', JBool False)])))"

lemma quiet_message_sel [simp]:
  "m_type quiet_message = ''https://didcomm.org/trust-ping/2.0/ping''" "m_to quiet_message = Some [carol]"
  "ping_body (m_body quiet_message) = Some False" "m_expires_time quiet_message = None"
  "m_typ quiet_message = plaintext_typ" "m_from_prior quiet_message = None" "try_parse_forward quiet_message = None"
  by (simp_all add: quiet_message_def builder_defs plaintext_typ_def try_parse_forward_def forward_msg_type_def ping_body_def)

lemma quiet_ping_is_an_error_witness:
  "\<exists>s. handle_inbound (sample_med [quiet_message]) sample_shared sample_client still ''1'' (\<lambda>_. sample_draws) s
       (sample_world db_two) =
     (Err (InternalError ''S'' ''Expected a message to return, but got None''), sample_world db_two)"
proof -
  obtain s where "write_message [quiet_message] quiet_message = Inr s"
    using sample_table_text[of quiet_message "[quiet_message]"] by auto
  then have "unpack_string (sample_med [quiet_message]) (sh_mediator_secrets sample_shared)
      (inbound_options sample_shared) s = Ok (quiet_message, default_metadata)"
    by (rule sample_plaintext_opens) (use sample_limit in simp_all)
  then have "open_inbound (sample_med [quiet_message]) (sh_mediator_secrets sample_shared) (cs_session_id sample_client)
      (inbound_options sample_shared) s = Ok (quiet_message, default_metadata)"
    by (simp only: open_inbound_Ok_iff)
  from quiet_ping_is_an_error[OF this] have "handle_inbound (sample_med [quiet_message]) sample_shared sample_client
      still ''1'' (\<lambda>_. sample_draws) s (sample_world db_two) =
     (Err (InternalError ''S'' ''Expected a message to return, but got None''), sample_world db_two)"
    by (simp add: sample_client_def)
  then show ?thesis by blast
qed

text \<open>A forward of \<open>m\<close> to \<open>bob\<close>, for whom nothing is stored yet.\<close>

definition forward_text :: message where
  "forward_text = forward_of ''1'' bob ''m''"

lemma forward_text_sel [simp]:
  "try_parse_forward forward_text = Some \<lparr>pf_msg = forward_text, pf_next = bob, pf_forwarded_msg = JString ''m''\<rparr>"
  "m_typ forward_text = plaintext_typ" "m_from_prior forward_text = None" "m_type forward_text = forward_msg_type"
  "m_expires_time forward_text = None" "m_id forward_text = ''1''"
  by (simp_all add: forward_text_def forward_of_def builder_defs attachment_builder_defs plaintext_typ_def
        try_parse_forward_def)

lemma sample_forward_opens:
  "\<exists>s. open_inbound (sample_med []) (sh_mediator_secrets sample_shared) (cs_session_id sample_client)
      (inbound_options sample_shared) s = Ok (forward_text, default_metadata)"
proof -
  have "forward_text \<noteq> bare i t f" for i t f
  proof
    assume "forward_text = bare i t f"
    then have "m_to forward_text = m_to (bare i t f)" by simp
    then show False by (simp add: forward_text_def forward_of_def bare_def builder_defs)
  qed
  then obtain s where "write_message [] forward_text = Inr s"
    by (auto simp: write_message_def) (simp add: forward_text_def)
  moreover have "has_key_agreement_secret (sample_med []) (party_wallet carol) bob = Ok False"
    using sample_mediator[of carol bob, where tbl = "[]" and z = sample_part]
    by (simp add: mediator_ready_def sample_med_def alice_def bob_def carol_def)
  ultimately have "unpack_string (sample_med []) (sh_mediator_secrets sample_shared) (inbound_options sample_shared) s =
      Ok (forward_text, default_metadata)"
    by (intro sample_plaintext_opens) (use sample_limit in auto)
  then show ?thesis by (auto simp: open_inbound_Ok_iff)
qed

definition db_forwarded :: mem_db where
  "db_forwarded = snd (store_message_lua mem_redis ''gn'' [''m'', ''1'', bob, hex bob, carol, hex carol] [])"

lemma sample_forward_stores:
  "store_message (sample_med []) mem_redis sid ''m'' bob (Some carol) [] = (Ok ''gn'', db_forwarded)"
proof -
  have "store_message_lua mem_redis ''gn'' [''m'', ''1'', bob, hex bob, carol, hex carol] [] = (Ok (RStatus ''OK''), db_forwarded)"
    by code_simp
  then show ?thesis by (simp add: store_message_def fcall_def eff_then_app eff_map_err_def show_one Let_def)
qed

lemma sample_no_row: "rv_opt_string mem_redis RNil = Inr None"
  by (simp add: mem_redis_def)

lemma sample_not_live: "try_live_stream X mem_redis did p force [] = (Ok (), [])"
proof -
  have "streaming_is_client_live mem_redis did force [] = (Ok None, [])"
    using sample_no_row by (simp add: streaming_is_client_live_def eff_match_def eff_then_app mem_eval bulk_opt_def)
  then show ?thesis by (simp add: try_live_stream_def eff_then_app)
qed

lemma sample_forward_processed:
  "message_process (sample_med []) sample_shared sample_client still ''1'' forward_text w =
     (Ok (Some \<lparr>pr_store_message = True, pr_force_live_delivery = True, pr_message_response = PackedMessage bob ''m''\<rparr>), w)"
proof -
  have "ser_value (sample_med []) (JString ''m'') = Inr ''m''"
    by (simp add: sample_med_def sample_with_def)
  moreover have "message_type_of forward_msg_type = Ok ForwardRequest"
    by (simp add: message_type_of_def forward_msg_type_def)
  ultimately show ?thesis
    by (simp add: message_process_def type_process_def eff_then_app check_expiry_def routing_process_def)
qed

lemma forward_reaches_the_mailbox_witness:
  "\<exists>s w'. handle_inbound (sample_med []) sample_shared sample_client still ''1'' (\<lambda>_. sample_draws) s (sample_world []) =
       (Ok (Stored \<lparr>il_messages = [(bob, ''gn'')], il_errors = []\<rparr>), w') \<and>
     inbox_of (mem_view (w_db w')) (hex bob) = [''gn'']"
proof -
  obtain s where o: "open_inbound (sample_med []) (sh_mediator_secrets sample_shared) (cs_session_id sample_client)
      (inbound_options sample_shared) s = Ok (forward_text, default_metadata)" using sample_forward_opens by blast
  have wf: "mail_wf (sample_med []) (sh_database sample_shared) mem_view (w_db (sample_world []))"
    using sample_start by (simp add: sample_world_def)
  let ?l = "\<lparr>il_messages = [(bob, ''gn'')], il_errors = []\<rparr>"
  have h: "handle_inbound (sample_med []) sample_shared sample_client still ''1'' (\<lambda>_. sample_draws) s (sample_world []) =
       (Ok (Stored ?l), \<lparr>w_db = db_forwarded, w_updates = Some []\<rparr>)"
    using o sample_forward_processed sample_forward_stores
    by (simp add: sample_not_live handle_inbound_def eff_then_app pack_response_def on_db_def eff_on_def deliver_def sample_world_def
          store_for_def eff_match_def no_inbound_messages_def)
  have v: "ser_value (sample_med []) (JString ''m'') = Inr ''m''"
      "mem_view (w_db (sample_world [])) (meta_key (digest (sample_med []) ''m'')) = None"
    by (simp_all add: sample_med_def sample_with_def sample_world_def mem_view_def)
  from forward_reaches_the_mailbox[OF wf o forward_text_sel(1) _ _ v(2) h] v(1)
  have "inbox_of (mem_view db_forwarded) (hex bob) = inbox_of (mem_view []) (hex bob) @ [''gn'']"
    by (simp add: sample_world_def)
  with h sample_empty_inbox show ?thesis by (intro exI[of _ s] exI) (auto simp: sample_world_def)
qed

end
