(* ===== verification/SampleConfig.thy ===== *)
theory SampleConfig
  imports ConfigProps SampleServe
begin

text \<open>
  Instances of the theorems about the configuration: a file with the settings of a mediator called
  \<open>a:b\<close>, read on a host whose parsers accept everything, and the server in memory.
\<close>

definition sample_raw :: config_raw where
  "sample_raw =
     \<lparr>raw_log_level = ''info'', raw_listen_address = ''0.0.0.0:7037'', raw_mediator_did = ''did://did:x:m'',
      raw_mediator_secrets = ''aws_secrets://s'',
      raw_server = \<lparr>sc_api_prefix = ''/mediator/v1/'', sc_http_size_limit = ''10485760'', sc_ws_size_limit = ''1024''\<rparr>,
      raw_database = \<lparr>dc_database_url = ''redis://h/'', dc_database_pool_size = ''10'', dc_database_timeout = ''2'',
        dc_max_message_size = ''1048576'', dc_max_queued_messages = ''100'', dc_message_expiry_minutes = ''10080'',
        dc_max_listed_messages = ''50'', dc_max_deleted_messages = ''{MAX_DELETED_MESSAGES:100}''\<rparr>,
      raw_security = \<lparr>sec_use_ssl = ''true'', sec_ssl_certificate_file = ''end.cert'', sec_ssl_key_file = ''end.key'',
        sec_jwt_authorization_secret = ''string://k'', sec_cors_allow_origin = Some ''a,b''\<rparr>,
      raw_streaming = \<lparr>stc_enabled = ''true'', stc_uuid = ''string://a:b''\<rparr>,
      raw_did_resolver = \<lparr>drc_address = None, drc_cache_capacity = ''1000'', drc_cache_ttl = ''300'',
        drc_network_timeout = ''5000'', drc_network_limit = ''100''\<rparr>,
      raw_other = \<lparr>oc_to_recipients_limit = ''100'', oc_crypto_operations_per_message_limit = ''77'',
        oc_to_keys_per_recipient_limit = ''many''\<rparr>\<rparr>"

definition sample_host :: host where
  "sample_host =
     \<lparr>env_var = Map.empty, open_lines = (\<lambda>_. Inr [''# a comment'', ''x'']), replace_all = (\<lambda>_ _ s. s),
      toml_config = (\<lambda>_. Inr sample_raw), json_secrets = (\<lambda>_. Inr []), secret_value = (\<lambda>_. Inr (Some ''[]'')),
      store_parameter = (\<lambda>_. Inr None), url_safe_decode = Inr, ed25519_public = Inr, os_hostname = Inr ''h'',
      header_value = (\<lambda>_. True), reload_log_filter = (\<lambda>_. None), pool_of_url = (\<lambda>_. None),
      pool_build = (\<lambda>_ _. None)\<rparr>"

definition sample_config :: config where
  "sample_config =
     (case config_try_from sample_host sample_raw of Ok c \<Rightarrow> c | _ \<Rightarrow> default_config)"

lemma sample_config_read: "config_try_from sample_host sample_raw = Ok sample_config"
  by code_simp

lemma limits_are_kept_witness:
  "unat (sh_crypto_operations_limit (shared_of sample_config mem_redis)) = 77 \<and>
   unat (sh_to_keys_limit (shared_of sample_config mem_redis)) = 100 \<and>
   sh_max_listed_messages (shared_of sample_config mem_redis) = 50"
proof -
  have t: "show_nat 77 = ''77''" "show_nat 50 = ''50''" "parse_nat 64 ''many'' = None" by code_simp+
  have "oc_crypto_operations_per_message_limit (raw_other sample_raw) = show_nat 77"
      "oc_to_keys_per_recipient_limit (raw_other sample_raw) = ''many''"
      "dc_max_listed_messages (raw_database sample_raw) = show_nat 50"
    by (simp_all add: sample_raw_def t)
  with limits_are_kept[OF sample_config_read, of mem_redis] t(3) show ?thesis by (auto simp: reads_as_def)
qed

definition db_colon :: mem_db where
  "db_colon = [(''GLOBAL_STREAMING'', MHash [(''c'', ''a:b:TRUE'')])]"

lemma colon_in_uuid_disables_streaming_witness:
  "fst (streaming_is_client_live mem_redis ''c'' True db_colon) = Ok None"
proof -
  have s: "cf_streaming_enabled sample_config" "cf_streaming_uuid sample_config = ''a:b''" by code_simp+
  have u: "stc_uuid (raw_streaming sample_raw) = ''string://'' @ ''a:b''" "CHR '':'' \<in> set ''a:b''"
    by (simp_all add: sample_raw_def)
  have "row_of (mem_view db_colon) ''c'' = Some (streaming_row (cf_streaming_uuid sample_config) True)"
    unfolding s(2) by (simp add: row_of_def as_hash_def mem_view_def db_colon_def global_streaming_def streaming_row_def)
  from colon_in_uuid_disables_streaming[OF sample_config_read s(1) u mem_redis_laws mem_conversion_laws this
      prod.collapse[symmetric]]
  show ?thesis .
qed

end
