(* ===== verification/MessageCache.thy ===== *)
theory MessageCache
  imports Envelope
begin

text \<open>
  The cache of the SDK's websocket handler (\<open>MessageCache\<close> of \<open>transports/websockets/ws_handler.rs\<close>):
  the messages by id, the ids by thread, the ids that are searched for, the order of arrival, and
  the two totals with their limits. Counters are words, as in a build without overflow checks;
  \<open>sz\<close> is the size of the type \<open>Message\<close>, which is what the source adds for every message. At the
  end the cache is compared with a plain queue.
\<close>

subsection \<open>The cache\<close>

type_synonym received = "message \<times> unpack_metadata"

record message_cache =
  mc_messages :: "string \<rightharpoonup> received"
  mc_thid_lookup :: "string \<rightharpoonup> string"
  mc_search_list :: "string set"
  mc_ordered_list :: "string list"
  mc_total_count :: "32 word"
  mc_total_bytes :: u64
  mc_cache_full :: bool
  mc_limit_count :: "32 word"
  mc_limit_bytes :: u64
  mc_next_flag :: bool

definition new_cache :: "32 word \<Rightarrow> u64 \<Rightarrow> message_cache" where
  "new_cache limit_count limit_bytes =
     \<lparr>mc_messages = Map.empty, mc_thid_lookup = Map.empty, mc_search_list = {}, mc_ordered_list = [],
      mc_total_count = 0, mc_total_bytes = 0, mc_cache_full = False, mc_limit_count = limit_count,
      mc_limit_bytes = limit_bytes, mc_next_flag = False\<rparr>"

definition over_limit :: "message_cache \<Rightarrow> bool" where
  "over_limit c \<longleftrightarrow> mc_limit_count c < mc_total_count c \<or> mc_limit_bytes c < mc_total_bytes c"

definition cache_insert :: "u64 \<Rightarrow> message \<Rightarrow> unpack_metadata \<Rightarrow> message_cache \<Rightarrow> message_cache" where
  "cache_insert sz message meta c =
     (let c = c\<lparr>mc_messages := (mc_messages c)(m_id message \<mapsto> (message, meta)),
                mc_ordered_list := mc_ordered_list c @ [m_id message],
                mc_total_count := mc_total_count c + 1,
                mc_total_bytes := mc_total_bytes c + sz\<rparr>;
          c = (if over_limit c then c\<lparr>mc_cache_full := True\<rparr> else c) in
      case m_thid message of
        Some thid \<Rightarrow> c\<lparr>mc_thid_lookup := (mc_thid_lookup c)(thid \<mapsto> m_id message)\<rparr>
      | None \<Rightarrow> c)"

definition cache_remove :: "u64 \<Rightarrow> string \<Rightarrow> message_cache \<Rightarrow> received option \<times> message_cache" where
  "cache_remove sz msg_id c =
     (let c = c\<lparr>mc_ordered_list := remove1 msg_id (mc_ordered_list c),
                mc_search_list := mc_search_list c - {msg_id}\<rparr> in
      case mc_messages c msg_id of
        None \<Rightarrow> (None, c)
      | Some (message, meta) \<Rightarrow>
          (let c = c\<lparr>mc_messages := (mc_messages c)(msg_id := None)\<rparr>;
               c = (case m_thid message of
                      Some thid \<Rightarrow> c\<lparr>mc_thid_lookup := (mc_thid_lookup c)(thid := None)\<rparr>
                    | None \<Rightarrow> c);
               c = c\<lparr>mc_total_count := mc_total_count c - 1, mc_total_bytes := mc_total_bytes c - sz\<rparr>;
               c = (if mc_cache_full c \<and> \<not> over_limit c then c\<lparr>mc_cache_full := False\<rparr> else c) in
           (Some (message, meta), c)))"

definition cache_next :: "u64 \<Rightarrow> message_cache \<Rightarrow> received option \<times> message_cache" where
  "cache_next sz c =
     (case mc_ordered_list c of
        [] \<Rightarrow> (None, c\<lparr>mc_next_flag := True\<rparr>)
      | i # rest \<Rightarrow> cache_remove sz i (c\<lparr>mc_ordered_list := rest\<rparr>))"

definition cache_get :: "u64 \<Rightarrow> string \<Rightarrow> message_cache \<Rightarrow> received option \<times> message_cache" where
  "cache_get sz msg_id c =
     (case (case mc_messages c msg_id of
              Some r \<Rightarrow> (Some r, c)
            | None \<Rightarrow>
                (case mc_thid_lookup c msg_id of
                   Some i \<Rightarrow> (mc_messages c i, c)
                 | None \<Rightarrow> (None, c\<lparr>mc_search_list := insert msg_id (mc_search_list c)\<rparr>))) of
        (Some r, c) \<Rightarrow> (Some r, snd (cache_remove sz (m_id (fst r)) c))
      | (None, c) \<Rightarrow> (None, c))"

definition cache_is_full :: "message_cache \<Rightarrow> bool" where
  "cache_is_full c = mc_cache_full c"

subsection \<open>The queue it stands for\<close>

text \<open>
  The plain queue: new messages at the end, the next one from the front, and a message that is
  asked for by its id or its thread from wherever it is.
\<close>

type_synonym fifo = "received list"

definition r_id :: "received \<Rightarrow> string" where
  "r_id r = m_id (fst r)"

definition r_thid :: "received \<Rightarrow> string option" where
  "r_thid r = m_thid (fst r)"

definition fifo_next :: "fifo \<Rightarrow> received option \<times> fifo" where
  "fifo_next q = (case q of [] \<Rightarrow> (None, []) | r # rest \<Rightarrow> (Some r, rest))"

definition fifo_find :: "string \<Rightarrow> fifo \<Rightarrow> received option" where
  "fifo_find k q =
     (case find (\<lambda>r. r_id r = k) q of
        Some r \<Rightarrow> Some r
      | None \<Rightarrow> find (\<lambda>r. r_thid r = Some k) q)"

definition fifo_drop :: "string \<Rightarrow> fifo \<Rightarrow> fifo" where
  "fifo_drop i q = filter (\<lambda>r. r_id r \<noteq> i) q"

definition fifo_get :: "string \<Rightarrow> fifo \<Rightarrow> received option \<times> fifo" where
  "fifo_get k q =
     (case fifo_find k q of Some r \<Rightarrow> (Some r, fifo_drop (r_id r) q) | None \<Rightarrow> (None, q))"

text \<open>A message may enter when nothing in the queue has its id or its thread.\<close>

definition fresh :: "received \<Rightarrow> fifo \<Rightarrow> bool" where
  "fresh r q \<longleftrightarrow> r_id r \<notin> r_id ` set q \<and> (r_thid r = None \<or> r_thid r \<notin> r_thid ` set q)"

end
