(* ===== verification/Sdk.thy ===== *)
theory Sdk
  imports Server Authenticate MessageCache
begin

text \<open>
  The client library of the mediator (\<open>affinidi-messaging-sdk\<close>): its errors, its configuration with
  the builder (\<open>config.rs\<close>), the state of the type \<open>ATM\<close> (\<open>lib.rs\<close>), packing and unpacking
  (\<open>messages/pack.rs\<close>, \<open>unpack.rs\<close>) and the world it talks to. The types of the requests and
  responses are those the mediator shares with it.
\<close>

subsection \<open>Errors\<close>

datatype atm_error =
    AtmDIDError string
  | AtmSecretsError string
  | AtmSSLError string
  | AtmTransportError string
  | AtmMsgSendError string
  | AtmMsgReceiveError string
  | AtmConfigError string
  | AtmAuthenticationError string
  | AtmDidcommError string string

fun atm_error_text :: "atm_error \<Rightarrow> string" where
  "atm_error_text (AtmDIDError e) = ''DID error: '' @ e"
| "atm_error_text (AtmSecretsError e) = ''Secrets error: '' @ e"
| "atm_error_text (AtmSSLError e) = ''SSL error: '' @ e"
| "atm_error_text (AtmTransportError e) = ''Transport (HTTP(S)) error: '' @ e"
| "atm_error_text (AtmMsgSendError e) = ''Message sending error: '' @ e"
| "atm_error_text (AtmMsgReceiveError e) = ''Message receive error: '' @ e"
| "atm_error_text (AtmConfigError e) = ''Config error: '' @ e"
| "atm_error_text (AtmAuthenticationError e) = ''Authentication error: '' @ e"
| "atm_error_text (AtmDidcommError a b) = ''DIDComm message error: '' @ a @ ''. Reason: '' @ b"

subsection \<open>Configuration\<close>

text \<open>Certificates are their bytes. An external resolver is only present or not: what it resolves is
  a parameter.\<close>

record sdk_config =
  sd_my_did :: "string option"
  sd_ssl_certificates :: "bytes list"
  sd_atm_api :: string
  sd_atm_api_ws :: string
  sd_atm_did :: "string option"
  sd_ssl_only :: bool
  sd_ws_enabled :: bool
  sd_fetch_cache_limit_count :: "32 word"
  sd_fetch_cache_limit_bytes :: u64
  sd_secrets :: "secret list"
  sd_did_resolver :: bool

record config_builder =
  cb_ssl_certificates :: "string list"
  cb_my_did :: "string option"
  cb_atm_api :: "string option"
  cb_atm_api_ws :: "string option"
  cb_atm_did :: "string option"
  cb_ssl_only :: bool
  cb_ws_enabled :: bool
  cb_fetch_cache_limit_count :: "32 word"
  cb_fetch_cache_limit_bytes :: u64
  cb_secrets :: "secret list"
  cb_did_resolver :: bool

definition default_builder :: config_builder where
  "default_builder =
     \<lparr>cb_ssl_certificates = [], cb_my_did = None, cb_atm_api = None, cb_atm_api_ws = None, cb_atm_did = None,
      cb_ssl_only = True, cb_ws_enabled = True, cb_fetch_cache_limit_count = 100,
      cb_fetch_cache_limit_bytes = 1024 * 1024 * 10, cb_secrets = [], cb_did_resolver = False\<rparr>"

definition with_ssl_certificates :: "string list \<Rightarrow> config_builder \<Rightarrow> config_builder" where
  "with_ssl_certificates cs b = b\<lparr>cb_ssl_certificates := cb_ssl_certificates b @ cs\<rparr>"

definition with_my_did :: "string \<Rightarrow> config_builder \<Rightarrow> config_builder" where
  "with_my_did d b = b\<lparr>cb_my_did := Some d\<rparr>"

definition with_atm_api :: "string \<Rightarrow> config_builder \<Rightarrow> config_builder" where
  "with_atm_api u b = b\<lparr>cb_atm_api := Some u\<rparr>"

definition with_atm_websocket_api :: "string \<Rightarrow> config_builder \<Rightarrow> config_builder" where
  "with_atm_websocket_api u b = b\<lparr>cb_atm_api_ws := Some u\<rparr>"

definition with_atm_did :: "string \<Rightarrow> config_builder \<Rightarrow> config_builder" where
  "with_atm_did d b = b\<lparr>cb_atm_did := Some d\<rparr>"

definition with_non_ssl :: "config_builder \<Rightarrow> config_builder" where
  "with_non_ssl b = b\<lparr>cb_ssl_only := False\<rparr>"

definition with_websocket_disabled :: "config_builder \<Rightarrow> config_builder" where
  "with_websocket_disabled b = b\<lparr>cb_ws_enabled := False\<rparr>"

definition with_secret :: "secret \<Rightarrow> config_builder \<Rightarrow> config_builder" where
  "with_secret s b = b\<lparr>cb_secrets := cb_secrets b @ [s]\<rparr>"

definition with_fetch_cache_limit_count :: "32 word \<Rightarrow> config_builder \<Rightarrow> config_builder" where
  "with_fetch_cache_limit_count n b = b\<lparr>cb_fetch_cache_limit_count := n\<rparr>"

definition with_fetch_cache_limit_bytes :: "u64 \<Rightarrow> config_builder \<Rightarrow> config_builder" where
  "with_fetch_cache_limit_bytes n b = b\<lparr>cb_fetch_cache_limit_bytes := n\<rparr>"

definition with_external_did_resolver :: "config_builder \<Rightarrow> config_builder" where
  "with_external_did_resolver b = b\<lparr>cb_did_resolver := True\<rparr>"

text \<open>
  The certificates of the files, given what opening and reading a file gives: an error, or each
  certificate in it or the error of reading it. Those that cannot be read are only noted.
\<close>

fun read_certificates ::
  "(string \<Rightarrow> string + (string + bytes) list) \<Rightarrow> string list \<Rightarrow> bytes list \<Rightarrow> bool
     \<Rightarrow> (bytes list \<times> bool, atm_error) result" where
  "read_certificates pem [] certs failed = Ok (certs, failed)"
| "read_certificates pem (f # fs) certs failed =
     (case pem f of
        Inl e \<Rightarrow> Err (AtmSSLError ((''Couldn'' @ [CHR 0x27] @ ''t open SSL certificate file ('') @ f @ '')! Reason: '' @ e))
      | Inr items \<Rightarrow>
          read_certificates pem fs
            (certs @ concat (map (\<lambda>c. case c of Inr c \<Rightarrow> [c] | Inl _ \<Rightarrow> []) items))
            (failed \<or> (\<exists>c \<in> set items. \<exists>e. c = Inl e)))"

definition websocket_url :: "string option \<Rightarrow> string \<Rightarrow> (string, atm_error) result" where
  "websocket_url atm_api_ws atm_api =
     (case atm_api_ws of
        Some u \<Rightarrow> Ok u
      | None \<Rightarrow>
          if take 7 atm_api = ''http://'' then Ok (''ws://'' @ drop 7 atm_api @ ''/ws'')
          else if take 8 atm_api = ''https://'' then Ok (''wss://'' @ drop 8 atm_api @ ''/ws'')
          else Err (AtmConfigError ''ATM API URL must start with http:// or https://''))"

definition config_build ::
  "(string \<Rightarrow> string + (string + bytes) list) \<Rightarrow> config_builder \<Rightarrow> (sdk_config, atm_error) result" where
  "config_build pem b =
     and_then (read_certificates pem (cb_ssl_certificates b) [] False) (\<lambda>(certs, failed_certs).
     and_then (ensure (\<not> failed_certs)
         (AtmSSLError ((''Couldn'' @ [CHR 0x27] @ ''t parse all SSL certificates!'')))) (\<lambda>_.
     let atm_api = (case cb_atm_api b of Some u \<Rightarrow> u | None \<Rightarrow> ''https://localhost:7037/mediator/v1'') in
     and_then (websocket_url (cb_atm_api_ws b) atm_api) (\<lambda>atm_api_ws.
     Ok \<lparr>sd_my_did = cb_my_did b, sd_ssl_certificates = certs, sd_atm_api = atm_api,
         sd_atm_api_ws = atm_api_ws, sd_atm_did = cb_atm_did b, sd_ssl_only = cb_ssl_only b,
         sd_ws_enabled = cb_ws_enabled b, sd_fetch_cache_limit_count = cb_fetch_cache_limit_count b,
         sd_fetch_cache_limit_bytes = cb_fetch_cache_limit_bytes b, sd_secrets = cb_secrets b,
         sd_did_resolver = cb_did_resolver b\<rparr>)))"

subsection \<open>The state\<close>

text \<open>The two ends of the channels to the websocket handler are only present or not.\<close>

record atm =
  at_config :: sdk_config
  at_secrets :: "secret list"
  at_authenticated :: bool
  at_jwt_tokens :: "auth_response option"
  at_ws_send_stream :: bool
  at_ws_recv_stream :: bool

definition sdk_secrets :: "atm \<Rightarrow> secrets_resolver" where
  "sdk_secrets a = known_secrets (at_secrets a)"

definition add_secret :: "secret \<Rightarrow> atm \<Rightarrow> atm" where
  "add_secret s a = a\<lparr>at_secrets := at_secrets a @ [s]\<rparr>"

definition secret_from_str :: "string \<Rightarrow> json \<Rightarrow> secret" where
  "secret_from_str key_id jwk =
     \<lparr>secret_id = key_id, secret_type_of = JsonWebKey2020, secret_material_of = MatJWK jwk\<rparr>"

definition dids :: "atm \<Rightarrow> (string \<times> string, atm_error) result" where
  "dids a =
     and_then (ok_or (AtmConfigError ''You must provide a DID for the SDK, used for authentication!'')
                 (sd_my_did (at_config a))) (\<lambda>my_did.
     and_then (ok_or (AtmConfigError ''You must provide the DID for the ATM service!'')
                 (sd_atm_did (at_config a))) (\<lambda>atm_did.
     Ok (my_did, atm_did)))"

definition atm_my_did :: "atm \<Rightarrow> (string, atm_error) result" where
  "atm_my_did a = ok_or (AtmDIDError ''Tried to get my_did, it is None'') (sd_my_did (at_config a))"

definition add_did ::
  "('k, 'z) key_ext_scheme \<Rightarrow> string \<Rightarrow> (document, atm_error) result" where
  "add_did X did =
     map_err (\<lambda>e. AtmDIDError ((''Couldn'' @ [CHR 0x27] @ ''t resolve did ('') @ did @ ''). Reason: '' @ e))
       (of_sum (did_resolve X did))"

subsection \<open>Packing and unpacking\<close>

definition sdk_pack_encrypted ::
  "('k, 'c, 'w, 'z) env_ext_scheme \<Rightarrow> atm \<Rightarrow> (nat \<Rightarrow> ('k, 'c) draws) \<Rightarrow> message \<Rightarrow> string
     \<Rightarrow> string option \<Rightarrow> string option \<Rightarrow> (string \<times> pack_encrypted_metadata, atm_error) result" where
  "sdk_pack_encrypted X a rs message to from sign_by =
     map_err (\<lambda>e. AtmDidcommError ''SDK'' (''pack_encrypted() failed. Reason: '' @ display_error e))
       (pack_encrypted X (sdk_secrets a) rs message to from sign_by default_pack_options)"

definition sdk_pack_signed ::
  "('k, 'c, 'w, 'z) env_ext_scheme \<Rightarrow> atm \<Rightarrow> message \<Rightarrow> string \<Rightarrow> (string \<times> string, atm_error) result" where
  "sdk_pack_signed X a message sign_by =
     map_err (\<lambda>e. AtmDidcommError ''SDK'' (''pack_signed() failed. Reason: '' @ display_error e))
       (pack_signed X (sdk_secrets a) message sign_by)"

definition sdk_pack_plaintext ::
  "('k, 'c, 'w, 'z) env_ext_scheme \<Rightarrow> message \<Rightarrow> (string, atm_error) result" where
  "sdk_pack_plaintext X message =
     map_err (\<lambda>e. AtmDidcommError ''SDK'' (''pack_plaintext() failed. Reason: '' @ display_error e))
       (pack_plaintext X message)"

definition sdk_unpack ::
  "('k, 'c, 'w, 'z) env_ext_scheme \<Rightarrow> atm \<Rightarrow> string \<Rightarrow> (message \<times> unpack_metadata, atm_error) result" where
  "sdk_unpack X a message =
     and_then (map_err (\<lambda>e. AtmDidcommError ''Cannot convert string to MetaEnvelope'' (display_error e))
                 (meta_envelope_new X (sdk_secrets a) message)) (\<lambda>envelope.
     map_err (\<lambda>e. AtmDidcommError ((''Couldn'' @ [CHR 0x27] @ ''t unpack incoming message'')) (display_error e))
       (unpack X (sdk_secrets a) default_unpack_options envelope))"

lemma sdk_unpack_Ok_iff [result_simps]:
  "sdk_unpack X a s = Ok r \<longleftrightarrow> unpack_string X (sdk_secrets a) default_unpack_options s = Ok r"
  by (auto simp: sdk_unpack_def unpack_string_def result_simps)

end
