(* ===== verification/Waiting.thy ===== *)
theory Waiting
  imports Effects
begin

text \<open>
  An operation that waits for something that need not come: nothing is its value when it never comes
  back. \<open>io_then\<close> is \<open>?\<close> after such an operation, \<open>io_eff\<close> makes one of an operation that always
  comes back.
\<close>

type_synonym ('s, 'a, 'e) io = "'s \<Rightarrow> (('a, 'e) result \<times> 's) option"

definition io_of :: "('a, 'e) result \<Rightarrow> ('s, 'a, 'e) io" where
  "io_of r = (\<lambda>s. Some (r, s))"

definition io_eff :: "('s, 'a, 'e) effect \<Rightarrow> ('s, 'a, 'e) io" where
  "io_eff m = (\<lambda>s. Some (m s))"

definition io_then :: "('s, 'a, 'e) io \<Rightarrow> ('a \<Rightarrow> ('s, 'b, 'e) io) \<Rightarrow> ('s, 'b, 'e) io" where
  "io_then m f = (\<lambda>s. case m s of
     None \<Rightarrow> None
   | Some (Ok x, s') \<Rightarrow> f x s'
   | Some (Err e, s') \<Rightarrow> Some (Err e, s')
   | Some (Panic, s') \<Rightarrow> Some (Panic, s'))"

lemma io_of_eq [effect_simps]: "io_of r s = Some p \<longleftrightarrow> p = (r, s)"
  by (auto simp: io_of_def)

lemma io_eff_eq [effect_simps]: "io_eff m s = Some p \<longleftrightarrow> m s = p"
  by (simp add: io_eff_def)

lemma io_then_Ok_iff [effect_simps]:
  "io_then m f s = Some (Ok y, s'') \<longleftrightarrow> (\<exists>x s'. m s = Some (Ok x, s') \<and> f x s' = Some (Ok y, s''))"
  by (auto simp: io_then_def split: option.splits prod.splits result.splits)

lemma io_then_Err_iff [effect_simps]:
  "io_then m f s = Some (Err e, s'') \<longleftrightarrow>
     m s = Some (Err e, s'') \<or> (\<exists>x s'. m s = Some (Ok x, s') \<and> f x s' = Some (Err e, s''))"
  by (auto simp: io_then_def split: option.splits prod.splits result.splits)

lemma io_then_Panic_iff [effect_simps]:
  "io_then m f s = Some (Panic, s'') \<longleftrightarrow>
     m s = Some (Panic, s'') \<or> (\<exists>x s'. m s = Some (Ok x, s') \<and> f x s' = Some (Panic, s''))"
  by (auto simp: io_then_def split: option.splits prod.splits result.splits)

lemma io_then_app:
  "io_then m f s = (case m s of None \<Rightarrow> None | Some (r, s') \<Rightarrow>
     (case r of Ok x \<Rightarrow> f x s' | Err e \<Rightarrow> Some (Err e, s') | Panic \<Rightarrow> Some (Panic, s')))"
  by (simp add: io_then_def split: option.splits prod.splits result.splits)

lemma io_of_run [simp]: "io_of r s = Some (r, s)"
  by (simp add: io_of_def)

lemma io_then_eff: "m s = (r, s') \<Longrightarrow> io_then (io_eff m) f s =
    (case r of Ok x \<Rightarrow> f x s' | Err e \<Rightarrow> Some (Err e, s') | Panic \<Rightarrow> Some (Panic, s'))"
  by (simp add: io_then_def io_eff_def split: result.splits)

end
