(* ===== verification/SdkHttp.thy ===== *)
theory SdkHttp
  imports Sdk Waiting
begin

text \<open>
  The SDK over HTTP: authentication (\<open>authentication/mod.rs\<close>), sending a packed message
  (\<open>transports/http/sending.rs\<close>), and listing, getting, fetching and deleting messages
  (\<open>messages/list.rs\<close>, \<open>get.rs\<close>, \<open>fetch.rs\<close>, \<open>delete.rs\<close>, \<open>public/well_known_did.rs\<close>). The client
  crate with whatever answers it is a parameter over a state of its own.
\<close>

subsection \<open>What the SDK asks of other code\<close>

text \<open>
  \<open>serde_json\<close> for the requests and for \<open>SuccessResponse\<close> of each type of data; the debug texts of an
  error of the message library and of a response, and the display of a status.
\<close>

record ('k, 'c, 'w) sdk_ext = "('k, 'c, 'w) med_ext" +
  de_challenge :: "string \<Rightarrow> string + auth_challenge success_response"
  de_tokens :: "string \<Rightarrow> string + auth_response success_response"
  de_list :: "string \<Rightarrow> string + message_element list success_response"
  de_messages :: "string \<Rightarrow> string + get_messages_response success_response"
  de_deleted :: "string \<Rightarrow> string + delete_message_response success_response"
  de_inbound :: "string \<Rightarrow> string + inbound_response success_response"
  de_text :: "string \<Rightarrow> string + string success_response"
  ser_get_request :: "get_messages_request \<Rightarrow> string + string"
  ser_delete_request :: "string list \<Rightarrow> string + string"
  ser_fetch_options :: "fetch_options \<Rightarrow> string + string"
  debug_error :: "error \<Rightarrow> string"
  debug_text_response :: "string success_response \<Rightarrow> string"
  show_status :: "nat \<Rightarrow> string"

record http_request =
  rq_method :: http_method
  rq_url :: string
  rq_headers :: "(string \<times> string) list"
  rq_body :: "string option"

text \<open>The commands between the SDK and its websocket handler.\<close>

datatype ws_command =
    WsStarted
  | WsExit
  | WsSend string
  | WsNext
  | WsGet string
  | MessageReceived message unpack_metadata
  | WsNotFound
  | WsTimeOut string

text \<open>
  Waiting for a command, with a limit in milliseconds or (0) without one: one comes, the channel is
  closed, the time is up, or nothing ever comes.
\<close>

datatype recv_event = Received ws_command | ChannelClosed | Elapsed | Forever

text \<open>
  The outside: an HTTP exchange (an error, or the status with the body or the error of reading it),
  a new handler task with new channels, a command to the handler (with the error of a closed
  channel), and the commands it sends.
\<close>

record 'n network =
  nw_http :: "http_request \<Rightarrow> 'n \<Rightarrow> (string + nat \<times> (string + string)) \<times> 'n"
  nw_spawn :: "atm \<Rightarrow> 'n \<Rightarrow> 'n"
  nw_command :: "ws_command \<Rightarrow> 'n \<Rightarrow> string option \<times> 'n"
  nw_recv :: "nat \<Rightarrow> 'n \<Rightarrow> recv_event \<times> 'n"
  nw_try_recv :: "'n \<Rightarrow> ws_command option \<times> 'n"

text \<open>The SDK with the outside. An operation draws its time, ids and randomness from sources.\<close>

record 'n sdk =
  sk_atm :: atm
  sk_net :: 'n

definition eff_atm :: "(atm \<Rightarrow> ('a, 'e) result) \<Rightarrow> ('n sdk, 'a, 'e) effect" where
  "eff_atm f = (\<lambda>s. (f (sk_atm s), s))"

definition set_atm :: "(atm \<Rightarrow> atm) \<Rightarrow> ('n sdk, unit, 'e) effect" where
  "set_atm f = (\<lambda>s. (Ok (), s\<lparr>sk_atm := f (sk_atm s)\<rparr>))"

definition http_send ::
  "'n network \<Rightarrow> http_request \<Rightarrow> (string \<Rightarrow> atm_error) \<Rightarrow> ('n sdk, nat \<times> (string + string), atm_error) effect" where
  "http_send N rq err = (\<lambda>s. case nw_http N rq (sk_net s) of
     (Inl e, n) \<Rightarrow> (Err (err e), s\<lparr>sk_net := n\<rparr>)
   | (Inr r, n) \<Rightarrow> (Ok r, s\<lparr>sk_net := n\<rparr>))"

definition body_text :: "string + string \<Rightarrow> (string, atm_error) result" where
  "body_text b = map_err (\<lambda>e. AtmTransportError ((''Couldn'' @ [CHR 0x27] @ ''t get body: '') @ e)) (of_sum b)"

definition is_success :: "nat \<Rightarrow> bool" where
  "is_success status \<longleftrightarrow> 200 \<le> status \<and> status < 300"

definition json_content :: "(string \<times> string) list" where
  "json_content = [(''Content-Type'', ''application/json'')]"

definition bearer :: "auth_response \<Rightarrow> (string \<times> string) list" where
  "bearer tokens = json_content @ [(''Authorization'', ''Bearer '' @ ar_access_token tokens)]"

subsection \<open>Authentication\<close>

definition create_auth_challenge_response ::
  "atm \<Rightarrow> u64 \<Rightarrow> string \<Rightarrow> auth_challenge \<Rightarrow> (message, atm_error) result" where
  "create_auth_challenge_response a now uuid body =
     and_then (dids a) (\<lambda>(my_did, atm_did).
     Ok (message_finalize (with_expires_time (now + 60) (with_created_time now (with_from my_did (with_to atm_did
           (message_build uuid ''https://affinidi.com/atm/1.0/authenticate''
              (JObject [(''challenge'', JString (ac_challenge body)),
                        (''session_id'', JString (ac_session_id body))])))))))) "

definition challenge_request :: "atm \<Rightarrow> string \<Rightarrow> http_request" where
  "challenge_request a my_did =
     \<lparr>rq_method = POST, rq_url = sd_atm_api (at_config a) @ ''/authenticate/challenge'',
      rq_headers = json_content,
      rq_body = Some (''{'' @ [CHR 0x22] @ ''did'' @ [CHR 0x22] @ '': '' @ [CHR 0x22] @ my_did @ [CHR 0x22] @ ''}'')\<rparr>"

definition authenticate_request :: "atm \<Rightarrow> string \<Rightarrow> http_request" where
  "authenticate_request a auth_msg =
     \<lparr>rq_method = POST, rq_url = sd_atm_api (at_config a) @ ''/authenticate'',
      rq_headers = json_content, rq_body = Some auth_msg\<rparr>"

text \<open>The first exchange: the challenge.\<close>

definition get_challenge ::
  "('k, 'c, 'w, 'z) sdk_ext_scheme \<Rightarrow> 'n network \<Rightarrow> ('n sdk, string \<times> string \<times> auth_challenge, atm_error) effect" where
  "get_challenge X N =
     eff_then (eff_atm dids) (\<lambda>(my_did, atm_did).
     eff_then (eff_atm (\<lambda>a. Ok (challenge_request a my_did))) (\<lambda>rq.
     eff_then (http_send N rq (\<lambda>e. AtmTransportError (''retrieving authentication challenge failed. Reason: '' @ e)))
       (\<lambda>(status, b).
     eff_then (eff_of (body_text b)) (\<lambda>body.
     eff_then (eff_of (ensure (is_success status) (AtmAuthenticationError ''Failed to get authentication challenge'')))
       (\<lambda>_.
     eff_then (eff_of (case de_challenge X body of Inr r \<Rightarrow> Ok r | Inl _ \<Rightarrow> Panic)) (\<lambda>r.
     eff_then (eff_of (ok_or (AtmAuthenticationError ''No challenge received from ATM'') (sr_data r))) (\<lambda>challenge.
     eff_of (Ok (my_did, atm_did, challenge)))))))))"

text \<open>The second exchange: the packed answer, and the tokens.\<close>

definition answer_challenge ::
  "('k, 'c, 'w, 'z) sdk_ext_scheme \<Rightarrow> 'n network \<Rightarrow> ('k, 'c) source \<Rightarrow> string \<Rightarrow> string \<Rightarrow> auth_challenge
     \<Rightarrow> ('n sdk, auth_response, atm_error) effect" where
  "answer_challenge X N src my_did atm_did challenge =
     eff_then (eff_atm (\<lambda>a. create_auth_challenge_response a (src_clock src 0) (src_uuid src) challenge)) (\<lambda>msg.
     eff_then (eff_atm (\<lambda>a.
         map_err (\<lambda>e. AtmMsgSendError ((''Couldn'' @ [CHR 0x27] @ ''t pack authentication response message: '') @ debug_error X e))
           (pack_encrypted X (sdk_secrets a) (src_draws src 0) msg atm_did (Some my_did) (Some my_did) default_pack_options)))
       (\<lambda>(auth_msg, _).
     eff_then (eff_atm (\<lambda>a. Ok (authenticate_request a auth_msg))) (\<lambda>rq.
     eff_then (http_send N rq (\<lambda>e. AtmTransportError (''Could not post authentication response: '' @ e)))
       (\<lambda>(status, b).
     eff_then (eff_of (body_text b)) (\<lambda>body.
     eff_then (eff_of (ensure (is_success status) (AtmAuthenticationError ''Failed to get authentication response'')))
       (\<lambda>_.
     eff_then (eff_of (map_err
         (\<lambda>e. AtmAuthenticationError ((''Couldn'' @ [CHR 0x27] @ ''t deserialize AuthorizationResponse: '') @ e))
         (of_sum (de_tokens X body)))) (\<lambda>r.
     case sr_data r of
       Some tokens \<Rightarrow>
         eff_then (set_atm (\<lambda>a. a\<lparr>at_jwt_tokens := Some tokens, at_authenticated := True\<rparr>)) (\<lambda>_.
         eff_of (Ok tokens))
     | None \<Rightarrow> eff_of (Err (AtmAuthenticationError ''No tokens received from ATM'')))))))))"

definition authenticate ::
  "('k, 'c, 'w, 'z) sdk_ext_scheme \<Rightarrow> 'n network \<Rightarrow> ('k, 'c) source \<Rightarrow> ('n sdk, auth_response, atm_error) effect" where
  "authenticate X N src = (\<lambda>s.
     if at_authenticated (sk_atm s)
     then (ok_or (AtmAuthenticationError ''Authenticated but no tokens found'') (at_jwt_tokens (sk_atm s)), s)
     else eff_then (get_challenge X N) (\<lambda>(my_did, atm_did, challenge).
            answer_challenge X N src my_did atm_did challenge) s)"

subsection \<open>Calls of the API\<close>

text \<open>
  What the calls share: the request with its error, the body, the status, the response (which panics
  when it is not of its type), and the data in it.
\<close>

definition api_call ::
  "('k, 'c, 'w, 'z) sdk_ext_scheme \<Rightarrow> 'n network \<Rightarrow> string \<Rightarrow> (string \<Rightarrow> string + 'a success_response) \<Rightarrow> http_request
     \<Rightarrow> ('n sdk, 'a, atm_error) effect" where
  "api_call X N failed de rq =
     eff_then (http_send N rq (\<lambda>e. AtmTransportError (failed @ e))) (\<lambda>(status, b).
     eff_then (eff_of (body_text b)) (\<lambda>body.
     eff_then (eff_of (ensure (is_success status)
         (AtmTransportError (''Status not successful. status('' @ show_status X status @ ''), response('' @ body @ '')''))))
       (\<lambda>_.
     eff_then (eff_of (case de body of Inr r \<Rightarrow> Ok r | Inl _ \<Rightarrow> Panic)) (\<lambda>r.
     eff_of (ok_or (AtmTransportError ''No messages found'') (sr_data r))))))"

definition folder_text :: "folder \<Rightarrow> string" where
  "folder_text f = (case f of Inbox \<Rightarrow> ''inbox'' | Outbox \<Rightarrow> ''outbox'')"

definition sdk_list_messages ::
  "('k, 'c, 'w, 'z) sdk_ext_scheme \<Rightarrow> 'n network \<Rightarrow> ('k, 'c) source \<Rightarrow> string \<Rightarrow> folder
     \<Rightarrow> ('n sdk, message_element list, atm_error) effect" where
  "sdk_list_messages X N src did fo =
     eff_then (authenticate X N src) (\<lambda>tokens.
     eff_then (eff_atm (\<lambda>a. Ok
         \<lparr>rq_method = GET,
          rq_url = sd_atm_api (at_config a) @ ''/list/'' @ digest X did @ ''/'' @ folder_text fo,
          rq_headers = bearer tokens, rq_body = None\<rparr>))
       (api_call X N ''Could not send list_messages request: '' (de_list X)))"

definition sdk_get_messages ::
  "('k, 'c, 'w, 'z) sdk_ext_scheme \<Rightarrow> 'n network \<Rightarrow> ('k, 'c) source \<Rightarrow> get_messages_request
     \<Rightarrow> ('n sdk, get_messages_response, atm_error) effect" where
  "sdk_get_messages X N src messages =
     eff_then (authenticate X N src) (\<lambda>tokens.
     eff_then (eff_of (map_err (\<lambda>e. AtmTransportError (''Could not serialize get message request: '' @ e))
         (of_sum (ser_get_request X messages)))) (\<lambda>body.
     eff_then (eff_atm (\<lambda>a. Ok
         \<lparr>rq_method = POST, rq_url = sd_atm_api (at_config a) @ ''/outbound'',
          rq_headers = bearer tokens, rq_body = Some body\<rparr>))
       (api_call X N ''Could not send get_messages request: '' (de_messages X))))"

definition sdk_delete_messages ::
  "('k, 'c, 'w, 'z) sdk_ext_scheme \<Rightarrow> 'n network \<Rightarrow> ('k, 'c) source \<Rightarrow> string list
     \<Rightarrow> ('n sdk, delete_message_response, atm_error) effect" where
  "sdk_delete_messages X N src ids =
     eff_then (authenticate X N src) (\<lambda>tokens.
     eff_then (eff_of (ensure (length ids \<le> 100)
         (AtmMsgSendError (''Operation exceeds the allowed limit. You may delete a maximum of 100 messages per request. Received '' @
            show_nat (length ids) @ '' ids.'')))) (\<lambda>_.
     eff_then (eff_of (map_err (\<lambda>e. AtmTransportError (''Could not serialize delete message request: '' @ e))
         (of_sum (ser_delete_request X ids)))) (\<lambda>msg.
     eff_then (eff_atm (\<lambda>a. Ok
         \<lparr>rq_method = DELETE, rq_url = sd_atm_api (at_config a) @ ''/delete'',
          rq_headers = bearer tokens, rq_body = Some msg\<rparr>))
       (api_call X N ''Could not send delete_messages request: '' (de_deleted X)))))"

text \<open>Deleting after a fetch: an error of the deletion is reported for every message.\<close>

definition delete_after_fetch ::
  "('k, 'c, 'w, 'z) sdk_ext_scheme \<Rightarrow> 'n network \<Rightarrow> ('k, 'c) source \<Rightarrow> get_messages_response
     \<Rightarrow> ('n sdk, get_messages_response, atm_error) effect" where
  "delete_after_fetch X N src list =
     eff_match (sdk_delete_messages X N src (map me_msg_id (gm_success list)))
       (\<lambda>r. eff_of (Ok (list\<lparr>gm_delete_errors := gm_delete_errors list @ dr_errors r\<rparr>)))
       (\<lambda>_. eff_of (Ok (list\<lparr>gm_delete_errors := map (\<lambda>m. (me_msg_id m, ''ERROR'')) (gm_success list)\<rparr>)))"

definition sdk_fetch_messages ::
  "('k, 'c, 'w, 'z) sdk_ext_scheme \<Rightarrow> 'n network \<Rightarrow> (nat \<Rightarrow> ('k, 'c) source) \<Rightarrow> fetch_options
     \<Rightarrow> ('n sdk, get_messages_response, atm_error) effect" where
  "sdk_fetch_messages X N src options =
     eff_then (eff_of (ensure (1 \<le> fo_limit options \<and> fo_limit options \<le> 100)
         (AtmConfigError (''FetchOptions.limit must be between 1 and 100 inclusive. Got: '' @
            show_nat (fo_limit options))))) (\<lambda>_.
     eff_then (authenticate X N (src 0)) (\<lambda>tokens.
     eff_then (eff_of (map_err (\<lambda>e. AtmTransportError (''Could not serialize fetch_message() options: '' @ e))
         (of_sum (ser_fetch_options X options)))) (\<lambda>body.
     eff_then (eff_then (eff_atm (\<lambda>a. Ok
         \<lparr>rq_method = POST, rq_url = sd_atm_api (at_config a) @ ''/fetch'',
          rq_headers = bearer tokens, rq_body = Some body\<rparr>))
       (api_call X N ''Could not send list_messages request: '' (de_messages X))) (\<lambda>list.
     if fo_delete_policy options = OnReceive then delete_after_fetch X N (src 1) list
     else eff_of (Ok list)))))"

definition well_known_did ::
  "('k, 'c, 'w, 'z) sdk_ext_scheme \<Rightarrow> 'n network \<Rightarrow> ('n sdk, string, atm_error) effect" where
  "well_known_did X N =
     eff_then (eff_atm (\<lambda>a. Ok
         \<lparr>rq_method = GET, rq_url = sd_atm_api (at_config a) @ ''/.well-known/did'',
          rq_headers = json_content, rq_body = None\<rparr>)) (\<lambda>rq.
     eff_then (http_send N rq (\<lambda>e. AtmTransportError (''Could not send get well-known did.json request: '' @ e)))
       (\<lambda>(status, b).
     eff_then (eff_of (map_err (\<lambda>e. AtmTransportError ((''Couldn'' @ [CHR 0x27] @ ''t get string body: '') @ e)) (of_sum b)))
       (\<lambda>body.
     eff_then (eff_of (case de_text X body of Inr r \<Rightarrow> Ok r | Inl _ \<Rightarrow> Panic)) (\<lambda>r.
     eff_then (eff_of (ensure (is_success status)
         (AtmTransportError (''Status not successful. status('' @ show_status X status @ ''), response('' @
            debug_text_response X r @ '')'')))) (\<lambda>_.
     eff_of (ok_or (AtmTransportError ''No did found'') (sr_data r)))))))"

subsection \<open>Sending\<close>

record ws_send_response =
  wr_message_digest :: string
  wr_bytes_sent :: "32 word"
  wr_message_id :: string

datatype 'a send_response = RestAPI "'a option" | WebSocketSent ws_send_response

definition get_http_response :: "'a send_response \<Rightarrow> 'a option" where
  "get_http_response r = (case r of RestAPI (Some x) \<Rightarrow> Some x | _ \<Rightarrow> None)"

text \<open>
  The message goes where the source sends it, to \<open>/authenticate\<close>; the error of the client is
  unwrapped.
\<close>

definition send_didcomm_message ::
  "('k, 'c, 'w, 'z) sdk_ext_scheme \<Rightarrow> 'n network \<Rightarrow> ('k, 'c) source \<Rightarrow> (string \<Rightarrow> string + 'a success_response)
     \<Rightarrow> string \<Rightarrow> bool \<Rightarrow> ('n sdk, 'a send_response, atm_error) effect" where
  "send_didcomm_message X N src de message return_response =
     eff_then (authenticate X N src) (\<lambda>tokens.
     eff_then (eff_atm (\<lambda>a. Ok
         \<lparr>rq_method = POST, rq_url = sd_atm_api (at_config a) @ ''/authenticate'',
          rq_headers = bearer tokens, rq_body = Some message\<rparr>)) (\<lambda>rq.
     eff_then (eff_unwrap (http_send N rq AtmTransportError)) (\<lambda>(status, b).
     eff_then (eff_of (body_text b)) (\<lambda>body.
     eff_then (eff_of (ensure (is_success status)
         (AtmTransportError (''API returned an error: status('' @ show_status X status @ ''), body('' @ body @ '')''))))
       (\<lambda>_.
     if return_response
     then eff_then (eff_of (map_err (\<lambda>e. AtmTransportError ((''Couldn'' @ [CHR 0x27] @ ''t parse response: '') @ e))
              (of_sum (de body)))) (\<lambda>r. eff_of (Ok (RestAPI (sr_data r))))
     else eff_of (Ok (RestAPI None)))))))"

text \<open>
  Sending an attachment straight to the service of its receiver: \<open>Box<dyn Error>\<close> is an error of the
  SDK or of the client. The serialised value comes from rkyv, whose failure is unwrapped.
\<close>

datatype box_error = BoxAtm atm_error | BoxReqwest string

definition pack_attachment ::
  "('k, 'c, 'w, 'z) env_ext_scheme \<Rightarrow> ('k, 'c) source \<Rightarrow> string \<Rightarrow> string \<Rightarrow> attachment \<Rightarrow> atm
     \<Rightarrow> (string \<times> string, box_error) result" where
  "pack_attachment X src protocol to att a =
     (let msg = message_finalize (with_attachment att (with_to to (message_build (src_uuid src) protocol JNull))) in
      map_err BoxAtm
        (and_then (atm_my_did a) (\<lambda>did.
         and_then (sdk_pack_encrypted X a (src_draws src 0) msg to (Some did) None) (\<lambda>(env, env_meta).
         and_then (ok_or (AtmTransportError ''No messaging service'') (pm_messaging_service env_meta)) (\<lambda>service.
         Ok (ms_service_endpoint service, env))))))"

definition post_to_service ::
  "'n network \<Rightarrow> (string \<times> string) list \<Rightarrow> string \<Rightarrow> string \<Rightarrow> ('n sdk, unit, box_error) effect" where
  "post_to_service N headers url env = (\<lambda>s.
     case nw_http N \<lparr>rq_method = POST, rq_url = url, rq_headers = headers, rq_body = Some env\<rparr> (sk_net s) of
       (Inl e, n) \<Rightarrow> (Err (BoxReqwest e), s\<lparr>sk_net := n\<rparr>)
     | (Inr (status, _), n) \<Rightarrow>
         (ensure (is_success status) (BoxAtm (AtmTransportError ''API returned an error'')), s\<lparr>sk_net := n\<rparr>))"

definition send_bytes_message ::
  "('k, 'c, 'w, 'z) env_ext_scheme \<Rightarrow> 'n network \<Rightarrow> ('k, 'c) source \<Rightarrow> string \<Rightarrow> string \<Rightarrow> bytes
     \<Rightarrow> ('n sdk, unit, box_error) effect" where
  "send_bytes_message X N src protocol to b =
     eff_then (eff_atm (pack_attachment X src protocol to (attachment_finalize (attachment_bytes b)))) (\<lambda>(url, env).
     post_to_service N [] url env)"

definition send_rkyv_message ::
  "('k, 'c, 'w, 'z) sdk_ext_scheme \<Rightarrow> 'n network \<Rightarrow> (nat \<Rightarrow> ('k, 'c) source) \<Rightarrow> string \<Rightarrow> bytes option
     \<Rightarrow> ('n sdk, unit, box_error) effect" where
  "send_rkyv_message X N src to data =
     eff_then (eff_of (unwrap data)) (\<lambda>b.
     eff_then (eff_atm (pack_attachment X (src 0) ''https://didcomm.org/rkyv/1.0/message'' to
                 (attachment_finalize (attachment_rkyv b)))) (\<lambda>(url, env).
     eff_then (eff_map_err BoxAtm (authenticate X N (src 1))) (\<lambda>tokens.
     post_to_service N (bearer tokens) url env)))"

end
