(* ===== verification/SdkSocket.thy ===== *)
theory SdkSocket
  imports SdkHttp
begin

text \<open>
  The websocket of the SDK: its start and end (\<open>transports/websockets/mod.rs\<close>), sending through it
  (\<open>sending.rs\<close>), receiving from it (\<open>lib.rs\<close>), the creation of an \<open>ATM\<close>, and the task that owns the
  socket (\<open>ws_handler.rs\<close>). The capacity of the channels between the two is left out.
\<close>

subsection \<open>Both ends of the channels\<close>

definition send_command :: "'n network \<Rightarrow> string \<Rightarrow> ws_command \<Rightarrow> ('n sdk, unit, atm_error) effect" where
  "send_command N what c = (\<lambda>s. case nw_command N c (sk_net s) of
     (Some e, n) \<Rightarrow> (Err (AtmTransportError (what @ e)), s\<lparr>sk_net := n\<rparr>)
   | (None, n) \<Rightarrow> (Ok (), s\<lparr>sk_net := n\<rparr>))"

definition recv :: "'n network \<Rightarrow> nat \<Rightarrow> 'n sdk \<Rightarrow> recv_event \<times> 'n sdk" where
  "recv N wait s = (case nw_recv N wait (sk_net s) of (ev, n) \<Rightarrow> (ev, s\<lparr>sk_net := n\<rparr>))"

text \<open>
  The task gets a copy of the state without the channels; then the SDK waits for a first command,
  whatever it is. A task that ends before it has sent one is not noticed.
\<close>

definition handler_copy :: "atm \<Rightarrow> atm" where
  "handler_copy a = a\<lparr>at_ws_send_stream := False, at_ws_recv_stream := False\<rparr>"

definition start_websocket_task :: "'n network \<Rightarrow> ('n sdk, unit, atm_error) io" where
  "start_websocket_task N = (\<lambda>s.
     let s = s\<lparr>sk_atm := (sk_atm s)\<lparr>at_ws_send_stream := True, at_ws_recv_stream := True\<rparr>,
               sk_net := nw_spawn N (handler_copy (sk_atm s)) (sk_net s)\<rparr> in
     case recv N 0 s of
       (Forever, _) \<Rightarrow> None
     | (_, s) \<Rightarrow> Some (Ok (), s))"

definition abort_websocket_task :: "'n network \<Rightarrow> ('n sdk, unit, atm_error) effect" where
  "abort_websocket_task N = (\<lambda>s.
     if at_ws_send_stream (sk_atm s) then (Ok (), s\<lparr>sk_net := snd (nw_command N WsExit (sk_net s))\<rparr>)
     else (Ok (), s))"

definition ws_send_didcomm_message ::
  "('k, 'c, 'w, 'z) sdk_ext_scheme \<Rightarrow> 'n network \<Rightarrow> string \<Rightarrow> string \<Rightarrow> ('n sdk, 'a send_response, atm_error) io" where
  "ws_send_didcomm_message X N message message_id =
     io_then (\<lambda>s. if at_ws_send_stream (sk_atm s) then Some (Ok (), s) else start_websocket_task N s) (\<lambda>_.
     io_then (io_eff (send_command N ''Could not send websocket message: '' (WsSend message))) (\<lambda>_.
     io_of (Ok (WebSocketSent
       \<lparr>wr_message_digest = digest X message, wr_bytes_sent = of_nat (length message), wr_message_id = message_id\<rparr>))))"

definition try_next_message :: "'n network \<Rightarrow> 'n sdk \<Rightarrow> message option \<times> 'n sdk" where
  "try_next_message N s =
     (if at_ws_recv_stream (sk_atm s)
      then (case nw_try_recv N (sk_net s) of
              (Some (MessageReceived msg _), n) \<Rightarrow> (Some msg, s\<lparr>sk_net := n\<rparr>)
            | (_, n) \<Rightarrow> (None, s\<lparr>sk_net := n\<rparr>))
      else (None, s))"

text \<open>The value in the first attachment, read by rkyv. A message of another kind is lost.\<close>

definition try_next_rkyv_message ::
  "'n network \<Rightarrow> (bytes \<Rightarrow> 't option) \<Rightarrow> 'n sdk \<Rightarrow> 't option \<times> 'n sdk" where
  "try_next_rkyv_message N from_bytes s =
     (case try_next_message N s of
        (Some msg, s) \<Rightarrow>
          (case m_attachments msg of
             Some (a # _) \<Rightarrow> (case a_data a of DataRkyv b \<Rightarrow> from_bytes b | _ \<Rightarrow> None)
           | _ \<Rightarrow> None, s)
      | (None, s) \<Rightarrow> (None, s))"

definition next_message :: "'n network \<Rightarrow> ('n sdk, message option, atm_error) io" where
  "next_message N =
     io_then (\<lambda>s. if at_ws_recv_stream (sk_atm s) then Some (Ok (), s)
                  else map_option (\<lambda>(r, s). (unwrap_result r, s)) (start_websocket_task N s)) (\<lambda>_ s.
     case recv N 0 s of
       (Forever, _) \<Rightarrow> None
     | (Received (MessageReceived msg _), s) \<Rightarrow> Some (Ok (Some msg), s)
     | (_, s) \<Rightarrow> Some (Ok None, s))"

subsection \<open>A new SDK\<close>

text \<open>
  The parts of other crates: reading a certificate and building the client with them, the
  certificates of the platform (whose absence is a panic), adding one to the roots, the resolver.
\<close>

record sdk_host =
  so_client_certificate :: "bytes \<Rightarrow> string option"
  so_client_build :: "bytes list \<Rightarrow> bool \<Rightarrow> string option"
  so_native_certificates :: "bytes list option"
  so_add_root :: "bytes \<Rightarrow> string option"
  so_resolver :: "string option"

definition check_each :: "('a \<Rightarrow> string option) \<Rightarrow> (string \<Rightarrow> 'e) \<Rightarrow> 'a list \<Rightarrow> (unit, 'e) result" where
  "check_each f err xs =
     and_then (collect (\<lambda>x. case f x of Some e \<Rightarrow> Err (err e) | None \<Rightarrow> Ok ()) xs) (\<lambda>_. Ok ())"

definition sdk_clients :: "sdk_host \<Rightarrow> sdk_config \<Rightarrow> (unit, atm_error) result" where
  "sdk_clients H config =
     and_then (check_each (so_client_certificate H)
         (\<lambda>e. AtmSSLError ((''Couldn'' @ [CHR 0x27] @ ''t add certificate. Reason: '') @ e)) (sd_ssl_certificates config)) (\<lambda>_.
     and_then (case so_client_build H (sd_ssl_certificates config) (sd_ssl_only config) of
         Some e \<Rightarrow> Err (AtmTransportError ((''Couldn'' @ [CHR 0x27] @ ''t create HTTPS Client. Reason: '') @ e))
       | None \<Rightarrow> Ok ()) (\<lambda>_.
     and_then (if sd_ssl_certificates config = [] then unwrap (so_native_certificates H)
               else Ok (sd_ssl_certificates config)) (\<lambda>roots.
     and_then (check_each (so_add_root H)
         (\<lambda>e. AtmSSLError ((''Couldn'' @ [CHR 0x27] @ ''t add cert. Reason: '') @ e)) roots) (\<lambda>_.
     if sd_did_resolver config then Ok ()
     else (case so_resolver H of
             Some e \<Rightarrow> Err (AtmDIDError ((''Couldn'' @ [CHR 0x27] @ ''t create DID resolver! Reason: '') @ e))
           | None \<Rightarrow> Ok ())))))"

text \<open>The own DID is resolved twice, as in the source.\<close>

definition atm_new ::
  "('k, 'z) key_ext_scheme \<Rightarrow> sdk_host \<Rightarrow> 'n network \<Rightarrow> sdk_config \<Rightarrow> 'n \<Rightarrow> ((atm, atm_error) result \<times> 'n) option" where
  "atm_new X H N config n =
     (case and_then (sdk_clients H config) (\<lambda>_.
           case sd_my_did config of
             Some d \<Rightarrow> and_then (add_did X d) (\<lambda>_. and_then (add_did X d) (\<lambda>_. Ok ()))
           | None \<Rightarrow> Ok ()) of
        Ok _ \<Rightarrow>
          (let a = fold add_secret (sd_secrets config)
                 \<lparr>at_config = config, at_secrets = [], at_authenticated = False, at_jwt_tokens = None,
                  at_ws_send_stream = False, at_ws_recv_stream = False\<rparr> in
           if sd_ws_enabled config
           then map_option (\<lambda>(r, s). (and_then r (\<lambda>_. Ok (sk_atm s)), sk_net s))
                  (start_websocket_task N \<lparr>sk_atm = a, sk_net = n\<rparr>)
           else Some (Ok a, n))
      | Err e \<Rightarrow> Some (Err e, n)
      | Panic \<Rightarrow> Some (Panic, n))"

subsection \<open>The task of the socket\<close>

text \<open>
  What it sees: a text or another message on the socket, an error of the socket, its end; a command
  of the SDK, the end of its channel. The source chooses among those that are ready, and takes
  nothing from the socket while the cache is full.
\<close>

datatype handler_event =
    SockText string
  | SockOther
  | SockError
  | SockEnd
  | Command ws_command
  | CommandsClosed

text \<open>What the channel to the SDK and the socket answer when something is sent at this point.\<close>

record handler_env =
  he_sdk :: "string option"
  he_socket :: "string option"

record handler_state =
  hs_cache :: message_cache
  hs_to_sdk :: "ws_command list"
  hs_to_socket :: "string list"

definition on_cache :: "(message_cache \<Rightarrow> 'a \<times> message_cache) \<Rightarrow> (handler_state, 'a, atm_error) effect" where
  "on_cache f = (\<lambda>h. case f (hs_cache h) of (x, c) \<Rightarrow> (Ok x, h\<lparr>hs_cache := c\<rparr>))"

definition to_sdk :: "handler_env \<Rightarrow> ws_command \<Rightarrow> (handler_state, unit, atm_error) effect" where
  "to_sdk env c = (\<lambda>h. case he_sdk env of
     Some e \<Rightarrow> (Err (AtmTransportError (''Could not send message to SDK: '' @ e)), h)
   | None \<Rightarrow> (Ok (), h\<lparr>hs_to_sdk := hs_to_sdk h @ [c]\<rparr>))"

definition to_socket :: "handler_env \<Rightarrow> string \<Rightarrow> (handler_state, unit, atm_error) effect" where
  "to_socket env msg = (\<lambda>h. case he_socket env of
     Some e \<Rightarrow> (Err (AtmTransportError (''Could not send websocket message: '' @ e)), h)
   | None \<Rightarrow> (Ok (), h\<lparr>hs_to_socket := hs_to_socket h @ [msg]\<rparr>))"

definition pass_on :: "handler_env \<Rightarrow> received option \<Rightarrow> (handler_state, unit, atm_error) effect \<Rightarrow> (handler_state, unit, atm_error) effect" where
  "pass_on env r otherwise =
     (case r of Some (message, meta) \<Rightarrow> to_sdk env (MessageReceived message meta) | None \<Rightarrow> otherwise)"

text \<open>A text of the socket. The last step is the branch the source always takes.\<close>

definition handle_text ::
  "('k, 'c, 'w, 'z) env_ext_scheme \<Rightarrow> atm \<Rightarrow> u64 \<Rightarrow> handler_env \<Rightarrow> string \<Rightarrow> (handler_state, unit, atm_error) effect" where
  "handle_text X a sz env msg =
     eff_match (eff_of (sdk_unpack X a msg))
       (\<lambda>(message, meta).
        let received = to_sdk env (MessageReceived message meta) in
        eff_then (on_cache (\<lambda>c. (mc_search_list c, c))) (\<lambda>searched.
        eff_then (case m_thid message of
            Some thid \<Rightarrow>
              if thid \<in> searched then eff_then (on_cache (cache_remove sz thid)) (\<lambda>_. received) else eff_of (Ok ())
          | None \<Rightarrow>
              if m_id message \<in> searched
              then eff_then received (\<lambda>_. eff_then (on_cache (cache_remove sz (m_id message))) (\<lambda>_. eff_of (Ok ())))
              else eff_of (Ok ())) (\<lambda>_.
        eff_then (on_cache (\<lambda>c. ((), c\<lparr>mc_next_flag := False\<rparr>))) (\<lambda>_.
        received))))
       (\<lambda>_. eff_of (Ok ()))"

definition handle_command ::
  "u64 \<Rightarrow> handler_env \<Rightarrow> ws_command \<Rightarrow> (handler_state, bool, atm_error) effect" where
  "handle_command sz env cmd =
     (case cmd of
        WsSend msg \<Rightarrow> eff_then (to_socket env msg) (\<lambda>_. eff_of (Ok True))
      | WsNext \<Rightarrow>
          eff_then (on_cache (cache_next sz)) (\<lambda>r.
          eff_then (pass_on env r (eff_of (Ok ()))) (\<lambda>_. eff_of (Ok True)))
      | WsGet i \<Rightarrow>
          eff_then (on_cache (cache_get sz i)) (\<lambda>r.
          eff_then (pass_on env r (to_sdk env WsNotFound)) (\<lambda>_. eff_of (Ok True)))
      | WsExit \<Rightarrow> eff_of (Ok False)
      | WsTimeOut i \<Rightarrow>
          eff_then (on_cache (\<lambda>c. ((), c\<lparr>mc_search_list := mc_search_list c - {i}\<rparr>))) (\<lambda>_. eff_of (Ok True))
      | _ \<Rightarrow> eff_of (Ok True))"

text \<open>One pass of the loop: whether it goes on.\<close>

definition handle_event ::
  "('k, 'c, 'w, 'z) env_ext_scheme \<Rightarrow> atm \<Rightarrow> u64 \<Rightarrow> handler_env \<Rightarrow> handler_event
     \<Rightarrow> (handler_state, bool, atm_error) effect" where
  "handle_event X a sz env ev =
     (case ev of
        SockText msg \<Rightarrow> eff_then (handle_text X a sz env msg) (\<lambda>_. eff_of (Ok True))
      | SockOther \<Rightarrow> eff_of (Ok True)
      | SockError \<Rightarrow> eff_of (Ok True)
      | SockEnd \<Rightarrow> eff_of (Ok False)
      | Command cmd \<Rightarrow> handle_command sz env cmd
      | CommandsClosed \<Rightarrow> eff_of (Ok False))"

definition of_socket :: "handler_event \<Rightarrow> bool" where
  "of_socket ev = (case ev of Command _ \<Rightarrow> False | CommandsClosed \<Rightarrow> False | _ \<Rightarrow> True)"

text \<open>
  The loop over the events in the order in which it takes them: nothing when that order is not
  possible, because the cache was full when an event of the socket should have been taken. The
  result is whether the loop still waits for more.
\<close>

fun handler_loop ::
  "('k, 'c, 'w, 'z) env_ext_scheme \<Rightarrow> atm \<Rightarrow> u64 \<Rightarrow> (handler_env \<times> handler_event) list
     \<Rightarrow> (handler_state, bool, atm_error) io" where
  "handler_loop X a sz [] h = Some (Ok True, h)"
| "handler_loop X a sz ((env, ev) # evs) h =
     (if of_socket ev \<and> cache_is_full (hs_cache h) then None
      else (case handle_event X a sz env ev h of
              (Ok True, h') \<Rightarrow> handler_loop X a sz evs h'
            | r \<Rightarrow> Some r))"

text \<open>
  The connection: the request and its header, and the socket, whose failure is a panic; then the
  task, which tells the SDK that it has started. \<open>he0\<close> is what the channel answers to that.
\<close>

record 'n connector =
  co_request :: "string \<Rightarrow> string option"
  co_header :: "string \<Rightarrow> string option"
  co_connect :: "string \<Rightarrow> string \<Rightarrow> 'n \<Rightarrow> bool \<times> 'n"

definition create_socket ::
  "('k, 'c, 'w, 'z) sdk_ext_scheme \<Rightarrow> 'n network \<Rightarrow> 'n connector \<Rightarrow> ('k, 'c) source \<Rightarrow> ('n sdk, unit, atm_error) effect" where
  "create_socket X N C src =
     eff_then (authenticate X N src) (\<lambda>tokens.
     eff_then (eff_atm (\<lambda>a. case co_request C (sd_atm_api_ws (at_config a)) of
         Some e \<Rightarrow> Err (AtmTransportError (''Could not create websocket request. Reason: '' @ e))
       | None \<Rightarrow> Ok (sd_atm_api_ws (at_config a)))) (\<lambda>url.
     eff_then (eff_of (case co_header C (''Bearer '' @ ar_access_token tokens) of
         Some e \<Rightarrow> Err (AtmTransportError (''Could not set Authorization header: '' @ e))
       | None \<Rightarrow> Ok ())) (\<lambda>_ s.
     case co_connect C url (''Bearer '' @ ar_access_token tokens) (sk_net s) of
       (True, n) \<Rightarrow> (Ok (), s\<lparr>sk_net := n\<rparr>)
     | (False, n) \<Rightarrow> (Panic, s\<lparr>sk_net := n\<rparr>))))"

definition new_handler :: "atm \<Rightarrow> handler_state" where
  "new_handler a =
     \<lparr>hs_cache = new_cache (sd_fetch_cache_limit_count (at_config a)) (sd_fetch_cache_limit_bytes (at_config a)),
      hs_to_sdk = [], hs_to_socket = []\<rparr>"

definition ws_handler ::
  "('k, 'c, 'w, 'z) sdk_ext_scheme \<Rightarrow> 'n network \<Rightarrow> 'n connector \<Rightarrow> ('k, 'c) source \<Rightarrow> u64 \<Rightarrow> handler_env
     \<Rightarrow> (handler_env \<times> handler_event) list \<Rightarrow> 'n sdk \<Rightarrow> ((bool, atm_error) result \<times> handler_state) option \<times> 'n sdk" where
  "ws_handler X N C src sz he0 evs s =
     (case create_socket X N C src s of
        (Ok _, s') \<Rightarrow>
          (io_then (io_eff (to_sdk he0 WsStarted)) (\<lambda>_. handler_loop X (sk_atm s') sz evs) (new_handler (sk_atm s)), s')
      | (Err e, s') \<Rightarrow> (Some (Err e, new_handler (sk_atm s)), s')
      | (Panic, s') \<Rightarrow> (Some (Panic, new_handler (sk_atm s)), s'))"

end
