(* ===== verification/SdkPickup.thy ===== *)
theory SdkPickup
  imports SdkSocket
begin

text \<open>
  The protocols of the SDK: message pickup (\<open>protocols/message_pickup.rs\<close>) and trust ping
  (\<open>protocols/trust_ping.rs\<close>). A request is packed for the mediator and sent through the websocket,
  where the answer is waited for, or over HTTP, where it is in the response.
\<close>

subsection \<open>The requests\<close>

text \<open>The part that all pickup requests share, from the DIDs of the SDK and the time of sending.\<close>

definition pickup_message ::
  "string \<Rightarrow> string \<Rightarrow> json \<Rightarrow> string \<Rightarrow> string \<Rightarrow> u64 \<Rightarrow> message" where
  "pickup_message uuid type body to from now =
     message_finalize (with_expires_time (now + 300) (with_created_time now (with_from from (with_to to
       (with_header ''return_route'' (JString ''all'') (message_build uuid type body))))))"

definition status_request_message ::
  "string \<Rightarrow> u64 \<Rightarrow> string option \<Rightarrow> string \<Rightarrow> string \<Rightarrow> message" where
  "status_request_message uuid now recipient_did to from =
     pickup_message uuid ''https://didcomm.org/messagepickup/3.0/status-request''
       (case recipient_did of Some d \<Rightarrow> JObject [(''recipient_did'', JString d)] | None \<Rightarrow> JObject []) to from now"

definition live_delivery_message :: "string \<Rightarrow> u64 \<Rightarrow> bool \<Rightarrow> string \<Rightarrow> string \<Rightarrow> message" where
  "live_delivery_message uuid now live to from =
     pickup_message uuid ''https://didcomm.org/messagepickup/3.0/live-delivery-change''
       (JObject [(''live_delivery'', JBool live)]) to from now"

text \<open>A limit is a \<open>usize\<close>.\<close>

definition delivery_request_message ::
  "string \<Rightarrow> u64 \<Rightarrow> string option \<Rightarrow> u64 option \<Rightarrow> string \<Rightarrow> string \<Rightarrow> message" where
  "delivery_request_message uuid now recipient_did limit to from =
     pickup_message uuid ''https://didcomm.org/messagepickup/3.0/delivery-request''
       (JObject [(''limit'', JNumber (PosInt (case limit of Some n \<Rightarrow> n | None \<Rightarrow> 10))),
                 (''recipient_did'', JString (case recipient_did of Some d \<Rightarrow> d | None \<Rightarrow> from))]) to from now"

definition messages_received_message ::
  "string \<Rightarrow> u64 \<Rightarrow> string list \<Rightarrow> string \<Rightarrow> string \<Rightarrow> message" where
  "messages_received_message uuid now ids to from =
     pickup_message uuid ''https://didcomm.org/messagepickup/3.0/messages-received''
       (JObject [(''message_id_list'', JArray (map JString ids))]) to from now"

subsection \<open>Waiting for messages\<close>

definition live_stream_next ::
  "'n network \<Rightarrow> nat \<Rightarrow> ('n sdk, received option, atm_error) io" where
  "live_stream_next N wait =
     io_then (io_eff (eff_atm (\<lambda>a. ensure (at_ws_recv_stream a) (AtmTransportError ''No websocket recv stream'')))) (\<lambda>_.
     io_then (io_eff (eff_atm (\<lambda>a. ensure (at_ws_send_stream a) (AtmTransportError ''No websocket send stream'')))) (\<lambda>_.
     io_then (io_eff (send_command N ''Could not send message to ws_handler: '' WsNext)) (\<lambda>_ s.
     case recv N wait s of
       (Forever, _) \<Rightarrow> None
     | (Elapsed, s) \<Rightarrow> Some (Ok None, s)
     | (ChannelClosed, s) \<Rightarrow> Some (Ok None, s)
     | (Received c, s) \<Rightarrow> Some (case c of
           MessageReceived m meta \<Rightarrow> Ok (Some (m, meta))
         | _ \<Rightarrow> Err (AtmMsgReceiveError ''Unexpected message type''), s))))"

text \<open>The loop of \<open>live_stream_get\<close>: what is not found yet is waited for.\<close>

partial_function (option) get_loop ::
  "'n network \<Rightarrow> string \<Rightarrow> nat \<Rightarrow> 'n sdk \<Rightarrow> ((received option, atm_error) result \<times> 'n sdk) option" where
  "get_loop N msg_id wait s =
     (case recv N wait s of
        (ev, s) \<Rightarrow>
          (case ev of
             Forever \<Rightarrow> None
           | Elapsed \<Rightarrow> Some (eff_then (send_command N ''Could not send timeout message to ws_handler: '' (WsTimeOut msg_id))
               (\<lambda>_. eff_of (Ok None)) s)
           | ChannelClosed \<Rightarrow> Some (Ok None, s)
           | Received c \<Rightarrow>
               (case c of
                  MessageReceived m meta \<Rightarrow> Some (Ok (Some (m, meta)), s)
                | WsNotFound \<Rightarrow> get_loop N msg_id wait s
                | _ \<Rightarrow> Some (Err (AtmMsgReceiveError ''Unexpected message type''), s))))"

definition live_stream_get ::
  "'n network \<Rightarrow> string \<Rightarrow> nat \<Rightarrow> ('n sdk, received option, atm_error) io" where
  "live_stream_get N msg_id wait =
     io_then (io_eff (eff_atm (\<lambda>a. ensure (at_ws_recv_stream a) (AtmTransportError ''No websocket stream'')))) (\<lambda>_.
     io_then (io_eff (eff_atm (\<lambda>a. ensure (at_ws_send_stream a) (AtmTransportError ''No websocket send stream'')))) (\<lambda>_.
     io_then (io_eff (send_command N ''Could not send get message to ws_handler: '' (WsGet msg_id))) (\<lambda>_.
     get_loop N msg_id wait)))"

definition wait_millis :: "nat option \<Rightarrow> nat" where
  "wait_millis wait = (case wait of Some w \<Rightarrow> w | None \<Rightarrow> 10000)"

subsection \<open>Sending a request\<close>

definition pack_request ::
  "('k, 'c, 'w, 'z) env_ext_scheme \<Rightarrow> ('k, 'c) source \<Rightarrow> message \<Rightarrow> string \<Rightarrow> string \<Rightarrow> atm
     \<Rightarrow> (string, atm_error) result" where
  "pack_request X src msg to from a =
     and_then (map_err (\<lambda>e. AtmMsgSendError (''Error packing message: '' @ display_error e))
       (pack_encrypted X (sdk_secrets a) (src_draws src 0) msg to (Some from) (Some from) default_pack_options))
       (\<lambda>(s, _). Ok s)"

text \<open>The DIDs of the SDK, with the mediator the caller names in the place of the configured one.\<close>

definition request_dids :: "string option \<Rightarrow> atm \<Rightarrow> (string \<times> string, atm_error) result" where
  "request_dids mediator_did a =
     and_then (dids a) (\<lambda>(mine, atm_did). Ok (mine, case mediator_did of Some d \<Rightarrow> d | None \<Rightarrow> atm_did))"

text \<open>The answer over HTTP: an ephemeral message, unpacked.\<close>

definition http_answer ::
  "('k, 'c, 'w, 'z) sdk_ext_scheme \<Rightarrow> 'n network \<Rightarrow> ('k, 'c) source \<Rightarrow> string \<Rightarrow> ('n sdk, message, atm_error) effect" where
  "http_answer X N src packed =
     eff_then (send_didcomm_message X N src (de_inbound X) packed True) (\<lambda>r.
     case r of
       RestAPI (Some (Ephemeral message)) \<Rightarrow>
         eff_then (eff_atm (\<lambda>a. sdk_unpack X a message)) (\<lambda>(m, _). eff_of (Ok m))
     | _ \<Rightarrow> eff_of (Err (AtmMsgSendError ''No response from API'')))"

text \<open>The answer through the websocket, waited for once, or (\<open>twice\<close>) a second time after that.\<close>

definition socket_answer ::
  "('k, 'c, 'w, 'z) sdk_ext_scheme \<Rightarrow> 'n network \<Rightarrow> bool \<Rightarrow> string \<Rightarrow> string \<Rightarrow> nat \<Rightarrow> ('n sdk, message, atm_error) io" where
  "socket_answer X N twice packed msg_id wait =
     io_then (ws_send_didcomm_message X N packed msg_id :: ('n sdk, unit send_response, atm_error) io) (\<lambda>_.
     io_then (if twice then io_then (live_stream_get N msg_id wait) (\<lambda>_. io_of (Ok ())) else io_of (Ok ())) (\<lambda>_.
     io_then (live_stream_get N msg_id wait) (\<lambda>r.
     case r of
       Some (m, _) \<Rightarrow> io_of (Ok m)
     | None \<Rightarrow> io_of (Err (AtmMsgSendError ''No response from API'')))))"

definition request_answer ::
  "('k, 'c, 'w, 'z) sdk_ext_scheme \<Rightarrow> 'n network \<Rightarrow> ('k, 'c) source \<Rightarrow> bool \<Rightarrow> string \<Rightarrow> string \<Rightarrow> nat
     \<Rightarrow> ('n sdk, message, atm_error) io" where
  "request_answer X N src twice packed msg_id wait = (\<lambda>s.
     if at_ws_send_stream (sk_atm s) then socket_answer X N twice packed msg_id wait s
     else io_eff (http_answer X N src packed) s)"

text \<open>
  \<open>serde_json::from_value\<close> for a status: an object with the members of their types, an optional one
  possibly missing or null, or an array of all seven in order.
\<close>

definition u64_member :: "json option \<Rightarrow> u64 option option" where
  "u64_member v = (case v of
     None \<Rightarrow> Some None | Some JNull \<Rightarrow> Some None | Some (JNumber (PosInt n)) \<Rightarrow> Some (Some n) | _ \<Rightarrow> None)"

definition status_members ::
  "json option \<Rightarrow> json option \<Rightarrow> json option \<Rightarrow> json option \<Rightarrow> json option \<Rightarrow> json option \<Rightarrow> json option
     \<Rightarrow> status_reply option" where
  "status_members did count longest newest oldest total_bytes live =
     (case (did, count, u64_member longest, u64_member newest, u64_member oldest, total_bytes, live) of
        (Some (JString d), Some (JNumber (PosInt n)), Some l, Some ne, Some old, Some (JNumber (PosInt t)), Some (JBool b)) \<Rightarrow>
          if unat n < 2 ^ 32
          then Some \<lparr>sp_recipient_did = d, sp_message_count = unat n, sp_longest_waited_seconds = l,
                     sp_newest_received_time = ne, sp_oldest_received_time = old, sp_total_bytes = unat t,
                     sp_live_delivery = b\<rparr>
          else None
      | _ \<Rightarrow> None)"

definition status_from_value :: "json \<Rightarrow> status_reply option" where
  "status_from_value v =
     (case v of
        JObject ms \<Rightarrow>
          status_members (map_of ms ''recipient_did'') (map_of ms ''message_count'')
            (map_of ms ''longest_waited_seconds'') (map_of ms ''newest_received_time'')
            (map_of ms ''oldest_received_time'') (map_of ms ''total_bytes'') (map_of ms ''live_delivery'')
      | JArray [a, b, c, d, e, f, g] \<Rightarrow>
          status_members (Some a) (Some b) (Some c) (Some d) (Some e) (Some f) (Some g)
      | _ \<Rightarrow> None)"

definition parse_status_response ::
  "('k, 'c, 'w, 'z) med_ext_scheme \<Rightarrow> message \<Rightarrow> (status_reply, atm_error) result" where
  "parse_status_response X m =
     ok_or (AtmMsgReceiveError (''Error reading status response: '' @ value_error X ''MessagePickupStatusReply'' (m_body m)))
       (status_from_value (m_body m))"

subsection \<open>The operations\<close>

text \<open>The first source is for an authentication, the second for the request.\<close>

definition send_status_request ::
  "('k, 'c, 'w, 'z) sdk_ext_scheme \<Rightarrow> 'n network \<Rightarrow> (nat \<Rightarrow> ('k, 'c) source) \<Rightarrow> string option \<Rightarrow> string option
     \<Rightarrow> nat option \<Rightarrow> ('n sdk, status_reply, atm_error) io" where
  "send_status_request X N src recipient_did mediator_did wait =
     io_then (io_eff (eff_atm (request_dids mediator_did))) (\<lambda>(from, to).
     let msg = status_request_message (src_uuid (src 1)) (src_clock (src 1) 0) recipient_did to from in
     io_then (io_eff (eff_atm (pack_request X (src 1) msg to from))) (\<lambda>packed.
     io_then (request_answer X N (src 0) False packed (m_id msg) (wait_millis wait)) (\<lambda>m.
     io_of (parse_status_response X m))))"

definition sdk_toggle_live_delivery ::
  "('k, 'c, 'w, 'z) sdk_ext_scheme \<Rightarrow> 'n network \<Rightarrow> (nat \<Rightarrow> ('k, 'c) source) \<Rightarrow> bool \<Rightarrow> ('n sdk, unit, atm_error) io" where
  "sdk_toggle_live_delivery X N src live_delivery =
     io_then (io_eff (eff_atm (request_dids None))) (\<lambda>(from, to).
     let msg = live_delivery_message (src_uuid (src 1)) (src_clock (src 1) 0) live_delivery to from in
     io_then (io_eff (eff_atm (pack_request X (src 1) msg to from))) (\<lambda>packed s.
     if at_ws_send_stream (sk_atm s)
     then io_then (ws_send_didcomm_message X N packed (m_id msg) :: ('n sdk, unit send_response, atm_error) io)
            (\<lambda>_. io_of (Ok ())) s
     else io_then (io_eff (send_didcomm_message X N (src 0) (de_inbound X) packed True)) (\<lambda>_. io_of (Ok ())) s))"

text \<open>
  The messages in a delivery: an attachment that is not base64, does not decode to a text or does not
  unpack is left out. A message gets the id of its attachment.
\<close>

definition delivered_message ::
  "('k, 'c, 'w, 'z) env_ext_scheme \<Rightarrow> atm \<Rightarrow> attachment \<Rightarrow> (received list, atm_error) result" where
  "delivered_message X a att =
     (case a_data att of
        DataBase64 v \<Rightarrow>
          (case b64_decode X (b64_value v) of
             Inr decoded \<Rightarrow>
               if utf8_valid decoded
               then (case sdk_unpack X a decoded of
                       Ok (m, u) \<Rightarrow> Ok [(case a_id att of Some i \<Rightarrow> m\<lparr>m_id := i\<rparr> | None \<Rightarrow> m, u)]
                     | Err _ \<Rightarrow> Ok []
                     | Panic \<Rightarrow> Panic)
               else Ok []
           | Inl _ \<Rightarrow> Ok [])
      | _ \<Rightarrow> Ok [])"

definition handle_delivery ::
  "('k, 'c, 'w, 'z) env_ext_scheme \<Rightarrow> message \<Rightarrow> atm \<Rightarrow> (received list, atm_error) result" where
  "handle_delivery X message a =
     and_then (collect (delivered_message X a) (case m_attachments message of Some as \<Rightarrow> as | None \<Rightarrow> [])) (\<lambda>rs.
     Ok (concat rs))"

definition send_delivery_request ::
  "('k, 'c, 'w, 'z) sdk_ext_scheme \<Rightarrow> 'n network \<Rightarrow> (nat \<Rightarrow> ('k, 'c) source) \<Rightarrow> string option \<Rightarrow> string option
     \<Rightarrow> u64 option \<Rightarrow> nat option \<Rightarrow> ('n sdk, received list, atm_error) io" where
  "send_delivery_request X N src recipient_did mediator_did limit wait =
     io_then (io_eff (eff_atm (request_dids mediator_did))) (\<lambda>(from, to).
     let msg = delivery_request_message (src_uuid (src 1)) (src_clock (src 1) 0) recipient_did limit to from in
     io_then (io_eff (eff_atm (pack_request X (src 1) msg to from))) (\<lambda>packed.
     io_then (request_answer X N (src 0) True packed (m_id msg) (wait_millis wait)) (\<lambda>m.
     io_eff (eff_atm (handle_delivery X m)))))"

definition send_messages_received ::
  "('k, 'c, 'w, 'z) sdk_ext_scheme \<Rightarrow> 'n network \<Rightarrow> (nat \<Rightarrow> ('k, 'c) source) \<Rightarrow> string option \<Rightarrow> string option
     \<Rightarrow> string list \<Rightarrow> nat option \<Rightarrow> ('n sdk, status_reply, atm_error) io" where
  "send_messages_received X N src recipient_did mediator_did ids wait =
     io_then (io_eff (eff_atm (request_dids mediator_did))) (\<lambda>(from, to).
     let msg = messages_received_message (src_uuid (src 1)) (src_clock (src 1) 0) ids to from in
     io_then (io_eff (eff_atm (pack_request X (src 1) msg to from))) (\<lambda>packed.
     io_then (request_answer X N (src 0) True packed (m_id msg) (wait_millis wait)) (\<lambda>m.
     io_of (parse_status_response X m))))"

subsection \<open>Trust ping\<close>

record trust_ping_sent =
  tp_message_id :: string
  tp_message_hash :: string
  tp_bytes :: "32 word"
  tp_response :: "string option"

definition trust_ping_message :: "string \<Rightarrow> u64 \<Rightarrow> string \<Rightarrow> string \<Rightarrow> bool \<Rightarrow> bool \<Rightarrow> message" where
  "trust_ping_message uuid now to_did mine is_signed expect_response =
     (let b = with_to to_did (message_build uuid ''https://didcomm.org/trust-ping/2.0/ping''
                (JObject [(''response_requested'', JBool (is_signed \<and> expect_response))]))
      in message_finalize (with_expires_time (now + 300) (with_created_time now
           (if is_signed then with_from mine b else b))))"

definition ping_response :: "inbound_response send_response \<Rightarrow> string option" where
  "ping_response r =
     (case r of
        RestAPI (Some (Stored m)) \<Rightarrow> (case il_messages m of (_, msg_id) # _ \<Rightarrow> Some msg_id | [] \<Rightarrow> None)
      | _ \<Rightarrow> None)"

definition send_ping ::
  "('k, 'c, 'w, 'z) sdk_ext_scheme \<Rightarrow> 'n network \<Rightarrow> (nat \<Rightarrow> ('k, 'c) source) \<Rightarrow> string \<Rightarrow> bool \<Rightarrow> bool
     \<Rightarrow> ('n sdk, trust_ping_sent, atm_error) io" where
  "send_ping X N src to_did is_signed expect_response =
     io_then (io_eff (eff_atm dids)) (\<lambda>(mine, _).
     let msg = trust_ping_message (src_uuid (src 1)) (src_clock (src 1) 0) to_did mine is_signed expect_response;
         from_did = (if is_signed then Some mine else None) in
     io_then (io_eff (eff_atm (\<lambda>a.
         and_then (map_err (\<lambda>e. AtmMsgSendError (''Error packing message: '' @ display_error e))
           (pack_encrypted X (sdk_secrets a) (src_draws (src 1) 0) msg to_did from_did from_did default_pack_options))
           (\<lambda>(s, _). Ok s)))) (\<lambda>packed s.
     let info = \<lparr>tp_message_id = m_id msg, tp_message_hash = digest X packed,
                 tp_bytes = of_nat (length packed), tp_response = None\<rparr> in
     if at_ws_send_stream (sk_atm s)
     then io_then (ws_send_didcomm_message X N packed (m_id msg) :: ('n sdk, unit send_response, atm_error) io)
            (\<lambda>_. io_of (Ok info)) s
     else io_then (io_eff (send_didcomm_message X N (src 0) (de_inbound X) packed True))
            (\<lambda>r. io_of (Ok (info\<lparr>tp_response := ping_response r\<rparr>))) s))"

end
