(* ===== verification/SdkProps.thy ===== *)
theory SdkProps
  imports SdkPickup PickupProps
begin

text \<open>
  The SDK against the mediator: its pickup requests pass the checks of the mediator and are read as
  they were meant, the status and the deliveries of the mediator are read back, and the websocket
  task passes every message on.
\<close>

subsection \<open>Requests and answers\<close>

lemmas sdk_message_defs =
  pickup_message_def status_request_message_def live_delivery_message_def delivery_request_message_def
  messages_received_message_def

lemma pickup_message_valid:
  assumes "now' < now + 300"
  shows "validate_msg X S session now' (pickup_message uuid type body (sh_mediator_did S) from now) = Ok ()"
  using assms
  by (simp add: validate_msg_def pickup_message_def builder_defs check_expiry_def Let_def not_le)

lemma as_strings_JString [simp]: "as_strings (map JString ids) = Some ids"
  by (induction ids) auto


text \<open>The status the mediator sends is read back by the SDK as the status it was made from.\<close>

theorem status_reads_back:
  assumes "sp_message_count st < 2 ^ 32" "sp_total_bytes st < 2 ^ 64"
    and "pr_message_response (status_answer S session now uuid thid force st) = ResponseMessage m"
  shows "parse_status_response X m = Ok st"
proof -
  have b: "m_body m = status_json st"
    using assms(3) by (auto simp: status_answer_def answer_builder_def builder_defs)
  have n: "unat (word_of_nat (sp_message_count st) :: u64) = sp_message_count st"
    "unat (word_of_nat (sp_total_bytes st) :: u64) = sp_total_bytes st"
    using assms(1,2) by (simp_all add: unat_of_nat)
  show ?thesis
    using assms(1) n
    by (cases st) (auto simp: parse_status_response_def b status_json_def status_from_value_def status_members_def
        u64_member_def optional_number_def split: option.splits)
qed

text \<open>The message a client makes of an entry of its inbox, if the text of the entry opens.\<close>

definition opened ::
  "('k, 'c, 'w, 'z) env_ext_scheme \<Rightarrow> atm \<Rightarrow> keyspace \<Rightarrow> stream_id \<times> (string \<times> string) list \<Rightarrow> received list" where
  "opened X a ks e =
     (case ks (msg_key (msg_id_of e)) of
        Some (EStr s) \<Rightarrow> (case sdk_unpack X a s of Ok (m, u) \<Rightarrow> [(m\<lparr>m_id := msg_id_of e\<rparr>, u)] | _ \<Rightarrow> [])
      | _ \<Rightarrow> [])"

text \<open>The text of an entry is one, and does not make the SDK panic.\<close>

definition opens_safely ::
  "('k, 'c, 'w, 'z) env_ext_scheme \<Rightarrow> atm \<Rightarrow> keyspace \<Rightarrow> stream_id \<times> (string \<times> string) list \<Rightarrow> bool" where
  "opens_safely X a ks e \<longleftrightarrow>
     (\<forall>s. ks (msg_key (msg_id_of e)) = Some (EStr s) \<longrightarrow> utf8_valid s \<and> sdk_unpack X a s \<noteq> Panic)"

lemma delivered_opened:
  assumes "b64_laws X" and "attaches X ks e att"
    and "opens_safely X a ks e"
  shows "delivered_message X a att = Ok (opened X a ks e)"
proof -
  from assms(2) obtain s where s: "a_id att = Some (msg_id_of e)" "ks (msg_key (msg_id_of e)) = Some (EStr s)"
    "a_data att = DataBase64 \<lparr>b64_value = b64_encode X s, b64_jws = None\<rparr>"
    by (auto simp: attaches_def)
  with assms(1,3) show ?thesis
    by (cases "sdk_unpack X a s") (auto simp: delivered_message_def opened_def opens_safely_def b64_laws_def)
qed

lemma deliveries_opened:
  assumes "b64_laws X" and "list_all2 (attaches X ks) es as"
    and "list_all (opens_safely X a ks) es"
  shows "collect (delivered_message X a) as = Ok (map (opened X a ks) es)"
  using assms(2,3)
  by (induction rule: list_all2_induct) (simp_all add: delivered_opened[OF assms(1)])

text \<open>C32: From the inbox to the client: what the SDK makes of a delivery are the oldest messages of the
  inbox of its session, in order, each opened and under the id it has on the mediator; only texts that
  it cannot open are left out.\<close>

theorem delivery_reaches_the_client:
  assumes "redis_laws (sh_database S) V" "conversion_laws (sh_database S)" "linked (V (w_db w))"
    and "delivery_request X S session clock uuid msg w = (Ok (Some p), w')"
    and "entries (V (w_db w)) (receive_q (digest X (cs_did session))) = es" "es \<noteq> []"
    and "b64_laws X"
    and "list_all (opens_safely X a (V (w_db w))) es"
  shows "\<exists>n m. 1 \<le> n \<and> n \<le> 100 \<and> pr_message_response p = ResponseMessage m \<and>
    handle_delivery X m a = Ok (concat (map (opened X a (V (w_db w))) (take n es)))"
proof -
  obtain n m as where n: "1 \<le> n" "n \<le> 100" and m: "pr_message_response p = ResponseMessage m" "m_attachments m = Some as"
    and as: "list_all2 (attaches X (V (w_db w))) (take n es) as"
    using delivery_of_inbox[OF assms(1-6)] by blast
  have "collect (delivered_message X a) as = Ok (map (opened X a (V (w_db w))) (take n es))"
    by (rule deliveries_opened[OF assms(7) as]) (use assms(8) in \<open>auto simp: list_all_iff dest: in_set_takeD\<close>)
  with n m show ?thesis by (auto simp: handle_delivery_def)
qed

end
