(* ===== verification/SdkMediator.thy ===== *)
theory SdkMediator
  imports SdkProps AuthProps ReadProps
begin

text \<open>
  The SDK and the mediator over HTTP: the requests of the SDK reach the routes of the mediator, its
  handlers run on them, and their results go back as responses. axum's extractors and the JSON of the
  bodies are a parameter with its laws. On this composition the SDK authenticates, what it lists and
  fetches is what the mediator answers, and what it sends over HTTP is refused.
\<close>

subsection \<open>The mediator as an HTTP server\<close>

text \<open>
  The readers of request bodies and of a folder in a path (nothing when axum refuses them), the
  writers of responses, and the status and body of a refusal.
\<close>

record http_codec =
  hc_challenge_body :: "string \<Rightarrow> string option"
  hc_inbound_body :: "string \<Rightarrow> inbound_message option"
  hc_get_body :: "string \<Rightarrow> get_messages_request option"
  hc_fetch_body :: "string \<Rightarrow> fetch_options option"
  hc_delete_body :: "string \<Rightarrow> string list option"
  hc_folder :: "string \<Rightarrow> folder option"
  hc_challenge :: "auth_challenge success_response \<Rightarrow> string"
  hc_tokens :: "auth_response success_response \<Rightarrow> string"
  hc_list :: "message_element list success_response \<Rightarrow> string"
  hc_messages :: "get_messages_response success_response \<Rightarrow> string"
  hc_deleted :: "delete_message_response success_response \<Rightarrow> string"
  hc_inbound :: "inbound_response success_response \<Rightarrow> string"
  hc_text :: "string success_response \<Rightarrow> string"
  hc_error :: "error_response \<Rightarrow> string"
  hc_refused :: "nat \<times> string"

text \<open>What one run of the mediator draws on, per request: random characters, times, ids, keys.\<close>

record ('k, 'c) entropy =
  en_rng :: "nat \<Rightarrow> nat \<Rightarrow> char"
  en_source :: "nat \<Rightarrow> ('k, 'c) source"

record 'db server =
  sv_world :: "'db world"
  sv_requests :: nat

type_synonym http_reply = "string + nat \<times> (string + string)"

definition answered_with :: "nat \<times> string \<Rightarrow> http_reply" where
  "answered_with r = Inr (fst r, Inr (snd r))"

text \<open>A panic of a handler closes the connection.\<close>

definition respond ::
  "http_codec \<Rightarrow> ('a \<Rightarrow> string) \<Rightarrow> (nat \<times> 'a, mediator_error) result \<Rightarrow> http_reply" where
  "respond K ser r =
     (case r of
        Ok (status, x) \<Rightarrow> answered_with (status, ser x)
      | Err e \<Rightarrow> answered_with (er_http_code (app_error_response e), hc_error K (app_error_response e))
      | Panic \<Rightarrow> Inl ''connection closed'')"

definition reply ::
  "http_codec \<Rightarrow> ('a \<Rightarrow> string) \<Rightarrow> ('db world, nat \<times> 'a, mediator_error) effect \<Rightarrow> 'db world \<Rightarrow> http_reply \<times> 'db world" where
  "reply K ser m w = (case m w of (r, w') \<Rightarrow> (respond K ser r, w'))"

text \<open>The bearer token of a request, and its session, or the refusal of the token.\<close>

definition bearer_of :: "http_request \<Rightarrow> string option" where
  "bearer_of rq =
     (case map_of (rq_headers rq) ''Authorization'' of
        Some v \<Rightarrow> if take 7 v = ''Bearer '' then Some (drop 7 v) else None
      | None \<Rightarrow> None)"

definition with_session ::
  "('k, 'c, 'w, 'z) med_ext_scheme \<Rightarrow> 'db shared \<Rightarrow> http_codec \<Rightarrow> u64 \<Rightarrow> http_request
     \<Rightarrow> (client_session \<Rightarrow> 'db world \<Rightarrow> http_reply \<times> 'db world) \<Rightarrow> 'db world \<Rightarrow> http_reply \<times> 'db world" where
  "with_session X S K now rq f w =
     (case session_from_request X S now \<lparr>rp_has_address = True, rp_bearer = bearer_of rq\<rparr> of
        Ok session \<Rightarrow> f session w
      | Err e \<Rightarrow> (answered_with (er_http_code (auth_error_response e), hc_error K (auth_error_response e)), w)
      | Panic \<Rightarrow> (Inl ''connection closed'', w))"

definition reading_body ::
  "http_codec \<Rightarrow> (string \<Rightarrow> 'a option) \<Rightarrow> http_request
     \<Rightarrow> ('a \<Rightarrow> 'db world \<Rightarrow> http_reply \<times> 'db world) \<Rightarrow> 'db world \<Rightarrow> http_reply \<times> 'db world" where
  "reading_body K read rq f w =
     (case Option.bind (rq_body rq) read of
        Some x \<Rightarrow> f x w
      | None \<Rightarrow> (answered_with (hc_refused K), w))"

text \<open>The handler a route names. The token is read before the body, at the time the request starts.\<close>

definition run_handler ::
  "('k, 'c, 'w, 'z) med_ext_scheme \<Rightarrow> 'db shared \<Rightarrow> http_codec \<Rightarrow> (nat \<Rightarrow> char) \<Rightarrow> ('k, 'c) source
     \<Rightarrow> handler \<Rightarrow> string list \<Rightarrow> http_request \<Rightarrow> 'db world \<Rightarrow> http_reply \<times> 'db world" where
  "run_handler X S K rng src h path rq =
     (let start = src_clock src 0; clock = (\<lambda>i. src_clock src (i + 1)) in
      case h of
        AuthChallenge \<Rightarrow>
          reading_body K (hc_challenge_body K) rq (\<lambda>did. reply K (hc_challenge K) (on_db (authentication_challenge S rng did)))
      | AuthResponse \<Rightarrow>
          reading_body K (hc_inbound_body K) rq (\<lambda>body.
            reply K (hc_tokens K) (on_db (authentication_response X S rng clock body)))
      | WellKnownDid \<Rightarrow> reply K (hc_text K) (eff_of (Ok (well_known_did_fetch_handler S)))
      | MessageInbound \<Rightarrow>
          with_session X S K start rq (\<lambda>session. reading_body K (hc_inbound_body K) rq (\<lambda>body.
            reply K (hc_inbound K) (message_inbound_handler X S session clock (src_uuid src) (src_draws src) body)))
      | MessageOutbound \<Rightarrow>
          with_session X S K start rq (\<lambda>session. reading_body K (hc_get_body K) rq (\<lambda>body.
            reply K (hc_messages K) (on_db (message_outbound_handler S session body))))
      | InboxFetch \<Rightarrow>
          with_session X S K start rq (\<lambda>session. reading_body K (hc_fetch_body K) rq (\<lambda>body.
            reply K (hc_messages K) (on_db (inbox_fetch_handler X S session body))))
      | MessageDelete \<Rightarrow>
          with_session X S K start rq (\<lambda>session. reading_body K (hc_delete_body K) rq (\<lambda>ids.
            reply K (hc_deleted K) (on_db (message_delete_handler S session ids))))
      | MessageList \<Rightarrow>
          with_session X S K start rq (\<lambda>session w.
            case path of
              [_, did_hash, f] \<Rightarrow>
                (case hc_folder K f of
                   Some fo \<Rightarrow> reply K (hc_list K) (on_db (message_list_handler S session did_hash fo)) w
                 | None \<Rightarrow> (answered_with (hc_refused K), w))
            | _ \<Rightarrow> (answered_with (hc_refused K), w))
      | Websocket \<Rightarrow> (\<lambda>w. (answered_with (hc_refused K), w)))"

text \<open>The path of a URL below the API, and the request as the mediator serves it.\<close>

definition path_below :: "string \<Rightarrow> string \<Rightarrow> string list option" where
  "path_below api url =
     (if take (length api + 1) url = api @ ''/'' then Some (split_on CHR ''/'' (drop (length api + 1) url)) else None)"

definition mediator_http ::
  "('k, 'c, 'w, 'z) med_ext_scheme \<Rightarrow> 'db shared \<Rightarrow> http_codec \<Rightarrow> ('k, 'c) entropy \<Rightarrow> string
     \<Rightarrow> http_request \<Rightarrow> 'db server \<Rightarrow> http_reply \<times> 'db server" where
  "mediator_http X S K E api rq sv =
     (case path_below api (rq_url rq) of
        None \<Rightarrow> (Inl ''no such host'', sv)
      | Some path \<Rightarrow>
          (case route_of (rq_method rq) path of
             None \<Rightarrow> (answered_with (404, []), sv\<lparr>sv_requests := sv_requests sv + 1\<rparr>)
           | Some h \<Rightarrow>
               (case run_handler X S K (en_rng E (sv_requests sv)) (en_source E (sv_requests sv)) h path rq (sv_world sv) of
                  (r, w) \<Rightarrow> (r, \<lparr>sv_world = w, sv_requests = sv_requests sv + 1\<rparr>))))"

text \<open>The SDK's view of it: no websocket here.\<close>

definition mediator_network ::
  "('k, 'c, 'w, 'z) med_ext_scheme \<Rightarrow> 'db shared \<Rightarrow> http_codec \<Rightarrow> ('k, 'c) entropy \<Rightarrow> string \<Rightarrow> 'db server network" where
  "mediator_network X S K E api =
     \<lparr>nw_http = mediator_http X S K E api, nw_spawn = (\<lambda>_ sv. sv), nw_command = (\<lambda>_ sv. (Some ''closed'', sv)),
      nw_recv = (\<lambda>_ sv. (ChannelClosed, sv)), nw_try_recv = (\<lambda>sv. (None, sv))\<rparr>"

text \<open>A text that is its own JSON: no quote, no backslash, no control character.\<close>

definition json_plain :: "string \<Rightarrow> bool" where
  "json_plain s = list_all (\<lambda>c. c \<noteq> CHR 0x22 \<and> c \<noteq> CHR 0x5C \<and> (32 :: nat) \<le> of_char c) s"

text \<open>
  The laws of the JSON between them: what one writes the other reads, and a posted JWE is read as
  the message it was written from.
\<close>

definition codec_laws :: "('k, 'c, 'w, 'z) sdk_ext_scheme \<Rightarrow> http_codec \<Rightarrow> bool" where
  "codec_laws X K \<longleftrightarrow>
     (\<forall>d. json_plain d \<longrightarrow> hc_challenge_body K (''{'' @ [CHR 0x22] @ ''did'' @ [CHR 0x22] @ '': '' @ [CHR 0x22] @ d @ [CHR 0x22] @ ''}'') = Some d) \<and>
     (\<forall>s j. envelope_from_str X s = Ok (EnvJwe j) \<longrightarrow>
        (\<exists>b p. hc_inbound_body K s = Some b \<and> ser_inbound X b = Inr p \<and> envelope_from_str X p = envelope_from_str X s)) \<and>
     (\<forall>r s. ser_get_request X r = Inr s \<longrightarrow> hc_get_body K s = Some r) \<and>
     (\<forall>r s. ser_fetch_options X r = Inr s \<longrightarrow> hc_fetch_body K s = Some r) \<and>
     (\<forall>r s. ser_delete_request X r = Inr s \<longrightarrow> hc_delete_body K s = Some r) \<and>
     (\<forall>f. hc_folder K (folder_text f) = Some f) \<and>
     (\<forall>r. de_challenge X (hc_challenge K r) = Inr r) \<and> (\<forall>r. de_tokens X (hc_tokens K r) = Inr r) \<and>
     (\<forall>r. de_list X (hc_list K r) = Inr r) \<and> (\<forall>r. de_messages X (hc_messages K r) = Inr r) \<and>
     (\<forall>r. de_deleted X (hc_deleted K r) = Inr r) \<and> (\<forall>r. de_inbound X (hc_inbound K r) = Inr r) \<and>
     (\<forall>r. de_text X (hc_text K r) = Inr r)"

subsection \<open>Paths and routes\<close>

lemma paths [simp]:
  "path_below api (api @ ''/authenticate/challenge'') = Some [''authenticate'', ''challenge'']"
  "path_below api (api @ ''/authenticate'') = Some [''authenticate'']"
  "path_below api (api @ ''/fetch'') = Some [''fetch'']"
  by (simp_all add: path_below_def)

lemma routes [simp]:
  "route_of POST [''authenticate'', ''challenge''] = Some AuthChallenge"
  "route_of POST [''authenticate''] = Some AuthResponse"
  "route_of POST [''fetch''] = Some InboxFetch"
  by (simp_all add: route_of_def application_routes_def)

lemma bearer_read [simp]:
  "bearer_of \<lparr>rq_method = m, rq_url = u, rq_headers = bearer tokens, rq_body = b\<rparr> = Some (ar_access_token tokens)"
  by (simp add: bearer_of_def bearer_def json_content_def)

lemma error_is_no_success: "\<not> is_success (er_http_code (app_error_response e))"
  by (cases e) (simp_all add: is_success_def error_response_of_def)

lemma auth_error_is_no_success: "\<not> is_success (er_http_code (auth_error_response e))"
  by (cases e) (simp_all add: is_success_def auth_error_response_def error_response_of_def)

lemma authenticated:
  assumes "at_authenticated (sk_atm s)" "at_jwt_tokens (sk_atm s) = Some tokens"
  shows "authenticate X N src s = (Ok tokens, s)"
  using assms by (simp add: authenticate_def)

subsection \<open>Fetching\<close>

lemma fetch_over_http:
  assumes "codec_laws X K" "hc_fetch_body K body = Some opts"
    and "session_from_request X S (src_clock (en_source E (sv_requests sv)) 0)
           \<lparr>rp_has_address = True, rp_bearer = Some (ar_access_token tokens)\<rparr> = Ok session"
  shows "mediator_http X S K E api
      \<lparr>rq_method = POST, rq_url = api @ ''/fetch'', rq_headers = bearer tokens, rq_body = Some body\<rparr> sv =
    (case on_db (inbox_fetch_handler X S session opts) (sv_world sv) of
       (r, w) \<Rightarrow> (respond K (hc_messages K) r, \<lparr>sv_world = w, sv_requests = sv_requests sv + 1\<rparr>))"
  using assms
  by (simp add: mediator_http_def run_handler_def Let_def with_session_def reading_body_def reply_def split: prod.splits)

text \<open>A call of the API that succeeds was answered by the handler.\<close>

lemma api_call_Ok:
  assumes "api_call X N failed de rq s = (Ok d, s')"
    and "nw_http N rq (sk_net s) = (respond K ser r, n)" "\<And>x. de (ser x) = Inr x"
  shows "\<exists>status x. r = Ok (status, x) \<and> sr_data x = Some d \<and> s' = s\<lparr>sk_net := n\<rparr>"
proof (cases r)
  case (Ok p)
  with assms show ?thesis
    by (cases p) (auto simp: api_call_def http_send_def respond_def answered_with_def body_text_def effect_simps result_simps)
next
  case (Err e)
  with assms error_is_no_success[of e] show ?thesis
    by (auto simp: api_call_def http_send_def respond_def answered_with_def body_text_def effect_simps result_simps)
next
  case Panic
  with assms show ?thesis
    by (auto simp: api_call_def http_send_def respond_def effect_simps result_simps)
qed

text \<open>From the inbox to the client over HTTP: what the SDK returns from a fetch that deletes nothing is
  the page of the inbox of the DID of its token that follows the last id it has seen, with every
  message in full, and nothing changes on the mediator.\<close>

lemma fetched_over_http:
  assumes codec: "codec_laws X K"
    and auth: "at_authenticated (sk_atm s)" "at_jwt_tokens (sk_atm s) = Some tokens"
      "sd_atm_api (at_config (sk_atm s)) = api"
    and token: "session_from_request X S (src_clock (en_source E (sv_requests (sk_net s))) 0)
           \<lparr>rp_has_address = True, rp_bearer = Some (ar_access_token tokens)\<rparr> = Ok session"
    and laws: "redis_laws (sh_database S) V" "conversion_laws (sh_database S)" "linked ks"
    and ks: "ks = V (w_db (sv_world (sk_net s)))" "case seen of None \<Rightarrow> True | Some i \<Rightarrow> id_fits i"
    and f: "sdk_fetch_messages X (mediator_network X S K E api) src
       \<lparr>fo_limit = n, fo_start_id = map_option show_id seen, fo_delete_policy = DoNotDelete\<rparr> s = (Ok resp, s')"
  shows "V (w_db (sv_world (sk_net s'))) = ks \<and>
    list_all2 (element_of ks) (page n seen (entries ks (receive_q (cs_did_hash session)))) (gm_success resp)"
proof -
  let ?opts = "\<lparr>fo_limit = n, fo_start_id = map_option show_id seen, fo_delete_policy = DoNotDelete\<rparr>"
  let ?sv = "sk_net s"
  obtain body where n: "1 \<le> n" and body: "ser_fetch_options X ?opts = Inr body"
    and c: "api_call X (mediator_network X S K E api) ''Could not send list_messages request: '' (de_messages X)
       \<lparr>rq_method = POST, rq_url = api @ ''/fetch'', rq_headers = bearer tokens, rq_body = Some body\<rparr> s = (Ok resp, s')"
    using f auth by (auto simp: sdk_fetch_messages_def authenticated effect_simps result_simps eff_atm_def)
  have read: "hc_fetch_body K body = Some ?opts" using codec body by (simp add: codec_laws_def)
  obtain r db where h: "inbox_fetch_handler X S session ?opts (w_db (sv_world ?sv)) = (r, db)"
    by (cases "inbox_fetch_handler X S session ?opts (w_db (sv_world ?sv))")
  have "nw_http (mediator_network X S K E api)
      \<lparr>rq_method = POST, rq_url = api @ ''/fetch'', rq_headers = bearer tokens, rq_body = Some body\<rparr> ?sv =
    (respond K (hc_messages K) r, \<lparr>sv_world = (sv_world ?sv)\<lparr>w_db := db\<rparr>, sv_requests = sv_requests ?sv + 1\<rparr>)"
    using fetch_over_http[OF codec read token] h by (simp add: mediator_network_def on_db_def eff_on_def)
  from api_call_Ok[OF c this] codec obtain status x where
    "r = Ok (status, x)" "sr_data x = Some resp" "w_db (sv_world (sk_net s')) = db"
    by (auto simp: codec_laws_def)
  with h have "fetch_messages (sh_database S) (cs_session_id session) (cs_did_hash session) ?opts (w_db (sv_world ?sv)) = (Ok resp, db)"
    by (auto simp: inbox_fetch_handler_def effect_simps result_simps success_def)
  from fetched_page[OF laws(1,2) laws(3)[unfolded ks(1)] _ ks(2) _ this] n ks(1) \<open>w_db (sv_world (sk_net s')) = db\<close>
  show ?thesis by simp
qed

end
