(* ===== verification/SdkSession.thy ===== *)
theory SdkSession
  imports SdkMediator
begin

text \<open>
  Authentication and sending on the composition of the SDK with the mediator: the two exchanges of
  \<open>authenticate\<close> run against the two handlers of \<open>/authenticate\<close> end with tokens for the DID of the
  SDK, and a message that the SDK sends over HTTP is refused, because it goes to the same route.
\<close>

subsection \<open>The messages of the SDK at the mediator\<close>

text \<open>What has to hold of a packed text for the mediator to open it and to know its sender.\<close>

definition opens_at_mediator ::
  "('k, 'c, 'w, 'z) env_ext_scheme \<Rightarrow> ('k \<Rightarrow> 'k) \<Rightarrow> 'db shared \<Rightarrow> secrets_resolver \<Rightarrow> pack_encrypted_metadata \<Rightarrow> bool" where
  "opens_at_mediator X pub S SR meta \<longleftrightarrow>
     pm_messaging_service meta = None \<and>
     (\<exists>doc. did_resolve X (did_of (sh_mediator_did S)) = Inr doc \<and>
        distinct (find_key_agreement X doc (snd (did_or_url (sh_mediator_did S)))) \<and>
        recipient_ready X pub (sh_mediator_secrets S) doc (pm_to_kids meta)) \<and>
     (\<forall>kid. pm_from_kid meta = Some kid \<longrightarrow> sender_ready X pub SR kid) \<and>
     (\<forall>kid. pm_sign_by_kid meta = Some kid \<longrightarrow> signer_ready X pub SR kid)"

lemma posted_opens:
  assumes "crypto_laws X pub rs" "plain_message X m"
    and "pack_encrypted X SR rs m (sh_mediator_did S) from sign_by opts = Ok (packed, meta)"
    and "opens_at_mediator X pub S SR meta"
    and "codec_laws X K" "envelope_from_str X packed = Ok (EnvJwe j)"
  shows "\<exists>body posted md. hc_inbound_body K packed = Some body \<and> ser_inbound X body = Inr posted \<and>
     unpack_string X (sh_mediator_secrets S) default_unpack_options posted = Ok (m, md)"
proof -
  have opts: "\<not> uo_expect_decrypt_by_all_keys default_unpack_options"
      "2 < unat (uo_crypto_operations_limit default_unpack_options)"
    by (simp_all add: default_unpack_options_def)
  from assms(4) obtain doc where doc: "did_resolve X (did_of (sh_mediator_did S)) = Inr doc"
      "distinct (find_key_agreement X doc (snd (did_or_url (sh_mediator_did S))))"
      "recipient_ready X pub (sh_mediator_secrets S) doc (pm_to_kids meta)"
    and r: "pm_messaging_service meta = None"
      "\<And>kid. pm_from_kid meta = Some kid \<Longrightarrow> sender_ready X pub SR kid"
      "\<And>kid. pm_sign_by_kid meta = Some kid \<Longrightarrow> signer_ready X pub SR kid"
    unfolding opens_at_mediator_def by blast
  obtain md where md: "unpack_string X (sh_mediator_secrets S) default_unpack_options packed = Ok (m, md)"
    using packed_opens[OF assms(1-3) r(1) doc _ _ opts] r(2,3) by blast
  obtain body posted where "hc_inbound_body K packed = Some body" "ser_inbound X body = Inr posted"
    and "envelope_from_str X posted = envelope_from_str X packed"
    using assms(5,6) unfolding codec_laws_def by blast
  with md show ?thesis by (auto simp: unpack_string_def meta_envelope_new_def)
qed

subsection \<open>The exchanges\<close>

lemma challenge_over_http:
  assumes "codec_laws X K" "json_plain me" "sd_atm_api (at_config a) = api"
    and "rng = en_rng E (sv_requests sv)"
    and "create_session (sh_database S) (challenge_session rng me) (w_db (sv_world sv)) = (Ok (), db)"
  shows "mediator_http X S K E api (challenge_request a me) sv =
    (answered_with (200, hc_challenge K (snd (success (create_random_string rng 0 12)
        \<lparr>ac_challenge = create_random_string rng 12 32, ac_session_id = create_random_string rng 0 12\<rparr>))),
     \<lparr>sv_world = (sv_world sv)\<lparr>w_db := db\<rparr>, sv_requests = sv_requests sv + 1\<rparr>)"
  using assms
  by (simp add: mediator_http_def challenge_request_def run_handler_def Let_def reading_body_def reply_def on_db_def
      eff_on_def codec_laws_def authentication_challenge_def eff_then_run challenge_session_def respond_def success_def)

lemma get_challenge_Ok:
  assumes "dids (sk_atm s) = Ok (me, to)" "\<And>r. de_challenge X (K r) = Inr r"
    and "nw_http N (challenge_request (sk_atm s) me) (sk_net s) =
           (answered_with (200, K (snd (success sid ch))), n)"
  shows "get_challenge X N s = (Ok (me, to, ch), s\<lparr>sk_net := n\<rparr>)"
  using assms
  by (simp add: get_challenge_def eff_atm_def eff_then_run http_send_def answered_with_def body_text_def
      is_success_def ensure_def success_def)

lemma answer_over_http:
  assumes "hc_inbound_body K packed = Some body" "sd_atm_api (at_config a) = api"
    and "authentication_response X S (en_rng E (sv_requests sv)) (\<lambda>i. src_clock (en_source E (sv_requests sv)) (i + 1))
           body (w_db (sv_world sv)) = (Ok (success sid tokens), db)"
  shows "mediator_http X S K E api (authenticate_request a packed) sv =
    (answered_with (200, hc_tokens K (snd (success sid tokens))),
     \<lparr>sv_world = (sv_world sv)\<lparr>w_db := db\<rparr>, sv_requests = sv_requests sv + 1\<rparr>)"
  using assms
  by (simp add: mediator_http_def authenticate_request_def run_handler_def Let_def reading_body_def reply_def on_db_def
      eff_on_def respond_def success_def)

lemma answer_challenge_Ok:
  assumes "sk_atm s = a" "create_auth_challenge_response a (src_clock src 0) (src_uuid src) ch = Ok m"
    and "pack_encrypted X (sdk_secrets a) (src_draws src 0) m to (Some me) (Some me) default_pack_options = Ok (packed, meta)"
    and "\<And>r. de_tokens X (K r) = Inr r"
    and "nw_http N (authenticate_request a packed) (sk_net s) = (answered_with (200, K (snd (success sid tokens))), n)"
  shows "answer_challenge X N src me to ch s =
    (Ok tokens, \<lparr>sk_atm = a\<lparr>at_jwt_tokens := Some tokens, at_authenticated := True\<rparr>, sk_net = n\<rparr>)"
  using assms
  by (simp add: answer_challenge_def eff_atm_def eff_then_run http_send_def answered_with_def body_text_def
      is_success_def ensure_def success_def set_atm_def)

text \<open>A session is read back as it was created, when it can be read.\<close>

lemma created_session_read:
  assumes "redis_laws R V" "conversion_laws R" "create_session R (challenge_session rng did) db = (Ok (), db1)"
    and "get_session R (create_random_string rng 0 12) db1 = (Ok s, db2)"
  shows "s = challenge_session rng did"
proof -
  have i: "ses_id (challenge_session rng did) = create_random_string rng 0 12" by (simp add: challenge_session_def)
  from create_session_Ok[OF assms(1,3)] get_session_Ok[OF assms(1,2,4)] obtain h where
    "session_of_hash (create_random_string rng 0 12) (session_fields (challenge_session rng did) h) = Ok s"
    unfolding i by auto
  then show ?thesis using session_of_fields[of "challenge_session rng did" h] by (simp add: challenge_session_def)
qed

text \<open>C6: Authentication works from end to end: the SDK with a DID of its own that the mediator can read,
  whose keys its document publishes, gets tokens from the mediator in two exchanges, when the mediator
  reads the answer within the minute it is valid for and its database performs the three commands. The
  SDK keeps the tokens, the database has an authenticated session of the DID, and requests with the
  access token have the session of that DID for 15 minutes.\<close>

theorem sdk_authenticates:
  assumes laws: "codec_laws X K" "crypto_laws X pub (src_draws src 0)" "jwt_laws X enc dec"
      "redis_laws (sh_database S) V" "conversion_laws (sh_database S)"
    and client: "dids (sk_atm s) = Ok (me, sh_mediator_did S)" "json_plain me" "\<not> at_authenticated (sk_atm s)"
      "sd_atm_api (at_config (sk_atm s)) = api"
    and keys: "sh_jwt_encoding_key S = Some enc" "sh_jwt_decoding_key S = Some dec"
    and draws: "n = sv_requests (sk_net s)" "rng = en_rng E n" "sid = create_random_string rng 0 12"
      "new = create_random_string (en_rng E (n + 1)) 0 12" "sid \<noteq> new"
      "clock = (\<lambda>i. src_clock (en_source E (n + 1)) (i + 1))"
    and answer: "create_auth_challenge_response (sk_atm s) (src_clock src 0) (src_uuid src)
        \<lparr>ac_challenge = create_random_string rng 12 32, ac_session_id = sid\<rparr> = Ok m"
      "plain_message X m"
      "pack_encrypted X (sdk_secrets (sk_atm s)) (src_draws src 0) m (sh_mediator_did S) (Some me) (Some me)
         default_pack_options = Ok (packed, meta)"
      "envelope_from_str X packed = Ok (EnvJwe j)" "opens_at_mediator X pub S (sdk_secrets (sk_atm s)) meta"
      "clock 0 < src_clock src 0 + 60"
    and database: "create_session (sh_database S) (challenge_session rng me) (w_db (sv_world (sk_net s))) = (Ok (), db_sent)"
      "get_session (sh_database S) sid db_sent = (Ok ses, db_read)"
      "update_session_authenticated (sh_database S) sid new db_read = (Ok (), db_done)"
    and tokens: "issue_tokens X S (clock 1) ((challenge_session rng me)\<lparr>ses_id := new\<rparr>) = Ok tokens"
  shows "\<exists>s'. authenticate X (mediator_network X S K E api) src s = (Ok tokens, s') \<and>
     at_authenticated (sk_atm s') \<and> at_jwt_tokens (sk_atm s') = Some tokens \<and>
     is_authenticated (V (w_db (sv_world (sk_net s')))) new me \<and>
     (\<forall>later \<le> clock 1 + 900.
        session_from_request X S later \<lparr>rp_has_address = True, rp_bearer = Some (ar_access_token tokens)\<rparr> =
          Ok \<lparr>cs_session_id = new, cs_authenticated = True, cs_challenge_sent = None, cs_did = me,
              cs_did_hash = digest X me\<rparr>)"
proof -
  let ?N = "mediator_network X S K E api"
  let ?ch = "\<lparr>ac_challenge = create_random_string rng 12 32, ac_session_id = sid\<rparr>"
  let ?sv = "sk_net s"
  let ?sv1 = "\<lparr>sv_world = (sv_world ?sv)\<lparr>w_db := db_sent\<rparr>, sv_requests = n + 1\<rparr>"
  let ?sv2 = "\<lparr>sv_world = (sv_world ?sv)\<lparr>w_db := db_done\<rparr>, sv_requests = n + 2\<rparr>"
  have codec: "\<And>r. de_challenge X (hc_challenge K r) = Inr r" "\<And>r. de_tokens X (hc_tokens K r) = Inr r"
    using laws(1) by (simp_all add: codec_laws_def)
  have ses: "ses = challenge_session rng me"
    using created_session_read[OF laws(4,5) database(1)] database(2) draws(3) by blast
  have c: "get_challenge X ?N s = (Ok (me, sh_mediator_did S, ?ch), s\<lparr>sk_net := ?sv1\<rparr>)"
    by (rule get_challenge_Ok[OF client(1) codec(1), where sid = sid])
       (use challenge_over_http[OF laws(1) client(2,4) _ database(1)] draws in \<open>simp add: mediator_network_def\<close>)
  obtain body posted md where b: "hc_inbound_body K packed = Some body" "ser_inbound X body = Inr posted"
    and u: "unpack_string X (sh_mediator_secrets S) default_unpack_options posted = Ok (m, md)"
    using posted_opens[OF laws(2) answer(2,3,5) laws(1) answer(4)] by blast
  have m: "m_type m = ''https://affinidi.com/atm/1.0/authenticate''"
    "m_body m = JObject [(''challenge'', JString (ac_challenge ?ch)), (''session_id'', JString sid)]"
    "m_from m = Some me" "m_expires_time m = Some (src_clock src 0 + 60)"
    using answer(1) client(1) by (auto simp: create_auth_challenge_response_def builder_defs)
  have "authentication_response X S (en_rng E (n + 1)) clock body db_sent = (Ok (success new tokens), db_done)"
    unfolding draws(4)
    by (rule answer_accepted[OF u m(1,2) _ _ b(2) database(2)])
       (use m ses answer(6) tokens draws(3,4) database(3) in \<open>simp_all add: challenge_session_def check_expiry_def ensure_def not_le\<close>)
  then have p: "nw_http ?N (authenticate_request (sk_atm s) packed) ?sv1 = (answered_with (200, hc_tokens K (snd (success new tokens))), ?sv2)"
    using answer_over_http[OF b(1) client(4), where sv = ?sv1] draws(6) by (simp add: mediator_network_def)
  have "answer_challenge X ?N src me (sh_mediator_did S) ?ch (s\<lparr>sk_net := ?sv1\<rparr>) =
      (Ok tokens, \<lparr>sk_atm = (sk_atm s)\<lparr>at_jwt_tokens := Some tokens, at_authenticated := True\<rparr>, sk_net = ?sv2\<rparr>)"
    by (rule answer_challenge_Ok[OF _ answer(1,3) codec(2), where sid = new]) (use p in simp_all)
  then have a: "authenticate X ?N src s =
      (Ok tokens, \<lparr>sk_atm = (sk_atm s)\<lparr>at_jwt_tokens := Some tokens, at_authenticated := True\<rparr>, sk_net = ?sv2\<rparr>)"
    using client(3) c by (simp add: authenticate_def eff_then_run)
  have "is_authenticated (V db_done) new me"
  proof -
    from create_session_Ok[OF laws(4) database(1)] obtain h where
      "V db_sent (session_key sid) = Some (EHash (session_fields (challenge_session rng me) h))"
      unfolding draws(3) by (auto simp: challenge_session_def)
    with get_session_state[OF laws(4) database(2)] update_session_Ok[OF laws(4) database(3) draws(5)]
    show ?thesis by (auto simp: is_authenticated_def session_fields_def challenge_session_def)
  qed
  with a issued_tokens_are_sessions[OF tokens keys laws(3)] show ?thesis
    by (simp add: challenge_session_def)
qed

subsection \<open>Sending\<close>

text \<open>
  C37: A message that the SDK sends over HTTP never arrives: it is posted to \<open>/authenticate\<close>, where the
  mediator opens it and refuses what is not an authentication message. The caller gets an error, as
  does every request of the pickup protocol and a trust ping when there is no websocket, and nothing
  is stored on the mediator.
\<close>

theorem http_messages_are_refused:
  assumes "codec_laws X K" "crypto_laws X pub rs"
    and "at_authenticated (sk_atm s)" "at_jwt_tokens (sk_atm s) = Some tokens"
      "sd_atm_api (at_config (sk_atm s)) = api"
    and "plain_message X m" "m_type m \<noteq> ''https://affinidi.com/atm/1.0/authenticate''"
    and "pack_encrypted X (sdk_secrets (sk_atm s)) rs m (sh_mediator_did S) from sign_by opts = Ok (packed, meta)"
      "envelope_from_str X packed = Ok (EnvJwe j)" "opens_at_mediator X pub S (sdk_secrets (sk_atm s)) meta"
  shows "\<exists>e n. sv_world n = sv_world (sk_net s) \<and>
     send_didcomm_message X (mediator_network X S K E api) src de packed response s = (Err e, s\<lparr>sk_net := n\<rparr>) \<and>
     (\<not> at_ws_send_stream (sk_atm s) \<longrightarrow>
        request_answer X (mediator_network X S K E api) src twice packed msg_id wait s = Some (Err e, s\<lparr>sk_net := n\<rparr>))"
proof -
  let ?N = "mediator_network X S K E api"
  let ?n = "\<lparr>sv_world = sv_world (sk_net s), sv_requests = sv_requests (sk_net s) + 1\<rparr>"
  let ?rq = "\<lparr>rq_method = POST, rq_url = api @ ''/authenticate'', rq_headers = bearer tokens, rq_body = Some packed\<rparr>"
  obtain body posted md where b: "hc_inbound_body K packed = Some body" "ser_inbound X body = Inr posted"
    and u: "unpack_string X (sh_mediator_secrets S) default_unpack_options posted = Ok (m, md)"
    using posted_opens[OF assms(2,6,8,10,1,9)] by blast
  have "open_inbound X (sh_mediator_secrets S) ''UNKNOWN'' default_unpack_options posted = Ok (m, md)"
    using u by (simp add: open_inbound_Ok_iff)
  then have "\<exists>er. open_authentication X S now body = Err er" for now
    using b(2) assms(7)
    by (cases "message_type_of (m_type m)")
       (auto simp: open_authentication_def message_type_of_def ensure_def split: if_splits)
  from this[of "src_clock (en_source E (sv_requests (sk_net s))) 1"] obtain er where "authentication_response X S (en_rng E (sv_requests (sk_net s)))
      (\<lambda>i. src_clock (en_source E (sv_requests (sk_net s))) (i + 1)) body (w_db (sv_world (sk_net s))) =
      (Err er, w_db (sv_world (sk_net s)))"
    using that by (auto simp: authentication_response_def authentication_check_def eff_then_run)
  then have h: "nw_http ?N ?rq (sk_net s) =
      (answered_with (er_http_code (app_error_response er), hc_error K (app_error_response er)), ?n)"
    using b(1) by (simp add: mediator_network_def mediator_http_def run_handler_def Let_def reading_body_def
        reply_def on_db_def eff_on_def respond_def)
  let ?e = "AtmTransportError (''API returned an error: status('' @ show_status X (er_http_code (app_error_response er)) @
      ''), body('' @ hc_error K (app_error_response er) @ '')'')"
  have e: "send_didcomm_message X ?N src de packed response s = (Err ?e, s\<lparr>sk_net := ?n\<rparr>)"
    for src and de :: "string \<Rightarrow> string + 'y success_response" and response
    using assms(3-5) h error_is_no_success[of er]
    by (simp add: send_didcomm_message_def eff_then_run authenticated eff_atm_def eff_unwrap_def http_send_def
        answered_with_def body_text_def ensure_def)
  show ?thesis
    by (intro exI[of _ ?e] exI[of _ ?n])
       (simp add: e request_answer_def io_eff_def http_answer_def eff_then_run)
qed

end
