(* ===== verification/SocketProps.thy ===== *)
theory SocketProps
  imports SdkPickup
begin

text \<open>
  What the websocket task of the SDK does, told without its cache: it passes every message on at once,
  so the cache stays empty and never stops it from reading. A message that was asked for is passed on
  twice, and the second copy is what the next request gets.
\<close>

subsection \<open>The task without a cache\<close>

text \<open>The id a message is searched by, and the commands the task sends, from the ids that are searched.\<close>

definition search_key :: "message \<Rightarrow> string" where
  "search_key m = (case m_thid m of Some t \<Rightarrow> t | None \<Rightarrow> m_id m)"

fun relay ::
  "('k, 'c, 'w, 'z) env_ext_scheme \<Rightarrow> atm \<Rightarrow> string set \<Rightarrow> handler_event list \<Rightarrow> ws_command list" where
  "relay X a S [] = []"
| "relay X a S (SockText s # evs) =
     (case sdk_unpack X a s of
        Ok (m, meta) \<Rightarrow>
          replicate (if search_key m \<in> S then 2 else 1) (MessageReceived m meta) @ relay X a (S - {search_key m}) evs
      | Err _ \<Rightarrow> relay X a S evs
      | Panic \<Rightarrow> [])"
| "relay X a S (SockEnd # evs) = []"
| "relay X a S (CommandsClosed # evs) = []"
| "relay X a S (Command c # evs) =
     (case c of
        WsGet i \<Rightarrow> WsNotFound # relay X a (insert i S) evs
      | WsTimeOut i \<Rightarrow> relay X a (S - {i}) evs
      | WsExit \<Rightarrow> []
      | _ \<Rightarrow> relay X a S evs)"
| "relay X a S (_ # evs) = relay X a S evs"

text \<open>The channel and the socket take what they are given.\<close>

definition open_env :: handler_env where
  "open_env = \<lparr>he_sdk = None, he_socket = None\<rparr>"

text \<open>A cache that holds no message, while ids are searched for.\<close>

definition empty_cache :: "string set \<Rightarrow> message_cache \<Rightarrow> bool" where
  "empty_cache S c \<longleftrightarrow>
     mc_messages c = Map.empty \<and> mc_thid_lookup c = Map.empty \<and> mc_ordered_list c = [] \<and>
     \<not> mc_cache_full c \<and> mc_search_list c = S"

lemma empty_new: "empty_cache {} (new_cache lc lb)"
  by (simp add: empty_cache_def new_cache_def)

lemma empty_steps:
  assumes "empty_cache S c"
  shows "\<exists>c'. cache_remove sz i c = (None, c') \<and> empty_cache (S - {i}) c'"
    and "\<exists>c'. cache_next sz c = (None, c') \<and> empty_cache S c'"
    and "\<exists>c'. cache_get sz i c = (None, c') \<and> empty_cache (insert i S) c'"
    and "\<not> cache_is_full c"
  using assms
  by (auto simp: empty_cache_def cache_remove_def cache_next_def cache_get_def cache_is_full_def Let_def)

text \<open>A handler with an empty cache that has sent certain commands.\<close>

definition idle :: "string set \<Rightarrow> ws_command list \<Rightarrow> handler_state \<Rightarrow> bool" where
  "idle S out h \<longleftrightarrow> empty_cache S (hs_cache h) \<and> hs_to_sdk h = out"

lemma to_sdk_open: "idle S out h \<Longrightarrow> \<exists>h'. to_sdk open_env c h = (Ok (), h') \<and> idle S (out @ [c]) h'"
  by (auto simp: to_sdk_def open_env_def idle_def)

lemma idle_search:
  "idle S out h \<Longrightarrow> idle (S - {i}) out (h\<lparr>hs_cache := (hs_cache h)\<lparr>mc_search_list := mc_search_list (hs_cache h) - {i}\<rparr>\<rparr>)"
  by (auto simp: idle_def empty_cache_def)

lemma handle_text_idle:
  assumes "idle S out h" and u: "sdk_unpack X a s = Ok (m, meta)"
  shows "\<exists>h'. handle_text X a sz open_env s h = (Ok (), h') \<and>
    idle (S - {search_key m}) (out @ replicate (if search_key m \<in> S then 2 else 1) (MessageReceived m meta)) h'"
proof -
  obtain c1 where "cache_remove sz (search_key m) (hs_cache h) = (None, c1)" "empty_cache (S - {search_key m}) c1"
    using assms(1) empty_steps(1)[of S "hs_cache h"] by (auto simp: idle_def)
  then show ?thesis
    using assms(1)
    by (auto simp: handle_text_def u eff_match_def on_cache_def to_sdk_def open_env_def eff_then_app search_key_def
          idle_def empty_cache_def Let_def numeral_2_eq_2 split: option.splits)
qed

lemma handle_command_idle:
  assumes h: "idle S out h"
  shows "\<exists>h'. handle_command sz open_env c h = (Ok (c \<noteq> WsExit), h') \<and>
    idle (case c of WsGet i \<Rightarrow> insert i S | WsTimeOut i \<Rightarrow> S - {i} | _ \<Rightarrow> S)
      (out @ (case c of WsGet i \<Rightarrow> [WsNotFound] | _ \<Rightarrow> [])) h'"
proof -
  have c: "empty_cache S (hs_cache h)" "hs_to_sdk h = out" using h by (simp_all add: idle_def)
  show ?thesis
  proof (cases c)
    case WsNext
    obtain c1 where "cache_next sz (hs_cache h) = (None, c1)" "empty_cache S c1"
      using empty_steps(2)[OF c(1)] by blast
    with WsNext c(2) show ?thesis
      by (simp add: handle_command_def on_cache_def pass_on_def eff_then_app idle_def)
  next
    case (WsGet i)
    obtain c1 where "cache_get sz i (hs_cache h) = (None, c1)" "empty_cache (insert i S) c1"
      using empty_steps(3)[OF c(1)] by blast
    with WsGet c(2) show ?thesis
      by (simp add: handle_command_def on_cache_def pass_on_def eff_then_app idle_def to_sdk_def open_env_def)
  next
    case (WsTimeOut i)
    with c show ?thesis
      by (simp add: handle_command_def on_cache_def eff_then_app idle_def empty_cache_def)
  qed (use c in \<open>simp_all add: handle_command_def idle_def to_socket_def open_env_def eff_then_app\<close>)
qed

lemma handler_loop_relay:
  assumes "idle S out h"
  shows "\<exists>r h'. handler_loop X a sz (map (Pair open_env) evs) h = Some (r, h') \<and>
    hs_to_sdk h' = out @ relay X a S evs"
  using assms
proof (induction evs arbitrary: S out h)
  case Nil
  then show ?case by (simp add: idle_def)
next
  case (Cons ev evs)
  have full: "\<not> cache_is_full (hs_cache h)" using Cons.prems empty_steps(4) by (auto simp: idle_def)
  have out: "hs_to_sdk h = out" using Cons.prems by (simp add: idle_def)
  show ?case
  proof (cases ev)
    case (SockText s)
    show ?thesis
    proof (cases "sdk_unpack X a s")
      case (Ok p)
      obtain m meta where p: "p = (m, meta)" by (cases p)
      from handle_text_idle[OF Cons.prems, of X a s m meta sz] Ok p obtain h' where
        "handle_text X a sz open_env s h = (Ok (), h')" and
        i: "idle (S - {search_key m}) (out @ replicate (if search_key m \<in> S then 2 else 1) (MessageReceived m meta)) h'"
        by auto
      with Cons.IH[OF i] SockText full Ok p show ?thesis
        by (simp add: handle_event_def eff_then_app)
    next
      case (Err e)
      then have "handle_text X a sz open_env s h = (Ok (), h)"
        by (simp add: handle_text_def eff_match_def)
      with Cons.IH[OF Cons.prems] SockText full Err show ?thesis by (simp add: handle_event_def eff_then_app)
    next
      case Panic
      then have "handle_text X a sz open_env s h = (Panic, h)"
        by (simp add: handle_text_def eff_match_def)
      with SockText full Panic out show ?thesis by (simp add: handle_event_def eff_then_app)
    qed
  next
    case (Command c)
    from handle_command_idle[OF Cons.prems, of sz c] obtain h' where
      hc: "handle_command sz open_env c h = (Ok (c \<noteq> WsExit), h')" and
      i: "idle (case c of WsGet i \<Rightarrow> insert i S | WsTimeOut i \<Rightarrow> S - {i} | _ \<Rightarrow> S)
        (out @ (case c of WsGet i \<Rightarrow> [WsNotFound] | _ \<Rightarrow> [])) h'" by blast
    show ?thesis
    proof (cases "c = WsExit")
      case True
      with hc i Command show ?thesis by (simp add: handle_event_def of_socket_def idle_def)
    next
      case False
      with hc Cons.IH[OF i] Command show ?thesis
        by (cases c) (simp_all add: handle_event_def of_socket_def)
    qed
  qed (use Cons.IH[OF Cons.prems] full out in \<open>simp_all add: handle_event_def of_socket_def\<close>)
qed

text \<open>C34: The cache of the websocket task is never used: whatever the order in which the task takes what
  is ready, it is never kept from reading the socket, and the commands it sends are those of a task
  without any cache, which passes every message on as it comes, twice if it was asked for.\<close>

theorem task_needs_no_cache:
  "\<exists>r h. handler_loop X a sz (map (Pair open_env) evs) (new_handler a) = Some (r, h) \<and>
     hs_to_sdk h = relay X a {} evs"
  using handler_loop_relay[of "{}" "[]" "new_handler a"] by (simp add: idle_def new_handler_def empty_new)

subsection \<open>Every message arrives\<close>

text \<open>The messages of the socket that the SDK can open, in order, and those among the commands.\<close>

definition openable :: "('k, 'c, 'w, 'z) env_ext_scheme \<Rightarrow> atm \<Rightarrow> handler_event list \<Rightarrow> received list" where
  "openable X a evs = concat (map (\<lambda>ev. case ev of
     SockText s \<Rightarrow> (case sdk_unpack X a s of Ok r \<Rightarrow> [r] | _ \<Rightarrow> []) | _ \<Rightarrow> []) evs)"

definition received_in :: "ws_command list \<Rightarrow> received list" where
  "received_in cs = concat (map (\<lambda>c. case c of MessageReceived m meta \<Rightarrow> [(m, meta)] | _ \<Rightarrow> []) cs)"

text \<open>An event after which the task goes on: no end, no exit, no text that makes the unpacking panic.\<close>

definition goes_on :: "('k, 'c, 'w, 'z) env_ext_scheme \<Rightarrow> atm \<Rightarrow> handler_event \<Rightarrow> bool" where
  "goes_on X a ev \<longleftrightarrow> (case ev of
     SockText s \<Rightarrow> sdk_unpack X a s \<noteq> Panic | SockEnd \<Rightarrow> False | CommandsClosed \<Rightarrow> False
   | Command c \<Rightarrow> c \<noteq> WsExit | _ \<Rightarrow> True)"

lemma received_in_append: "received_in (xs @ ys) = received_in xs @ received_in ys"
  by (simp add: received_in_def)

lemma received_in_replicate: "received_in (replicate n (MessageReceived m meta)) = replicate n (m, meta)"
  by (induction n) (simp_all add: received_in_def)

lemma relay_copies:
  assumes "list_all (goes_on X a) evs"
  shows "\<exists>ns. length ns = length (openable X a evs) \<and> set ns \<subseteq> {1, 2} \<and>
    received_in (relay X a S evs) = concat (map2 replicate ns (openable X a evs))"
  using assms
proof (induction X a S evs rule: relay.induct)
  case (2 X a S s evs)
  show ?case
  proof (cases "sdk_unpack X a s")
    case (Ok r)
    obtain m meta where r: "r = (m, meta)" by (cases r)
    let ?k = "if search_key m \<in> S then 2 else 1 :: nat"
    have "list_all (goes_on X a) evs" using 2 by simp
    from "2.IH"(1)[OF Ok[unfolded r] refl this] obtain ns where "length ns = length (openable X a evs)" "set ns \<subseteq> {1, 2}"
      "received_in (relay X a (S - {search_key m}) evs) = concat (map2 replicate ns (openable X a evs))"
      by blast
    then show ?thesis
      by (intro exI[of _ "?k # ns"])
         (simp add: Ok r openable_def received_in_append received_in_replicate)
  qed (use 2 in \<open>auto simp: openable_def goes_on_def\<close>)
next
  case (5 X a S c evs)
  then show ?case by (cases c) (auto simp: openable_def goes_on_def received_in_def)
qed (auto simp: openable_def goes_on_def received_in_def)

text \<open>C35: As long as neither side ends the websocket, every message that comes in and that the SDK can open
  is passed on to the SDK, in the order of arrival, once or twice, whatever the SDK asks for meanwhile.\<close>

theorem live_messages_arrive:
  assumes "list_all (goes_on X a) evs"
  shows "\<exists>r h ns. handler_loop X a sz (map (Pair open_env) evs) (new_handler a) = Some (r, h) \<and>
    length ns = length (openable X a evs) \<and> set ns \<subseteq> {1, 2} \<and>
    received_in (hs_to_sdk h) = concat (map2 replicate ns (openable X a evs))"
proof -
  have "idle {} [] (new_handler a)" by (simp add: idle_def new_handler_def empty_new)
  from handler_loop_relay[OF this, of X a sz evs] relay_copies[OF assms, of "{}"] show ?thesis by auto
qed

subsection \<open>The SDK with its task\<close>

text \<open>
  The SDK and the task over their channels, on the schedule in which the task takes a command when it
  is sent, and takes from the socket when the SDK waits and nothing is left for it. \<open>ln_read\<close> counts the
  commands the SDK has taken. Nothing is sent over HTTP here.
\<close>

record link =
  ln_handler :: handler_state
  ln_read :: nat
  ln_socket :: "handler_event list"

definition link_event :: "('k, 'c, 'w, 'z) env_ext_scheme \<Rightarrow> atm \<Rightarrow> u64 \<Rightarrow> handler_event \<Rightarrow> link \<Rightarrow> link" where
  "link_event X a sz ev l = l\<lparr>ln_handler := snd (handle_event X a sz open_env ev (ln_handler l))\<rparr>"

definition link_take :: "link \<Rightarrow> (ws_command \<times> link) option" where
  "link_take l =
     (if ln_read l < length (hs_to_sdk (ln_handler l))
      then Some (hs_to_sdk (ln_handler l) ! ln_read l, l\<lparr>ln_read := ln_read l + 1\<rparr>) else None)"

fun link_recv :: "('k, 'c, 'w, 'z) env_ext_scheme \<Rightarrow> atm \<Rightarrow> u64 \<Rightarrow> nat \<Rightarrow> handler_event list \<Rightarrow> link \<Rightarrow> recv_event \<times> link" where
  "link_recv X a sz wait evs l =
     (case link_take l of
        Some (c, l) \<Rightarrow> (Received c, l\<lparr>ln_socket := evs\<rparr>)
      | None \<Rightarrow>
          (case evs of
             [] \<Rightarrow> (if wait = 0 then Forever else Elapsed, l\<lparr>ln_socket := []\<rparr>)
           | ev # evs \<Rightarrow> link_recv X a sz wait evs (link_event X a sz ev l)))"

definition link_network :: "('k, 'c, 'w, 'z) env_ext_scheme \<Rightarrow> atm \<Rightarrow> u64 \<Rightarrow> link network" where
  "link_network X a sz =
     \<lparr>nw_http = (\<lambda>_ l. (Inl ''no network'', l)), nw_spawn = (\<lambda>_ l. l),
      nw_command = (\<lambda>c l. (None, link_event X a sz (Command c) l)),
      nw_recv = (\<lambda>wait l. link_recv X a sz wait (ln_socket l) l),
      nw_try_recv = (\<lambda>l. case link_take l of Some (c, l) \<Rightarrow> (Some c, l) | None \<Rightarrow> (None, l))\<rparr>"

declare link_recv.simps [simp del]

text \<open>The commands the SDK has still to take.\<close>

definition unread :: "link \<Rightarrow> ws_command list" where
  "unread l = drop (ln_read l) (hs_to_sdk (ln_handler l))"

lemma link_take_unread:
  assumes "unread l = c # cs"
  shows "link_take l = Some (c, l\<lparr>ln_read := ln_read l + 1\<rparr>)" "unread (l\<lparr>ln_read := ln_read l + 1\<rparr>) = cs"
proof -
  have "ln_read l < length (hs_to_sdk (ln_handler l))"
    using assms by (metis drop_eq_Nil2 leI list.distinct(1) unread_def)
  with assms show "link_take l = Some (c, l\<lparr>ln_read := ln_read l + 1\<rparr>)"
    by (simp add: link_take_def unread_def nth_via_drop)
  show "unread (l\<lparr>ln_read := ln_read l + 1\<rparr>) = cs"
    using assms by (simp add: unread_def) (metis drop_Suc drop_tl list.sel(3))
qed

lemma link_take_none: "unread l = [] \<Longrightarrow> link_take l = None"
  by (simp add: link_take_def unread_def)

text \<open>The parts of a link that matter: the searched ids, what is left to take, and the socket.\<close>

definition link_is :: "string set \<Rightarrow> ws_command list \<Rightarrow> handler_event list \<Rightarrow> link \<Rightarrow> bool" where
  "link_is S cs evs l \<longleftrightarrow>
     (\<exists>out. idle S out (ln_handler l) \<and> ln_read l \<le> length out) \<and> unread l = cs \<and> ln_socket l = evs"

lemma link_command:
  assumes l: "link_is S cs evs l" and c: "c = WsGet i \<or> c = WsNext"
  shows "link_is (if c = WsNext then S else insert i S) (cs @ (if c = WsNext then [] else [WsNotFound])) evs
    (link_event X a sz (Command c) l)"
proof -
  obtain out where out: "idle S out (ln_handler l)" "ln_read l \<le> length out" "hs_to_sdk (ln_handler l) = out"
    using l by (auto simp: link_is_def idle_def)
  from handle_command_idle[OF out(1), of sz c] obtain h' where
    h': "handle_command sz open_env c (ln_handler l) = (Ok (c \<noteq> WsExit), h')"
    "idle (case c of WsGet i \<Rightarrow> insert i S | WsTimeOut i \<Rightarrow> S - {i} | _ \<Rightarrow> S)
        (out @ (case c of WsGet i \<Rightarrow> [WsNotFound] | _ \<Rightarrow> [])) h'" by blast
  then have "hs_to_sdk h' = out @ (case c of WsGet i \<Rightarrow> [WsNotFound] | _ \<Rightarrow> [])" by (simp add: idle_def)
  with h' l c out show ?thesis
    by (auto simp: link_is_def link_event_def handle_event_def unread_def)
qed

lemma link_text:
  assumes l: "link_is S [] evs l" and u: "sdk_unpack X a s = Ok (m, meta)"
  shows "link_is (S - {search_key m}) (replicate (if search_key m \<in> S then 2 else 1) (MessageReceived m meta)) evs
    (link_event X a sz (SockText s) l)"
proof -
  obtain out where out: "idle S out (ln_handler l)" "ln_read l \<le> length out" "hs_to_sdk (ln_handler l) = out"
    using l by (auto simp: link_is_def idle_def)
  let ?r = "replicate (if search_key m \<in> S then 2 else 1) (MessageReceived m meta)"
  from handle_text_idle[OF out(1) u, of sz] obtain h' where
    h': "handle_text X a sz open_env s (ln_handler l) = (Ok (), h')" "idle (S - {search_key m}) (out @ ?r) h'" by blast
  then have "hs_to_sdk h' = out @ ?r" by (simp add: idle_def)
  with h' l out show ?thesis
    by (auto simp: link_is_def link_event_def handle_event_def unread_def eff_then_app)
qed

lemma recv_next:
  assumes "link_is S (c # cs) evs (sk_net s)"
  shows "\<exists>s'. recv (link_network X a sz) wait s = (Received c, s') \<and> sk_atm s' = sk_atm s \<and>
    link_is S cs evs (sk_net s')"
proof -
  from assms have u: "unread (sk_net s) = c # cs" by (simp add: link_is_def)
  then have "length (hs_to_sdk (ln_handler (sk_net s))) - ln_read (sk_net s) \<noteq> 0" by (auto simp: unread_def)
  with assms link_take_unread[OF u] show ?thesis
    by (auto simp: recv_def link_network_def link_recv.simps link_is_def unread_def idle_def)
qed

lemma recv_text:
  assumes l: "link_is S [] (SockText t # evs) (sk_net s)" and u: "sdk_unpack X a t = Ok (m, meta)"
  shows "\<exists>s'. recv (link_network X a sz) wait s = (Received (MessageReceived m meta), s') \<and> sk_atm s' = sk_atm s \<and>
    link_is (S - {search_key m}) (if search_key m \<in> S then [MessageReceived m meta] else []) evs (sk_net s')"
proof -
  let ?l = "link_event X a sz (SockText t) (sk_net s)"
  let ?rest = "if search_key m \<in> S then [MessageReceived m meta] else []"
  from l have none: "link_take (sk_net s) = None" by (simp add: link_is_def link_take_none)
  have "replicate (if search_key m \<in> S then 2 else 1) (MessageReceived m meta) = MessageReceived m meta # ?rest"
    by (simp add: numeral_2_eq_2)
  from link_text[OF l u, of sz, unfolded this] have li: "link_is (S - {search_key m}) (MessageReceived m meta # ?rest) (SockText t # evs) ?l" .
  then have ur: "unread ?l = MessageReceived m meta # ?rest" by (simp add: link_is_def)
  then have "length (hs_to_sdk (ln_handler ?l)) - ln_read ?l \<noteq> 0" by (auto simp: unread_def)
  with none li l link_take_unread[OF ur] show ?thesis
    by (auto simp: recv_def link_network_def link_recv.simps[of _ _ _ _ "_ # _"] link_recv.simps[of _ _ _ _ evs]
        link_is_def unread_def idle_def)
qed

text \<open>One request for a message, up to its loop.\<close>

lemma get_sends:
  assumes "at_ws_send_stream (sk_atm s)" "at_ws_recv_stream (sk_atm s)" "link_is S cs evs (sk_net s)"
  shows "\<exists>s'. live_stream_get (link_network X a sz) i wait s = get_loop (link_network X a sz) i wait s' \<and>
    sk_atm s' = sk_atm s \<and> link_is (insert i S) (cs @ [WsNotFound]) evs (sk_net s')"
  using assms link_command[OF assms(3), of "WsGet i" i X a sz]
  by (auto simp: live_stream_get_def io_then_app io_eff_def eff_atm_def send_command_def link_network_def)

lemma next_sends:
  assumes "at_ws_send_stream (sk_atm s)" "at_ws_recv_stream (sk_atm s)" "link_is S (c # cs) evs (sk_net s)"
    and "\<And>m meta. c \<noteq> MessageReceived m meta"
  shows "\<exists>s'. live_stream_next (link_network X a sz) wait s =
    Some (Err (AtmMsgReceiveError ''Unexpected message type''), s')"
proof -
  let ?s = "s\<lparr>sk_net := link_event X a sz (Command WsNext) (sk_net s)\<rparr>"
  have "link_is S (c # cs) evs (sk_net ?s)" using link_command[OF assms(3), of WsNext] by simp
  from recv_next[OF this, of X a sz wait] obtain s' where "recv (link_network X a sz) wait ?s = (Received c, s')" by blast
  with assms(1,2,4) show ?thesis
    by (cases c) (auto simp: live_stream_next_def io_then_app io_eff_def eff_atm_def send_command_def link_network_def)
qed

lemma loop_takes:
  assumes "link_is S (c # cs) evs (sk_net s)"
  shows "\<exists>s'. sk_atm s' = sk_atm s \<and> link_is S cs evs (sk_net s') \<and>
    get_loop (link_network X a sz) i wait s =
      (case c of MessageReceived m meta \<Rightarrow> Some (Ok (Some (m, meta)), s')
       | WsNotFound \<Rightarrow> get_loop (link_network X a sz) i wait s'
       | _ \<Rightarrow> Some (Err (AtmMsgReceiveError ''Unexpected message type''), s'))"
proof -
  from recv_next[OF assms, of X a sz wait] obtain s' where
    "recv (link_network X a sz) wait s = (Received c, s')" "sk_atm s' = sk_atm s" "link_is S cs evs (sk_net s')"
    by blast
  then show ?thesis by (subst get_loop.simps) auto
qed

lemma loop_reads:
  assumes "link_is S [] (SockText t # evs) (sk_net s)" "sdk_unpack X a t = Ok (m, meta)"
  shows "\<exists>s'. sk_atm s' = sk_atm s \<and> get_loop (link_network X a sz) i wait s = Some (Ok (Some (m, meta)), s') \<and>
    link_is (S - {search_key m}) (if search_key m \<in> S then [MessageReceived m meta] else []) evs (sk_net s')"
proof -
  from recv_text[OF assms, of sz wait] obtain s' where
    "recv (link_network X a sz) wait s = (Received (MessageReceived m meta), s')" "sk_atm s' = sk_atm s"
    "link_is (S - {search_key m}) (if search_key m \<in> S then [MessageReceived m meta] else []) evs (sk_net s')"
    by blast
  then show ?thesis by (subst get_loop.simps) auto
qed

text \<open>C36: The answer to a request over the websocket is left behind for the next: the SDK asks for the
  message with an id, the answer comes and is returned; whatever id it asks for after that, it gets the
  same answer again without a message having come, and the request for the next message after that
  fails, because the reply to the second request is still waiting.\<close>

theorem answer_is_left_behind:
  assumes "at_ws_send_stream (sk_atm s)" "at_ws_recv_stream (sk_atm s)"
    and "link_is {} [] (SockText t # evs) (sk_net s)"
    and "sdk_unpack X a t = Ok (m, meta)" "search_key m = i"
  shows "\<exists>s1 s2 s3. live_stream_get (link_network X a sz) i wait s = Some (Ok (Some (m, meta)), s1) \<and>
    live_stream_get (link_network X a sz) j wait s1 = Some (Ok (Some (m, meta)), s2) \<and>
    live_stream_next (link_network X a sz) wait s2 = Some (Err (AtmMsgReceiveError ''Unexpected message type''), s3)"
proof -
  let ?N = "link_network X a sz"
  from get_sends[OF assms(1-3), of X a sz i wait] obtain sa where a: "sk_atm sa = sk_atm s"
    "live_stream_get ?N i wait s = get_loop ?N i wait sa" "link_is {i} [WsNotFound] (SockText t # evs) (sk_net sa)" by auto
  from loop_takes[OF a(3), of X a sz i wait] obtain sb where b: "sk_atm sb = sk_atm s"
    "live_stream_get ?N i wait s = get_loop ?N i wait sb" "link_is {i} [] (SockText t # evs) (sk_net sb)"
    using a by auto
  from loop_reads[OF b(3) assms(4), of sz i wait] assms(5) obtain s1 where s1: "sk_atm s1 = sk_atm s"
    "live_stream_get ?N i wait s = Some (Ok (Some (m, meta)), s1)" "link_is {} [MessageReceived m meta] evs (sk_net s1)"
    using b by auto
  from get_sends[OF _ _ s1(3), of X a sz j wait] assms(1,2) s1(1) obtain sc where c: "sk_atm sc = sk_atm s"
    "live_stream_get ?N j wait s1 = get_loop ?N j wait sc" "link_is {j} [MessageReceived m meta, WsNotFound] evs (sk_net sc)" by auto
  from loop_takes[OF c(3), of X a sz j wait] obtain s2 where s2: "sk_atm s2 = sk_atm s"
    "live_stream_get ?N j wait s1 = Some (Ok (Some (m, meta)), s2)" "link_is {j} [WsNotFound] evs (sk_net s2)"
    using c by auto
  from next_sends[OF _ _ s2(3), of X a sz wait] assms(1,2) s2(1) obtain s3 where
    "live_stream_next ?N wait s2 = Some (Err (AtmMsgReceiveError ''Unexpected message type''), s3)" by auto
  with s1(2) s2(2) show ?thesis by blast
qed

end
