(* ===== verification/CacheProps.thy ===== *)
theory CacheProps
  imports MessageCache
begin

text \<open>
  The cache of the SDK is a queue: as long as no two messages in it share an id or a thread, it
  gives for every sequence of insertions and requests what a plain queue gives, and it is full
  exactly when the totals of the queue are over the limits.
\<close>

subsection \<open>The match\<close>

text \<open>No two messages of a queue share an id or a thread.\<close>

fun separate :: "fifo \<Rightarrow> bool" where
  "separate [] = True"
| "separate (r # q) = (fresh r q \<and> separate q)"

text \<open>Enough room in the counters for \<open>n\<close> messages, and the totals of \<open>n\<close> messages being over the limits.\<close>

definition fits :: "u64 \<Rightarrow> nat \<Rightarrow> bool" where
  "fits sz n \<longleftrightarrow> n < 2 ^ 32 \<and> n * unat sz < 2 ^ 64"

definition too_many :: "u64 \<Rightarrow> 32 word \<Rightarrow> u64 \<Rightarrow> nat \<Rightarrow> bool" where
  "too_many sz limit_count limit_bytes n \<longleftrightarrow> unat limit_count < n \<or> unat limit_bytes < n * unat sz"

definition matches :: "u64 \<Rightarrow> fifo \<Rightarrow> message_cache \<Rightarrow> bool" where
  "matches sz q c \<longleftrightarrow>
     separate q \<and>
     mc_messages c = map_of (map (\<lambda>r. (r_id r, r)) q) \<and>
     (\<forall>t i. mc_thid_lookup c t = Some i \<longleftrightarrow> (\<exists>r \<in> set q. r_thid r = Some t \<and> r_id r = i)) \<and>
     mc_ordered_list c = map r_id q \<and>
     mc_total_count c = of_nat (length q) \<and> mc_total_bytes c = of_nat (length q) * sz \<and>
     (mc_cache_full c \<longleftrightarrow> too_many sz (mc_limit_count c) (mc_limit_bytes c) (length q))"

lemma matches_new: "matches sz [] (new_cache lc lb)"
  by (simp add: matches_def new_cache_def too_many_def)

lemma separate_append:
  "separate (xs @ ys) \<longleftrightarrow> separate xs \<and> separate ys \<and>
     (\<forall>x \<in> set xs. \<forall>y \<in> set ys. r_id x \<noteq> r_id y \<and> (r_thid x = None \<or> r_thid x \<noteq> r_thid y))"
  by (induction xs) (auto simp: fresh_def image_iff)

lemma separate_distinct: "separate q \<Longrightarrow> distinct (map r_id q)"
  by (induction q) (auto simp: fresh_def image_iff)

lemma separate_inj: "separate q \<Longrightarrow> x \<in> set q \<Longrightarrow> y \<in> set q \<Longrightarrow> r_id x = r_id y \<Longrightarrow> x = y"
  using separate_distinct[of q] by (simp add: distinct_map inj_on_def)

lemma separate_thid:
  "separate q \<Longrightarrow> x \<in> set q \<Longrightarrow> y \<in> set q \<Longrightarrow> r_thid x = Some t \<Longrightarrow> r_thid y = Some t \<Longrightarrow> x = y"
  by (induction q) (auto simp: fresh_def image_iff)

lemma separate_drop: "separate q \<Longrightarrow> separate (fifo_drop i q)"
  by (induction q) (auto simp: fifo_drop_def fresh_def image_iff)

lemma drop_length:
  "separate q \<Longrightarrow> r \<in> set q \<Longrightarrow> length q = Suc (length (fifo_drop (r_id r) q))"
proof (induction q)
  case (Cons a q)
  show ?case
  proof (cases "r_id a = r_id r")
    case True
    have "fifo_drop (r_id r) q = q"
      using Cons.prems(1) True by (auto simp: fifo_drop_def filter_id_conv fresh_def image_iff)
    then show ?thesis using True by (simp add: fifo_drop_def)
  next
    case False
    with Cons show ?thesis by (auto simp: fifo_drop_def)
  qed
qed simp

lemma map_of_ids: "map_of (map (\<lambda>r. (r_id r, r)) q) i = find (\<lambda>r. r_id r = i) q"
  by (induction q) auto

lemma find_id: "separate q \<Longrightarrow> r \<in> set q \<Longrightarrow> find (\<lambda>x. r_id x = r_id r) q = Some r"
  by (induction q) (auto simp: fresh_def image_iff)

lemma find_drop: "find (\<lambda>r. r_id r = j) (fifo_drop i q) = (if j = i then None else find (\<lambda>r. r_id r = j) q)"
  by (induction q) (auto simp: fifo_drop_def)

lemma ids_drop: "separate q \<Longrightarrow> remove1 i (map r_id q) = map r_id (fifo_drop i q)"
proof (induction q)
  case (Cons a q)
  then have "r_id a = i \<Longrightarrow> fifo_drop i q = q"
    by (auto simp: fifo_drop_def filter_id_conv fresh_def image_iff)
  with Cons show ?case by (auto simp: fifo_drop_def)
qed (simp add: fifo_drop_def)

lemma over_limit_iff:
  assumes "mc_total_count c = of_nat n" "mc_total_bytes c = of_nat n * sz" "fits sz n"
  shows "over_limit c \<longleftrightarrow> too_many sz (mc_limit_count c) (mc_limit_bytes c) n"
proof -
  have "n < 2 ^ 32" "n * unat sz < 2 ^ 64" using assms(3) by (simp_all add: fits_def)
  then have "unat (of_nat n :: 32 word) = n" "unat (of_nat n * sz) = n * unat sz"
    by (simp_all add: unat_of_nat unat_mult_lem unat_word_ariths mod_mult_left_eq)
  then show ?thesis
    using assms(1,2) by (simp add: over_limit_def too_many_def word_less_nat_alt)
qed

lemma fits_less: "fits sz n \<Longrightarrow> m \<le> n \<Longrightarrow> fits sz m"
  unfolding fits_def by (meson le_less_trans mult_le_mono1)

lemma too_many_mono: "too_many sz lc lb m \<Longrightarrow> m \<le> n \<Longrightarrow> too_many sz lc lb n"
  unfolding too_many_def by (meson less_le_trans mult_le_mono1)

lemma cache_insert_sel [simp]:
  "mc_messages (cache_insert sz msg meta c) = (mc_messages c)(m_id msg \<mapsto> (msg, meta))"
  "mc_ordered_list (cache_insert sz msg meta c) = mc_ordered_list c @ [m_id msg]"
  "mc_total_count (cache_insert sz msg meta c) = mc_total_count c + 1"
  "mc_total_bytes (cache_insert sz msg meta c) = mc_total_bytes c + sz"
  "mc_limit_count (cache_insert sz msg meta c) = mc_limit_count c"
  "mc_limit_bytes (cache_insert sz msg meta c) = mc_limit_bytes c"
  "mc_thid_lookup (cache_insert sz msg meta c) =
     (case m_thid msg of Some t \<Rightarrow> (mc_thid_lookup c)(t \<mapsto> m_id msg) | None \<Rightarrow> mc_thid_lookup c)"
  by (simp_all add: cache_insert_def Let_def split: option.splits)

lemma matches_insert:
  assumes m: "matches sz q c" and f: "fresh (msg, meta) q" and fits: "fits sz (Suc (length q))"
  shows "matches sz (q @ [(msg, meta)]) (cache_insert sz msg meta c)"
proof -
  let ?c = "c\<lparr>mc_messages := (mc_messages c)(m_id msg \<mapsto> (msg, meta)),
      mc_ordered_list := mc_ordered_list c @ [m_id msg], mc_total_count := mc_total_count c + 1,
      mc_total_bytes := mc_total_bytes c + sz\<rparr>"
  have sep: "separate (q @ [(msg, meta)])"
    using m f by (auto simp: matches_def separate_append fresh_def image_iff)
  have "map_of (map (\<lambda>r. (r_id r, r)) q) (m_id msg) = None"
    using f by (auto simp: map_of_eq_None_iff fresh_def r_id_def image_iff)
  with m have "mc_messages (cache_insert sz msg meta c) = map_of (map (\<lambda>r. (r_id r, r)) (q @ [(msg, meta)]))"
    by (auto simp: matches_def map_add_def r_id_def split: option.splits intro!: ext)
  moreover have "mc_thid_lookup (cache_insert sz msg meta c) t = Some i \<longleftrightarrow>
      (\<exists>r \<in> set (q @ [(msg, meta)]). r_thid r = Some t \<and> r_id r = i)" for t i
    using m f by (auto simp: matches_def fresh_def r_thid_def r_id_def image_iff split: option.splits)
  moreover have "mc_cache_full (cache_insert sz msg meta c) \<longleftrightarrow>
      too_many sz (mc_limit_count c) (mc_limit_bytes c) (Suc (length q))"
  proof -
    have "over_limit ?c \<longleftrightarrow> too_many sz (mc_limit_count c) (mc_limit_bytes c) (Suc (length q))"
      using over_limit_iff[of ?c "Suc (length q)" sz] m fits by (simp add: matches_def distrib_right add.commute)
    with m too_many_mono[of sz "mc_limit_count c" "mc_limit_bytes c" "length q" "Suc (length q)"] show ?thesis
      by (auto simp: cache_insert_def matches_def Let_def split: option.splits)
  qed
  ultimately show ?thesis
    using sep m by (simp add: matches_def r_id_def distrib_right add.commute)
qed

text \<open>Removing what is there; the order of arrival may already have lost the id.\<close>

lemma matches_remove:
  assumes m: "matches sz q c'" and r: "r \<in> set q" and fits: "fits sz (length q)"
    and c: "c = c'\<lparr>mc_ordered_list := l\<rparr>" "remove1 (r_id r) l = remove1 (r_id r) (map r_id q)"
  shows "\<exists>c2. cache_remove sz (r_id r) c = (Some r, c2) \<and> matches sz (fifo_drop (r_id r) q) c2"
proof -
  have sep: "separate q" using m by (simp add: matches_def)
  have msgs: "mc_messages c (r_id r) = Some r" using m c r find_id[OF sep r] by (simp add: matches_def map_of_ids)
  let ?n = "length (fifo_drop (r_id r) q)"
  have n: "length q = Suc ?n" by (rule drop_length[OF sep r])
  obtain c2 where rem: "cache_remove sz (r_id r) c = (Some r, c2)"
    using msgs by (cases r) (auto simp: cache_remove_def Let_def)
  let ?t = "case r_thid r of Some t \<Rightarrow> (mc_thid_lookup c)(t := None) | None \<Rightarrow> mc_thid_lookup c"
  have parts: "mc_messages c2 = (mc_messages c)(r_id r := None)" "mc_thid_lookup c2 = ?t"
      "mc_ordered_list c2 = remove1 (r_id r) l" "mc_total_count c2 = mc_total_count c - 1"
      "mc_total_bytes c2 = mc_total_bytes c - sz" "mc_limit_count c2 = mc_limit_count c"
      "mc_limit_bytes c2 = mc_limit_bytes c"
      "mc_cache_full c2 \<longleftrightarrow> mc_cache_full c \<and> over_limit c2"
    using rem msgs c by (cases r; force simp: cache_remove_def Let_def r_thid_def over_limit_def split: option.splits if_splits)+
  have "mc_thid_lookup c2 t = Some i \<longleftrightarrow> (\<exists>x \<in> set (fifo_drop (r_id r) q). r_thid x = Some t \<and> r_id x = i)" for t i
  proof -
    have "mc_thid_lookup c2 t = Some i \<longleftrightarrow> r_thid r \<noteq> Some t \<and> mc_thid_lookup c t = Some i"
      by (auto simp: parts(2) split: option.splits)
    also have "\<dots> \<longleftrightarrow> (\<exists>x \<in> set q. r_thid r \<noteq> Some t \<and> r_thid x = Some t \<and> r_id x = i)"
      using m c by (auto simp: matches_def)
    also have "\<dots> \<longleftrightarrow> (\<exists>x \<in> set (fifo_drop (r_id r) q). r_thid x = Some t \<and> r_id x = i)"
      using separate_thid[OF sep r] separate_inj[OF sep r] by (fastforce simp: fifo_drop_def)
    finally show ?thesis .
  qed
  moreover have "mc_messages c2 = map_of (map (\<lambda>r. (r_id r, r)) (fifo_drop (r_id r) q))"
    using m c by (auto simp: parts(1) matches_def map_of_ids find_drop intro!: ext)
  moreover have totals: "mc_total_count c2 = of_nat ?n" "mc_total_bytes c2 = of_nat ?n * sz"
    using m c by (simp_all add: parts matches_def n distrib_right)
  moreover have "mc_cache_full c2 \<longleftrightarrow> too_many sz (mc_limit_count c) (mc_limit_bytes c) ?n"
    using over_limit_iff[OF totals fits_less[OF fits]] m c parts n
      too_many_mono[of sz "mc_limit_count c" "mc_limit_bytes c" ?n "length q"]
    by (auto simp: matches_def)
  ultimately show ?thesis
    using rem separate_drop[OF sep] ids_drop[OF sep] c(2) by (simp add: matches_def parts)
qed

lemma matches_next:
  assumes m: "matches sz q c" and fits: "fits sz (length q)"
  shows "fst (cache_next sz c) = fst (fifo_next q) \<and> matches sz (snd (fifo_next q)) (snd (cache_next sz c))"
proof (cases q)
  case Nil
  with m show ?thesis by (simp add: matches_def cache_next_def fifo_next_def)
next
  case (Cons r rest)
  have sep: "separate (r # rest)" using m Cons by (simp add: matches_def)
  then have drop: "fifo_drop (r_id r) q = rest" "remove1 (r_id r) (map r_id rest) = map r_id rest"
    using Cons separate_distinct[OF sep]
    by (auto simp: fifo_drop_def filter_id_conv fresh_def image_iff intro!: remove1_idem)
  have "mc_ordered_list c = r_id r # map r_id rest" using m Cons by (simp add: matches_def)
  moreover have "\<exists>c2. cache_remove sz (r_id r) (c\<lparr>mc_ordered_list := map r_id rest\<rparr>) = (Some r, c2) \<and> matches sz rest c2"
    using matches_remove[OF m _ fits refl, of r "map r_id rest"] Cons drop by simp
  ultimately show ?thesis using Cons by (auto simp: cache_next_def fifo_next_def)
qed

lemma matches_get:
  assumes m: "matches sz q c" and fits: "fits sz (length q)"
  shows "fst (cache_get sz k c) = fst (fifo_get k q) \<and> matches sz (snd (fifo_get k q)) (snd (cache_get sz k c))"
proof -
  have sep: "separate q" and msgs: "mc_messages c i = find (\<lambda>r. r_id r = i) q" for i
    using m by (simp_all add: matches_def map_of_ids)
  have found: "fst (cache_get sz k c) = Some r \<and> matches sz (fifo_drop (r_id r) q) (snd (cache_get sz k c))"
    if r: "r \<in> set q" and g: "cache_get sz k c = (Some r, snd (cache_remove sz (m_id (fst r)) c))" for r
  proof -
    obtain c2 where "cache_remove sz (r_id r) c = (Some r, c2)" "matches sz (fifo_drop (r_id r) q) c2"
      using matches_remove[OF m r fits, of c "mc_ordered_list c"] m by (auto simp: matches_def)
    with g show ?thesis by (simp add: r_id_def)
  qed
  show ?thesis
  proof (cases "find (\<lambda>r. r_id r = k) q")
    case (Some r)
    then have "r \<in> set q" by (auto simp: find_Some_iff)
    from found[OF this] Some msgs show ?thesis by (simp add: cache_get_def fifo_get_def fifo_find_def)
  next
    case None
    show ?thesis
    proof (cases "find (\<lambda>r. r_thid r = Some k) q")
      case (Some r)
      then have r: "r \<in> set q" "r_thid r = Some k" by (auto simp: find_Some_iff)
      then have "mc_thid_lookup c k = Some (r_id r)" using m by (auto simp: matches_def)
      moreover have "mc_messages c (r_id r) = Some r" using find_id[OF sep r(1)] msgs by simp
      ultimately show ?thesis
        using found[OF r(1)] None Some msgs by (simp add: cache_get_def fifo_get_def fifo_find_def)
    next
      case no: None
      then have "mc_thid_lookup c k = None"
        using m by (cases "mc_thid_lookup c k") (auto simp: matches_def find_None_iff)
      with None no m msgs show ?thesis
        by (simp add: cache_get_def fifo_get_def fifo_find_def matches_def)
    qed
  qed
qed

subsection \<open>Every sequence of requests\<close>

text \<open>
  Two machines that take the same operations: when each allowed operation gives the same answer on
  matching states and keeps them matching, so does every allowed sequence.
\<close>

primrec run_ops :: "('op \<Rightarrow> 's \<Rightarrow> 'a \<times> 's) \<Rightarrow> 'op list \<Rightarrow> 's \<Rightarrow> 'a list \<times> 's" where
  "run_ops step [] s = ([], s)"
| "run_ops step (x # xs) s =
     (case step x s of (y, s') \<Rightarrow> (case run_ops step xs s' of (ys, s'') \<Rightarrow> (y # ys, s'')))"

primrec allowed_ops :: "('op \<Rightarrow> 's \<Rightarrow> bool) \<Rightarrow> ('op \<Rightarrow> 's \<Rightarrow> 'a \<times> 's) \<Rightarrow> 'op list \<Rightarrow> 's \<Rightarrow> bool" where
  "allowed_ops ok step [] s = True"
| "allowed_ops ok step (x # xs) s = (ok x s \<and> allowed_ops ok step xs (snd (step x s)))"

locale same_answers =
  fixes spec :: "'op \<Rightarrow> 'q \<Rightarrow> 'a \<times> 'q" and impl :: "'op \<Rightarrow> 'c \<Rightarrow> 'a \<times> 'c"
    and ok :: "'op \<Rightarrow> 'q \<Rightarrow> bool" and rel :: "'q \<Rightarrow> 'c \<Rightarrow> bool"
  assumes step: "rel q c \<Longrightarrow> ok x q \<Longrightarrow> fst (impl x c) = fst (spec x q) \<and> rel (snd (spec x q)) (snd (impl x c))"
begin

lemma runs:
  assumes "rel q c" "allowed_ops ok spec xs q"
  shows "fst (run_ops impl xs c) = fst (run_ops spec xs q) \<and>
    rel (snd (run_ops spec xs q)) (snd (run_ops impl xs c))"
  using assms
proof (induction xs arbitrary: q c)
  case (Cons x xs)
  from Cons.prems have s: "fst (impl x c) = fst (spec x q)" "rel (snd (spec x q)) (snd (impl x c))"
    "allowed_ops ok spec xs (snd (spec x q))"
    using step[of q c x] by auto
  from Cons.IH[OF s(2,3)] s(1) show ?case by (simp add: case_prod_beta)
qed simp

end

datatype cache_op = CInsert message unpack_metadata | CNext | CGet string

fun cache_step :: "u64 \<Rightarrow> cache_op \<Rightarrow> message_cache \<Rightarrow> received option \<times> message_cache" where
  "cache_step sz (CInsert msg meta) c = (None, cache_insert sz msg meta c)"
| "cache_step sz CNext c = cache_next sz c"
| "cache_step sz (CGet k) c = cache_get sz k c"

fun fifo_step :: "cache_op \<Rightarrow> fifo \<Rightarrow> received option \<times> fifo" where
  "fifo_step (CInsert msg meta) q = (None, q @ [(msg, meta)])"
| "fifo_step CNext q = fifo_next q"
| "fifo_step (CGet k) q = fifo_get k q"

text \<open>An insertion is allowed when the message is fresh and the counters have room.\<close>

fun cache_op_ok :: "u64 \<Rightarrow> cache_op \<Rightarrow> fifo \<Rightarrow> bool" where
  "cache_op_ok sz (CInsert msg meta) q = (fresh (msg, meta) q \<and> fits sz (Suc (length q)))"
| "cache_op_ok sz _ q = True"

text \<open>The match with the room that is left and the limits, which stay.\<close>

definition cache_rel :: "u64 \<Rightarrow> 32 word \<Rightarrow> u64 \<Rightarrow> fifo \<Rightarrow> message_cache \<Rightarrow> bool" where
  "cache_rel sz lc lb q c \<longleftrightarrow>
     matches sz q c \<and> fits sz (length q) \<and> mc_limit_count c = lc \<and> mc_limit_bytes c = lb"

lemma remove_limits [simp]:
  "mc_limit_count (snd (cache_remove sz i c)) = mc_limit_count c"
  "mc_limit_bytes (snd (cache_remove sz i c)) = mc_limit_bytes c"
  by (auto simp: cache_remove_def Let_def split: option.splits)

lemma step_limits:
  "mc_limit_count (snd (cache_step sz x c)) = mc_limit_count c \<and>
   mc_limit_bytes (snd (cache_step sz x c)) = mc_limit_bytes c"
  by (cases x) (auto simp: cache_next_def cache_get_def split: option.splits list.splits prod.splits)

lemma fifo_get_length: "length (snd (fifo_get k q)) \<le> length q"
  by (auto simp: fifo_get_def fifo_drop_def split: option.splits)

lemma cache_step_rel:
  assumes r: "cache_rel sz lc lb q c" and ok: "cache_op_ok sz x q"
  shows "fst (cache_step sz x c) = fst (fifo_step x q) \<and>
    cache_rel sz lc lb (snd (fifo_step x q)) (snd (cache_step sz x c))"
proof -
  have m: "matches sz q c" and f: "fits sz (length q)" using r by (simp_all add: cache_rel_def)
  have "fst (cache_step sz x c) = fst (fifo_step x q) \<and> matches sz (snd (fifo_step x q)) (snd (cache_step sz x c)) \<and>
      fits sz (length (snd (fifo_step x q)))"
  proof (cases x)
    case (CInsert msg meta)
    with ok matches_insert[OF m] show ?thesis by simp
  next
    case CNext
    have "length (snd (fifo_next q)) \<le> length q" by (simp add: fifo_next_def split: list.splits)
    with CNext matches_next[OF m f] fits_less[OF f] show ?thesis by simp
  next
    case (CGet k)
    with matches_get[OF m f] fits_less[OF f fifo_get_length] show ?thesis by simp
  qed
  with r step_limits[of sz x c] show ?thesis by (simp add: cache_rel_def)
qed

interpretation cache_queue: same_answers fifo_step "cache_step sz" "cache_op_ok sz" "cache_rel sz lc lb"
  by unfold_locales (rule cache_step_rel)

text \<open>C33: The cache of the SDK answers every sequence of insertions, requests for the next message and
  requests by id or thread as a plain queue does, and is full exactly when the number or the size of
  the waiting messages is over its limit, as long as no two waiting messages share an id or a thread.\<close>

theorem cache_is_a_queue:
  assumes "allowed_ops (cache_op_ok sz) fifo_step ops []"
  shows "fst (run_ops (cache_step sz) ops (new_cache lc lb)) = fst (run_ops fifo_step ops []) \<and>
    (cache_is_full (snd (run_ops (cache_step sz) ops (new_cache lc lb))) \<longleftrightarrow>
       too_many sz lc lb (length (snd (run_ops fifo_step ops []))))"
proof -
  have "cache_rel sz lc lb [] (new_cache lc lb)"
    using matches_new by (simp add: cache_rel_def fits_def new_cache_def)
  from cache_queue.runs[OF this assms] show ?thesis
    by (simp add: cache_rel_def matches_def cache_is_full_def)
qed

end
