(* ===== verification/SampleSdk.thy ===== *)
theory SampleSdk
  imports SdkSession SocketProps CacheProps SampleServe "HOL-Library.Countable"
begin

text \<open>
  Instances of the theorems about the SDK: its cache, its requests, its websocket task, and the SDK of
  Bob against the mediator of \<open>SampleMediator\<close> over HTTP.
\<close>

subsection \<open>The cache and the websocket\<close>

definition meta_none :: unpack_metadata where
  "meta_none = default_metadata"

definition two_messages :: "cache_op list" where
  "two_messages = [CInsert (bare ''1'' ''t'' None) meta_none, CInsert (bare ''2'' ''t'' None) meta_none]"

lemma bare_sel [simp]: "m_id (bare i t f) = i" "m_thid (bare i t f) = None" "m_type (bare i t f) = t"
    "m_from (bare i t f) = f"
  by (simp_all add: bare_def builder_defs)

text \<open>With a limit of one message the cache is full after two, and the second can be taken first.\<close>

lemma cache_is_a_queue_witness:
  "cache_is_full (snd (run_ops (cache_step 100) two_messages (new_cache 1 1000))) \<and>
   fst (run_ops (cache_step 100) (two_messages @ [CGet ''2'', CNext]) (new_cache 1 1000)) =
     [None, None, Some (bare ''2'' ''t'' None, meta_none), Some (bare ''1'' ''t'' None, meta_none)]"
proof -
  note ops = two_messages_def fresh_def r_id_def r_thid_def fits_def fifo_get_def fifo_find_def fifo_drop_def
    fifo_next_def too_many_def
  have "allowed_ops (cache_op_ok 100) fifo_step two_messages []"
    "allowed_ops (cache_op_ok 100) fifo_step (two_messages @ [CGet ''2'', CNext]) []"
    by (simp_all add: ops)
  from cache_is_a_queue[OF this(1), of 1 1000] cache_is_a_queue[OF this(2), of 1 1000] show ?thesis
    by (simp add: ops)
qed


definition sample_state :: status_reply where
  "sample_state = \<lparr>sp_recipient_did = ''b'', sp_message_count = 2, sp_longest_waited_seconds = Some 7,
     sp_newest_received_time = None, sp_oldest_received_time = None, sp_total_bytes = 9, sp_live_delivery = True\<rparr>"

lemma status_reads_back_witness:
  "\<exists>m. pr_message_response (status_answer sample_shared sample_client 100 ''1'' ''t'' True sample_state) = ResponseMessage m \<and>
     parse_status_response (sample_med []) m = Ok sample_state"
proof -
  obtain m where m: "pr_message_response (status_answer sample_shared sample_client 100 ''1'' ''t'' True sample_state) = ResponseMessage m"
    by (simp add: status_answer_def)
  from status_reads_back[OF _ _ m, where X = "sample_med []"] m show ?thesis by (simp add: sample_state_def)
qed

text \<open>An SDK with open channels to its task.\<close>

definition sample_config :: sdk_config where
  "sample_config = \<lparr>sd_my_did = Some bob, sd_ssl_certificates = [], sd_atm_api = ''https://a'',
     sd_atm_api_ws = ''wss://a/ws'', sd_atm_did = Some carol, sd_ssl_only = True, sd_ws_enabled = False,
     sd_fetch_cache_limit_count = 100, sd_fetch_cache_limit_bytes = 1000, sd_secrets = [], sd_did_resolver = False\<rparr>"

definition bob_secrets :: "secret list" where
  "bob_secrets = [okp_secret (bob @ ''#e'') ''X25519'', okp_secret (bob @ ''#s'') ''Ed25519'']"

definition sample_atm :: "bool \<Rightarrow> auth_response option \<Rightarrow> atm" where
  "sample_atm ws tokens = \<lparr>at_config = sample_config, at_secrets = bob_secrets, at_authenticated = tokens \<noteq> None,
     at_jwt_tokens = tokens, at_ws_send_stream = ws, at_ws_recv_stream = ws\<rparr>"

lemma sample_atm_sel [simp]:
  "sdk_secrets (sample_atm ws t) = party_wallet bob" "at_config (sample_atm ws t) = sample_config"
  "at_authenticated (sample_atm ws t) = (t \<noteq> None)" "at_jwt_tokens (sample_atm ws t) = t"
  "at_ws_send_stream (sample_atm ws t) = ws" "at_ws_recv_stream (sample_atm ws t) = ws"
  by (simp_all add: sample_atm_def sdk_secrets_def bob_secrets_def party_wallet_def)

lemma sample_text_opens:
  "\<exists>s. sdk_unpack (sample_med [quiet_message]) (sample_atm ws t) s = Ok (quiet_message, default_metadata)"
proof -
  obtain s where "write_message [quiet_message] quiet_message = Inr s"
    using sample_table_text[of quiet_message "[quiet_message]"] by auto
  then have "unpack_string (sample_med [quiet_message]) (party_wallet bob) default_unpack_options s =
      Ok (quiet_message, default_metadata)"
    by (rule sample_plaintext_opens) (simp_all add: default_unpack_options_def)
  then show ?thesis by (auto simp: sdk_unpack_Ok_iff)
qed

lemma live_messages_arrive_witness:
  "\<exists>s r h. handler_loop (sample_med [quiet_message]) (sample_atm True None) 100
       (map (Pair open_env) [SockText s, Command WsNext]) (new_handler (sample_atm True None)) = Some (r, h) \<and>
     set (received_in (hs_to_sdk h)) = {(quiet_message, default_metadata)}"
proof -
  let ?X = "sample_med [quiet_message]"
  let ?a = "sample_atm True None"
  obtain s where s: "sdk_unpack ?X ?a s = Ok (quiet_message, default_metadata)" using sample_text_opens by blast
  have "list_all (goes_on ?X ?a) [SockText s, Command WsNext]" by (simp add: goes_on_def s)
  from live_messages_arrive[OF this, of 100] obtain r h ns where
    h: "handler_loop ?X ?a 100 (map (Pair open_env) [SockText s, Command WsNext]) (new_handler ?a) = Some (r, h)" and
    ns: "length ns = 1" "set ns \<subseteq> {1, 2}"
      "received_in (hs_to_sdk h) = concat (map2 replicate ns [(quiet_message, default_metadata)])"
    by (auto simp: openable_def s)
  then obtain n where "ns = [n]" "n = 1 \<or> n = 2" by (cases ns) auto
  with ns(3) have "set (received_in (hs_to_sdk h)) = {(quiet_message, default_metadata)}" by auto
  with h show ?thesis by blast
qed

lemma answer_is_left_behind_witness:
  "\<exists>(s :: link sdk) s1 s2 s3. live_stream_get (link_network (sample_med [quiet_message]) (sample_atm True None) 100) ''1'' 0 s =
      Some (Ok (Some (quiet_message, default_metadata)), s1) \<and>
    live_stream_get (link_network (sample_med [quiet_message]) (sample_atm True None) 100) ''other'' 0 s1 =
      Some (Ok (Some (quiet_message, default_metadata)), s2) \<and>
    live_stream_next (link_network (sample_med [quiet_message]) (sample_atm True None) 100) 0 s2 =
      Some (Err (AtmMsgReceiveError ''Unexpected message type''), s3)"
proof -
  let ?a = "sample_atm True None"
  obtain t where t: "sdk_unpack (sample_med [quiet_message]) ?a t = Ok (quiet_message, default_metadata)"
    using sample_text_opens by blast
  let ?s = "\<lparr>sk_atm = ?a, sk_net = \<lparr>ln_handler = new_handler ?a, ln_read = 0, ln_socket = [SockText t]\<rparr>\<rparr>"
  have l: "link_is {} [] [SockText t] (sk_net ?s)"
    by (simp add: link_is_def idle_def new_handler_def empty_new unread_def)
  have k: "search_key quiet_message = ''1''"
    by (simp add: search_key_def quiet_message_def builder_defs)
  from answer_is_left_behind[OF _ _ l t k, of 100 0 "''other''"] show ?thesis by simp blast
qed

subsection \<open>A delivery\<close>

text \<open>A library that reads every text that is no envelope as the same message.\<close>

definition open_lib :: "(sample_key, string, string) med_ext" where
  "open_lib = (sample_med [])\<lparr>de_message := (\<lambda>_. Inr quiet_message)\<rparr>"

lemma open_lib_sel [simp]:
  "digest open_lib = hex" "b64_encode open_lib = hex" "b64_decode open_lib = (\<lambda>s. Inr (unhex s))"
  by (simp_all add: open_lib_def) (simp_all add: sample_med_def sample_with_def)

lemma open_lib_b64: "b64_laws open_lib"
  using sample_b64[of "[]" sample_part] by (simp add: b64_laws_def) (simp add: sample_med_def sample_with_def)

lemma open_lib_unpack:
  assumes "s = ''m'' \<or> s = ''n''"
  shows "sdk_unpack open_lib (sample_atm ws t) s = Ok (quiet_message, default_metadata)"
proof -
  have u: "unfields s = []" using assms by (auto simp: unfields_def)
  have "read_envelope open_lib s = Ok (PeMessage quiet_message)"
    using u by (simp add: read_envelope_def envelope_from_str_def de_envelope_def open_lib_def serde_to_didcomm_def context_msg_def)
       (simp add: sample_med_def sample_with_def read_jwe_def read_jws_def u)
  then have "unpack_string open_lib (party_wallet bob) default_unpack_options s = Ok (quiet_message, default_metadata)"
    by (rule plain_text_opens) (simp_all add: default_unpack_options_def)
  then show ?thesis by (simp add: sdk_unpack_Ok_iff)
qed

lemma sample_texts:
  "entries (mem_view db_two) (receive_q ''gc'') =
     [(StreamId 10 0, [(''MSG_ID'', ''gn''), (''BYTES'', ''1''), (''FROM'', ''a'')]),
      (StreamId 10 1, [(''MSG_ID'', ''go''), (''BYTES'', ''1''), (''FROM'', ''a'')])]"
  "mem_view db_two (msg_key ''gn'') = Some (EStr ''m'')" "mem_view db_two (msg_key ''go'') = Some (EStr ''n'')"
proof -
  have "mem_stream db_two ''RECEIVE_Q:gc'' = Some (StreamId 10 1,
      [(StreamId 10 0, [(''MSG_ID'', ''gn''), (''BYTES'', ''1''), (''FROM'', ''a'')]),
       (StreamId 10 1, [(''MSG_ID'', ''go''), (''BYTES'', ''1''), (''FROM'', ''a'')])])"
    by code_simp
  from mem_stream_as[OF this] show "entries (mem_view db_two) (receive_q ''gc'') =
     [(StreamId 10 0, [(''MSG_ID'', ''gn''), (''BYTES'', ''1''), (''FROM'', ''a'')]),
      (StreamId 10 1, [(''MSG_ID'', ''go''), (''BYTES'', ''1''), (''FROM'', ''a'')])]"
    by (simp add: receive_q_def)
  have "map_of db_two ''MSG:gn'' = Some (MStr ''m'')" "map_of db_two ''MSG:go'' = Some (MStr ''n'')" by code_simp+
  then show "mem_view db_two (msg_key ''gn'') = Some (EStr ''m'')" "mem_view db_two (msg_key ''go'') = Some (EStr ''n'')"
    by (simp_all add: mem_view_def msg_key_def)
qed

lemma open_delivery:
  "\<exists>p w'. delivery_request open_lib sample_shared sample_client still ''1'' delivery_message (sample_world db_two) =
     (Ok (Some p), w')"
proof -
  obtain r db' where "fetch_messages mem_redis ''S'' ''gc'' (default_fetch_options\<lparr>fo_limit := 1\<rparr>) db_two = (Ok r, db')"
      "gm_success r \<noteq> []" using sample_fetched by blast
  moreover have "validate_msg open_lib sample_shared sample_client (still 0) delivery_message = Ok ()"
    by (simp add: validate_msg_def pickup_request_def builder_defs check_expiry_def Let_def)
  moreover have "parse_and_validate_delivery_request_body open_lib sample_client delivery_message = Ok (''b'', 1)"
    by (simp add: parse_and_validate_delivery_request_body_def pickup_request_def builder_defs
          delivery_request_body_def sample_client_def)
  ultimately show ?thesis
    by (simp add: delivery_request_def eff_then_app unwrap_result_def on_db_def eff_on_def sample_world_def
          sample_client_def)
qed

lemma delivery_reaches_the_client_witness:
  "\<exists>p w' m rest. delivery_request open_lib sample_shared sample_client still ''1'' delivery_message (sample_world db_two) =
       (Ok (Some p), w') \<and> pr_message_response p = ResponseMessage m \<and>
     handle_delivery open_lib m (sample_atm True None) = Ok ((quiet_message\<lparr>m_id := ''gn''\<rparr>, default_metadata) # rest)"
proof -
  let ?a = "sample_atm True None"
  obtain p w' where d: "delivery_request open_lib sample_shared sample_client still ''1'' delivery_message (sample_world db_two) =
      (Ok (Some p), w')" using open_delivery by blast
  let ?es = "entries (mem_view db_two) (receive_q ''gc'')"
  have w: "redis_laws (sh_database sample_shared) mem_view" "conversion_laws (sh_database sample_shared)"
      "linked (mem_view (w_db (sample_world db_two)))"
      "entries (mem_view (w_db (sample_world db_two))) (receive_q (digest open_lib (cs_did sample_client))) = ?es"
      "?es \<noteq> []"
    by (simp_all add: mem_redis_laws mem_conversion_laws sample_linked sample_world_def sample_client_def sample_texts)
  have i: "msg_id_of (i, (''MSG_ID'', k) # r) = k" for i k r by (simp add: msg_id_of_def)
  have o1: "opened open_lib ?a (mem_view db_two) (StreamId 10 0, [(''MSG_ID'', ''gn''), (''BYTES'', ''1''), (''FROM'', ''a'')]) =
      [(quiet_message\<lparr>m_id := ''gn''\<rparr>, default_metadata)]"
    by (simp add: opened_def i sample_texts open_lib_unpack)
  have "list_all (opens_safely open_lib ?a (mem_view (w_db (sample_world db_two)))) ?es"
    by (simp add: sample_texts opens_safely_def i sample_world_def open_lib_unpack utf8_valid_def)
  from delivery_reaches_the_client[OF w(1-3) d w(4,5) open_lib_b64 this] obtain n m where
    n: "1 \<le> n" and m: "pr_message_response p = ResponseMessage m"
    and h: "handle_delivery open_lib m ?a = Ok (concat (map (opened open_lib ?a (mem_view db_two)) (take n ?es)))"
    by (auto simp: sample_world_def)
  from n have "\<exists>rest. handle_delivery open_lib m ?a = Ok ((quiet_message\<lparr>m_id := ''gn''\<rparr>, default_metadata) # rest)"
    using h by (cases n) (simp_all add: sample_texts o1)
  with d m show ?thesis by blast
qed

subsection \<open>Texts for the requests and responses\<close>

text \<open>The values of these types can be numbered; a value is written as its number in unary.\<close>

instance success_response_ext :: (countable, countable) countable
  by (rule countable_classI[of "\<lambda>r. to_nat (sr_session_id r, sr_http_code r, sr_error_code r, sr_error_code_str r,
        sr_message r, sr_data r, success_response.more r)"]) simp

instance auth_challenge_ext :: (countable) countable
  by (rule countable_classI[of "\<lambda>r. to_nat (ac_challenge r, ac_session_id r, auth_challenge.more r)"]) simp

instance auth_response_ext :: (countable) countable
  by (rule countable_classI[of "\<lambda>r. to_nat (ar_access_token r, ar_refresh_token r, auth_response.more r)"]) simp

instance message_element_ext :: (countable) countable
  by (rule countable_classI[of "\<lambda>r. to_nat (me_msg_id r, me_send_id r, me_receive_id r, me_size r, me_timestamp r,
        me_to_address r, me_from_address r, me_msg r, message_element.more r)"]) simp

instance get_messages_response_ext :: (countable) countable
  by (rule countable_classI[of "\<lambda>r. to_nat (gm_success r, gm_get_errors r, gm_delete_errors r,
        get_messages_response.more r)"]) simp

instance delete_message_response_ext :: (countable) countable
  by (rule countable_classI[of "\<lambda>r. to_nat (dr_success r, dr_errors r, delete_message_response.more r)"]) simp

instance inbound_message_list_ext :: (countable) countable
  by (rule countable_classI[of "\<lambda>r. to_nat (il_messages r, il_errors r, inbound_message_list.more r)"]) simp

instance inbound_response :: countable
  by countable_datatype

instance get_messages_request_ext :: (countable) countable
  by (rule countable_classI[of "\<lambda>r. to_nat (gr_message_ids r, gr_delete r, get_messages_request.more r)"]) simp

instance fetch_delete_policy :: countable
  by countable_datatype

instance fetch_options_ext :: (countable) countable
  by (rule countable_classI[of "\<lambda>r. to_nat (fo_limit r, fo_start_id r, fo_delete_policy r, fetch_options.more r)"]) simp

definition unary :: "'a :: countable \<Rightarrow> string" where
  "unary x = replicate (to_nat x) CHR ''i''"

definition of_unary :: "string \<Rightarrow> 'a :: countable" where
  "of_unary s = from_nat (length s)"

lemma of_unary_unary [simp]: "of_unary (unary x) = x"
  by (simp add: of_unary_def unary_def)

definition sdk_part :: "unit sdk_ext_ext med_ext_ext" where
  "sdk_part =
     \<lparr>digest = hex, jwt_encode = (\<lambda>key c. Inr (write_claims key c)), jwt_decode = read_claims,
      ser_inbound = write_inbound, ser_pubsub = write_pubsub, de_pubsub = read_pubsub,
      value_error = (\<lambda>_ _. ''another value''), debug_message = m_id, regex_is_match = (\<lambda>_ _. True),
      de_challenge = (\<lambda>s. Inr (of_unary s)), de_tokens = (\<lambda>s. Inr (of_unary s)), de_list = (\<lambda>s. Inr (of_unary s)),
      de_messages = (\<lambda>s. Inr (of_unary s)), de_deleted = (\<lambda>s. Inr (of_unary s)), de_inbound = (\<lambda>s. Inr (of_unary s)),
      de_text = (\<lambda>s. Inr (of_unary s)), ser_get_request = (\<lambda>r. Inr (unary r)),
      ser_delete_request = (\<lambda>r. Inr (unary r)), ser_fetch_options = (\<lambda>r. Inr (unary r)),
      debug_error = (\<lambda>_. ''error''), debug_text_response = (\<lambda>_. ''response''), show_status = show_nat\<rparr>"

definition sdk_lib :: "message list \<Rightarrow> (sample_key, string, string, unit) sdk_ext_scheme" where
  "sdk_lib tbl = sample_with tbl sdk_part"

text \<open>The DID in the body of the challenge request follows nine characters and precedes two.\<close>

definition sample_codec :: http_codec where
  "sample_codec =
     \<lparr>hc_challenge_body = (\<lambda>s. Some (butlast (butlast (drop 9 s)))),
      hc_inbound_body = (\<lambda>s. case read_jwe s of Inr j \<Rightarrow> Some (inbound_of_jwe j) | Inl _ \<Rightarrow> None),
      hc_get_body = (\<lambda>s. Some (of_unary s)), hc_fetch_body = (\<lambda>s. Some (of_unary s)),
      hc_delete_body = (\<lambda>s. Some (of_unary s)),
      hc_folder = (\<lambda>s. Some (if s = ''inbox'' then Inbox else Outbox)),
      hc_challenge = unary, hc_tokens = unary, hc_list = unary, hc_messages = unary, hc_deleted = unary,
      hc_inbound = unary, hc_text = unary, hc_error = er_message, hc_refused = (400, ''refused'')\<rparr>"

lemma sdk_lib_jwe: "envelope_from_str (sdk_lib tbl) s = Ok (EnvJwe j) \<Longrightarrow> read_jwe s = Inr j"
  by (auto simp: envelope_from_str_def de_envelope_def sdk_lib_def sample_with_def serde_to_didcomm_def context_msg_def
      result_simps split: sum.splits)

lemma sdk_inbound:
  assumes "read_jwe s = Inr j"
  shows "\<exists>posted. write_inbound (inbound_of_jwe j) = Inr posted \<and>
     envelope_from_str (sdk_lib tbl) posted = envelope_from_str (sdk_lib tbl) s"
proof -
  have j: "jwe_of_inbound (inbound_of_jwe j) = j"
    by (simp add: jwe_of_inbound_def inbound_of_jwe_def)
  obtain p where p: "write_jwe j = Inr p" by (simp add: write_jwe_def)
  with read_write_jwe[OF p] assms j show ?thesis
    by (intro exI[of _ p])
       (simp add: write_inbound_def envelope_from_str_def de_envelope_def sdk_lib_def sample_with_def)
qed

lemma sdk_lib_sel [simp]:
  "digest (sdk_lib tbl) = hex" "jwt_encode (sdk_lib tbl) = (\<lambda>key c. Inr (write_claims key c))"
  "jwt_decode (sdk_lib tbl) = read_claims" "ser_inbound (sdk_lib tbl) = write_inbound"
  "de_challenge (sdk_lib tbl) = (\<lambda>s. Inr (of_unary s))" "de_tokens (sdk_lib tbl) = (\<lambda>s. Inr (of_unary s))"
  "de_list (sdk_lib tbl) = (\<lambda>s. Inr (of_unary s))" "de_messages (sdk_lib tbl) = (\<lambda>s. Inr (of_unary s))"
  "de_deleted (sdk_lib tbl) = (\<lambda>s. Inr (of_unary s))" "de_inbound (sdk_lib tbl) = (\<lambda>s. Inr (of_unary s))"
  "de_text (sdk_lib tbl) = (\<lambda>s. Inr (of_unary s))" "ser_get_request (sdk_lib tbl) = (\<lambda>r. Inr (unary r))"
  "ser_delete_request (sdk_lib tbl) = (\<lambda>r. Inr (unary r))" "ser_fetch_options (sdk_lib tbl) = (\<lambda>r. Inr (unary r))"
  by (simp_all add: sdk_lib_def sdk_part_def sample_with_def)

lemma sample_codec_laws: "codec_laws (sdk_lib tbl) sample_codec"
proof -
  have "hc_folder sample_codec (folder_text f) = Some f" for f
    by (cases f) (simp_all add: sample_codec_def folder_text_def)
  moreover have "\<exists>b p. hc_inbound_body sample_codec s = Some b \<and> ser_inbound (sdk_lib tbl) b = Inr p \<and>
      envelope_from_str (sdk_lib tbl) p = envelope_from_str (sdk_lib tbl) s"
    if "envelope_from_str (sdk_lib tbl) s = Ok (EnvJwe j)" for s j
    using sdk_lib_jwe[OF that] sdk_inbound[of s j tbl] by (auto simp: sample_codec_def)
  ultimately show ?thesis
    by (auto simp: codec_laws_def sample_codec_def butlast_append)
qed

subsection \<open>A packed message of Bob's for the mediator\<close>

lemma encrypt_auth_jwe: "encrypt_auth X r alg a p sender keys = Ok s \<Longrightarrow> \<exists>j. ser_jwe X j = Inr s"
  by (auto simp: encrypt_auth_def elim!: encrypt_OkE split: prod.splits)

lemma encrypt_anon_jwe: "encrypt_anon X r alg a p keys = Ok s \<Longrightarrow> \<exists>j. ser_jwe X j = Inr s"
  by (auto simp: encrypt_anon_def elim!: encrypt_OkE split: prod.splits)

lemma authcrypt_keys_jwe:
  "authcrypt_keys X rs msg ea en protect alg label kid sk keys = Ok s \<Longrightarrow> \<exists>j. ser_jwe X j = Inr s"
  by (auto simp: authcrypt_keys_def result_simps encrypt_auth_jwe encrypt_anon_jwe split: if_splits)

lemma authcrypt_jwe:
  "authcrypt X SR rs to frm msg ea en protect n = Ok (s, k, ks) \<Longrightarrow> \<exists>j. ser_jwe X j = Inr s"
  by (auto simp: authcrypt_def result_simps Let_def authcrypt_keys_jwe split: prod.splits if_splits option.splits)

lemma bob_packs:
  assumes "m \<in> set tbl" "try_parse_forward m = None" "m_from_prior m = None" "m_from m = Some bob" "m_to m = Some [carol]"
  shows "\<exists>s meta j. pack_encrypted (sdk_lib tbl) (party_wallet bob) sample_draws m carol (Some bob) (Some bob)
       default_pack_options = Ok (s, meta) \<and> envelope_from_str (sdk_lib tbl) s = Ok (EnvJwe j) \<and>
     opens_at_mediator (sdk_lib tbl) public_half sample_shared (party_wallet bob) meta"
proof -
  let ?X = "sample_with tbl sdk_part"
  let ?o = default_pack_options
  obtain body where b: "write_message tbl m = Inr body" using sample_table_text[OF assms(1,2)] by blast
  then have p: "pack_plaintext ?X m = Ok body" using assms(3)
    by (simp add: pack_plaintext_def validate_pack_plaintext_def sample_with_def with_kind_def)
  have "\<exists>t. sign ?X body (bob @ ''#s'', (True, bob @ ''#s'')) EdDSA = Ok t"
    by (simp add: sign_def sample_with_def with_kind_def with_message_def Let_def write_jws_def)
  then obtain t where t: "sign ?X body (bob @ ''#s'', (True, bob @ ''#s'')) EdDSA = Ok t" by blast
  have f: "first_secret (party_wallet bob) [bob @ ''#s''] a b e e' = Ok (bob @ ''#s'', okp_secret (bob @ ''#s'') ''Ed25519'')"
    for a b e e' by (simp add: first_secret_Ok_iff)
  have sg: "pack_signed ?X (party_wallet bob) m bob = Ok (t, bob @ ''#s'')"
    using t by (simp add: pack_signed_def f p context_msg_def)
  obtain e where e: "authcrypt ?X (party_wallet bob) sample_draws carol bob t (po_enc_alg_auth ?o)
      (po_enc_alg_anon ?o) (po_protect_sender ?o) 100 = Ok (e, bob @ ''#e'', [carol @ ''#e''])"
    using sample_authcrypt[of carol bob, where tbl = tbl and z = sdk_part] by blast
  from authcrypt_jwe[OF e] obtain j where "ser_jwe ?X j = Inr e" by blast
  then have j: "read_jwe e = Inr j" using read_write_jwe[of j e] by (simp add: sample_with_def)
  have v: "validate_pack_encrypted m carol (Some bob) (Some bob) = Ok ()"
    using assms(4,5) by (simp add: validate_pack_encrypted_def)
  have w: "wrap_in_forward_if_needed ?X rs e carol ?o = Ok None" for rs
    by (simp add: wrap_in_forward_if_needed_def default_pack_options_def resolve_services_chain_def
        find_did_comm_service_def) (simp add: party_doc_def)
  let ?meta = "\<lparr>pm_messaging_service = None, pm_from_kid = Some (bob @ ''#e''), pm_sign_by_kid = Some (bob @ ''#s''),
     pm_to_kids = [carol @ ''#e'']\<rparr>"
  have l: "po_to_kids_limit ?o = 100" by (simp add: default_pack_options_def)
  have "pack_encrypted ?X (party_wallet bob) sample_draws m carol (Some bob) (Some bob) ?o = Ok (e, ?meta)"
    using e by (simp add: pack_encrypted_def v pack_inner_def sg context_msg_def pack_outer_def w l)
  moreover have "envelope_from_str ?X e = Ok (EnvJwe j)"
    using j by (simp add: envelope_from_str_def de_envelope_def sample_with_def serde_to_didcomm_def context_msg_def)
  moreover have "opens_at_mediator ?X public_half sample_shared (party_wallet bob) ?meta"
    by (simp add: opens_at_mediator_def sample_recipient sample_sender sample_signer)
  ultimately show ?thesis unfolding sdk_lib_def by blast
qed

subsection \<open>The mediator over HTTP\<close>

definition sample_entropy :: "(sample_key, string) entropy" where
  "sample_entropy = \<lparr>en_rng = (\<lambda>n. if n = 0 then rng_a else rng_b), en_source = sample_source\<rparr>"

definition sample_server :: "mem_db \<Rightarrow> mem_db server" where
  "sample_server db = \<lparr>sv_world = sample_world db, sv_requests = 0\<rparr>"

lemma sample_server_sel [simp]:
  "sv_requests (sample_server db) = 0" "w_db (sv_world (sample_server db)) = db"
  "en_rng sample_entropy 0 = rng_a" "en_rng sample_entropy (Suc n) = rng_b"
  "src_clock (en_source sample_entropy n) i = 100"
  by (simp_all add: sample_server_def sample_world_def sample_entropy_def sample_source_def still_def)

lemma sample_config_sel [simp]:
  "sd_atm_api sample_config = ''https://a''" "dids (sample_atm ws t) = Ok (bob, carol)"
  by (simp_all add: sample_config_def dids_def)

lemma sample_source_sel [simp]:
  "src_clock (sample_source n) i = 100" "src_uuid (sample_source n) = ''1''" "src_draws (sample_source n) i = sample_draws"
  by (simp_all add: sample_source_def still_def)

text \<open>Bob's answer to the challenge.\<close>

definition bob_answer :: message where
  "bob_answer = message_finalize (with_expires_time 160 (with_created_time 100 (with_from bob (with_to carol
     (message_build ''1'' ''https://affinidi.com/atm/1.0/authenticate''
        (JObject [(''challenge'', JString (replicate 32 CHR ''a'')), (''session_id'', JString sid_a)]))))))"

lemma bob_answer_sel [simp]:
  "m_from bob_answer = Some bob" "m_to bob_answer = Some [carol]" "m_from_prior bob_answer = None"
  "m_typ bob_answer = plaintext_typ" "m_type bob_answer = ''https://affinidi.com/atm/1.0/authenticate''"
  "try_parse_forward bob_answer = None"
  by (simp_all add: bob_answer_def builder_defs plaintext_typ_def try_parse_forward_def forward_msg_type_def)

lemma sdk_plain:
  assumes "m_typ m = plaintext_typ" "m_from_prior m = None" "m_type m \<noteq> forward_msg_type"
  shows "plain_message (sdk_lib tbl) m"
  using assms sample_message_reads by (simp add: plain_message_def sdk_lib_def)

lemma sdk_crypto: "crypto_laws (sdk_lib tbl) public_half sample_draws"
  by (simp add: sdk_lib_def sample_crypto)

lemma sdk_jwt: "jwt_laws (sdk_lib tbl) k k"
  by (auto simp: jwt_laws_def write_claims_def read_claims_def parse_digits_show)

lemma sdk_tokens:
  "issue_tokens (sdk_lib tbl) sample_shared now ((challenge_session rng_a bob)\<lparr>ses_id := sid_b\<rparr>) = Ok (bob_tokens now)"
  by (simp add: issue_tokens_def bob_tokens_def)

lemma json_plain_bob: "json_plain bob"
  by (simp add: json_plain_def bob_def)

lemma sdk_authenticates_witness:
  "\<exists>s'. authenticate (sdk_lib [bob_answer])
       (mediator_network (sdk_lib [bob_answer]) sample_shared sample_codec sample_entropy ''https://a'') (sample_source 0)
       \<lparr>sk_atm = sample_atm False None, sk_net = sample_server []\<rparr> = (Ok (bob_tokens 100), s') \<and>
     is_authenticated (mem_view (w_db (sv_world (sk_net s')))) sid_b bob"
proof -
  let ?X = "sdk_lib [bob_answer]"
  let ?s = "\<lparr>sk_atm = sample_atm False None, sk_net = sample_server []\<rparr>"
  have ids: "create_random_string rng_a 0 12 = sid_a" "create_random_string rng_b 0 12 = sid_b"
    "create_random_string rng_a 12 32 = replicate 32 CHR ''a''" "sid_a \<noteq> sid_b"
    by (simp_all add: sid_a_def sid_b_def)
  obtain packed meta j where p: "pack_encrypted ?X (party_wallet bob) sample_draws bob_answer carol (Some bob) (Some bob)
      default_pack_options = Ok (packed, meta)" "envelope_from_str ?X packed = Ok (EnvJwe j)"
      "opens_at_mediator ?X public_half sample_shared (party_wallet bob) meta"
    using bob_packs[of bob_answer "[bob_answer]"] by auto
  have a: "create_auth_challenge_response (sample_atm False None) 100 ''1''
      \<lparr>ac_challenge = replicate 32 CHR ''a'', ac_session_id = sid_a\<rparr> = Ok bob_answer"
    by (simp add: create_auth_challenge_response_def bob_answer_def)
  have pm: "plain_message ?X bob_answer" by (rule sdk_plain) (simp_all add: forward_msg_type_def)
  note run = sdk_authenticates[where X = ?X and K = sample_codec and pub = public_half and enc = "''key''" and dec = "''key''" and
      S = sample_shared and V = mem_view and s = ?s and me = bob and api = "''https://a''" and n = 0 and rng = rng_a and
      E = sample_entropy and sid = sid_a and new = sid_b and clock = "\<lambda>i. 100" and src = "sample_source 0" and
      m = bob_answer and packed = packed and meta = meta and j = j and db_sent = db_challenged and db_read = db_challenged and
      db_done = db_answered and ses = "challenge_session rng_a bob" and tokens = "bob_tokens 100"]
  show ?thesis
    using run sample_codec_laws sdk_crypto sdk_jwt mem_redis_laws mem_conversion_laws json_plain_bob ids a pm p
      sample_challenge sample_session sample_update sdk_tokens
    by (simp del: sample_random) blast
qed

text \<open>A status request of Bob's, with tokens but without a websocket.\<close>

definition bob_request :: message where
  "bob_request = status_request_message ''1'' 100 None carol bob"

lemma bob_request_sel [simp]:
  "m_from bob_request = Some bob" "m_to bob_request = Some [carol]" "m_from_prior bob_request = None"
  "m_typ bob_request = plaintext_typ" "m_type bob_request = ''https://didcomm.org/messagepickup/3.0/status-request''"
  "try_parse_forward bob_request = None"
  by (simp_all add: bob_request_def sdk_message_defs builder_defs plaintext_typ_def try_parse_forward_def forward_msg_type_def)

lemma http_messages_are_refused_witness:
  "\<exists>packed e s'. request_answer (sdk_lib [bob_request])
       (mediator_network (sdk_lib [bob_request]) sample_shared sample_codec sample_entropy ''https://a'') (sample_source 0)
       False packed ''1'' 10 \<lparr>sk_atm = sample_atm False (Some (bob_tokens 100)), sk_net = sample_server db_two\<rparr> =
     Some (Err e, s') \<and> sv_world (sk_net s') = sample_world db_two"
proof -
  let ?X = "sdk_lib [bob_request]"
  let ?s = "\<lparr>sk_atm = sample_atm False (Some (bob_tokens 100)), sk_net = sample_server db_two\<rparr>"
  obtain packed meta j where p: "pack_encrypted ?X (party_wallet bob) sample_draws bob_request carol (Some bob) (Some bob)
      default_pack_options = Ok (packed, meta)" "envelope_from_str ?X packed = Ok (EnvJwe j)"
      "opens_at_mediator ?X public_half sample_shared (party_wallet bob) meta"
    using bob_packs[of bob_request "[bob_request]"] by auto
  have pm: "plain_message ?X bob_request" by (rule sdk_plain) (simp_all add: forward_msg_type_def)
  have "\<exists>e n. sv_world n = sv_world (sk_net ?s) \<and>
     send_didcomm_message ?X (mediator_network ?X sample_shared sample_codec sample_entropy ''https://a'') (sample_source 0)
       (\<lambda>_. Inl [] :: string + unit success_response) packed True ?s = (Err e, ?s\<lparr>sk_net := n\<rparr>) \<and>
     (\<not> at_ws_send_stream (sk_atm ?s) \<longrightarrow>
        request_answer ?X (mediator_network ?X sample_shared sample_codec sample_entropy ''https://a'') (sample_source 0)
          False packed ''1'' 10 ?s = Some (Err e, ?s\<lparr>sk_net := n\<rparr>))"
    by (rule http_messages_are_refused[where pub = public_half and rs = sample_draws and m = bob_request and meta = meta
          and j = j and tokens = "bob_tokens 100" and sign_by = "Some bob" and opts = default_pack_options])
       (use sample_codec_laws sdk_crypto pm p in simp_all)
  then obtain e n where "sv_world n = sample_world db_two"
    "request_answer ?X (mediator_network ?X sample_shared sample_codec sample_entropy ''https://a'') (sample_source 0)
       False packed ''1'' 10 ?s = Some (Err e, ?s\<lparr>sk_net := n\<rparr>)"
    by (auto simp: sample_server_def)
  then show ?thesis by (intro exI[of _ packed] exI[of _ e] exI[of _ "?s\<lparr>sk_net := n\<rparr>"]) simp
qed

text \<open>A token of the owner of the inbox in \<open>db_two\<close>.\<close>

definition reader_tokens :: auth_response where
  "reader_tokens = \<lparr>ar_access_token = write_claims ''key'' \<lparr>sc_aud = ''ATM'', sc_sub = ''b'', sc_session_id = ''S'', sc_exp = 900\<rparr>,
     ar_refresh_token = []\<rparr>"

lemma reader_session:
  "session_from_request (sdk_lib tbl) sample_shared 100
     \<lparr>rp_has_address = True, rp_bearer = Some (ar_access_token reader_tokens)\<rparr> =
   Ok \<lparr>cs_session_id = ''S'', cs_authenticated = True, cs_challenge_sent = None, cs_did = ''b'', cs_did_hash = hex ''b''\<rparr>"
proof -
  have "read_claims ''key'' 100 (ar_access_token reader_tokens) =
      Inr \<lparr>sc_aud = ''ATM'', sc_sub = ''b'', sc_session_id = ''S'', sc_exp = 900\<rparr>"
    by (simp add: reader_tokens_def write_claims_def read_claims_def parse_digits_show)
  then show ?thesis by (simp add: session_from_request_def)
qed

end
