(* ===== verification/SdkDelivery.thy ===== *)
theory SdkDelivery
  imports SdkMediator InboundProps Onion
begin

text \<open>
  A message on its whole way: packed for its receiver, wrapped into a forward for the mediator, posted,
  opened and stored by the mediator, fetched by the SDK of the receiver and opened there.
\<close>

text \<open>The mediator opens a forward layer, whatever JSON text of the layer it is given.\<close>

lemma layer_opens_at_mediator:
  assumes "crypto_laws X pub rs" "value_laws X" "\<And>fm. m_type fm = forward_msg_type \<Longrightarrow> message_reads X fm"
    and "wrap_layers X rs headers a limit packed [(mediator, nxt)] = Ok layer"
    and "mediator_ready X pub SR (mediator, nxt)"
    and "\<not> uo_expect_decrypt_by_all_keys opts" "2 < unat (uo_crypto_operations_limit opts)"
    and "envelope_from_str X posted = envelope_from_str X layer"
  shows "\<exists>t. passes_on X SR opts posted nxt t \<and> envelope_from_str X t = envelope_from_str X packed"
proof -
  from assms(4) obtain body kids where fw: "forward_message X (draw_uuid (rs 0)) packed nxt headers = Ok body"
      "anoncrypt X (rs 0) mediator body a limit = Ok (layer, kids)"
    by (auto simp: result_simps)
  show ?thesis
    using layer_passes_on[OF assms(1-3) fw assms(5-7)] unpack_string_cong[OF assms(8)] by (simp add: passes_on_def)
qed

text \<open>A fetch that has room for the whole inbox ends with its last message.\<close>

lemma last_fetched:
  assumes "list_all2 (element_of ks) (page n None (entries ks (receive_q d))) els"
    and "inbox_of ks d = is @ [i]" "length is < n" "ks (msg_key i) = Some (EStr t)"
  shows "length els = Suc (length is) \<and> me_msg_id (last els) = i \<and> me_msg (last els) = Some t"
proof -
  let ?es = "entries ks (receive_q d)"
  have es: "map msg_id_of ?es = is @ [i]" using assms(2) by (simp add: inbox_of_def)
  then have "length ?es = Suc (length is)" by (metis length_append_singleton length_map)
  with assms(1,3) have l: "list_all2 (element_of ks) ?es els" "?es \<noteq> []" "length els = Suc (length is)"
    by (auto simp: page_def dest: list_all2_lengthD)
  then have "els \<noteq> []" by auto
  with l have "element_of ks (last ?es) (last els)"
    by (auto simp: list_all2_conv_all_nth last_conv_nth)
  moreover have "msg_id_of (last ?es) = i" using es l(2) by (metis last_map last_snoc)
  ultimately show ?thesis using assms(4) l(3) by (cases "me_msg (last els)") (auto simp: element_of_def)
qed

text \<open>
  C5: mail is delivered. A message is packed for a receiver and wrapped into a forward for the mediator;
  the mediator accepts a text of that forward from anybody with a session. The next fetch of the
  receiver's SDK over HTTP, with room for its inbox, ends with an element whose text opens in its wallet
  as the message, and the metadata tells the keys of its sender, its signer and its receivers. All this
  holds if no text of the packed message was stored before.
\<close>

theorem mail_is_delivered:
  assumes laws: "crypto_laws X pub rs" "crypto_laws X pub fs" "value_laws X" "codec_laws X K"
      "conversion_laws (sh_database S)" "\<And>fm. m_type fm = forward_msg_type \<Longrightarrow> message_reads X fm"
    and sender: "plain_message X m" "pack_encrypted X SR rs m to from sign_by opts = Ok (packed, meta)"
      "pm_messaging_service meta = None" "\<And>kid. pm_from_kid meta = Some kid \<Longrightarrow> sender_ready X pub SR kid"
      "\<And>kid. pm_sign_by_kid meta = Some kid \<Longrightarrow> signer_ready X pub SR kid"
      "wrap_layers X fs headers a limit packed [(sh_mediator_did S, nxt)] = Ok layer"
    and mediator: "mail_wf X (sh_database S) V (w_db w)"
      "mediator_ready X pub (sh_mediator_secrets S) (sh_mediator_did S, nxt)"
      "2 < unat (uo_crypto_operations_limit (inbound_options S))"
      "\<And>t. envelope_from_str X t = envelope_from_str X packed \<Longrightarrow>
         t \<noteq> [] \<and> V (w_db w) (meta_key (digest X t)) = None"
    and post: "envelope_from_str X posted = envelope_from_str X layer"
      "handle_inbound X S session clock uuid ds posted w = (Ok (Stored l), w')" "il_errors l = []"
    and receiver: "did_resolve X (did_of to) = Inr doc"
      "distinct (find_key_agreement X doc (snd (did_or_url to)))"
      "recipient_ready X pub (sdk_secrets (sk_atm sdk)) doc (pm_to_kids meta)"
      "at_authenticated (sk_atm sdk)" "at_jwt_tokens (sk_atm sdk) = Some tokens"
      "sd_atm_api (at_config (sk_atm sdk)) = api" "sv_world (sk_net sdk) = w'"
    and token: "session_from_request X S (src_clock (en_source E (sv_requests (sk_net sdk))) 0)
        \<lparr>rp_has_address = True, rp_bearer = Some (ar_access_token tokens)\<rparr> = Ok client"
      "cs_did_hash client = digest X nxt"
    and fetch: "length (inbox_of (V (w_db w)) (digest X nxt)) < n"
      "sdk_fetch_messages X (mediator_network X S K E api) src
         \<lparr>fo_limit = n, fo_start_id = None, fo_delete_policy = DoNotDelete\<rparr> sdk = (Ok resp, sdk')"
  shows "\<exists>t md. me_msg (last (gm_success resp)) = Some t \<and> sdk_unpack X (sk_atm sdk) t = Ok (m, md) \<and>
    tells md (pm_from_kid meta) (pm_sign_by_kid meta) (pm_to_kids meta) (from = None \<or> po_protect_sender opts) \<and>
    length (gm_success resp) = Suc (length (inbox_of (V (w_db w)) (digest X nxt)))"
proof -
  let ?R = "sh_database S"
  have o: "\<not> uo_expect_decrypt_by_all_keys (inbound_options S)" by (simp add: inbound_options_def default_unpack_options_def)
  from layer_opens_at_mediator[OF laws(2,3,6) sender(6) mediator(2) o mediator(3) post(1)] obtain t
    where t: "passes_on X (sh_mediator_secrets S) (inbound_options S) posted nxt t"
      "envelope_from_str X t = envelope_from_str X packed" by blast
  from t(1) obtain fm md0 p where p: "unpack_string X (sh_mediator_secrets S) (inbound_options S) posted = Ok (fm, md0)"
      "try_parse_forward fm = Some p" "pf_next p = nxt" "ser_value X (pf_forwarded_msg p) = Inr t"
    unfolding passes_on_def by blast
  have op: "open_inbound X (sh_mediator_secrets S) (cs_session_id session) (inbound_options S) posted = Ok (fm, md0)"
    using p(1) by (simp add: open_inbound_Ok_iff)
  from forward_stored[OF mediator(1) op p(2,4) _ _ post(2,3)] mediator(4)[OF t(2)]
  have st: "V (w_db w') (msg_key (digest X t)) = Some (EStr t)" "mail_wf X ?R V (w_db w')"
      "inbox_of (V (w_db w')) (digest X nxt) = inbox_of (V (w_db w)) (digest X nxt) @ [digest X t]"
    by (simp_all add: p(3))
  then have "redis_laws ?R V" "linked (V (w_db w'))" by (simp_all add: mail_wf_def)
  from fetched_over_http[where seen = None and n = n and src = src and resp = resp and s' = sdk',
      OF laws(4) receiver(4-6) token(1) this(1) laws(5) this(2)] fetch(2) receiver(7)
  have "list_all2 (element_of (V (w_db w'))) (page n None (entries (V (w_db w')) (receive_q (digest X nxt)))) (gm_success resp)"
    by (simp add: token(2))
  note f = last_fetched[OF this st(3) fetch(1) st(1)]
  have u: "\<not> uo_expect_decrypt_by_all_keys default_unpack_options"
      "2 < unat (uo_crypto_operations_limit default_unpack_options)"
    by (simp_all add: default_unpack_options_def)
  from packed_opens[OF laws(1) sender(1-3) receiver(1-3) sender(4,5) u] obtain md
    where "unpack_string X (sdk_secrets (sk_atm sdk)) default_unpack_options packed = Ok (m, md)"
      "tells md (pm_from_kid meta) (pm_sign_by_kid meta) (pm_to_kids meta) (from = None \<or> po_protect_sender opts)"
    by blast
  with f t(2) show ?thesis by (auto simp: sdk_unpack_Ok_iff unpack_string_cong[OF t(2)])
qed

end
