(* ===== verification/SampleDelivery.thy ===== *)
theory SampleDelivery
  imports SampleSdk SdkDelivery
begin

text \<open>
  A message of Alice's on its way to Bob: through the sample mediator with its database in memory, for
  any text of the packed message.
\<close>

subsection \<open>The database in memory on any text\<close>

lemma mem_incr_nat:
  "mem_hash db k = Some h \<Longrightarrow> map_of h f = None \<Longrightarrow> mem_step [''HINCRBY'', k, f, show_nat n] db =
     Some (RInt (int n), AList.update k (MHash (AList.update f (show_nat n) h)) db)"
  using mem_incr(1)[of db k h f "int n"] by simp

lemma mem_rpush:
  "mem_list db k = Some l \<Longrightarrow>
     mem_step [''RPUSH'', k, v] db = Some (RInt (int (length l) + 1), AList.update k (MList (l @ [v])) db)"
  by (simp add: mem_step_def mem_key_command_def)

lemma mem_xadd:
  "map_of db k = None \<Longrightarrow> mem_step (''XADD'' # k # ''10-*'' # fvs) db =
     Some (RBulk (show_id (StreamId 10 0)),
       AList.update k (MStream (StreamId 10 0) [(StreamId 10 0, pairs_of fvs)]) db)"
proof -
  assume "map_of db k = None"
  then have "mem_stream db k = Some (StreamId 0 0, [])" by (simp add: mem_stream_def)
  moreover have "parse_digits 0 ''10'' = Some 10" by code_simp
  ultimately show ?thesis by (simp add: mem_step_def mem_stream_command_def next_id_def)
qed

lemma mem_lookups:
  "mem_hash db k = (case map_of db k of None \<Rightarrow> Some [] | Some (MHash h) \<Rightarrow> Some h | _ \<Rightarrow> None)"
  "mem_list db k = (case map_of db k of None \<Rightarrow> Some [] | Some (MList l) \<Rightarrow> Some l | _ \<Rightarrow> None)"
  "mem_stream db k = (case map_of db k of None \<Rightarrow> Some (StreamId 0 0, []) | Some (MStream l es) \<Rightarrow> Some (l, es) | _ \<Rightarrow> None)"
  by (simp_all add: mem_hash_def mem_list_def mem_stream_def)

lemma mem_time: "server_time mem_redis db = (Ok ''10'', db)"
proof -
  have "show_nat 1 = ''1''" "show_nat 0 = ''0''" "tonumber ''1'' = Some 1" "tonumber ''0'' = Some 0" by code_simp+
  then show ?thesis
    by (simp add: server_time_def mem_call mem_steps eff_then_app lua_strings_def lua_array_def lua_string_def)
qed

lemma mem_stores:
  "\<exists>db h j. store_message_lua mem_redis (hex t) [t, show_nat n, bob, hex bob, carol, hex carol] [] =
       (Ok (RStatus ''OK''), db) \<and>
     map_of db (msg_key (hex t)) = Some (MStr t) \<and> map_of db (meta_key (hex t)) = Some (MHash h) \<and>
     map_of db (receive_q (hex bob)) = Some (MStream j [(j, [(''MSG_ID'', hex t), (''BYTES'', show_nat n), (''FROM'', carol)])])"
proof -
  have n: "tonumber (show_nat n) = Some n" by (simp add: tonumber_def parse_digits_show)
  have d: "hex carol \<noteq> hex bob" "hex bob \<noteq> hex carol" by code_simp+
  show ?thesis
    by (simp add: d store_message_lua_def mem_time n eff_then_app mem_call mem_steps mem_incr_nat mem_incr_one
        mem_rpush mem_xadd store_counters_def enqueue_def mem_lookups Let_def lua_string_def mem_set_fields_def AList.update_conv')
qed

lemma mem_get: "map_of db k = Some (MStr v) \<Longrightarrow> mem_step [''GET'', k] db = Some (RBulk v, db)"
  by (simp add: mem_step_def mem_key_command_def)

lemma mem_xrange:
  assumes "map_of db k = Some (MStream l [e])"
  shows "mem_step [''XRANGE'', k, ''-'', ''+'', ''COUNT'', ''1''] db = Some (RArray [entry_reply e], db)"
proof -
  have "parse_digits 0 ''1'' = Some 1" by code_simp
  then show ?thesis using assms
    by (simp add: mem_step_def mem_stream_command_def mem_stream_def range_start_def)
qed

lemma mem_fetches:
  assumes "map_of db (msg_key m) = Some (MStr t)" "map_of db (meta_key m) = Some (MHash h)"
    and "map_of db (receive_q d) = Some (MStream l [(j, [(''MSG_ID'', m), (''BYTES'', b), (''FROM'', f)])])"
  shows "\<exists>r. fetch_messages_lua mem_redis d ''-'' ''1'' db = (Ok r, db)"
proof -
  have "mem_hash db (meta_key m) = Some h" using assms(2) by (simp add: mem_hash_def)
  with assms show ?thesis
    by (simp add: fetch_messages_lua_def eff_then_app mem_call mem_xrange mem_get mem_steps entry_reply_def lua_array_def
        fetched_message_def fetched_fields_def lua_string_def lua_strings_def)
qed

subsection \<open>The mediator on a forward for Bob\<close>

lemma forward_handled:
  assumes "open_inbound (sdk_lib []) (party_wallet carol) (cs_session_id client) (inbound_options sample_shared) s =
      Ok (forward_of u bob t, md)"
  shows "\<exists>db h j n. handle_inbound (sdk_lib []) sample_shared client clock uuid ds s (sample_world []) =
       (Ok (Stored \<lparr>il_messages = [(bob, hex t)], il_errors = []\<rparr>), sample_world db) \<and>
     map_of db (msg_key (hex t)) = Some (MStr t) \<and> map_of db (meta_key (hex t)) = Some (MHash h) \<and>
     map_of db (receive_q (hex bob)) = Some (MStream j [(j, [(''MSG_ID'', hex t), (''BYTES'', n), (''FROM'', carol)])])"
proof -
  obtain db h j where db: "store_message_lua mem_redis (hex t) [t, show_nat (length t), bob, hex bob, carol, hex carol] [] =
       (Ok (RStatus ''OK''), db)" "map_of db (msg_key (hex t)) = Some (MStr t)"
    "map_of db (meta_key (hex t)) = Some (MHash h)"
    "map_of db (receive_q (hex bob)) =
       Some (MStream j [(j, [(''MSG_ID'', hex t), (''BYTES'', show_nat (length t)), (''FROM'', carol)])])"
    using mem_stores[of t "length t"] by (elim exE conjE) (rule that)
  have st: "store_message (sdk_lib []) mem_redis sid t bob (Some carol) [] = (Ok (hex t), db)" for sid
    using db(1) by (simp add: store_message_def fcall_def eff_then_app eff_map_err_def Let_def)
  have m: "m_type (forward_of u bob t) = forward_msg_type" "m_expires_time (forward_of u bob t) = None"
    "try_parse_forward (forward_of u bob t) =
       Some \<lparr>pf_msg = forward_of u bob t, pf_next = bob, pf_forwarded_msg = JString t\<rparr>"
    by (simp_all add: forward_of_def builder_defs attachment_builder_defs try_parse_forward_def)
  moreover have "message_type_of forward_msg_type = Ok ForwardRequest" "ser_value (sdk_lib []) (JString t) = Inr t"
    by (simp_all add: message_type_of_def forward_msg_type_def sdk_lib_def sample_with_def)
  ultimately have "message_process (sdk_lib []) sample_shared client clock uuid (forward_of u bob t) w =
     (Ok (Some \<lparr>pr_store_message = True, pr_force_live_delivery = True, pr_message_response = PackedMessage bob t\<rparr>), w)" for w
    by (simp add: message_process_def type_process_def eff_then_app check_expiry_def routing_process_def)
  with assms st have "handle_inbound (sdk_lib []) sample_shared client clock uuid ds s (sample_world []) =
       (Ok (Stored \<lparr>il_messages = [(bob, hex t)], il_errors = []\<rparr>), sample_world db)"
    by (simp add: sample_not_live handle_inbound_def eff_then_app pack_response_def on_db_def eff_on_def deliver_def sample_world_def
          store_for_def eff_match_def no_inbound_messages_def)
  with db(2-4) show ?thesis by (intro exI conjI)
qed

lemma bob_session:
  "session_from_request (sdk_lib tbl) sample_shared 100
     \<lparr>rp_has_address = True, rp_bearer = Some (ar_access_token (bob_tokens 100))\<rparr> =
   Ok \<lparr>cs_session_id = sid_b, cs_authenticated = True, cs_challenge_sent = None, cs_did = bob, cs_did_hash = hex bob\<rparr>"
proof -
  have "read_claims ''key'' 100 (ar_access_token (bob_tokens 100)) =
      Inr (access_claims 100 ((challenge_session rng_a bob)\<lparr>ses_id := sid_b\<rparr>))"
    by (simp add: bob_tokens_def write_claims_def read_claims_def parse_digits_show access_claims_def)
  then show ?thesis by (simp add: session_from_request_def access_claims_def challenge_session_def)
qed

subsection \<open>From Alice to Bob\<close>

lemma no_empty_envelope: "envelope_from_str (sdk_lib []) [] \<noteq> Ok e"
  by (simp add: envelope_from_str_def de_envelope_def sdk_lib_def sample_with_def serde_to_didcomm_def context_msg_def
      read_jwe_def read_jws_def read_message_def unfields_def)

lemma alice_packs:
  "\<exists>s meta. pack_encrypted (sdk_lib []) (party_wallet alice) sample_draws ping_message bob (Some alice) (Some alice)
       (sample_options True) = Ok (s, meta) \<and>
     meta = \<lparr>pm_messaging_service = None, pm_from_kid = Some (alice @ ''#e''),
       pm_sign_by_kid = Some (alice @ ''#s''), pm_to_kids = [bob @ ''#e'']\<rparr>"
  using sample_pack[where tbl = "[]" and z = sdk_part] unfolding sdk_lib_def .

lemma sdk_reads: "message_reads (sdk_lib []) fm"
  unfolding sdk_lib_def by (rule sample_message_reads)

lemma carol_passes_on: "mediator_ready (sdk_lib []) public_half (party_wallet carol) (carol, bob)"
  unfolding sdk_lib_def by (rule sample_mediator) (simp_all add: bob_def carol_def)

lemma forward_opens:
  "\<exists>layer md. wrap_layers (sdk_lib []) sample_draws None AnonXc20pEcdhEsA256kw 100 packed [(carol, bob)] = Ok layer \<and>
     open_inbound (sdk_lib []) (party_wallet carol) sid (inbound_options sample_shared) layer =
       Ok (forward_of (draw_uuid (sample_draws 0)) bob packed, md)"
proof -
  have o: "\<not> uo_expect_decrypt_by_all_keys (inbound_options sample_shared)"
      "2 < unat (uo_crypto_operations_limit (inbound_options sample_shared))"
    by (simp_all add: inbound_options_def default_unpack_options_def sample_shared_def)
  obtain layer where w: "wrap_layers (sdk_lib []) sample_draws None AnonXc20pEcdhEsA256kw 100 packed [(carol, bob)] = Ok layer"
    using sample_wrap[where tbl = "[]" and z = sdk_part and k = 0 and hops = "[(carol, bob)]"] by (auto simp: sdk_lib_def)
  then obtain body kids where f: "forward_message (sdk_lib []) (draw_uuid (sample_draws 0)) packed bob None = Ok body"
      "anoncrypt (sdk_lib []) (sample_draws 0) carol body AnonXc20pEcdhEsA256kw 100 = Ok (layer, kids)"
    by (auto simp: result_simps)
  from layer_opens[OF sdk_crypto sdk_reads f carol_passes_on o] obtain fm where
    "build_forward_message (sdk_lib []) (draw_uuid (sample_draws 0)) packed bob None = Ok fm"
    "unpack_string (sdk_lib []) (party_wallet carol) (inbound_options sample_shared) layer =
       Ok (fm, note_anon AnonXc20pEcdhEsA256kw kids default_metadata)"
    by blast
  moreover have "build_forward_message (sdk_lib []) (draw_uuid (sample_draws 0)) packed bob None =
      Ok (forward_of (draw_uuid (sample_draws 0)) bob packed)"
    by (simp add: build_forward_message_def forward_of_def sdk_lib_def sample_with_def with_kind_def)
  ultimately show ?thesis using w by (auto simp: open_inbound_Ok_iff)
qed

lemma bob_fetches:
  assumes "linked (mem_view db)" "map_of db (msg_key m) = Some (MStr t)" "map_of db (meta_key m) = Some (MHash h)"
    and "map_of db (receive_q (hex bob)) = Some (MStream l [(j, [(''MSG_ID'', m), (''BYTES'', b), (''FROM'', f)])])"
  shows "\<exists>resp s'. sdk_fetch_messages (sdk_lib [])
       (mediator_network (sdk_lib []) sample_shared sample_codec sample_entropy ''https://a'') src (sample_page 1 None)
       \<lparr>sk_atm = sample_atm False (Some (bob_tokens 100)), sk_net = sample_server db\<rparr> = (Ok resp, s')"
proof -
  let ?X = "sdk_lib []"
  let ?s = "\<lparr>sk_atm = sample_atm False (Some (bob_tokens 100)), sk_net = sample_server db\<rparr>"
  let ?cs = "\<lparr>cs_session_id = sid_b, cs_authenticated = True, cs_challenge_sent = None, cs_did = bob, cs_did_hash = hex bob\<rparr>"
  obtain r where r: "fetch_messages mem_redis sid_b (hex bob) (sample_page 1 None) db = (Ok r, db)"
    using mem_fetches[OF assms(2-4)] sample_fetches[of "hex bob" None 1 db _ sid_b] assms(1) by (auto simp: show_one)
  have o: "fo_limit (sample_page n i) = n" "fo_delete_policy (sample_page n i) = DoNotDelete" for n i
    by (simp_all add: sample_page_def)
  have h: "inbox_fetch_handler ?X sample_shared ?cs (sample_page 1 None) db = (Ok (success sid_b r), db)"
    using r by (simp add: inbox_fetch_handler_def eff_then_app o sample_page_def range_start_def)
  have c: "mediator_http ?X sample_shared sample_codec sample_entropy ''https://a''
      \<lparr>rq_method = POST, rq_url = ''https://a'' @ ''/fetch'', rq_headers = bearer (bob_tokens 100),
        rq_body = Some (unary (sample_page 1 None))\<rparr> (sample_server db) =
     (respond sample_codec unary (Ok (success sid_b r)), \<lparr>sv_world = sample_world db, sv_requests = 1\<rparr>)"
    using h fetch_over_http[OF sample_codec_laws[of "[]"], of "unary (sample_page 1 None)" "sample_page 1 None"
        sample_shared sample_entropy "sample_server db" "bob_tokens 100" ?cs "''https://a''"] bob_session[of "[]"]
    by (simp add: sample_codec_def on_db_def eff_on_def sample_server_def sample_world_def)
  then show ?thesis
    by (simp add: sdk_fetch_messages_def o authenticated eff_then_app eff_atm_def api_call_def http_send_def
        mediator_network_def respond_def answered_with_def body_text_def success_def is_success_def ensure_def)
qed

lemma mail_is_delivered_witness:
  "\<exists>posted l w' resp sdk' t md.
     handle_inbound (sdk_lib []) sample_shared sample_client still ''1'' (\<lambda>_. sample_draws) posted (sample_world []) =
       (Ok (Stored l), w') \<and>
     sdk_fetch_messages (sdk_lib [])
       (mediator_network (sdk_lib []) sample_shared sample_codec sample_entropy ''https://a'') sample_source (sample_page 1 None)
       \<lparr>sk_atm = sample_atm False (Some (bob_tokens 100)), sk_net = \<lparr>sv_world = w', sv_requests = 0\<rparr>\<rparr> = (Ok resp, sdk') \<and>
     me_msg (last (gm_success resp)) = Some t \<and>
     sdk_unpack (sdk_lib []) (sample_atm False (Some (bob_tokens 100))) t = Ok (ping_message, md)"
proof -
  let ?X = "sdk_lib []"
  let ?atm = "sample_atm False (Some (bob_tokens 100))"
  obtain packed meta where pk: "pack_encrypted ?X (party_wallet alice) sample_draws ping_message bob (Some alice) (Some alice)
       (sample_options True) = Ok (packed, meta)"
    and meta: "meta = \<lparr>pm_messaging_service = None, pm_from_kid = Some (alice @ ''#e''),
       pm_sign_by_kid = Some (alice @ ''#s''), pm_to_kids = [bob @ ''#e'']\<rparr>"
    using alice_packs by blast
  obtain layer md0 where lay: "wrap_layers ?X sample_draws None AnonXc20pEcdhEsA256kw 100 packed [(carol, bob)] = Ok layer"
    and op: "open_inbound ?X (party_wallet carol) (cs_session_id sample_client) (inbound_options sample_shared) layer =
       Ok (forward_of (draw_uuid (sample_draws 0)) bob packed, md0)"
    using forward_opens by blast
  obtain db h j n where run: "handle_inbound ?X sample_shared sample_client still ''1'' (\<lambda>_. sample_draws) layer (sample_world []) =
       (Ok (Stored \<lparr>il_messages = [(bob, hex packed)], il_errors = []\<rparr>), sample_world db)"
    and db: "map_of db (msg_key (hex packed)) = Some (MStr packed)" "map_of db (meta_key (hex packed)) = Some (MHash h)"
      "map_of db (receive_q (hex bob)) = Some (MStream j [(j, [(''MSG_ID'', hex packed), (''BYTES'', n), (''FROM'', carol)])])"
    using forward_handled[OF op, where clock = still and uuid = "''1''" and ds = "\<lambda>_. sample_draws"] by (elim exE conjE) (rule that)
  have ready: "recipient_ready ?X public_half (party_wallet bob) (party_doc bob) (pm_to_kids meta)"
    "sender_ready ?X public_half (party_wallet alice) (alice @ ''#e'')"
    "signer_ready ?X public_half (party_wallet alice) (alice @ ''#s'')"
    by (simp_all add: meta sdk_lib_def sample_recipient sample_sender sample_signer)
  have plain: "plain_message ?X ping_message" unfolding sdk_lib_def by (rule sample_plain)
  have doc: "did_resolve ?X (did_of bob) = Inr (party_doc bob)"
    "distinct (find_key_agreement ?X (party_doc bob) (snd (did_or_url bob)))"
    by (simp_all add: sdk_lib_def)
  have wf: "mail_wf ?X (sh_database sample_shared) mem_view (w_db (sample_world []))"
    using sample_start[of "[]"] by (simp add: mail_wf_def hex_digests_def sample_world_def)
  have n: "\<not> uo_expect_decrypt_by_all_keys default_unpack_options"
      "2 < unat (uo_crypto_operations_limit default_unpack_options)"
    by (simp_all add: default_unpack_options_def)
  have "\<exists>md. unpack_string ?X (party_wallet bob) default_unpack_options packed = Ok (ping_message, md)"
    using packed_opens[OF sdk_crypto plain pk _ doc ready(1) _ _ n] ready(2,3) by (auto simp: meta)
  then obtain e where "envelope_from_str ?X packed = Ok e"
    by (auto simp: unpack_string_def meta_envelope_new_def result_simps)
  then have fresh: "t \<noteq> [] \<and> mem_view (w_db (sample_world [])) (meta_key (digest ?X t)) = None"
    if "envelope_from_str ?X t = envelope_from_str ?X packed" for t
    using that no_empty_envelope by (auto simp: sample_world_def mem_view_def)
  have p: "try_parse_forward (forward_of u bob packed) =
       Some \<lparr>pf_msg = forward_of u bob packed, pf_next = bob, pf_forwarded_msg = JString packed\<rparr>"
      "ser_value ?X (JString packed) = Inr packed" for u
    by (simp_all add: forward_of_def builder_defs attachment_builder_defs try_parse_forward_def sdk_lib_def sample_with_def)
  have "mail_wf ?X mem_redis mem_view db"
    using forward_stored[OF wf _ p(1) _ _ _ run, where s = packed] op fresh[of packed] p(2)
    by (simp add: sample_world_def)
  then have "linked (mem_view db)" by (simp add: mail_wf_def)
  from bob_fetches[OF this db, of sample_source] obtain resp s' where
    f: "sdk_fetch_messages ?X (mediator_network ?X sample_shared sample_codec sample_entropy ''https://a'') sample_source
       (sample_page 1 None) \<lparr>sk_atm = ?atm, sk_net = sample_server db\<rparr> = (Ok resp, s')" by blast
  have val: "value_laws ?X" unfolding sdk_lib_def by (rule sample_values)
  have lim: "2 < unat (uo_crypto_operations_limit (inbound_options sample_shared))"
    by (simp add: inbound_options_def sample_shared_def)
  have "\<exists>t md. me_msg (last (gm_success resp)) = Some t \<and>
    sdk_unpack ?X (sk_atm \<lparr>sk_atm = ?atm, sk_net = sample_server db\<rparr>) t = Ok (ping_message, md) \<and>
    tells md (pm_from_kid meta) (pm_sign_by_kid meta) (pm_to_kids meta) (Some alice = None \<or> po_protect_sender (sample_options True)) \<and>
    length (gm_success resp) = Suc (length (inbox_of (mem_view (w_db (sample_world []))) (digest ?X bob)))"
    by (rule mail_is_delivered[where rs = sample_draws and pub = public_half and fs = sample_draws and SR = "party_wallet alice" and layer = layer and posted = layer and
          S = sample_shared and w = "sample_world []" and sdk = "\<lparr>sk_atm = ?atm, sk_net = sample_server db\<rparr>" and nxt = bob and
          n = 1 and src = sample_source and sdk' = s' and tokens = "bob_tokens 100" and api = "''https://a''" and E = sample_entropy and
          client = "\<lparr>cs_session_id = sid_b, cs_authenticated = True, cs_challenge_sent = None, cs_did = bob, cs_did_hash = hex bob\<rparr>",
        OF sdk_crypto sdk_crypto _ sample_codec_laws _ sdk_reads plain pk _ _ _ _ wf _ _ fresh refl run _ doc])
       (use val lay ready lim f carol_passes_on bob_session mem_conversion_laws in
         \<open>simp_all add: meta sample_page_def sample_server_def sample_world_def sample_empty_inbox\<close>)
  then obtain t md where "me_msg (last (gm_success resp)) = Some t" "sdk_unpack ?X ?atm t = Ok (ping_message, md)"
    by auto
  with run f[unfolded sample_server_def] show ?thesis by (intro exI conjI)
qed

end
