(* ===== verification/Uniffi.thy ===== *)
theory Uniffi
  imports Unpack PackEncrypted
begin

text \<open>
  The bindings of the DIDComm library for other languages
  (\<open>affinidi-messaging-didcomm/uniffi/src\<close>): the callback a foreign resolver answers through, the
  adapters that make such resolvers the resolvers of the library, the example resolvers, and the
  seven operations, which start a task and report its end to a callback.

  The crate names the library it wraps by its old package and with its old interfaces (a trait
  for DID resolvers, borrowed ids of secrets), which this repository no longer has. That library is
  a parameter here, the record \<open>core\<close> of the operations the bindings call.

  A future is the value it ends with, or None when it stays pending for ever.
\<close>

type_synonym 'a future = "'a option"

datatype error_code = CodeSuccess | CodeError

subsection \<open>The values of JSON\<close>

text \<open>\<open>UniffiCustomTypeConverter for JsonValue\<close>, over the functions of serde.\<close>

definition json_into_custom :: "(string \<Rightarrow> serde_error + 'j) \<Rightarrow> string \<Rightarrow> ('j, error) result" where
  "json_into_custom from_str val = serde_to_didcomm ''Invalid json value'' (from_str val)"

definition json_from_custom :: "('j \<Rightarrow> serde_error + string) \<Rightarrow> 'j \<Rightarrow> (string, error) result" where
  "json_from_custom to_string obj = (case to_string obj of Inr s \<Rightarrow> Ok s | Inl _ \<Rightarrow> Panic)"

subsection \<open>The callback of a resolver\<close>

text \<open>
  \<open>OnResult\<close> keeps the sender of a one-shot channel until it is used; \<open>OnResultReceiver\<close> the other
  end. The mutex is held for the taking of the sender only, where nothing can panic, so it is never
  poisoned, and the calls of several threads are a list of uses, in the order in which they lock it.
\<close>

record 'a on_result =
  or_sender :: bool
  or_receiver :: bool
  or_value :: "('a, error) result option"

definition on_result_new :: "'a on_result" where
  "on_result_new = \<lparr>or_sender = True, or_receiver = True, or_value = None\<rparr>"

definition settle :: "('a, error) result \<Rightarrow> 'a on_result \<Rightarrow> (unit, error_kind) result \<times> 'a on_result" where
  "settle v c =
     (if or_sender c
      then (let c = c\<lparr>or_sender := False\<rparr> in
            if or_receiver c then (Ok (), c\<lparr>or_value := Some v\<rparr>) else (Err InvalidState, c))
      else (Err InvalidState, c))"

definition on_success :: "'a \<Rightarrow> 'a on_result \<Rightarrow> (unit, error_kind) result \<times> 'a on_result" where
  "on_success v = settle (Ok v)"

definition on_error :: "error_kind \<Rightarrow> string \<Rightarrow> 'a on_result \<Rightarrow> (unit, error_kind) result \<times> 'a on_result" where
  "on_error k m = settle (Err (err_msg k m))"

text \<open>Dropping the callback drops a sender it still has, which cancels the channel.\<close>

definition drop_callback :: "'a on_result \<Rightarrow> 'a on_result" where
  "drop_callback c = c\<lparr>or_sender := False\<rparr>"

definition receiver_get :: "'a on_result \<Rightarrow> ('a, error) result future" where
  "receiver_get c =
     (case or_value c of
        Some r \<Rightarrow> Some r
      | None \<Rightarrow>
          if or_sender c then None
          else Some (with_kind InvalidState ''unable receive callback result'' (Inl ''oneshot canceled'')))"

subsection \<open>Foreign resolvers and their adapters\<close>

text \<open>
  A foreign resolver is given an argument and a callback. It returns a code and, at once or later,
  uses the callback: the second component is what has become of the channel in the end.
\<close>

type_synonym ('q, 'a) foreign = "'q \<Rightarrow> 'a on_result \<Rightarrow> error_code \<times> 'a on_result"

record foreign_secrets =
  fs_get_secret :: "(string, secret option) foreign"
  fs_find_secrets :: "(string list, string list) foreign"

text \<open>What the traits of the wrapped library become.\<close>

type_synonym 'd did_adapter = "string \<Rightarrow> ('d option, error) result future"

record secrets_adapter =
  sa_get_secret :: "string \<Rightarrow> (secret option, error) result future"
  sa_find_secrets :: "string list \<Rightarrow> (string list, error) result future"

definition ask :: "string \<Rightarrow> ('q, 'a) foreign \<Rightarrow> 'q \<Rightarrow> ('a, error) result future" where
  "ask m f q =
     (case f q on_result_new of (_, cb) \<Rightarrow> map_option (rekind InvalidState m) (receiver_get cb))"

definition resolve_did :: "(string, 'd option) foreign \<Rightarrow> 'd did_adapter" where
  "resolve_did f did = ask ''can not resolve DID Doc'' f did"

definition adapter_get_secret :: "foreign_secrets \<Rightarrow> string \<Rightarrow> (secret option, error) result future" where
  "adapter_get_secret F i = ask ''can not get secret'' (fs_get_secret F) i"

definition adapter_find_secrets ::
  "foreign_secrets \<Rightarrow> string list \<Rightarrow> (string list, error) result future" where
  "adapter_find_secrets F ids =
     map_option (\<lambda>r. and_then r (\<lambda>res. Ok (filter (\<lambda>sid. sid \<in> set res) ids)))
       (ask ''can not get secret'' (fs_find_secrets F) ids)"

definition adapt_secrets :: "foreign_secrets \<Rightarrow> secrets_adapter" where
  "adapt_secrets F = \<lparr>sa_get_secret = adapter_get_secret F, sa_find_secrets = adapter_find_secrets F\<rparr>"

subsection \<open>The example resolvers\<close>

definition code_of :: "(unit, error_kind) result \<times> 'a on_result \<Rightarrow> error_code \<times> 'a on_result" where
  "code_of p = (case p of (Ok _, cb) \<Rightarrow> (CodeSuccess, cb) | (_, cb) \<Rightarrow> (CodeError, cb))"

definition example_get_secret :: "secret list \<Rightarrow> (string, secret option) foreign" where
  "example_get_secret known i cb = code_of (on_success (find (\<lambda>s. secret_id s = i) known) cb)"

definition example_find_secrets :: "secret list \<Rightarrow> (string list, string list) foreign" where
  "example_find_secrets known ids cb =
     code_of (on_success (filter (\<lambda>sid. find (\<lambda>s. secret_id s = sid) known \<noteq> None) ids) cb)"

definition example_secrets :: "secret list \<Rightarrow> foreign_secrets" where
  "example_secrets known =
     \<lparr>fs_get_secret = example_get_secret known, fs_find_secrets = example_find_secrets known\<rparr>"

definition example_resolve :: "('d \<Rightarrow> string) \<Rightarrow> 'd list \<Rightarrow> (string, 'd option) foreign" where
  "example_resolve ddoc_id known did cb = code_of (on_success (find (\<lambda>d. ddoc_id d = did) known) cb)"

subsection \<open>The operations\<close>

text \<open>The operations of the wrapped library that the bindings call.\<close>

record 'd core =
  core_pack_encrypted :: "message \<Rightarrow> string \<Rightarrow> string option \<Rightarrow> string option \<Rightarrow> 'd did_adapter
    \<Rightarrow> secrets_adapter \<Rightarrow> pack_encrypted_options \<Rightarrow> (string \<times> pack_encrypted_metadata, error) result future"
  core_pack_signed :: "message \<Rightarrow> string \<Rightarrow> 'd did_adapter \<Rightarrow> secrets_adapter
    \<Rightarrow> (string \<times> string, error) result future"
  core_pack_plaintext :: "message \<Rightarrow> 'd did_adapter \<Rightarrow> (string, error) result future"
  core_unpack :: "string \<Rightarrow> 'd did_adapter \<Rightarrow> secrets_adapter \<Rightarrow> unpack_options
    \<Rightarrow> (message \<times> unpack_metadata, error) result future"
  core_from_prior_pack :: "from_prior \<Rightarrow> string option \<Rightarrow> 'd did_adapter \<Rightarrow> secrets_adapter
    \<Rightarrow> (string \<times> string, error) result future"
  core_from_prior_unpack :: "string \<Rightarrow> 'd did_adapter \<Rightarrow> (from_prior \<times> string, error) result future"
  core_wrap_in_forward :: "string \<Rightarrow> (string \<times> json) list option \<Rightarrow> string \<Rightarrow> string list
    \<Rightarrow> anon_crypt_alg \<Rightarrow> 'd did_adapter \<Rightarrow> (string, error) result future"

record 'd didcomm =
  di_did_resolver :: "(string, 'd option) foreign"
  di_secret_resolver :: foreign_secrets

text \<open>
  The calls that the callback of an operation gets from the task that was spawned for it: one, or
  none when the future panics, which ends the task, or stays pending.
\<close>

datatype 'a report = ReportSuccess 'a | ReportError error_kind string

definition spawned :: "('a, error) result future \<Rightarrow> 'a report list" where
  "spawned future =
     (case future of
        Some (Ok v) \<Rightarrow> [ReportSuccess v]
      | Some (Err e) \<Rightarrow> [ReportError (kind_of e) (display_error e)]
      | _ \<Rightarrow> [])"

definition ffi_pack_encrypted ::
  "'d core \<Rightarrow> 'd didcomm \<Rightarrow> message \<Rightarrow> string \<Rightarrow> string option \<Rightarrow> string option \<Rightarrow> pack_encrypted_options
     \<Rightarrow> error_code \<times> (string \<times> pack_encrypted_metadata) report list" where
  "ffi_pack_encrypted C D msg to from sign_by options =
     (CodeSuccess, spawned (core_pack_encrypted C msg to from sign_by (resolve_did (di_did_resolver D))
        (adapt_secrets (di_secret_resolver D)) options))"

definition ffi_pack_signed ::
  "'d core \<Rightarrow> 'd didcomm \<Rightarrow> message \<Rightarrow> string \<Rightarrow> error_code \<times> (string \<times> string) report list" where
  "ffi_pack_signed C D msg sign_by =
     (CodeSuccess, spawned (core_pack_signed C msg sign_by (resolve_did (di_did_resolver D))
        (adapt_secrets (di_secret_resolver D))))"

definition ffi_pack_plaintext ::
  "'d core \<Rightarrow> 'd didcomm \<Rightarrow> message \<Rightarrow> error_code \<times> string report list" where
  "ffi_pack_plaintext C D msg =
     (CodeSuccess, spawned (core_pack_plaintext C msg (resolve_did (di_did_resolver D))))"

definition ffi_unpack ::
  "'d core \<Rightarrow> 'd didcomm \<Rightarrow> string \<Rightarrow> unpack_options \<Rightarrow> error_code \<times> (message \<times> unpack_metadata) report list" where
  "ffi_unpack C D msg options =
     (CodeSuccess, spawned (core_unpack C msg (resolve_did (di_did_resolver D))
        (adapt_secrets (di_secret_resolver D)) options))"

definition ffi_pack_from_prior ::
  "'d core \<Rightarrow> 'd didcomm \<Rightarrow> from_prior \<Rightarrow> string option \<Rightarrow> error_code \<times> (string \<times> string) report list" where
  "ffi_pack_from_prior C D msg issuer_kid =
     (CodeSuccess, spawned (core_from_prior_pack C msg issuer_kid (resolve_did (di_did_resolver D))
        (adapt_secrets (di_secret_resolver D))))"

definition ffi_unpack_from_prior ::
  "'d core \<Rightarrow> 'd didcomm \<Rightarrow> string \<Rightarrow> error_code \<times> (from_prior \<times> string) report list" where
  "ffi_unpack_from_prior C D from_prior_jwt =
     (CodeSuccess, spawned (core_from_prior_unpack C from_prior_jwt (resolve_did (di_did_resolver D))))"

definition ffi_wrap_in_forward ::
  "'d core \<Rightarrow> 'd didcomm \<Rightarrow> string \<Rightarrow> (string \<times> json) list \<Rightarrow> string \<Rightarrow> string list \<Rightarrow> anon_crypt_alg
     \<Rightarrow> error_code \<times> string report list" where
  "ffi_wrap_in_forward C D msg headers to routing_keys enc_alg_anon =
     (CodeSuccess, spawned (core_wrap_in_forward C msg (Some headers) to routing_keys enc_alg_anon
        (resolve_did (di_did_resolver D))))"

end
