(* ===== verification/UniffiProps.thy ===== *)
theory UniffiProps
  imports Uniffi
begin

text \<open>
  What the bindings promise: the first use of a callback decides the answer of a foreign resolver,
  and the example wallet is the wallet of the library behind its adapter.
\<close>

subsection \<open>Uses of a callback\<close>

datatype 'a use = UseSuccess 'a | UseError error_kind string | UseDrop

fun use_callback :: "'a use \<Rightarrow> 'a on_result \<Rightarrow> (unit, error_kind) result \<times> 'a on_result" where
  "use_callback (UseSuccess v) cb = on_success v cb"
| "use_callback (UseError k m) cb = on_error k m cb"
| "use_callback UseDrop cb = (Ok (), drop_callback cb)"

fun use_all :: "'a use list \<Rightarrow> 'a on_result \<Rightarrow> (unit, error_kind) result list \<times> 'a on_result" where
  "use_all [] cb = ([], cb)"
| "use_all (u # us) cb =
     (case use_callback u cb of (r, cb) \<Rightarrow> case use_all us cb of (rs, cb) \<Rightarrow> (r # rs, cb))"

definition by_uses :: "('q \<Rightarrow> error_code) \<Rightarrow> ('q \<Rightarrow> 'a use list) \<Rightarrow> ('q, 'a) foreign" where
  "by_uses code us q cb = (code q, snd (use_all (us q) cb))"

text \<open>A channel without its sender answers nothing any more.\<close>

lemma use_spent:
  assumes "\<not> or_sender cb"
  shows "use_all us cb = (map (\<lambda>u. if u = UseDrop then Ok () else Err InvalidState) us, cb)"
proof (induction us)
  case (Cons u us)
  have "use_callback u cb = (if u = UseDrop then Ok () else Err InvalidState, cb)"
    using assms by (cases u) (simp_all add: on_success_def on_error_def settle_def drop_callback_def)
  with Cons show ?case by simp
qed simp

lemmas callback_defs =
  on_result_new_def on_success_def on_error_def settle_def drop_callback_def receiver_get_def with_kind_def

lemma first_use:
  "use_all (u # us) on_result_new =
     (Ok () # map (\<lambda>u. if u = UseDrop then Ok () else Err InvalidState) us, snd (use_callback u on_result_new))"
proof -
  have "\<not> or_sender (snd (use_callback u on_result_new))" "fst (use_callback u on_result_new) = Ok ()"
    by (cases u; simp add: callback_defs)+
  then show ?thesis by (cases "use_callback u on_result_new") (simp add: use_spent)
qed

text \<open>
  C31: the adapter of a foreign resolver hands on the value of the first use of the callback, whatever
  is done to it later, and every later use is refused. An error loses its kind and becomes an invalid
  state, as a callback that is dropped does; one that is kept and never used leaves the library waiting.
\<close>

theorem first_use_decides:
  "adapter_get_secret \<lparr>fs_get_secret = by_uses code us, fs_find_secrets = G\<rparr> i =
     (case us i of
        [] \<Rightarrow> None
      | UseSuccess so # _ \<Rightarrow> Some (Ok so)
      | UseError k t # _ \<Rightarrow> Some (Err (Error InvalidState [''can not get secret'', kind_text k @ '': '' @ t, t]))
      | UseDrop # _ \<Rightarrow>
          Some (Err (Error InvalidState
            [''can not get secret'', ''Invalid state: unable receive callback result: oneshot canceled'',
             ''unable receive callback result'', ''oneshot canceled'']))) \<and>
   fst (use_all (us i) on_result_new) =
     (case us i of
        [] \<Rightarrow> []
      | _ # later \<Rightarrow> Ok () # map (\<lambda>u. if u = UseDrop then Ok () else Err InvalidState) later)"
proof (cases "us i")
  case Nil
  then show ?thesis by (simp add: adapter_get_secret_def ask_def by_uses_def callback_defs)
next
  case (Cons u later)
  have "adapter_get_secret \<lparr>fs_get_secret = by_uses code us, fs_find_secrets = G\<rparr> i =
      map_option (rekind InvalidState ''can not get secret'') (receiver_get (snd (use_callback u on_result_new)))"
    by (simp add: adapter_get_secret_def ask_def by_uses_def Cons first_use del: use_all.simps)
  moreover have "map_option (rekind InvalidState ''can not get secret'') (receiver_get (snd (use_callback u on_result_new))) =
      Some (case u of
        UseSuccess so \<Rightarrow> Ok so
      | UseError k t \<Rightarrow> Err (Error InvalidState [''can not get secret'', kind_text k @ '': '' @ t, t])
      | UseDrop \<Rightarrow> Err (Error InvalidState
            [''can not get secret'', ''Invalid state: unable receive callback result: oneshot canceled'',
             ''unable receive callback result'', ''oneshot canceled'']))"
    by (cases u) (simp_all add: callback_defs rekind_def display_error_def err_msg_def)
  ultimately show ?thesis
    by (simp add: Cons first_use del: use_all.simps split: use.split)
qed

subsection \<open>The example wallet\<close>

lemma code_of_success:
  "code_of (on_success v on_result_new) = (CodeSuccess, on_result_new\<lparr>or_sender := False, or_value := Some (Ok v)\<rparr>)"
  by (simp add: code_of_def callback_defs)

lemma ask_success:
  assumes "f q on_result_new = code_of (on_success v on_result_new)"
  shows "ask m f q = Some (Ok v)"
  by (simp add: ask_def assms code_of_success receiver_get_def rekind_def)

text \<open>An adapter that always answers is a resolver of the library.\<close>

definition settled :: "secrets_adapter \<Rightarrow> secrets_resolver" where
  "settled A = \<lparr>get_secret = \<lambda>i. the (sa_get_secret A i), find_secrets = \<lambda>ids. the (sa_find_secrets A ids)\<rparr>"

definition serves :: "secrets_adapter \<Rightarrow> secrets_resolver \<Rightarrow> bool" where
  "serves A SR \<longleftrightarrow>
     (\<forall>i. sa_get_secret A i = Some (get_secret SR i)) \<and> (\<forall>ids. sa_find_secrets A ids = Some (find_secrets SR ids))"

lemma settled_serves: "serves A SR \<Longrightarrow> settled A = SR"
  by (cases SR) (auto simp: serves_def settled_def)

lemma example_serves: "serves (adapt_secrets (example_secrets ks)) (known_secrets ks)"
proof -
  have "find (\<lambda>s. secret_id s = i) ks \<noteq> None \<longleftrightarrow> (\<exists>s \<in> set ks. secret_id s = i)" for i
    using find_secret_Some_iff[of i ks] by auto
  moreover have "filter (\<lambda>i. i \<in> set (filter P ids)) ids = filter P ids" for P and ids :: "string list"
    by (rule filter_cong) auto
  ultimately show ?thesis
    by (simp add: serves_def adapt_secrets_def adapter_get_secret_def adapter_find_secrets_def
        example_secrets_def ask_success example_get_secret_def example_find_secrets_def
        known_secrets_def known_get_def known_find_def)
qed

interpretation example: secrets_contract "settled (adapt_secrets (example_secrets ks))"
  unfolding settled_serves[OF example_serves] by unfold_locales

text \<open>Whatever a foreign wallet answers, its adapter never names an id that was not asked for.\<close>

lemma found_was_asked:
  "adapter_find_secrets F ids = Some (Ok found) \<Longrightarrow> set found \<subseteq> set ids"
  by (auto simp: adapter_find_secrets_def result_simps)

end
