(* ===== verification/Spec2Isabelle.thy ===== *)
theory Spec2Isabelle
  imports SampleConfig SampleDelivery UniffiProps
begin

text \<open>
  A verification development of affinidi-messaging: the DIDComm v2 library
  (\<open>affinidi-messaging-didcomm\<close>) with its bindings, the mediator (\<open>affinidi-messaging-mediator\<close>) and
  the client SDK (\<open>affinidi-messaging-sdk\<close>).

  The program. The library packs a message for a receiver into envelopes: plaintext, a JWS, a JWE
  from a known sender (authcrypt) or from nobody (anoncrypt), and forward layers around it for the
  mediators in the receiver's DID document; it unpacks such texts again. The mediator is a server
  that uses the library on what is posted to it. It authenticates clients with a challenge and JSON
  Web Tokens, keeps messages for its clients in Redis, lets them list, fetch, confirm and delete
  these over HTTP or with the pickup protocol, and streams them live to websockets. The SDK is the
  client of the mediator: it keeps the secrets and tokens of a DID, calls the routes of the mediator
  over HTTP, and runs a task that connects a websocket to the program that uses the SDK.

  The library, theory by theory (paths below \<open>affinidi-messaging-didcomm/src\<close>):
  \<^item> \<open>Prelude\<close>: results with errors and panics, optional values, numbers as texts; \<open>Errors\<close>:
    \<open>error.rs\<close>; \<open>Json\<close>: \<open>serde_json\<close> values.
  \<^item> \<open>Did\<close>, \<open>Keys\<close>, \<open>Secrets\<close>: \<open>document.rs\<close>, \<open>jwk.rs\<close>, \<open>utils/crypto.rs\<close>, \<open>secrets/\<close>. The
    interface of a wallet is a locale.
  \<^item> \<open>Jwe\<close>, \<open>Jws\<close>: \<open>jwe/\<close> and \<open>jws/\<close>; \<open>JweProps\<close>: what a JWE of \<open>encrypt\<close> decrypts to.
  \<^item> \<open>Message\<close>, \<open>FromPrior\<close>: \<open>message/message.rs\<close>, \<open>attachment.rs\<close>, \<open>from_prior/\<close>,
    \<open>pack_plaintext.rs\<close>, \<open>pack_signed.rs\<close>.
  \<^item> \<open>Envelope\<close>, \<open>Unpack\<close>: \<open>envelope.rs\<close>, \<open>message/unpack/\<close>; \<open>UnpackProps\<close>: what the metadata of
    unpacking vouches for.
  \<^item> \<open>PackCrypt\<close>, \<open>Routing\<close>, \<open>PackEncrypted\<close>: \<open>message/pack_encrypted/\<close>, \<open>protocols/routing/\<close>;
    \<open>RoundTrip\<close> and \<open>Onion\<close>: packing and unpacking together, with mediators on the way.
  \<^item> \<open>Uniffi\<close>, \<open>UniffiProps\<close>: \<open>../uniffi/src\<close>: the callbacks of foreign resolvers as one-shot
    channels, their adapters, and the operations with the task each spawns.

  The mediator (paths below \<open>affinidi-messaging-mediator/src\<close>):
  \<^item> \<open>Effects\<close>: operations on a state that keep what they did when they fail; \<open>MediatorErrors\<close>:
    \<open>common/errors.rs\<close>; \<open>Redis\<close>: the server as a parameter, with the relation \<open>redis_command\<close> for
    the commands the mediator uses and the laws \<open>redis_laws\<close> and \<open>conversion_laws\<close>;
    \<open>MediatorState\<close>: the functions of other crates, and \<open>SharedData\<close>.
  \<^item> \<open>Session\<close>, \<open>Authenticate\<close>: \<open>database/session.rs\<close>, \<open>handlers/authenticate.rs\<close>,
    \<open>common/jwt_auth.rs\<close>; \<open>AuthProps\<close>, \<open>AuthRace\<close>: one request, and all requests interleaved as a
    step relation.
  \<^item> \<open>MessageStore\<close>, \<open>MessageRead\<close>: \<open>database/store.rs\<close>, \<open>delete.rs\<close>, \<open>fetch.rs\<close>, \<open>get.rs\<close>,
    \<open>list.rs\<close>, \<open>stats.rs\<close> and the Lua functions of \<open>atm-functions.lua\<close> they call; \<open>StoreProps\<close>: who
    may delete; \<open>MailInvariant\<close>: the invariant of the queues, counters and records; \<open>Mailbox\<close>: the
    abstract mailbox as a locale, interpreted on the store; \<open>ReadProps\<close>, \<open>MailProps\<close>: what clients
    rely on.
  \<^item> \<open>Streaming\<close>, \<open>StreamProps\<close>: \<open>database/streaming.rs\<close> and \<open>tasks/websocket_streaming.rs\<close>: the
    task, and the system of task and websockets as a step relation.
  \<^item> \<open>Pickup\<close>, \<open>PickupProps\<close>: \<open>messages/protocols/message_pickup.rs\<close>.
  \<^item> \<open>Inbound\<close>, \<open>Handlers\<close>, \<open>InboundProps\<close>: \<open>messages/\<close>, \<open>protocols/ping.rs\<close>,
    \<open>protocols/routing.rs\<close>, and the handlers over messages with the loop of a websocket.
  \<^item> \<open>Config\<close>: \<open>common/config.rs\<close>, \<open>lib.rs\<close>, \<open>database/handlers.rs\<close> and one turn of
    \<open>tasks/statistics.rs\<close>; \<open>Server\<close>: \<open>server.rs\<close>, the routes of \<open>handlers/mod.rs\<close>, and the loop of
    the streaming task with its subscription; \<open>ConfigProps\<close>: what the limits and the waiting are.

  The SDK (paths below \<open>affinidi-messaging-sdk/src\<close>):
  \<^item> \<open>Waiting\<close>: effects that may wait for ever; \<open>Sdk\<close>: \<open>config.rs\<close>, \<open>errors.rs\<close>, \<open>lib.rs\<close>,
    \<open>messages/pack.rs\<close>, \<open>unpack.rs\<close>, \<open>resolvers/\<close>, \<open>conversions/\<close>.
  \<^item> \<open>SdkHttp\<close>: \<open>authentication/\<close>, \<open>transports/http/\<close>, \<open>messages/list.rs\<close>, \<open>get.rs\<close>, \<open>delete.rs\<close>,
    \<open>fetch.rs\<close>, \<open>public/\<close>, over a network as a parameter.
  \<^item> \<open>MessageCache\<close>, \<open>SdkSocket\<close>: \<open>transports/websockets/\<close>; \<open>CacheProps\<close>: its simulation by a queue,
    with a locale for simulations; \<open>SocketProps\<close>: the task over all orders of events.
  \<^item> \<open>SdkPickup\<close>: \<open>protocols/message_pickup.rs\<close> and \<open>trust_ping.rs\<close>; \<open>SdkProps\<close>: what these requests
    and deliveries are to the mediator and to the client.
  \<^item> \<open>SdkMediator\<close>: the mediator as the network of the SDK, with the codec of the bodies as a parameter
    and its laws \<open>codec_laws\<close>; on it \<open>SdkSession\<close> authenticates and sends, and \<open>SdkDelivery\<close> follows a
    message from its sender through the mediator to its receiver.

  \<open>Sample\<close> and \<open>MemRedis\<close> implement the parameters: a library with toy ciphers that keeps the laws
  of the real one, and a server in memory that keeps the laws of Redis. \<open>SampleMediator\<close>,
  \<open>SampleStore\<close>, \<open>SampleServe\<close>, \<open>SampleConfig\<close>, \<open>SampleSdk\<close> and \<open>SampleDelivery\<close> run the program on them; every property with a hypothesis is instantiated there.

  What the properties say. Unpacking: a sender or signer that is reported is authentic, and packing
  is read back, also through the mediators of a list of routing keys; the endpoint of a recipient
  names at most one mediator. Authentication: an accepted answer consumed a row that waited for it,
  once, however requests interleave; nothing proves who sent it. The store: a refinement of the
  mailbox that appends and removes, with counters that agree with the queues as long as no script is
  stopped midway, pages that follow each other, and messages that only their sender and receiver read
  or delete. Streaming: messages go to the sockets of the DID they are for; the rows of the database
  follow the clients of the task where the database confirmed the last update and nobody else wrote
  the row since. Pickup: the status counts the inbox, on the condition of the counters, and a delivery
  is the beginning of it. The SDK: its cache is a bounded queue that the websocket task does not need,
  its requests are what the mediator accepts, and what it makes of a delivery are the messages of the
  inbox. All together: the SDK authenticates at the mediator in two exchanges, and a message packed
  for a client and accepted by the mediator opens in the wallet of that client's SDK after its next
  fetch. The bindings: the first use of the callback of a foreign resolver decides its answer. Where
  the code does not do what it means to, a property of kind error says what it does.

  Bounds and termination. \<open>unpack_loop\<close> ends by the operation limit of the options, which is its
  measure. Lua and Rust loops over lists are recursions over the list. The loops of
  \<open>clean_start_streaming\<close> and of the waiting for the database are partial functions: that the first ends
  and when the second does are properties. The loops of a websocket, of the websocket task of the SDK
  and of the streaming task go through the list of events they see; what a client waits for on a channel
  is an input, with no value where it waits for ever. 64-bit times and 32-bit limits are words or are
  bounded by their width; counters of the database are integers, since Redis refuses what leaves 64
  bits. Clock readings, random draws and new ids are arguments.

  Parameters, with laws where a property needs them: askar's primitives, base64, SHA-256, serde, TOML,
  the DID resolver, JSON Web Tokens, regex, files, the environment and AWS, the HTTP client and axum's
  extractors, and the Redis server with its client crate. The library that the bindings wrap is a
  parameter too, since its interfaces are older than those of the repository.

  Not modelled: logging and the Debug texts, with the subtraction \<open>clients.len() - 1\<close> in a log line
  of the streaming task, which panics with overflow checks when no client is left; a reply that is
  lost after a script of the server has run; the layers of axum around the routes, TLS and listening;
  the capacity of channels, which only delays a sender; the text of the Lua functions as a program for
  Redis beyond the functions themselves; the thread pool and the generated code of the bindings; the
  Swift wrapper, examples, benches, tests and test data; the processor, whose main prints a line.
\<close>

end
